(* ===== verification/Prelude.thy ===== *)
theory Prelude
  imports Main "HOL-Library.Word" "HOL-Library.State_Monad"
begin

text \<open>
  What every component shares: Go's machine integers and decimal printing, the outcome of a Go
  call (returned, panicked, exited through \<^verbatim>\<open>log.Fatal\<close>), the \<^verbatim>\<open>for ... range\<close> loop over
  the state monad, and the collections of rewrite rules the component theories add to:
  \<open>run_simps\<close> evaluates a computation from a state, \<open>trace_simps\<close> projects a trace.
\<close>

named_theorems run_simps \<open>run_state equations of the primitive operations\<close>
named_theorems trace_simps \<open>projections of event traces\<close>

type_synonym int32 = "32 word"
type_synonym int64 = "64 word"
type_synonym uint32 = "32 word"
type_synonym uint64 = "64 word"

subsection \<open>Outcomes\<close>

text \<open>
  \<^verbatim>\<open>Ret\<close>: the call returned. \<^verbatim>\<open>Panic\<close>: a Go run-time panic left the function.
  \<^verbatim>\<open>Fatal\<close>: \<^verbatim>\<open>log.Fatal\<close> or \<^verbatim>\<open>os.Exit\<close> ended the process. \<^verbatim>\<open>Blocked\<close>: the call waits for ever.
\<close>

datatype 'a outcome = Ret 'a | Panic string | Fatal string | Blocked

text \<open>The idiom \<^verbatim>\<open>if err != nil { log.Fatalf(msg, err) }\<close> followed by the rest of the function.\<close>

definition or_fatal :: "string option \<Rightarrow> string \<Rightarrow> ('s, 'a outcome) state \<Rightarrow> ('s, 'a outcome) state" where
  "or_fatal err msg rest =
     (case err of Some e \<Rightarrow> State_Monad.return (Fatal msg) | None \<Rightarrow> rest)"

text \<open>The idiom \<^verbatim>\<open>if err != nil { return err }\<close> of a function that returns an error.\<close>

definition or_return ::
  "string option \<Rightarrow> ('s, string option) state \<Rightarrow> ('s, string option) state" where
  "or_return err rest = (case err of Some e \<Rightarrow> State_Monad.return (Some e) | None \<Rightarrow> rest)"

lemma or_fatal_None [simp]: "or_fatal None msg rest = rest"
  by (simp add: or_fatal_def)

lemma or_fatal_Some [simp]: "or_fatal (Some e) msg rest = State_Monad.return (Fatal msg)"
  by (simp add: or_fatal_def)

lemma or_return_None [simp]: "or_return None rest = rest"
  by (simp add: or_return_def)

lemma or_return_Some [simp]: "or_return (Some e) rest = State_Monad.return (Some e)"
  by (simp add: or_return_def)

lemma run_or_fatal [run_simps, simp]:
  "run_state (or_fatal err msg rest) s =
     (case err of Some e \<Rightarrow> (Fatal msg, s) | None \<Rightarrow> run_state rest s)"
  by (simp add: or_fatal_def split: option.split)

lemma run_or_return [run_simps, simp]:
  "run_state (or_return err rest) s =
     (case err of Some e \<Rightarrow> (Some e, s) | None \<Rightarrow> run_state rest s)"
  by (simp add: or_return_def split: option.split)

subsection \<open>Loops\<close>


text \<open>\<^verbatim>\<open>for _, x := range xs { f(x) }\<close> for a body that always falls through.\<close>

fun for_each :: "('x \<Rightarrow> ('s, unit) state) \<Rightarrow> 'x list \<Rightarrow> ('s, unit) state" where
  "for_each f [] = State_Monad.return ()"
| "for_each f (x # xs) = do { f x; for_each f xs }"

lemma for_each_append:
  "for_each f (xs @ ys) = do { for_each f xs; for_each f ys }"
  by (induction xs) simp_all

text \<open>The same for a body that can panic or exit: the loop stops there.\<close>

fun for_each_ret :: "('x \<Rightarrow> ('s, unit outcome) state) \<Rightarrow> 'x list \<Rightarrow> ('s, unit outcome) state" where
  "for_each_ret f [] = State_Monad.return (Ret ())"
| "for_each_ret f (x # xs) = do {
     r \<leftarrow> f x;
     (case r of Ret _ \<Rightarrow> for_each_ret f xs | _ \<Rightarrow> State_Monad.return r) }"

text \<open>A loop keeps what its body keeps.\<close>

lemma for_each_invariant:
  assumes "\<And>x s. x \<in> set xs \<Longrightarrow> I s \<Longrightarrow> I (snd (run_state (f x) s))" and "I s"
  shows "I (snd (run_state (for_each f xs) s))"
  using assms
proof (induction xs arbitrary: s)
  case Nil
  then show ?case by simp
next
  case (Cons x xs)
  have "I (snd (run_state (f x) s))" using Cons.prems by simp
  with Cons.IH Cons.prems(1) have "I (snd (run_state (for_each f xs) (snd (run_state (f x) s))))"
    by simp
  then show ?case by (simp add: split_beta)
qed

lemma concat_map_Nil [simp]: "concat (map (\<lambda>x. []) xs) = []"
  by (induction xs) simp_all

subsection \<open>Systems driven by events\<close>

text \<open>
  A component whose operations all keep an invariant: the invariant holds after any sequence of
  them.
\<close>

locale invariant_system =
  fixes step :: "'e \<Rightarrow> 's \<Rightarrow> 's" and inv :: "'s \<Rightarrow> bool"
  assumes step_inv: "inv s \<Longrightarrow> inv (step e s)"
begin

lemma run_inv: "inv s \<Longrightarrow> inv (fold step es s)"
  by (induction es arbitrary: s) (simp_all add: step_inv)

end

subsection \<open>What a computation keeps\<close>

text \<open>
  A relation between the state before and after that is reflexive and transitive holds of a
  computation when it holds of its parts: frames, clocks that only go forward, events that stay.
\<close>

definition keeps :: "('s \<Rightarrow> 's \<Rightarrow> bool) \<Rightarrow> ('s, 'b) state \<Rightarrow> bool" where
  "keeps R m = (\<forall>s. R s (snd (run_state m s)))"

lemma keeps_splits:
  "keeps R m \<Longrightarrow> keeps R m' \<Longrightarrow> keeps R (if b then m else m')"
  "(\<And>x y. keeps R (f x y)) \<Longrightarrow> keeps R (case p of (x, y) \<Rightarrow> f x y)"
  "keeps R m \<Longrightarrow> (\<And>x. keeps R (g x)) \<Longrightarrow> keeps R (case a of None \<Rightarrow> m | Some x \<Rightarrow> g x)"
  "keeps R m \<Longrightarrow> keeps R m' \<Longrightarrow> keeps R (case c of True \<Rightarrow> m | False \<Rightarrow> m')"
  "(\<And>x. keeps R (h x)) \<Longrightarrow> (\<And>x. keeps R (k x)) \<Longrightarrow> keeps R (case e of Inl x \<Rightarrow> h x | Inr x \<Rightarrow> k x)"
  "(\<And>x. keeps R (g1 x)) \<Longrightarrow> (\<And>x. keeps R (g2 x)) \<Longrightarrow> (\<And>x. keeps R (g3 x)) \<Longrightarrow> keeps R m \<Longrightarrow>
     keeps R (case r of Ret x \<Rightarrow> g1 x | Panic x \<Rightarrow> g2 x | Fatal x \<Rightarrow> g3 x | Blocked \<Rightarrow> m)"
  by (simp_all split: prod.split option.split bool.split sum.split outcome.split)

text \<open>The same for what the result is: it is decided by the last step.\<close>

definition results :: "('b \<Rightarrow> bool) \<Rightarrow> ('s, 'b) state \<Rightarrow> bool" where
  "results P m = (\<forall>s. P (fst (run_state m s)))"

lemma results_intros:
  "P x \<Longrightarrow> results P (State_Monad.return x)"
  "(\<And>x. results P (f x)) \<Longrightarrow> results P (State_Monad.bind first f)"
  "results P m \<Longrightarrow> results P m' \<Longrightarrow> results P (if b then m else m')"
  "results P m \<Longrightarrow> (\<And>x. results P (g x)) \<Longrightarrow> results P (case a of None \<Rightarrow> m | Some x \<Rightarrow> g x)"
  "(\<And>x. results P (h x)) \<Longrightarrow> (\<And>x. results P (k x)) \<Longrightarrow> results P (case e of Inl x \<Rightarrow> h x | Inr x \<Rightarrow> k x)"
  by (simp_all add: results_def split_beta split: option.split sum.split)

locale evolution =
  fixes R :: "'s \<Rightarrow> 's \<Rightarrow> bool"
  assumes refl: "R s s"
    and trans: "R s s' \<Longrightarrow> R s' s'' \<Longrightarrow> R s s''"
begin

lemma keeps_return: "keeps R (State_Monad.return x)"
  by (simp add: keeps_def refl)

lemma keeps_get: "keeps R State_Monad.get"
  by (simp add: keeps_def refl)

lemma keeps_bind:
  assumes "keeps R m" and "\<And>x. keeps R (f x)"
  shows "keeps R (State_Monad.bind m f)"
  using assms trans unfolding keeps_def by (simp add: split_beta) blast

lemma keeps_for_each_ret:
  assumes "\<And>x. keeps R (f x)"
  shows "keeps R (for_each_ret f xs)"
proof (induction xs)
  case Nil
  show ?case by (simp add: keeps_return)
next
  case (Cons x xs)
  then show ?case
    unfolding for_each_ret.simps
    by (intro keeps_bind keeps_splits keeps_return assms)
qed

lemma keeps_for_each:
  assumes "\<And>x. keeps R (f x)"
  shows "keeps R (for_each f xs)"
proof (induction xs)
  case Nil
  show ?case by (simp add: keeps_return)
next
  case (Cons x xs)
  then show ?case unfolding for_each.simps by (intro keeps_bind assms)
qed

lemma keeps_or_return: "keeps R m \<Longrightarrow> keeps R (or_return err m)"
  by (cases err) (simp_all add: keeps_return)

end

subsection \<open>Decimal printing: the verb d of fmt, strconv.FormatInt base 10\<close>

definition digit_char :: "nat \<Rightarrow> char" where
  "digit_char d = char_of (48 + d)"

fun dec_nat :: "nat \<Rightarrow> string" where
  "dec_nat n = (if n < 10 then [digit_char n] else dec_nat (n div 10) @ [digit_char (n mod 10)])"

declare dec_nat.simps [simp del]

definition dec_int :: "int \<Rightarrow> string" where
  "dec_int i = (if i < 0 then CHR ''-'' # dec_nat (nat (- i)) else dec_nat (nat i))"

definition is_digit :: "char \<Rightarrow> bool" where
  "is_digit c = (48 \<le> (of_char c :: nat) \<and> (of_char c :: nat) \<le> 57)"

definition digit_val :: "char \<Rightarrow> nat" where
  "digit_val c = of_char c - 48"

text \<open>Reading a run of decimal digits, most significant first.\<close>

definition nat_of_digits :: "string \<Rightarrow> nat" where
  "nat_of_digits cs = foldl (\<lambda>n c. 10 * n + digit_val c) 0 cs"

lemma of_char_digit_char [simp]: "d < 10 \<Longrightarrow> (of_char (digit_char d) :: nat) = 48 + d"
  by (simp add: digit_char_def)

lemma is_digit_digit_char [simp]: "d < 10 \<Longrightarrow> is_digit (digit_char d)"
  by (simp add: is_digit_def)

lemma digit_val_digit_char [simp]: "d < 10 \<Longrightarrow> digit_val (digit_char d) = d"
  by (simp add: digit_val_def)

lemma nat_of_digits_snoc [simp]:
  "nat_of_digits (cs @ [c]) = 10 * nat_of_digits cs + digit_val c"
  by (simp add: nat_of_digits_def)

lemma nat_of_digits_dec_nat: "nat_of_digits (dec_nat n) = n"
proof (induction n rule: dec_nat.induct)
  case (1 n)
  show ?case
  proof (cases "n < 10")
    case True
    then show ?thesis by (simp add: dec_nat.simps [of n] nat_of_digits_def)
  next
    case False
    with 1 show ?thesis by (simp add: dec_nat.simps [of n])
  qed
qed

lemma dec_nat_digits: "list_all is_digit (dec_nat n)"
proof (induction n rule: dec_nat.induct)
  case (1 n)
  then show ?case by (subst dec_nat.simps) simp
qed

lemma dec_nat_nonempty: "dec_nat n \<noteq> []"
  by (subst dec_nat.simps) simp

lemma dec_nat_inject: "dec_nat m = dec_nat n \<Longrightarrow> m = n"
  by (metis nat_of_digits_dec_nat)

text \<open>No leading zero, except for zero itself.\<close>

lemma dec_nat_hd: "n \<noteq> 0 \<Longrightarrow> hd (dec_nat n) \<noteq> CHR ''0''"
proof (induction n rule: dec_nat.induct)
  case (1 n)
  show ?case
  proof (cases "n < 10")
    case True
    have "(of_char (digit_char n) :: nat) \<noteq> of_char (CHR ''0'')" using True 1(2) by simp
    then have "digit_char n \<noteq> CHR ''0''" by metis
    with True show ?thesis by (simp add: dec_nat.simps [of n])
  next
    case False
    with 1 have "hd (dec_nat (n div 10)) \<noteq> CHR ''0''" by simp
    with False show ?thesis by (simp add: dec_nat.simps [of n] dec_nat_nonempty)
  qed
qed

subsection \<open>ASCII strings\<close>

definition ascii :: "string \<Rightarrow> bool" where
  "ascii cs = list_all (\<lambda>c. (of_char c :: nat) < 128) cs"

lemma ascii_Nil [simp]: "ascii []"
  by (simp add: ascii_def)

lemma ascii_Cons [simp]: "ascii (c # cs) \<longleftrightarrow> (of_char c :: nat) < 128 \<and> ascii cs"
  by (simp add: ascii_def)

lemma ascii_append [simp]: "ascii (xs @ ys) \<longleftrightarrow> ascii xs \<and> ascii ys"
  by (simp add: ascii_def)

lemma ascii_dec_nat [simp]: "ascii (dec_nat n)"
  using dec_nat_digits [of n] unfolding ascii_def
  by (rule list.pred_mono_strong) (simp add: is_digit_def)

lemma sint_int32_bounds: "- (2 ^ 31) \<le> sint (k :: int32)" "sint (k :: int32) < 2 ^ 31"
  using sint_ge [of k] sint_lt [of k] by simp_all

subsection \<open>Splitting a text\<close>

text \<open>\<^verbatim>\<open>strings.Split(s, sep)\<close> for a separator of one byte.\<close>

fun split_on :: "char \<Rightarrow> string \<Rightarrow> string list" where
  "split_on x [] = [[]]"
| "split_on x (c # cs) =
     (if c = x then [] # split_on x cs
      else (case split_on x cs of [] \<Rightarrow> [[c]] | p # ps \<Rightarrow> (c # p) # ps))"

lemma split_on_none: "x \<notin> set cs \<Longrightarrow> split_on x cs = [cs]"
  by (induction cs) auto

lemma split_on_append: "x \<notin> set p \<Longrightarrow> split_on x (p @ x # rest) = p # split_on x rest"
  by (induction p) auto

text \<open>\<^verbatim>\<open>strings.Join(parts, sep)\<close>\<close>

fun join_with :: "char \<Rightarrow> string list \<Rightarrow> string" where
  "join_with x [] = []"
| "join_with x [p] = p"
| "join_with x (p # ps) = p @ x # join_with x ps"

lemma split_on_join:
  "ps \<noteq> [] \<Longrightarrow> (\<And>p. p \<in> set ps \<Longrightarrow> x \<notin> set p) \<Longrightarrow> split_on x (join_with x ps) = ps"
  by (induction x ps rule: join_with.induct) (simp_all add: split_on_none split_on_append)

text \<open>\<^verbatim>\<open>strings.Cut(s, sep)\<close>: what stands before and after the first separator.\<close>

definition cut :: "char \<Rightarrow> string \<Rightarrow> string \<times> string" where
  "cut x cs = (takeWhile (\<lambda>c. c \<noteq> x) cs, drop 1 (dropWhile (\<lambda>c. c \<noteq> x) cs))"

lemma cut_append: "x \<notin> set p \<Longrightarrow> cut x (p @ x # rest) = (p, rest)"
  unfolding cut_def by (induction p) auto

lemma cut_none: "x \<notin> set p \<Longrightarrow> cut x p = (p, [])"
  unfolding cut_def by (induction p) auto

end
