(* ===== verification/Monitor.thy ===== *)
theory Monitor
  imports Prelude
begin

text \<open>
  \<^verbatim>\<open>monitor/metrics.go\<close>: the Prometheus metrics of the program and their registration. The
  client library is outside the repository: an update of a metric is an event of the trace
  (theory World), and the value of a counter is the number of its \<open>Inc\<close> events.
\<close>

datatype metric =
    QuorumRecoveriesTotal | QuorumRecoveriesFailed | QuorumRecoveryDuration
  | LiveWorkers | QueueDepth | DLQDepth | MsgsPublished | MsgsAcked | WorkerThroughput
  | TaskLatency | QueueConsumers | DLXMessages | DLQMessages | RetryMessages | FailureMessages

text \<open>The kinds of metric, and which kind each variable is constructed with.\<close>

datatype metric_kind = Counter | CounterVec "string list" | Gauge | Histogram nat nat nat

fun metric_spec :: "metric \<Rightarrow> string \<times> metric_kind" where
  "metric_spec QuorumRecoveriesTotal = (''quorum_recovery_total_recoveries'', Counter)"
| "metric_spec QuorumRecoveriesFailed = (''quorum_recovery_failures'', Counter)"
| "metric_spec QuorumRecoveryDuration =
     (''quorum_recovery_success_duration_seconds'', Histogram 1 2 6)"
| "metric_spec LiveWorkers = (''rabbitmq_live_workers'', Gauge)"
| "metric_spec QueueDepth = (''rabbitmq_queue_depth'', Gauge)"
| "metric_spec DLQDepth = (''rabbitmq_dlq_depth'', Gauge)"
| "metric_spec MsgsPublished = (''rabbitmq_messages_published'', Counter)"
| "metric_spec MsgsAcked = (''rabbitmq_messages_acknowledged'', Counter)"
| "metric_spec WorkerThroughput = (''rabbitmq_worker_throughput'', CounterVec [''worker_id''])"
| "metric_spec TaskLatency = (''rabbitmq_task_latency_ms'', Histogram 50 2 8)"
| "metric_spec QueueConsumers = (''rabbitmq_queue_consumers'', Gauge)"
| "metric_spec DLXMessages = (''rabbitmq_dlx_messages_total'', Counter)"
| "metric_spec DLQMessages = (''rabbitmq_dlq_messages_total'', Counter)"
| "metric_spec RetryMessages = (''rabbitmq_retry_messages_total'', Counter)"
| "metric_spec FailureMessages = (''rabbitmq_failure_messages_total'', Counter)"

text \<open>The arguments of \<^verbatim>\<open>prometheus.MustRegister\<close> in \<^verbatim>\<open>Init\<close>, in order.\<close>

definition Init :: "metric list" where
  "Init =
     [MsgsAcked, MsgsPublished, WorkerThroughput, QueueDepth, DLQDepth, LiveWorkers, TaskLatency,
      QueueConsumers, DLXMessages, DLQMessages, RetryMessages, FailureMessages,
      QuorumRecoveriesTotal, QuorumRecoveriesFailed, QuorumRecoveryDuration]"

text \<open>
  \<^verbatim>\<open>MustRegister\<close> panics when two collectors have one name, or one twice: neither happens, and
  no metric is left out.
\<close>

lemma Init_complete: "m \<in> set Init"
  by (cases m) (simp_all add: Init_def)

lemma Init_distinct: "distinct Init"
  by (simp add: Init_def)

lemma Init_names_distinct: "distinct (map (\<lambda>m. fst (metric_spec m)) Init)"
  by (simp add: Init_def)

text \<open>The updates the program makes.\<close>

datatype metric_op =
    Inc metric                    \<comment> \<open>\<^verbatim>\<open>m.Inc()\<close>\<close>
  | IncLabel metric string        \<comment> \<open>\<^verbatim>\<open>m.WithLabelValues(l).Inc()\<close>\<close>
  | SetGauge metric int           \<comment> \<open>\<^verbatim>\<open>m.Set(float64(n))\<close>\<close>
  | Observe metric int            \<comment> \<open>\<^verbatim>\<open>m.Observe(float64(n))\<close>, milliseconds or nanoseconds\<close>

end
