(* ===== verification/Json.thy ===== *)
theory Json
  imports Prelude
begin

text \<open>
  What the program uses of Go's \<^verbatim>\<open>encoding/json\<close> (and of \<^verbatim>\<open>unicode/utf8\<close> beneath it), on
  byte strings: \<^verbatim>\<open>json.Marshal\<close> of a flat struct of strings and integers, the syntax check and
  the reading of a text into a value, and the decoding of an object into the fields of a
  struct. A marshalled struct reads back as the object of its fields (\<open>json_parse_marshal_struct\<close>).
\<close>

subsection \<open>UTF-8\<close>

abbreviation byte :: "char \<Rightarrow> nat" where
  "byte c \<equiv> of_char c"

abbreviation RuneError :: nat where
  "RuneError \<equiv> 65533"

definition is_cont :: "nat \<Rightarrow> bool" where
  "is_cont b = (128 \<le> b \<and> b \<le> 191)"

text \<open>The range the second byte must lie in, by the first byte; empty for no leading byte.\<close>

definition second_range :: "nat \<Rightarrow> nat \<times> nat" where
  "second_range b =
     (if 194 \<le> b \<and> b \<le> 223 then (128, 191)
      else if b = 224 then (160, 191)
      else if b = 237 then (128, 159)
      else if 225 \<le> b \<and> b \<le> 239 then (128, 191)
      else if b = 240 then (144, 191)
      else if 241 \<le> b \<and> b \<le> 243 then (128, 191)
      else if b = 244 then (128, 143)
      else (1, 0))"

definition in_range :: "nat \<Rightarrow> nat \<times> nat \<Rightarrow> bool" where
  "in_range b r = (fst r \<le> b \<and> b \<le> snd r)"

text \<open>\<^verbatim>\<open>utf8.DecodeRune\<close>: the rune and its width; an invalid sequence is \<^verbatim>\<open>RuneError\<close>, width 1.\<close>

definition decode_rune :: "string \<Rightarrow> nat \<times> nat" where
  "decode_rune cs =
     (let bs = map byte (take 4 cs); b0 = bs ! 0; b1 = bs ! 1; b2 = bs ! 2; b3 = bs ! 3; n = length bs
      in if n = 0 then (RuneError, 0)
         else if b0 < 128 then (b0, 1)
         else if n < 2 \<or> \<not> in_range b1 (second_range b0) then (RuneError, 1)
         else if b0 < 224 then ((b0 - 192) * 64 + (b1 - 128), 2)
         else if n < 3 \<or> \<not> is_cont b2 then (RuneError, 1)
         else if b0 < 240 then ((b0 - 224) * 4096 + (b1 - 128) * 64 + (b2 - 128), 3)
         else if n < 4 \<or> \<not> is_cont b3 then (RuneError, 1)
         else ((b0 - 240) * 262144 + (b1 - 128) * 4096 + (b2 - 128) * 64 + (b3 - 128), 4))"

definition is_surrogate :: "nat \<Rightarrow> bool" where
  "is_surrogate r = (55296 \<le> r \<and> r < 57344)"

text \<open>\<^verbatim>\<open>utf8.AppendRune\<close>.\<close>

definition encode_rune :: "nat \<Rightarrow> string" where
  "encode_rune r0 =
     (let r = (if is_surrogate r0 \<or> 1114111 < r0 then RuneError else r0)
      in if r < 128 then [char_of r]
         else if r < 2048 then [char_of (192 + r div 64), char_of (128 + r mod 64)]
         else if r < 65536 then
           [char_of (224 + r div 4096), char_of (128 + r div 64 mod 64), char_of (128 + r mod 64)]
         else
           [char_of (240 + r div 262144), char_of (128 + r div 4096 mod 64),
            char_of (128 + r div 64 mod 64), char_of (128 + r mod 64)])"

subsection \<open>Marshal\<close>

abbreviation quote :: char where
  "quote \<equiv> CHR 0x22"

abbreviation backslash :: char where
  "backslash \<equiv> CHR 0x5C"

definition hex_digit :: "nat \<Rightarrow> char" where
  "hex_digit d = (if d < 10 then char_of (48 + d) else char_of (87 + d))"

text \<open>The encoder's treatment of a byte below 128, with HTML escaping on (the default).\<close>

definition escape_ascii :: "char \<Rightarrow> string" where
  "escape_ascii c =
     (if c = quote \<or> c = backslash then [backslash, c]
      else if byte c = 8 then [backslash, CHR ''b'']
      else if byte c = 12 then [backslash, CHR ''f'']
      else if byte c = 10 then [backslash, CHR ''n'']
      else if byte c = 13 then [backslash, CHR ''r'']
      else if byte c = 9 then [backslash, CHR ''t'']
      else if byte c < 32 \<or> c = CHR ''<'' \<or> c = CHR ''>'' \<or> c = CHR ''&'' then
        [backslash, CHR ''u'', CHR ''0'', CHR ''0'', hex_digit (byte c div 16), hex_digit (byte c mod 16)]
      else [c])"

fun json_escape :: "string \<Rightarrow> string" where
  "json_escape [] = []"
| "json_escape (c # cs) =
     (if byte c < 128 then escape_ascii c @ json_escape cs
      else let (r, n) = decode_rune (c # cs)
           in if r = RuneError \<and> n = 1 then backslash # ''ufffd'' @ json_escape cs
              else if r = 8232 \<or> r = 8233 then
                backslash # ''u202'' @ hex_digit (r mod 16) # json_escape (drop (n - 1) cs)
              else c # take (n - 1) cs @ json_escape (drop (n - 1) cs))"

definition json_string :: "string \<Rightarrow> string" where
  "json_string s = quote # json_escape s @ [quote]"

text \<open>The field values of the structs the program marshals.\<close>

datatype scalar = SString string | SInt int

fun marshal_scalar :: "scalar \<Rightarrow> string" where
  "marshal_scalar (SString s) = json_string s"
| "marshal_scalar (SInt i) = dec_int i"

definition marshal_field :: "string \<times> scalar \<Rightarrow> string" where
  "marshal_field f = json_string (fst f) @ CHR '':'' # marshal_scalar (snd f)"

fun marshal_fields :: "(string \<times> scalar) list \<Rightarrow> string" where
  "marshal_fields [] = []"
| "marshal_fields [f] = marshal_field f"
| "marshal_fields (f # fs) = marshal_field f @ CHR '','' # marshal_fields fs"

definition marshal_struct :: "(string \<times> scalar) list \<Rightarrow> string" where
  "marshal_struct fs = CHR ''{'' # marshal_fields fs @ ''}''"

subsection \<open>Reading a text\<close>

datatype json =
    JNull | JBool bool | JNumber string | JString string
  | JArray "json list" | JObject "(string \<times> json) list"

definition is_space :: "char \<Rightarrow> bool" where
  "is_space c = (byte c = 32 \<or> byte c = 9 \<or> byte c = 10 \<or> byte c = 13)"

definition skip_ws :: "string \<Rightarrow> string" where
  "skip_ws cs = dropWhile is_space cs"

definition expect :: "char \<Rightarrow> string \<Rightarrow> string option" where
  "expect c cs = (case cs of [] \<Rightarrow> None | x # xs \<Rightarrow> if x = c then Some xs else None)"

definition hex_val :: "char \<Rightarrow> nat option" where
  "hex_val c =
     (let b = byte c
      in if 48 \<le> b \<and> b \<le> 57 then Some (b - 48)
         else if 97 \<le> b \<and> b \<le> 102 then Some (b - 87)
         else if 65 \<le> b \<and> b \<le> 70 then Some (b - 55)
         else None)"

text \<open>The four hex digits of an escape, at the front of the text.\<close>

definition hex4 :: "string \<Rightarrow> nat option" where
  "hex4 cs =
     (case take 4 cs of
        [a, b, c, d] \<Rightarrow>
          do { w \<leftarrow> hex_val a; x \<leftarrow> hex_val b; y \<leftarrow> hex_val c; z \<leftarrow> hex_val d;
               Some (((w * 16 + x) * 16 + y) * 16 + z) }
      | _ \<Rightarrow> None)"

text \<open>A whole second escape at the front, as \<^verbatim>\<open>getu4\<close> looks for it after a surrogate.\<close>

definition getu4 :: "string \<Rightarrow> nat option" where
  "getu4 cs = (if take 2 cs = [backslash, CHR ''u''] then hex4 (drop 2 cs) else None)"

text \<open>\<^verbatim>\<open>utf16.DecodeRune\<close> on a surrogate and what follows it.\<close>

definition surrogate_pair :: "nat \<Rightarrow> nat option \<Rightarrow> nat option" where
  "surrogate_pair r1 r2 =
     (case r2 of None \<Rightarrow> None
      | Some r \<Rightarrow>
          if r1 < 56320 \<and> 56320 \<le> r \<and> r < 57344
          then Some ((r1 - 55296) * 1024 + (r - 56320) + 65536) else None)"

definition simple_escape :: "char \<Rightarrow> char option" where
  "simple_escape e =
     (if e = quote \<or> e = backslash \<or> e = CHR ''/'' then Some e
      else if e = CHR ''b'' then Some (char_of (8::nat))
      else if e = CHR ''f'' then Some (char_of (12::nat))
      else if e = CHR ''n'' then Some (char_of (10::nat))
      else if e = CHR ''r'' then Some (char_of (13::nat))
      else if e = CHR ''t'' then Some (char_of (9::nat))
      else None)"

definition prepend :: "string \<Rightarrow> (string \<times> string) option \<Rightarrow> (string \<times> string) option" where
  "prepend p r = map_option (\<lambda>(s, rest). (p @ s, rest)) r"

text \<open>The rest of a string literal after its opening quote: its value and what follows it.\<close>

fun parse_str :: "string \<Rightarrow> (string \<times> string) option" where
  "parse_str [] = None"
| "parse_str (c # cs) =
     (if c = quote then Some ([], cs)
      else if c = backslash then
        (case cs of [] \<Rightarrow> None
         | e # es \<Rightarrow>
             if e = CHR ''u'' then
               (case hex4 es of None \<Rightarrow> None
                | Some r \<Rightarrow>
                    if is_surrogate r then
                      (case surrogate_pair r (getu4 (drop 4 es)) of
                         Some r' \<Rightarrow> prepend (encode_rune r') (parse_str (drop 10 es))
                       | None \<Rightarrow> prepend (encode_rune RuneError) (parse_str (drop 4 es)))
                    else prepend (encode_rune r) (parse_str (drop 4 es)))
             else (case simple_escape e of None \<Rightarrow> None
                   | Some x \<Rightarrow> prepend [x] (parse_str es)))
      else if byte c < 32 then None
      else if byte c < 128 then prepend [c] (parse_str cs)
      else let (r, n) = decode_rune (c # cs)
           in prepend (encode_rune r) (parse_str (drop (n - 1) cs)))"

text \<open>Numbers are kept as their literal text.\<close>

definition span_digits :: "string \<Rightarrow> string \<times> string" where
  "span_digits cs = (takeWhile is_digit cs, dropWhile is_digit cs)"

definition parse_int_part :: "string \<Rightarrow> (string \<times> string) option" where
  "parse_int_part cs =
     (case cs of [] \<Rightarrow> None
      | c # r \<Rightarrow> if c = CHR ''0'' then Some (''0'', r)
                 else if is_digit c then Some (span_digits cs) else None)"

definition parse_frac :: "string \<Rightarrow> (string \<times> string) option" where
  "parse_frac cs =
     (case expect CHR ''.'' cs of None \<Rightarrow> Some ([], cs)
      | Some r \<Rightarrow> let (ds, r') = span_digits r
                  in if ds = [] then None else Some (CHR ''.'' # ds, r'))"

definition parse_exp :: "string \<Rightarrow> (string \<times> string) option" where
  "parse_exp cs =
     (case cs of [] \<Rightarrow> Some ([], cs)
      | c # r \<Rightarrow>
          if c = CHR ''e'' \<or> c = CHR ''E'' then
            (let sgn = takeWhile (\<lambda>x. x = CHR ''+'' \<or> x = CHR ''-'') (take 1 r);
                 (ds, r') = span_digits (drop (length sgn) r)
             in if ds = [] then None else Some (c # sgn @ ds, r'))
          else Some ([], cs))"

definition parse_number :: "string \<Rightarrow> (string \<times> string) option" where
  "parse_number cs =
     (let neg = takeWhile (\<lambda>x. x = CHR ''-'') (take 1 cs)
      in do { (i, r1) \<leftarrow> parse_int_part (drop (length neg) cs);
              (f, r2) \<leftarrow> parse_frac r1;
              (e, r3) \<leftarrow> parse_exp r2;
              Some (neg @ i @ f @ e, r3) })"

definition parse_lit :: "string \<Rightarrow> json \<Rightarrow> string \<Rightarrow> (json \<times> string) option" where
  "parse_lit l v cs = (if take (length l) cs = l then Some (v, drop (length l) cs) else None)"

text \<open>The scanner refuses a text nested deeper than this.\<close>

abbreviation maxNestingDepth :: nat where
  "maxNestingDepth \<equiv> 10000"

text \<open>
  A value, the elements of a non-empty array, the members of a non-empty object. The first
  argument is fuel (one unit per call), the second the nesting depth.
\<close>

fun parse_value :: "nat \<Rightarrow> nat \<Rightarrow> string \<Rightarrow> (json \<times> string) option"
  and parse_elems :: "nat \<Rightarrow> nat \<Rightarrow> string \<Rightarrow> (json list \<times> string) option"
  and parse_members :: "nat \<Rightarrow> nat \<Rightarrow> string \<Rightarrow> ((string \<times> json) list \<times> string) option"
where
  "parse_value 0 d cs = None"
| "parse_value (Suc fuel) d cs =
     (case cs of [] \<Rightarrow> None
      | c # r \<Rightarrow>
          if c = CHR ''{'' then
            (if maxNestingDepth \<le> d then None
             else case expect CHR ''}'' (skip_ws r) of
                    Some r' \<Rightarrow> Some (JObject [], r')
                  | None \<Rightarrow> do { (ms, r') \<leftarrow> parse_members fuel (Suc d) (skip_ws r);
                                 Some (JObject ms, r') })
          else if c = CHR ''['' then
            (if maxNestingDepth \<le> d then None
             else case expect CHR '']'' (skip_ws r) of
                    Some r' \<Rightarrow> Some (JArray [], r')
                  | None \<Rightarrow> do { (es, r') \<leftarrow> parse_elems fuel (Suc d) (skip_ws r);
                                 Some (JArray es, r') })
          else if c = quote then do { (s, r') \<leftarrow> parse_str r; Some (JString s, r') }
          else if c = CHR ''t'' then parse_lit ''true'' (JBool True) cs
          else if c = CHR ''f'' then parse_lit ''false'' (JBool False) cs
          else if c = CHR ''n'' then parse_lit ''null'' JNull cs
          else do { (l, r') \<leftarrow> parse_number cs; Some (JNumber l, r') })"
| "parse_elems 0 d cs = None"
| "parse_elems (Suc fuel) d cs =
     do { (v, r1) \<leftarrow> parse_value fuel d cs;
          (case expect CHR '','' (skip_ws r1) of
             Some r2 \<Rightarrow> do { (vs, r3) \<leftarrow> parse_elems fuel d (skip_ws r2); Some (v # vs, r3) }
           | None \<Rightarrow> do { r2 \<leftarrow> expect CHR '']'' (skip_ws r1); Some ([v], r2) }) }"
| "parse_members 0 d cs = None"
| "parse_members (Suc fuel) d cs =
     do { r0 \<leftarrow> expect quote cs;
          (k, r1) \<leftarrow> parse_str r0;
          r2 \<leftarrow> expect CHR '':'' (skip_ws r1);
          (v, r3) \<leftarrow> parse_value fuel d (skip_ws r2);
          (case expect CHR '','' (skip_ws r3) of
             Some r4 \<Rightarrow> do { (ms, r5) \<leftarrow> parse_members fuel d (skip_ws r4); Some ((k, v) # ms, r5) }
           | None \<Rightarrow> do { r4 \<leftarrow> expect CHR ''}'' (skip_ws r3); Some ([(k, v)], r4) }) }"

text \<open>
  A whole text: one value between white space. Every level of recursion that reads on has
  consumed a byte within two calls, so twice the length is fuel enough (\<open>json_parse_fuel\<close>).
\<close>

definition json_parse :: "string \<Rightarrow> json option" where
  "json_parse cs =
     do { (v, r) \<leftarrow> parse_value (2 * length cs + 2) 0 (skip_ws cs);
          if skip_ws r = [] then Some v else None }"

declare parse_value.simps [simp del] parse_elems.simps [simp del] parse_members.simps [simp del]

subsection \<open>The reader consumes its input\<close>

lemma length_skip_ws: "length (skip_ws cs) \<le> length cs"
  by (simp add: skip_ws_def length_dropWhile_le)

lemma expect_length: "expect c cs = Some r \<Longrightarrow> length cs = Suc (length r)"
  by (auto simp: expect_def split: list.splits if_splits)

lemma prepend_Some: "prepend p m = Some (s, r) \<longleftrightarrow> (\<exists>t. m = Some (t, r) \<and> s = p @ t)"
  by (auto simp: prepend_def)

lemma parse_str_length: "parse_str cs = Some (s, r) \<Longrightarrow> length r < length cs"
proof (induction "length cs" arbitrary: cs s r rule: less_induct)
  case less
  have IH: "length r' < length cs"
    if "parse_str es = Some (s', r')" "length es < length cs" for es s' r'
    using less.hyps [OF that(2,1)] that(2) by simp
  show ?case
  proof (cases cs)
    case Nil
    with less.prems show ?thesis by simp
  next
    case (Cons c cs')
    with less.prems IH show ?thesis
      by (auto simp: prepend_Some split: if_splits list.splits option.splits prod.splits)
  qed
qed

lemma span_digits_length: "span_digits xs = (ds, r) \<Longrightarrow> length r \<le> length xs"
  by (auto simp: span_digits_def length_dropWhile_le)

lemma parse_int_part_length: "parse_int_part xs = Some (a, r) \<Longrightarrow> length r < length xs"
  by (auto simp: parse_int_part_def span_digits_def length_dropWhile_le less_Suc_eq_le
      split: list.splits if_splits)

lemma parse_frac_length: "parse_frac xs = Some (a, r) \<Longrightarrow> length r \<le> length xs"
  by (auto simp: parse_frac_def Let_def split: option.splits if_splits prod.splits
      dest!: expect_length span_digits_length)

lemma parse_exp_length: "parse_exp xs = Some (a, r) \<Longrightarrow> length r \<le> length xs"
  by (auto simp: parse_exp_def Let_def split: list.splits if_splits prod.splits
      dest!: span_digits_length)

lemma parse_number_length:
  assumes "parse_number cs = Some (l, r)"
  shows "length r < length cs"
proof -
  obtain n i r1 f r2 e where "parse_int_part (drop n cs) = Some (i, r1)"
    and "parse_frac r1 = Some (f, r2)" and "parse_exp r2 = Some (e, r)"
    using assms unfolding parse_number_def Let_def bind_eq_Some_conv
    by (force split: prod.splits simp: bind_eq_Some_conv)
  then have "length r < length (drop n cs)"
    using parse_int_part_length parse_frac_length parse_exp_length
    by (meson le_less_trans)
  then show ?thesis by simp
qed

lemma parse_lit_length:
  assumes "parse_lit l v cs = Some (w, r)" and "l \<noteq> []"
  shows "length r < length cs"
proof -
  from assms have t: "take (length l) cs = l" and r: "r = drop (length l) cs"
    by (auto simp: parse_lit_def split: if_splits)
  from t assms(2) have "cs \<noteq> []" by auto
  with r assms(2) show ?thesis by simp
qed


lemma bind_SomeE:
  assumes "Option.bind m f = Some y"
  obtains x where "m = Some x" and "f x = Some y"
  using assms by (auto simp: bind_eq_Some_conv)

lemma expect_skip_length: "expect c (skip_ws cs) = Some r \<Longrightarrow> length r < length cs"
  using expect_length [of c "skip_ws cs" r] length_skip_ws [of cs] by simp

lemma parse_length:
  shows "parse_value fuel d cs = Some (v, r) \<Longrightarrow> length r < length cs"
    and "parse_elems fuel d cs = Some (vs, r) \<Longrightarrow> length r < length cs"
    and "parse_members fuel d cs = Some (ms, r) \<Longrightarrow> length r < length cs"
proof (induction fuel arbitrary: d cs v vs ms r)
  case 0
  {
    case 1
    then show ?case by (simp add: parse_value.simps parse_elems.simps parse_members.simps)
  next
    case 2
    then show ?case by (simp add: parse_value.simps parse_elems.simps parse_members.simps)
  next
    case 3
    then show ?case by (simp add: parse_value.simps parse_elems.simps parse_members.simps)
  }
next
  case (Suc fuel)
  note [dest] = parse_str_length parse_number_length expect_skip_length expect_length
  {
    case 1
    have lit: "length r' < length xs" if "parse_lit (c # l) w xs = Some (v', r')"
      for c l w xs v' r'
      using parse_lit_length [OF that] by simp
    have ws: "length r' < length (skip_ws xs) \<Longrightarrow> length r' < Suc (length xs)" for xs r' :: string
      using length_skip_ws [of xs] by simp
    from 1 show ?case
      by (auto simp: parse_value.simps(2) split: list.splits if_splits option.splits prod.splits elim!: bind_SomeE
          dest!: Suc.IH(2,3) ws dest: expect_skip_length)
         (auto dest!: lit)
  next
    case 2
    obtain v r1 where v: "parse_value fuel d cs = Some (v, r1)"
      and rest: "(case expect CHR '','' (skip_ws r1) of
             Some r2 \<Rightarrow> do { (vs, r3) \<leftarrow> parse_elems fuel d (skip_ws r2); Some (v # vs, r3) }
           | None \<Rightarrow> do { r2 \<leftarrow> expect CHR '']'' (skip_ws r1); Some ([v], r2) }) = Some (vs, r)"
      using 2 by (auto simp: parse_elems.simps(2) elim!: bind_SomeE)
    have "length r < length r1"
      using rest length_skip_ws
      by (auto split: option.splits elim!: bind_SomeE dest!: Suc.IH(2) expect_skip_length)
         (meson le_less_trans less_le_trans less_trans)
    with Suc.IH(1) [OF v] show ?case by simp
  next
    case 3
    obtain r0 k r1 r2 v r3 where h: "expect quote cs = Some r0" "parse_str r0 = Some (k, r1)"
      "expect CHR '':'' (skip_ws r1) = Some r2" "parse_value fuel d (skip_ws r2) = Some (v, r3)"
      and rest: "(case expect CHR '','' (skip_ws r3) of
             Some r4 \<Rightarrow> do { (ms, r5) \<leftarrow> parse_members fuel d (skip_ws r4); Some ((k, v) # ms, r5) }
           | None \<Rightarrow> do { r4 \<leftarrow> expect CHR ''}'' (skip_ws r3); Some ([(k, v)], r4) }) = Some (ms, r)"
      using 3 by (auto simp: parse_members.simps(2) elim!: bind_SomeE)
    have "length r < length r3"
      using rest length_skip_ws
      by (auto split: option.splits elim!: bind_SomeE dest!: Suc.IH(3) expect_skip_length)
         (meson le_less_trans less_le_trans less_trans)
    moreover have "length r3 < length cs"
      using Suc.IH(1) [OF h(4)] length_skip_ws [of r2] expect_skip_length [OF h(3)]
        parse_str_length [OF h(2)] expect_length [OF h(1)] by linarith
    ultimately show ?case by simp
  }
qed

lemma parse_fuel:
  shows "2 * length cs + 1 \<le> fuel \<Longrightarrow> parse_value (Suc fuel) d cs = parse_value fuel d cs"
    and "2 * length cs + 2 \<le> fuel \<Longrightarrow> parse_elems (Suc fuel) d cs = parse_elems fuel d cs"
    and "2 * length cs + 2 \<le> fuel \<Longrightarrow> parse_members (Suc fuel) d cs = parse_members fuel d cs"
proof (induction fuel arbitrary: d cs)
  case 0
  {
    case 1
    then show ?case by simp
  next
    case 2
    then show ?case by simp
  next
    case 3
    then show ?case by simp
  }
next
  case (Suc fuel)
  {
    case 1
    show ?case
    proof (cases cs)
      case Nil
      then show ?thesis by (simp add: parse_value.simps(2))
    next
      case (Cons c r)
      have "parse_members (Suc fuel) (Suc d) (skip_ws r) = parse_members fuel (Suc d) (skip_ws r)"
        and "parse_elems (Suc fuel) (Suc d) (skip_ws r) = parse_elems fuel (Suc d) (skip_ws r)"
        using 1 Cons length_skip_ws [of r] by (auto intro!: Suc.IH(2,3))
      then show ?thesis
        by (simp only: parse_value.simps(2) Cons list.case)
    qed
  next
    case 2
    have v: "parse_value (Suc fuel) d cs = parse_value fuel d cs"
      using 2 by (intro Suc.IH(1)) simp
    have e: "parse_elems (Suc fuel) d (skip_ws r2) = parse_elems fuel d (skip_ws r2)"
      if "parse_value fuel d cs = Some (v, r1)" "expect c (skip_ws r1) = Some r2" for v r1 c r2
      using 2 parse_length(1) [OF that(1)] expect_skip_length [OF that(2)] length_skip_ws [of r2]
      by (intro Suc.IH(2)) linarith
    show ?case
      by (subst parse_elems.simps(2), subst parse_elems.simps(2))
         (auto simp: v e intro!: Option.bind_cong split: option.split)
  next
    case 3
    have v: "parse_value (Suc fuel) d (skip_ws r2) = parse_value fuel d (skip_ws r2)"
      if "expect quote cs = Some r0" "parse_str r0 = Some (k, r1)" "expect c (skip_ws r1) = Some r2"
      for r0 k r1 c r2
      using 3 expect_length [OF that(1)] parse_str_length [OF that(2)] expect_skip_length [OF that(3)]
        length_skip_ws [of r2]
      by (intro Suc.IH(1)) linarith
    have m: "parse_members (Suc fuel) d (skip_ws r4) = parse_members fuel d (skip_ws r4)"
      if "expect quote cs = Some r0" "parse_str r0 = Some (k, r1)" "expect c (skip_ws r1) = Some r2"
        "parse_value fuel d (skip_ws r2) = Some (v, r3)" "expect c' (skip_ws r3) = Some r4"
      for r0 k r1 c r2 v r3 c' r4
      using 3 expect_length [OF that(1)] parse_str_length [OF that(2)] expect_skip_length [OF that(3)]
        length_skip_ws [of r2] parse_length(1) [OF that(4)] expect_skip_length [OF that(5)]
        length_skip_ws [of r4]
      by (intro Suc.IH(3)) linarith
    show ?case
      by (subst parse_members.simps(2), subst parse_members.simps(2))
         (auto simp: v m intro!: Option.bind_cong split: option.split)
  }
qed

lemma parse_value_fuel: "2 * length cs + 1 \<le> fuel \<Longrightarrow> parse_value (fuel + k) d cs = parse_value fuel d cs"
  by (induction k) (simp_all add: parse_fuel(1))

text \<open>More fuel never changes what a text reads as.\<close>

lemma json_parse_fuel:
  assumes "2 * length cs + 2 \<le> fuel"
  shows "json_parse cs =
    do { (v, r) \<leftarrow> parse_value fuel 0 (skip_ws cs); if skip_ws r = [] then Some v else None }"
proof -
  have "2 * length (skip_ws cs) + 1 \<le> 2 * length cs + 2"
    using length_skip_ws [of cs] by simp
  then have "parse_value (2 * length cs + 2 + (fuel - (2 * length cs + 2))) 0 (skip_ws cs) =
      parse_value (2 * length cs + 2) 0 (skip_ws cs)"
    by (rule parse_value_fuel)
  then have "parse_value fuel 0 (skip_ws cs) = parse_value (2 * length cs + 2) 0 (skip_ws cs)"
    by (simp only: le_add_diff_inverse [OF assms])
  then show ?thesis by (simp add: json_parse_def)
qed

text \<open>A finite check over the ASCII bytes: the escape of a byte reads back as the byte.\<close>

lemma hex_val_hex_digit: "d < 16 \<Longrightarrow> hex_val (hex_digit d) = Some d"
  by (auto simp: hex_val_def hex_digit_def Let_def)

lemma encode_rune_byte: "byte c < 128 \<Longrightarrow> encode_rune (byte c) = [c]"
  by (simp add: encode_rune_def is_surrogate_def)

lemma char_eq_iff_byte: "c = c' \<longleftrightarrow> byte c = byte c'"
  by (metis char_of_char)

lemma hex4_byte:
  assumes "byte c < 128"
  shows "hex4 (CHR ''0'' # CHR ''0'' # hex_digit (byte c div 16) # hex_digit (byte c mod 16) # rest) =
    Some (byte c)"
proof -
  have "hex_val CHR ''0'' = Some 0" by (simp add: hex_val_def)
  then show ?thesis using assms by (simp add: hex4_def hex_val_hex_digit)
qed

lemma parse_str_escape_ascii:
  assumes "byte c < 128"
  shows "parse_str (escape_ascii c @ rest) = prepend [c] (parse_str rest)"
proof -
  have b: "c = CHR 0x08 \<longleftrightarrow> byte c = 8" "c = CHR 0x09 \<longleftrightarrow> byte c = 9" "c = CHR 0x0A \<longleftrightarrow> byte c = 10"
    "c = CHR 0x0C \<longleftrightarrow> byte c = 12" "c = CHR 0x0D \<longleftrightarrow> byte c = 13"
    by (simp_all add: char_eq_iff_byte)
  have "\<not> is_surrogate (byte c)" using assms by (simp add: is_surrogate_def)
  moreover have "char_of (8::nat) = CHR 0x08" "char_of (12::nat) = CHR 0x0C" "char_of (10::nat) = CHR 0x0A"
      "char_of (13::nat) = CHR 0x0D" "char_of (9::nat) = CHR 0x09" by (simp_all add: char_eq_iff_byte)
  ultimately show ?thesis
    using assms b
    by (auto simp: escape_ascii_def hex4_byte encode_rune_byte simple_escape_def)
qed

lemma parse_str_json_escape:
  "ascii s \<Longrightarrow> parse_str (json_escape s @ quote # rest) = Some (s, rest)"
proof (induction s)
  case Nil
  then show ?case by simp
next
  case (Cons c s)
  then show ?case
    using parse_str_escape_ascii [of c "json_escape s @ quote # rest"] by (simp add: prepend_def)
qed

subsection \<open>A marshalled struct reads back\<close>

fun scalar_json :: "scalar \<Rightarrow> json" where
  "scalar_json (SString s) = JString s"
| "scalar_json (SInt i) = JNumber (dec_int i)"

fun scalar_ascii :: "scalar \<Rightarrow> bool" where
  "scalar_ascii (SString s) = ascii s"
| "scalar_ascii (SInt i) = True"

lemma skip_ws_Cons: "\<not> is_space c \<Longrightarrow> skip_ws (c # cs) = c # cs"
  by (simp add: skip_ws_def)

lemma is_space_punct [simp]:
  "\<not> is_space quote" "\<not> is_space CHR '',''" "\<not> is_space CHR '':''" "\<not> is_space CHR ''{''"
  "\<not> is_space CHR ''}''" "\<not> is_space CHR ''-''"
  by (simp_all add: is_space_def)

lemma is_space_digit: "is_digit c \<Longrightarrow> \<not> is_space c"
  by (auto simp: is_space_def is_digit_def)

definition ends_number :: "string \<Rightarrow> bool" where
  "ends_number rest = (rest \<noteq> [] \<and> (hd rest = CHR '','' \<or> hd rest = CHR ''}''))"

lemma digits_span:
  "list_all is_digit ds \<Longrightarrow> ends_number rest \<Longrightarrow> span_digits (ds @ rest) = (ds, rest)"
  by (cases rest) (auto simp: span_digits_def ends_number_def list_all_iff is_digit_def)

lemma parse_int_part_dec_nat:
  assumes "ends_number rest"
  shows "parse_int_part (dec_nat n @ rest) = Some (dec_nat n, rest)"
proof (cases "n = 0")
  case True
  then have "dec_nat n = [CHR ''0'']" by (subst dec_nat.simps) (simp add: digit_char_def char_eq_iff_byte)
  then show ?thesis by (simp add: parse_int_part_def)
next
  case False
  obtain c ds where cs: "dec_nat n = c # ds" using dec_nat_nonempty by (cases "dec_nat n") auto
  with False dec_nat_hd [of n] have "c \<noteq> CHR ''0''" by simp
  moreover have "is_digit c" using dec_nat_digits [of n] cs by simp
  moreover have "span_digits (c # ds @ rest) = (c # ds, rest)"
    using digits_span [OF dec_nat_digits [of n] assms] cs by simp
  ultimately show ?thesis by (simp add: parse_int_part_def cs)
qed

lemma parse_number_dec_int:
  assumes "ends_number rest"
  shows "parse_number (dec_int i @ rest) = Some (dec_int i, rest)"
proof -
  have tl: "parse_frac rest = Some ([], rest)" "parse_exp rest = Some ([], rest)"
    using assms by (cases rest; auto simp: parse_frac_def parse_exp_def expect_def ends_number_def)+
  obtain c ds where cs: "dec_nat (nat i) = c # ds" "is_digit c"
    using dec_nat_nonempty [of "nat i"] dec_nat_digits [of "nat i"] by (cases "dec_nat (nat i)") auto
  then have "c \<noteq> CHR ''-''" by (auto simp: is_digit_def)
  with cs(1) show ?thesis
    using parse_int_part_dec_nat [OF assms, of "nat i"] parse_int_part_dec_nat [OF assms, of "nat (- i)"] tl
    by (auto simp: parse_number_def dec_int_def)
qed

text \<open>The first character of a printed integer starts no other kind of value.\<close>

lemma dec_int_Cons:
  obtains c cs where "dec_int i = c # cs" and "is_digit c \<or> c = CHR ''-''"
proof (cases "dec_int i")
  case Nil
  then show ?thesis by (simp add: dec_int_def dec_nat_nonempty split: if_splits)
next
  case (Cons c cs)
  then show ?thesis
    using that dec_nat_digits [of "nat i"] by (auto simp: dec_int_def split: if_splits)
qed

lemma parse_value_scalar:
  assumes "scalar_ascii v" and "ends_number rest"
  shows "parse_value (Suc fuel) d (marshal_scalar v @ rest) = Some (scalar_json v, rest)"
proof (cases v)
  case (SString s)
  with assms(1) show ?thesis
    by (simp add: parse_value.simps(2) json_string_def parse_str_json_escape)
next
  case (SInt i)
  obtain c cs where c: "dec_int i = c # cs" "is_digit c \<or> c = CHR ''-''" by (rule dec_int_Cons)
  then have "c \<noteq> CHR ''{'' \<and> c \<noteq> CHR ''['' \<and> c \<noteq> quote \<and> c \<noteq> CHR ''t'' \<and> c \<noteq> CHR ''f'' \<and> c \<noteq> CHR ''n''"
    by (auto simp: is_digit_def)
  then show ?thesis
    using parse_number_dec_int [OF assms(2), of i] c SInt by (simp add: parse_value.simps(2))
qed

lemma marshal_scalar_skip_ws [simp]: "skip_ws (marshal_scalar v @ rest) = marshal_scalar v @ rest"
proof (cases v)
  case (SString s)
  then show ?thesis by (simp add: json_string_def skip_ws_Cons)
next
  case (SInt i)
  obtain c cs where "dec_int i = c # cs" "is_digit c \<or> c = CHR ''-''" by (rule dec_int_Cons)
  with SInt show ?thesis by (auto simp: skip_ws_Cons is_space_digit)
qed

definition field_ascii :: "string \<times> scalar \<Rightarrow> bool" where
  "field_ascii f = (ascii (fst f) \<and> scalar_ascii (snd f))"

lemma parse_members_marshal:
  assumes "fs \<noteq> []" and "list_all field_ascii fs"
  shows "parse_members (length fs + 1 + k) d (marshal_fields fs @ CHR ''}'' # rest) =
    Some (map (map_prod id scalar_json) fs, rest)"
  using assms
proof (induction fs rule: marshal_fields.induct)
  case 1
  then show ?case by simp
next
  case (2 f)
  then show ?case
    by (simp add: parse_members.simps(2) marshal_field_def json_string_def field_ascii_def expect_def
        parse_str_json_escape parse_value_scalar skip_ws_Cons ends_number_def map_prod_def split_beta)
next
  case (3 f g fs)
  have q: "skip_ws (marshal_fields (g # fs) @ xs) = marshal_fields (g # fs) @ xs" for xs
    by (cases fs) (simp_all add: marshal_field_def json_string_def skip_ws_Cons)
  from 3 q show ?case
    by (simp add: parse_members.simps(2) marshal_field_def json_string_def field_ascii_def expect_def
        parse_str_json_escape parse_value_scalar skip_ws_Cons ends_number_def map_prod_def split_beta)
qed

text \<open>A marshalled struct at the front of a text reads as the object of its fields, and the rest is left.\<close>

lemma parse_marshal_struct:
  assumes "list_all field_ascii fs" and "length (marshal_struct fs) \<le> n"
  shows "parse_value (2 * n + 2) 0 (skip_ws (marshal_struct fs @ rest)) =
    Some (JObject (map (map_prod id scalar_json) fs), rest)"
proof (cases fs)
  case Nil
  then show ?thesis
    by (simp add: marshal_struct_def parse_value.simps(2) expect_def skip_ws_Cons)
next
  case (Cons f gs)
  have q: "skip_ws (marshal_fields fs @ xs) = marshal_fields fs @ xs"
    and e: "expect CHR ''}'' (marshal_fields fs @ xs) = None" for xs
    using Cons by (cases gs; simp add: marshal_field_def json_string_def skip_ws_Cons expect_def)+
  have len: "length fs \<le> length (marshal_fields fs)"
    by (induction fs rule: marshal_fields.induct) (simp_all add: marshal_field_def)
  then have "length fs + 1 \<le> 2 * n + 1"
    using assms(2) by (simp add: marshal_struct_def)
  then obtain k where k: "2 * n + 2 = Suc (length fs + 1 + k)"
    by (auto dest: le_Suc_ex)
  show ?thesis
    using parse_members_marshal [of fs k 1 rest] Cons assms(1)
    unfolding k by (simp add: marshal_struct_def parse_value.simps(2) q [unfolded Cons] e [unfolded Cons] skip_ws_Cons)
qed

lemma json_parse_marshal_struct:
  assumes "list_all field_ascii fs"
  shows "json_parse (marshal_struct fs) = Some (JObject (map (map_prod id scalar_json) fs))"
  using parse_marshal_struct [OF assms order_refl, of "[]"] by (simp add: json_parse_def skip_ws_def)

subsection \<open>Decoding into a struct\<close>

text \<open>
  A key selects the field whose name it equals when both are folded: ASCII letters to upper
  case, and the two other runes that fold to an ASCII letter (the long s and the Kelvin sign).
\<close>

definition fold_rune :: "nat \<Rightarrow> nat" where
  "fold_rune r = (if r = 383 then 83 else if r = 8490 then 75 else r)"

fun fold_name :: "string \<Rightarrow> string" where
  "fold_name [] = []"
| "fold_name (c # cs) =
     (if byte c < 128 then
        (if 97 \<le> byte c \<and> byte c \<le> 122 then char_of (byte c - 32) else c) # fold_name cs
      else let (r, n) = decode_rune (c # cs)
           in encode_rune (fold_rune r) @ fold_name (drop (n - 1) cs))"

definition is_field :: "string \<Rightarrow> string \<Rightarrow> bool" where
  "is_field name key = (fold_name key = fold_name name)"

text \<open>
  A decoding in progress is the struct filled so far and whether a value of the wrong type was
  met: decoding goes on past such a value and reports it at the end.
\<close>

type_synonym 'r decoding = "bool \<times> 'r"

definition decode_string :: "(string \<Rightarrow> 'r \<Rightarrow> 'r) \<Rightarrow> json \<Rightarrow> 'r decoding \<Rightarrow> 'r decoding" where
  "decode_string upd v acc =
     (case v of JString s \<Rightarrow> (fst acc, upd s (snd acc)) | JNull \<Rightarrow> acc | _ \<Rightarrow> (True, snd acc))"

definition decode_bool :: "(bool \<Rightarrow> 'r \<Rightarrow> 'r) \<Rightarrow> json \<Rightarrow> 'r decoding \<Rightarrow> 'r decoding" where
  "decode_bool upd v acc =
     (case v of JBool b \<Rightarrow> (fst acc, upd b (snd acc)) | JNull \<Rightarrow> acc | _ \<Rightarrow> (True, snd acc))"

text \<open>\<^verbatim>\<open>strconv.ParseInt\<close> in base 10 for a 64-bit integer, on a JSON number literal.\<close>

definition parse_int64 :: "string \<Rightarrow> int option" where
  "parse_int64 l =
     (let neg = (take 1 l = ''-''); ds = (if neg then drop 1 l else l);
          i = (if neg then - int (nat_of_digits ds) else int (nat_of_digits ds))
      in if ds \<noteq> [] \<and> list_all is_digit ds \<and> - (2 ^ 63) \<le> i \<and> i < 2 ^ 63 then Some i else None)"

definition decode_int :: "(int \<Rightarrow> 'r \<Rightarrow> 'r) \<Rightarrow> json \<Rightarrow> 'r decoding \<Rightarrow> 'r decoding" where
  "decode_int upd v acc =
     (case v of
        JNumber l \<Rightarrow> (case parse_int64 l of Some i \<Rightarrow> (fst acc, upd i (snd acc)) | None \<Rightarrow> (True, snd acc))
      | JNull \<Rightarrow> acc
      | _ \<Rightarrow> (True, snd acc))"

definition decode_object ::
  "(string \<Rightarrow> json \<Rightarrow> 'r decoding \<Rightarrow> 'r decoding) \<Rightarrow> json \<Rightarrow> 'r \<Rightarrow> 'r decoding" where
  "decode_object store v r =
     (case v of JObject ms \<Rightarrow> foldl (\<lambda>acc m. store (fst m) (snd m) acc) (False, r) ms
      | JNull \<Rightarrow> (False, r)
      | _ \<Rightarrow> (True, r))"

text \<open>\<^verbatim>\<open>json.Unmarshal\<close> into a struct: whether it returns an error, and the struct it leaves.\<close>

definition unmarshal_struct ::
  "(string \<Rightarrow> json \<Rightarrow> 'r decoding \<Rightarrow> 'r decoding) \<Rightarrow> string \<Rightarrow> 'r \<Rightarrow> 'r decoding" where
  "unmarshal_struct store cs r =
     (case json_parse cs of None \<Rightarrow> (True, r) | Some v \<Rightarrow> decode_object store v r)"

text \<open>\<^verbatim>\<open>json.NewDecoder(r).Decode\<close> into a struct: the first value of the text; what follows is not read.\<close>

definition decode_first ::
  "(string \<Rightarrow> json \<Rightarrow> 'r decoding \<Rightarrow> 'r decoding) \<Rightarrow> string \<Rightarrow> 'r \<Rightarrow> 'r decoding" where
  "decode_first store cs r =
     (case parse_value (2 * length cs + 2) 0 (skip_ws cs) of
        None \<Rightarrow> (True, r) | Some (v, rest) \<Rightarrow> decode_object store v r)"

lemma parse_int64_dec_int:
  assumes "- (2 ^ 63) \<le> i" and "i < 2 ^ 63"
  shows "parse_int64 (dec_int i) = Some i"
proof -
  obtain c cs where c: "dec_nat (nat i) = c # cs" "is_digit c"
    using dec_nat_nonempty [of "nat i"] dec_nat_digits [of "nat i"] by (cases "dec_nat (nat i)") auto
  then have "c \<noteq> CHR ''-''" by (auto simp: is_digit_def)
  then have "0 \<le> i \<Longrightarrow> take 1 (dec_nat (nat i)) \<noteq> ''-''" using c by simp
  then show ?thesis
    using assms by (auto simp: parse_int64_def dec_int_def Let_def dec_nat_digits dec_nat_nonempty
        nat_of_digits_dec_nat)
qed

end
