(* ===== verification/World.thy ===== *)
theory World
  imports Monitor Json
begin

text \<open>
  The boundary of the program. Everything outside the repository (the AMQP client library and
  the broker behind it, Redis, Docker, HTTP peers, the JWT library, clock and random numbers)
  is an argument \<open>env\<close>: functions from the history of calls made so far to the answer of the
  next one, so that a statement for all \<open>env\<close> holds whatever the outside does. Each call is
  recorded, with its arguments, in the trace of the state; a component's own variables extend
  the record \<open>io\<close>.
\<close>

subsection \<open>AMQP values\<close>

text \<open>The dynamic types a header value has in the program; a float64 is its IEEE bits.\<close>

datatype field =
    FNil | FBool bool | FInt32 int32 | FInt64 int64 | FFloat64 uint64 | FString string
  | FArray "field list" | FMap "(string \<times> field) list"

type_synonym table = "(string \<times> field) list"

text \<open>\<^verbatim>\<open>amqp.Publishing\<close> (the fields the program sets) and \<^verbatim>\<open>amqp.Delivery\<close>.\<close>

record publishing =
  Headers :: table
  ContentType :: string
  DeliveryMode :: nat
  Body :: string
  ReplyTo :: string
  CorrelationId :: string

record delivery = publishing +
  DeliveryTag :: uint64

definition Persistent :: nat where
  "Persistent = 2"

text \<open>The zero value, to write the composite literals that set some fields.\<close>

definition publishing0 :: publishing where
  "publishing0 = \<lparr>Headers = [], ContentType = '''', DeliveryMode = 0, Body = '''', ReplyTo = '''',
     CorrelationId = ''''\<rparr>"

lemma publishing0_simps [simp]:
  "Headers publishing0 = []" "ContentType publishing0 = ''''" "DeliveryMode publishing0 = 0"
  "Body publishing0 = ''''" "ReplyTo publishing0 = ''''" "CorrelationId publishing0 = ''''"
  by (simp_all add: publishing0_def)

text \<open>The calls on a channel and on a delivery, with the arguments in the library's order.\<close>

datatype amqp_call =
    Dial string
  | OpenChannel
  | ExchangeDeclare string string bool bool bool bool table
  | QueueDeclare string bool bool bool bool table
  | QueueBind string string string bool table
  | QueueInspect string
  | Qos int int bool
  | Consume string string bool bool bool bool table
  | NotifyReturn nat
  | Publish string string bool bool publishing
  | Ack uint64 bool
  | Nack uint64 bool bool

subsection \<open>The other calls\<close>

datatype redis_cmd = Incr string | Expire string int | SetKey string string int | GetKey string | Ping

datatype http_call =
    HttpGet string
  | HttpPostForm string "(string \<times> string) list"
  | HttpDo string string "(string \<times> string) list" string
  | OAuthExchange string         \<comment> \<open>\<^verbatim>\<open>Config.Exchange\<close>, with the code\<close>
  | OAuthGet string string       \<comment> \<open>a GET by \<^verbatim>\<open>Config.Client\<close>, with the access token\<close>

text \<open>
  A document of the key store, as the MongoDB driver decodes it; times are nanoseconds since the zero
  time of Go, so a missing expiry is 0.
\<close>

record api_key =
  Key :: string
  Owner :: string
  KeyStatus :: string
  RateLimit :: int
  CreatedAt :: int
  ExpiresAt :: int

datatype mongo_call =
    Connect string
  | FindOne "(string \<times> string) list"

record http_response =
  StatusCode :: nat
  RespHeader :: "(string \<times> string list) list"
  RespBody :: string

datatype docker_call =
    NewClient
  | ContainerList bool
  | ContainerCreate string string "string list" string "string list" string
      \<comment> \<open>image, host name, environment, network, binds, container name\<close>
  | ContainerStart string
  | ContainerStop string int
  | ContainerInspect string
  | ContainerRemove string bool bool
  | VolumeRemove string bool
  | ExecCreate string "string list"
  | ExecAttach string
  | ExecInspect string

datatype event =
    Amqp amqp_call
  | Redis "redis_cmd list"        \<comment> \<open>one command, or a transaction of several\<close>
  | Http http_call
  | Docker docker_call
  | Mongo mongo_call
  | Metric metric_op
  | Exec "string list"            \<comment> \<open>a program started, with its arguments\<close>
  | Sleep int                     \<comment> \<open>\<^verbatim>\<open>time.Sleep\<close>, in nanoseconds\<close>

type_synonym history = "event list"

record io =
  trace :: history

record env =
  amqp_err :: "history \<Rightarrow> amqp_call \<Rightarrow> string option"
  amqp_queue :: "history \<Rightarrow> string"                     \<comment> \<open>a server-generated queue name\<close>
  amqp_depth :: "history \<Rightarrow> string \<Rightarrow> int"               \<comment> \<open>\<^verbatim>\<open>QueueInspect(q).Messages\<close>\<close>
  amqp_msgs :: "history \<Rightarrow> string \<Rightarrow> delivery list \<times> bool"
    \<comment> \<open>what the consumer of a queue receives from now on, and whether its channel is closed then\<close>
  redis_reply :: "history \<Rightarrow> redis_cmd list \<Rightarrow> string + int"
  redis_value :: "history \<Rightarrow> string \<Rightarrow> string + string option"  \<comment> \<open>GET; None is \<^verbatim>\<open>redis.Nil\<close>\<close>
  http_reply :: "history \<Rightarrow> http_call \<Rightarrow> string + http_response"
  new_request_err :: "string \<Rightarrow> string \<Rightarrow> string option"  \<comment> \<open>\<^verbatim>\<open>http.NewRequest\<close> refusing method, URL\<close>
  docker_err :: "history \<Rightarrow> docker_call \<Rightarrow> string option"
  docker_names :: "history \<Rightarrow> string list list"           \<comment> \<open>\<^verbatim>\<open>c.Names\<close> of each listed container\<close>
  docker_id :: "history \<Rightarrow> string"
  docker_running :: "history \<Rightarrow> string \<Rightarrow> bool"            \<comment> \<open>\<^verbatim>\<open>info.State.Running\<close>\<close>
  exec_output :: "history \<Rightarrow> string"
  exec_code :: "history \<Rightarrow> int"
  abs_path :: "string \<Rightarrow> string"                       \<comment> \<open>\<^verbatim>\<open>filepath.Abs\<close>\<close>
  jwt_parse :: "history \<Rightarrow> string \<Rightarrow> string \<Rightarrow> string + (bool \<times> (string \<rightharpoonup> json) option)"
    \<comment> \<open>the token and the key; validity depends on the time\<close>
  jwt_sign :: "string \<Rightarrow> string \<Rightarrow> int \<Rightarrow> string + string"
    \<comment> \<open>HS256: the key, the e-mail claim, the expiry in Unix seconds\<close>
  auth_code_url :: "string \<Rightarrow> string \<Rightarrow> (string \<times> string) list \<Rightarrow> string"
    \<comment> \<open>\<^verbatim>\<open>AuthCodeURL\<close> of the configuration with this redirect URL: the state, the options\<close>
  oauth_token :: "history \<Rightarrow> string \<Rightarrow> string + string"
  unix_now :: "history \<Rightarrow> int"                           \<comment> \<open>\<^verbatim>\<open>time.Now().Unix()\<close>\<close>
  os_hostname :: string                               \<comment> \<open>\<^verbatim>\<open>os.Hostname\<close>, its error dropped\<close>
  listen_port :: "history \<Rightarrow> string + nat"                \<comment> \<open>\<^verbatim>\<open>net.Listen\<close> on a free port\<close>
  getenv :: "string \<Rightarrow> string"
  mongo_err :: "history \<Rightarrow> mongo_call \<Rightarrow> string option"
  mongo_doc :: "history \<Rightarrow> mongo_call \<Rightarrow> api_key"           \<comment> \<open>the document found, when there is no error\<close>
  wall_time :: "history \<Rightarrow> int"                          \<comment> \<open>\<^verbatim>\<open>time.Now()\<close>, since the zero time\<close>
  goos :: string                                        \<comment> \<open>\<^verbatim>\<open>runtime.GOOS\<close>\<close>
  exec_err :: "history \<Rightarrow> string list \<Rightarrow> string option"
  status_text :: "nat \<Rightarrow> string"                          \<comment> \<open>the reason phrase of a status\<close>
  to_lower_rune :: "nat \<Rightarrow> nat"                           \<comment> \<open>\<^verbatim>\<open>unicode.ToLower\<close> beyond ASCII\<close>
  now :: "history \<Rightarrow> int"                                \<comment> \<open>the monotonic clock, nanoseconds\<close>
  rand_int :: "history \<Rightarrow> nat"
  rand_float32 :: "history \<Rightarrow> nat"                       \<comment> \<open>\<open>k\<close> for the value \<open>k / 2 ^ 24\<close>\<close>
  json_error :: "string \<Rightarrow> string"                      \<comment> \<open>the text of an error of \<^verbatim>\<open>json.Unmarshal\<close>\<close>
  parse_float :: "string \<Rightarrow> uint64 option"               \<comment> \<open>\<^verbatim>\<open>strconv.ParseFloat\<close>\<close>
  float_to_int32 :: "uint64 \<Rightarrow> int32"                    \<comment> \<open>the conversion, where Go leaves it open\<close>

text \<open>An outside in which every call succeeds and nothing waits, for concrete runs.\<close>

definition quiet_env :: env where
  "quiet_env = \<lparr>
     amqp_err = (\<lambda>h c. None),
     amqp_queue = (\<lambda>h. ''amq.gen''),
     amqp_depth = (\<lambda>h q. 0),
     amqp_msgs = (\<lambda>h q. ([], True)),
     redis_reply = (\<lambda>h c. Inr 1),
     redis_value = (\<lambda>h k. Inr None),
     http_reply = (\<lambda>h c. Inr \<lparr>StatusCode = 200, RespHeader = [], RespBody = ''''\<rparr>),
     new_request_err = (\<lambda>m u. None),
     docker_err = (\<lambda>h c. None),
     docker_names = (\<lambda>h. []),
     docker_id = (\<lambda>h. ''''),
     docker_running = (\<lambda>h c. True),
     exec_output = (\<lambda>h. ''''),
     exec_code = (\<lambda>h. 0),
     abs_path = (\<lambda>p. p),
     jwt_parse = (\<lambda>h t k. Inl ''''),
     jwt_sign = (\<lambda>k e t. Inl ''''),
     auth_code_url = (\<lambda>u st opts. ''https://accounts.google.com/o/oauth2/auth''),
     oauth_token = (\<lambda>h c. Inl ''''),
     unix_now = (\<lambda>h. 0),
     os_hostname = '''',
     listen_port = (\<lambda>h. Inr 8080),
     getenv = (\<lambda>v. ''''),
     mongo_err = (\<lambda>h c. None),
     mongo_doc = (\<lambda>h c. \<lparr>Key = '''', Owner = '''', KeyStatus = '''', RateLimit = 0, CreatedAt = 0, ExpiresAt = 0\<rparr>),
     wall_time = (\<lambda>h. 0),
     goos = ''linux'',
     exec_err = (\<lambda>h c. None),
     status_text = (\<lambda>c. ''''),
     to_lower_rune = (\<lambda>r. r),
     now = (\<lambda>h. 0),
     rand_int = (\<lambda>h. 0),
     rand_float32 = (\<lambda>h. 0),
     json_error = (\<lambda>b. ''''),
     parse_float = (\<lambda>b. None),
     float_to_int32 = (\<lambda>b. 0)\<rparr>"

lemma quiet_env_simps [simp]:
  "amqp_err quiet_env h c = None" "amqp_depth quiet_env h q = 0" "amqp_msgs quiet_env h q = ([], True)"
  "http_reply quiet_env h hc = Inr \<lparr>StatusCode = 200, RespHeader = [], RespBody = ''''\<rparr>"
  "new_request_err quiet_env m u = None" "now quiet_env h = 0" "rand_int quiet_env h = 0"
  "amqp_queue quiet_env h = ''amq.gen''" "redis_reply quiet_env h rc = Inr 1"
  "docker_err quiet_env h dc = None" "exec_code quiet_env h = 0" "docker_names quiet_env h = []"
  "jwt_parse quiet_env h t k = Inl ''''" "goos quiet_env = ''linux''" "exec_err quiet_env h ec = None"
  "to_lower_rune quiet_env r = r" "rand_float32 quiet_env h = 0"
  by (simp_all add: quiet_env_def)

subsection \<open>Calling out\<close>

definition emit :: "event \<Rightarrow> ('a io_scheme, unit) state" where
  "emit e = State (\<lambda>s. ((), s\<lparr>trace := trace s @ [e]\<rparr>))"

definition perform :: "(history \<Rightarrow> 'b) \<Rightarrow> event \<Rightarrow> ('a io_scheme, 'b) state" where
  "perform ans e = State (\<lambda>s. (ans (trace s), s\<lparr>trace := trace s @ [e]\<rparr>))"

definition ask :: "(history \<Rightarrow> 'b) \<Rightarrow> ('a io_scheme, 'b) state" where
  "ask ans = State (\<lambda>s. (ans (trace s), s))"

text \<open>A call on the channel that returns only an error.\<close>

definition amqp :: "env \<Rightarrow> amqp_call \<Rightarrow> ('a io_scheme, string option) state" where
  "amqp env c = perform (\<lambda>h. amqp_err env h c) (Amqp c)"

definition queue_declare ::
  "env \<Rightarrow> string \<Rightarrow> bool \<Rightarrow> bool \<Rightarrow> bool \<Rightarrow> bool \<Rightarrow> table
     \<Rightarrow> ('a io_scheme, string option \<times> string) state" where
  "queue_declare env q durable autoDelete exclusive noWait args =
     (let c = QueueDeclare q durable autoDelete exclusive noWait args
      in perform (\<lambda>h. (amqp_err env h c, if q = '''' then amqp_queue env h else q)) (Amqp c))"

definition queue_inspect :: "env \<Rightarrow> string \<Rightarrow> ('a io_scheme, string option \<times> int) state" where
  "queue_inspect env q =
     perform (\<lambda>h. (amqp_err env h (QueueInspect q), amqp_depth env h q)) (Amqp (QueueInspect q))"

definition http :: "env \<Rightarrow> http_call \<Rightarrow> ('a io_scheme, string + http_response) state" where
  "http env c = perform (\<lambda>h. http_reply env h c) (Http c)"

definition inc :: "metric \<Rightarrow> ('a io_scheme, unit) state" where
  "inc m = emit (Metric (Inc m))"

definition inc_label :: "metric \<Rightarrow> string \<Rightarrow> ('a io_scheme, unit) state" where
  "inc_label m l = emit (Metric (IncLabel m l))"

definition set_gauge :: "metric \<Rightarrow> int \<Rightarrow> ('a io_scheme, unit) state" where
  "set_gauge m v = emit (Metric (SetGauge m v))"

definition observe :: "metric \<Rightarrow> int \<Rightarrow> ('a io_scheme, unit) state" where
  "observe m v = emit (Metric (Observe m v))"

definition sleep :: "int \<Rightarrow> ('a io_scheme, unit) state" where
  "sleep ns = emit (Sleep ns)"

definition time_now :: "env \<Rightarrow> ('a io_scheme, int) state" where
  "time_now env = ask (now env)"

abbreviation Millisecond :: int where "Millisecond \<equiv> 1000000"
abbreviation Second :: int where "Second \<equiv> 1000000000"

text \<open>
  \<^verbatim>\<open>latMs := float64(time.Since(startTs).Milliseconds()); monitor.TaskLatency.Observe(latMs)\<close>,
  the tail of every handler. Go's integer division truncates.
\<close>

definition milliseconds :: "int \<Rightarrow> int" where
  "milliseconds d = (if 0 \<le> d then d div Millisecond else - ((- d) div Millisecond))"

definition observe_latency :: "env \<Rightarrow> int \<Rightarrow> ('a io_scheme, unit) state" where
  "observe_latency env startTs = do {
     t \<leftarrow> time_now env;
     observe TaskLatency (milliseconds (t - startTs)) }"

lemma run_calls [run_simps, simp]:
  "run_state (emit e) s = ((), s\<lparr>trace := trace s @ [e]\<rparr>)"
  "run_state (perform ans e) s = (ans (trace s), s\<lparr>trace := trace s @ [e]\<rparr>)"
  "run_state (ask ans) s = (ans (trace s), s)"
  "run_state (amqp env c) s = (amqp_err env (trace s) c, s\<lparr>trace := trace s @ [Amqp c]\<rparr>)"
  "run_state (queue_declare env q b1 b2 b3 b4 args) s =
     ((amqp_err env (trace s) (QueueDeclare q b1 b2 b3 b4 args),
       if q = '''' then amqp_queue env (trace s) else q),
      s\<lparr>trace := trace s @ [Amqp (QueueDeclare q b1 b2 b3 b4 args)]\<rparr>)"
  "run_state (queue_inspect env q) s =
     ((amqp_err env (trace s) (QueueInspect q), amqp_depth env (trace s) q),
      s\<lparr>trace := trace s @ [Amqp (QueueInspect q)]\<rparr>)"
  "run_state (http env hc) s = (http_reply env (trace s) hc, s\<lparr>trace := trace s @ [Http hc]\<rparr>)"
  "run_state (inc m) s = ((), s\<lparr>trace := trace s @ [Metric (Inc m)]\<rparr>)"
  "run_state (inc_label m l) s = ((), s\<lparr>trace := trace s @ [Metric (IncLabel m l)]\<rparr>)"
  "run_state (set_gauge m v) s = ((), s\<lparr>trace := trace s @ [Metric (SetGauge m v)]\<rparr>)"
  "run_state (observe m v) s = ((), s\<lparr>trace := trace s @ [Metric (Observe m v)]\<rparr>)"
  "run_state (sleep ns) s = ((), s\<lparr>trace := trace s @ [Sleep ns]\<rparr>)"
  "run_state (time_now env) s = (now env (trace s), s)"
  "run_state (observe_latency env t0) s =
     ((), s\<lparr>trace := trace s @
        [Metric (Observe TaskLatency (milliseconds (now env (trace s) - t0)))]\<rparr>)"
  by (simp_all add: emit_def perform_def ask_def amqp_def queue_declare_def queue_inspect_def
      http_def inc_def inc_label_def set_gauge_def observe_def sleep_def time_now_def observe_latency_def
      Let_def)

subsection \<open>Reading a trace\<close>

fun publish_of :: "event \<Rightarrow> (string \<times> string \<times> publishing) option" where
  "publish_of (Amqp (Publish x k m i p)) = Some (x, k, p)"
| "publish_of _ = None"

text \<open>The messages handed to the broker, with exchange and routing key.\<close>

definition publishes :: "history \<Rightarrow> (string \<times> string \<times> publishing) list" where
  "publishes es = List.map_filter publish_of es"

datatype settlement = Acked | Dropped | Requeued

fun settlement_of :: "event \<Rightarrow> (uint64 \<times> settlement) option" where
  "settlement_of (Amqp (Ack t m)) = Some (t, Acked)"
| "settlement_of (Amqp (Nack t m requeue)) = Some (t, if requeue then Requeued else Dropped)"
| "settlement_of _ = None"

text \<open>The deliveries settled, by tag.\<close>

definition settlements :: "history \<Rightarrow> (uint64 \<times> settlement) list" where
  "settlements es = List.map_filter settlement_of es"

definition counter :: "metric \<Rightarrow> history \<Rightarrow> nat" where
  "counter m es = length (filter (\<lambda>e. e = Metric (Inc m)) es)"

definition labelled :: "metric \<Rightarrow> string \<Rightarrow> history \<Rightarrow> nat" where
  "labelled m l es = length (filter (\<lambda>e. e = Metric (IncLabel m l)) es)"

fun declared_of :: "event \<Rightarrow> string option" where
  "declared_of (Amqp (QueueDeclare q b1 b2 b3 b4 args)) = Some q"
| "declared_of _ = None"

definition declared :: "history \<Rightarrow> string list" where
  "declared es = List.map_filter declared_of es"

fun binding_of :: "event \<Rightarrow> (string \<times> string \<times> string) option" where
  "binding_of (Amqp (QueueBind q k x noWait args)) = Some (q, k, x)"
| "binding_of _ = None"

text \<open>The bindings made: queue, key, exchange.\<close>

definition bindings :: "history \<Rightarrow> (string \<times> string \<times> string) list" where
  "bindings es = List.map_filter binding_of es"

fun consumed_of :: "event \<Rightarrow> (string \<times> bool \<times> bool) option" where
  "consumed_of (Amqp (Consume q tag autoAck exclusive noLocal noWait args)) = Some (q, autoAck, exclusive)"
| "consumed_of _ = None"

text \<open>The consumers opened: queue, auto-acknowledge, exclusive.\<close>

definition consumed :: "history \<Rightarrow> (string \<times> bool \<times> bool) list" where
  "consumed es = List.map_filter consumed_of es"

fun gauge_of :: "metric \<Rightarrow> event \<Rightarrow> int option" where
  "gauge_of m (Metric (SetGauge m' v)) = (if m' = m then Some v else None)"
| "gauge_of m _ = None"

text \<open>The value a gauge was last set to.\<close>

definition gauge :: "metric \<Rightarrow> history \<Rightarrow> int option" where
  "gauge m es = (case List.map_filter (gauge_of m) es of [] \<Rightarrow> None | vs \<Rightarrow> Some (last vs))"

lemma gauge_simps [trace_simps, simp]:
  "gauge m [] = None"
  "gauge m (e # es) = (case gauge m es of None \<Rightarrow> gauge_of m e | Some v \<Rightarrow> Some v)"
  by (auto simp: gauge_def map_filter_def split: list.splits option.splits)

lemma gauge_append [trace_simps, simp]:
  "gauge m (xs @ ys) = (case gauge m ys of None \<Rightarrow> gauge m xs | Some v \<Rightarrow> Some v)"
  by (induction xs) (auto split: option.splits)

lemma publishes_simps [trace_simps, simp]:

  "publishes [] = []"
  "publishes (e # es) = (case publish_of e of Some p \<Rightarrow> p # publishes es | None \<Rightarrow> publishes es)"
  "publishes (xs @ ys) = publishes xs @ publishes ys"
  by (simp_all add: publishes_def map_filter_def split: option.split)

lemma settlements_simps [trace_simps, simp]:
  "settlements [] = []"
  "settlements (e # es) =
     (case settlement_of e of Some p \<Rightarrow> p # settlements es | None \<Rightarrow> settlements es)"
  "settlements (xs @ ys) = settlements xs @ settlements ys"
  by (simp_all add: settlements_def map_filter_def split: option.split)

lemma declared_simps [trace_simps, simp]:
  "declared [] = []"
  "declared (e # es) = (case declared_of e of Some p \<Rightarrow> p # declared es | None \<Rightarrow> declared es)"
  "declared (xs @ ys) = declared xs @ declared ys"
  by (simp_all add: declared_def map_filter_def split: option.split)

lemma bindings_simps [trace_simps, simp]:
  "bindings [] = []"
  "bindings (e # es) = (case binding_of e of Some p \<Rightarrow> p # bindings es | None \<Rightarrow> bindings es)"
  "bindings (xs @ ys) = bindings xs @ bindings ys"
  by (simp_all add: bindings_def map_filter_def split: option.split)

lemma consumed_simps [trace_simps, simp]:
  "consumed [] = []"
  "consumed (e # es) = (case consumed_of e of Some p \<Rightarrow> p # consumed es | None \<Rightarrow> consumed es)"
  "consumed (xs @ ys) = consumed xs @ consumed ys"
  by (simp_all add: consumed_def map_filter_def split: option.split)

lemma counter_simps [trace_simps, simp]:
  "counter m [] = 0"
  "counter m (e # es) = (if e = Metric (Inc m) then 1 else 0) + counter m es"
  "counter m (xs @ ys) = counter m xs + counter m ys"
  by (simp_all add: counter_def)

lemma labelled_simps [trace_simps, simp]:
  "labelled m l [] = 0"
  "labelled m l (e # es) = (if e = Metric (IncLabel m l) then 1 else 0) + labelled m l es"
  "labelled m l (xs @ ys) = labelled m l xs + labelled m l ys"
  by (simp_all add: labelled_def)

subsection \<open>What a computation adds to the trace\<close>

text \<open>
  \<open>appends P m\<close>: run from any state, \<open>m\<close> only appends to the trace, and its result and the
  events it appends satisfy \<open>P\<close>.
\<close>

definition appends :: "('b \<Rightarrow> history \<Rightarrow> bool) \<Rightarrow> ('a io_scheme, 'b) state \<Rightarrow> bool" where
  "appends P m =
     (\<forall>s. \<exists>es. trace (snd (run_state m s)) = trace s @ es \<and> P (fst (run_state m s)) es)"

lemma appendsI:
  assumes "\<And>s. \<exists>es. trace (snd (run_state m s)) = trace s @ es \<and> P (fst (run_state m s)) es"
  shows "appends P m"
  using assms by (simp add: appends_def)

lemma appendsE:
  assumes "appends P m"
  obtains es where "trace (snd (run_state m s)) = trace s @ es" and "P (fst (run_state m s)) es"
  using assms unfolding appends_def by blast

lemma appends_mono: "appends P m \<Longrightarrow> (\<And>r es. P r es \<Longrightarrow> Q r es) \<Longrightarrow> appends Q m"
  unfolding appends_def by blast

lemma appends_bind:
  assumes "appends P m" and "\<And>r. appends (Q r) (f r)"
    and "\<And>r es r' es'. P r es \<Longrightarrow> Q r r' es' \<Longrightarrow> R r' (es @ es')"
  shows "appends R (State_Monad.bind m f)"
proof (rule appendsI)
  fix s
  obtain es where es: "trace (snd (run_state m s)) = trace s @ es" "P (fst (run_state m s)) es"
    using assms(1) by (rule appendsE)
  obtain es' where es': "trace (snd (run_state (f (fst (run_state m s))) (snd (run_state m s)))) =
      trace (snd (run_state m s)) @ es'"
      "Q (fst (run_state m s)) (fst (run_state (f (fst (run_state m s))) (snd (run_state m s)))) es'"
    using assms(2) by (rule appendsE)
  show "\<exists>es. trace (snd (run_state (State_Monad.bind m f) s)) = trace s @ es \<and>
      R (fst (run_state (State_Monad.bind m f) s)) es"
    using es es' assms(3) [OF es(2) es'(2)] by (auto simp: split_beta)
qed

text \<open>The events a computation adds, for statements about one run.\<close>

definition added :: "('a io_scheme, 'b) state \<Rightarrow> 'a io_scheme \<Rightarrow> history" where
  "added m s = drop (length (trace s)) (trace (snd (run_state m s)))"

lemma added_eqI: "trace (snd (run_state m s)) = trace s @ es \<Longrightarrow> added m s = es"
  by (simp add: added_def)

lemma appends_added: "appends P m \<Longrightarrow> P (fst (run_state m s)) (added m s)"
  by (metis appendsE added_eqI)

text \<open>A loop whose body appends events that depend on the element alone.\<close>

lemma run_for_each:
  assumes "\<And>x s. run_state (f x) s = ((), s\<lparr>trace := trace s @ ev x\<rparr>)"
  shows "run_state (for_each f xs) s = ((), s\<lparr>trace := trace s @ concat (map ev xs)\<rparr>)"
  by (induction xs arbitrary: s) (simp_all add: assms)

subsection \<open>Evolutions that allow every event\<close>

locale event_evolution = evolution R
  for R :: "'a io_scheme \<Rightarrow> 'a io_scheme \<Rightarrow> bool" +
  assumes event: "R s (s\<lparr>trace := trace s @ [e]\<rparr>)"
begin

lemma keeps_calls:
  "keeps R (emit e)" "keeps R (perform ans e)" "keeps R (ask ask_ans)" "keeps R (amqp env c)"
  "keeps R (http env hc)" "keeps R (inc m)" "keeps R (inc_label m l)" "keeps R (observe m v)"
  "keeps R (sleep ns)" "keeps R (time_now env)"
  by (simp_all add: keeps_def event refl)

lemmas keeps_intros = keeps_return keeps_get keeps_bind keeps_for_each_ret keeps_or_return keeps_calls

end

text \<open>The state changes in its trace only.\<close>

definition only_traces :: "'a io_scheme \<Rightarrow> 'a io_scheme \<Rightarrow> bool" where
  "only_traces s s' = (\<exists>es. s' = s\<lparr>trace := trace s @ es\<rparr>)"

interpretation frame: event_evolution only_traces
proof
  show "only_traces s s" for s :: "'a io_scheme" unfolding only_traces_def by (rule exI [of _ "[]"]) simp
  show "only_traces s s''" if 1: "only_traces s s'" and 2: "only_traces s' s''" for s s' s'' :: "'a io_scheme"
  proof -
    obtain es where es: "s' = s\<lparr>trace := trace s @ es\<rparr>" using 1 by (auto simp: only_traces_def)
    moreover obtain es' where "s'' = s'\<lparr>trace := trace s' @ es'\<rparr>" using 2 by (auto simp: only_traces_def)
    ultimately have "s'' = s\<lparr>trace := trace s @ es @ es'\<rparr>" by simp
    then show ?thesis unfolding only_traces_def by blast
  qed
  show "only_traces s (s\<lparr>trace := trace s @ [e]\<rparr>)" for s :: "'a io_scheme" and e
    unfolding only_traces_def by blast
qed

text \<open>
  Time does not go back, and a sleep takes at least as long as asked. Under this hypothesis on the
  clock no computation ends before it began.
\<close>

definition clock_advances :: "env \<Rightarrow> bool" where
  "clock_advances env =
     (\<forall>h e. now env h + (case e of Sleep ns \<Rightarrow> max 0 ns | _ \<Rightarrow> 0) \<le> now env (h @ [e]))"

definition later :: "env \<Rightarrow> 'a io_scheme \<Rightarrow> 'a io_scheme \<Rightarrow> bool" where
  "later env s s' \<longleftrightarrow> (clock_advances env \<longrightarrow> now env (trace s) \<le> now env (trace s'))"

lemma clock_step:
  "clock_advances env \<Longrightarrow> now env h + (case e of Sleep ns \<Rightarrow> max 0 ns | _ \<Rightarrow> 0) \<le> now env (h @ [e])"
  by (simp add: clock_advances_def)

lemma now_event: "clock_advances env \<Longrightarrow> now env h \<le> now env (h @ [e])"
  using clock_step [of env h e] by (cases e) auto

lemma now_sleep: "clock_advances env \<Longrightarrow> 0 \<le> ns \<Longrightarrow> now env h + ns \<le> now env (h @ [Sleep ns])"
  using clock_step [of env h "Sleep ns"] by simp

interpretation clock: event_evolution "later env"
  by unfold_locales (auto simp: later_def now_event intro: order_trans)

end
