(* ===== verification/Interfaces.thy ===== *)
theory Interfaces
  imports World
begin

text \<open>
  The two interfaces of the messaging packages. A \<open>consumer\<close> is the body of a
  \<^verbatim>\<open>for d := range msgs\<close> loop: for each delivery it sends the reply the sender asked for and
  settles the delivery, in this order and once. A \<open>publisher\<close> hands one task to the broker with
  the caller's reply address and correlation id. The packages interpret them on their own code.
\<close>

subsection \<open>Idioms of the handlers\<close>

definition only_if :: "bool \<Rightarrow> ('s, unit) state \<Rightarrow> ('s, unit) state" where
  "only_if b m = (if b then m else State_Monad.return ())"

text \<open>
  The publication of a JSON feedback to the reply queue of a delivery, on the default exchange:
  \<^verbatim>\<open>body, _ := json.Marshal(payload); Ch.Publish("", d.ReplyTo, false, false, ...)\<close>.
\<close>

definition feedback_message :: "delivery \<Rightarrow> (string \<times> scalar) list \<Rightarrow> publishing" where
  "feedback_message d payload =
     publishing0\<lparr>ContentType := ''application/json'', Body := marshal_struct payload,
       CorrelationId := CorrelationId d\<rparr>"

definition publish_feedback ::
  "env \<Rightarrow> delivery \<Rightarrow> (string \<times> scalar) list \<Rightarrow> ('a io_scheme, string option) state" where
  "publish_feedback env d payload =
     amqp env (Publish '''' (ReplyTo d) False False (feedback_message d payload))"

text \<open>The same guarded by \<^verbatim>\<open>if d.ReplyTo != ""\<close>, its error dropped.\<close>

definition send_reply ::
  "env \<Rightarrow> delivery \<Rightarrow> (string \<times> scalar) list \<Rightarrow> ('a io_scheme, unit) state" where
  "send_reply env d payload =
     only_if (ReplyTo d \<noteq> '''') (do { _ \<leftarrow> publish_feedback env d payload; State_Monad.return () })"

lemma feedback_message_simps [simp]:
  "CorrelationId (feedback_message d p) = CorrelationId d"
  "Body (feedback_message d p) = marshal_struct p"
  "ContentType (feedback_message d p) = ''application/json''"
  by (simp_all add: feedback_message_def)

lemma run_only_if [run_simps, simp]:
  "run_state (only_if b m) s = (if b then run_state m s else ((), s))"
  by (simp add: only_if_def)

lemma run_publish_feedback [run_simps, simp]:
  "run_state (publish_feedback env d p) s =
     (amqp_err env (trace s) (Publish '''' (ReplyTo d) False False (feedback_message d p)),
      s\<lparr>trace := trace s @ [Amqp (Publish '''' (ReplyTo d) False False (feedback_message d p))]\<rparr>)"
  by (simp add: publish_feedback_def)

lemma run_send_reply [run_simps, simp]:
  "run_state (send_reply env d p) s =
     ((), s\<lparr>trace := trace s @
        (if ReplyTo d = '''' then []
         else [Amqp (Publish '''' (ReplyTo d) False False (feedback_message d p))])\<rparr>)"
  by (simp add: send_reply_def)

subsection \<open>Consumers\<close>


text \<open>Messages addressed to a queue by name (the default exchange), with their correlation id.\<close>

definition addressed :: "history \<Rightarrow> (string \<times> string) list" where
  "addressed es = [(k, CorrelationId p). (x, k, p) \<leftarrow> publishes es, x = '''']"

lemma addressed_simps [trace_simps, simp]:
  "addressed [] = []"
  "addressed (xs @ ys) = addressed xs @ addressed ys"
  "addressed (e # es) =
     (case publish_of e of Some (x, k, p) \<Rightarrow> if x = '''' then (k, CorrelationId p) # addressed es
                                             else addressed es
      | None \<Rightarrow> addressed es)"
  by (simp_all add: addressed_def split: option.split)

text \<open>The replies a delivery asks for: one to its reply queue, if it names one.\<close>

definition wanted :: "delivery \<Rightarrow> (string \<times> string) list" where
  "wanted d = (if ReplyTo d = '''' then [] else [(ReplyTo d, CorrelationId d)])"

text \<open>
  The events of serving one delivery. From the first settlement on: it is of this delivery and
  does not requeue it, and nothing is settled or published after it. The messages addressed to
  a queue are the replies wanted.
\<close>

definition settles :: "delivery \<Rightarrow> history \<Rightarrow> bool" where
  "settles d es =
     (case dropWhile (\<lambda>e. settlement_of e = None) es of
        [] \<Rightarrow> False
      | e # post \<Rightarrow>
          settlement_of e \<in> {Some (DeliveryTag d, Acked), Some (DeliveryTag d, Dropped)} \<and>
          settlements post = [] \<and> publishes post = [])"

definition serves :: "delivery \<Rightarrow> history \<Rightarrow> bool" where
  "serves d es \<longleftrightarrow> settles d es \<and> addressed es = wanted d"

lemma settlements_takeWhile [simp]: "settlements (takeWhile (\<lambda>e. settlement_of e = None) es) = []"
  by (induction es) simp_all

lemma settlements_dropWhile:
  "settlements es = settlements (dropWhile (\<lambda>e. settlement_of e = None) es)"
  by (induction es) simp_all

lemma serves_settlements:
  assumes "serves d es"
  shows "map fst (settlements es) = [DeliveryTag d]"
    and "\<forall>r \<in> set (settlements es). snd r \<noteq> Requeued"
  using assms settlements_dropWhile [of es]
  by (auto simp: serves_def settles_def split: list.splits)

lemma serves_addressed: "serves d es \<Longrightarrow> addressed es = wanted d"
  by (simp add: serves_def)

locale consumer =
  fixes handle :: "delivery \<Rightarrow> ('a io_scheme, unit) state"
  assumes serves: "appends (\<lambda>_. serves d) (handle d)"
begin

lemma loop_serves:
  "appends (\<lambda>_ es. map fst (settlements es) = map DeliveryTag ds \<and>
       (\<forall>r \<in> set (settlements es). snd r \<noteq> Requeued) \<and>
       addressed es = concat (map wanted ds)) (for_each handle ds)"
proof (induction ds)
  case Nil
  show ?case by (rule appendsI) simp
next
  case (Cons d ds)
  show ?case
    unfolding for_each.simps
    by (rule appends_bind [OF serves Cons])
       (auto simp: serves_settlements(1) serves_addressed dest: serves_settlements(2))
qed

lemma loop_settles_each_once:
  "map fst (settlements (added (for_each handle ds) s)) = map DeliveryTag ds"
  using appends_added [OF loop_serves] by blast

lemma loop_replies: "addressed (added (for_each handle ds) s) = concat (map wanted ds)"
  using appends_added [OF loop_serves] by blast

end

text \<open>A consumer that always acknowledges: none of its deliveries goes to a dead-letter exchange.\<close>

locale acking_consumer = consumer +
  assumes acks: "appends (\<lambda>_ es. set (map snd (settlements es)) \<subseteq> {Acked}) (handle d)"
begin

lemma loop_acks:
  "appends (\<lambda>_ es. set (map snd (settlements es)) \<subseteq> {Acked}) (for_each handle ds)"
proof (induction ds)
  case Nil
  show ?case by (rule appendsI) simp
next
  case (Cons d ds)
  show ?case
    unfolding for_each.simps by (rule appends_bind [OF acks Cons]) auto
qed

lemma loop_settlements:
  "settlements (added (for_each handle ds) s) = map (\<lambda>d. (DeliveryTag d, Acked)) ds"
proof -
  let ?es = "added (for_each handle ds) s"
  have "settlements ?es = map (\<lambda>(t, r). (t, Acked)) (settlements ?es)"
    using appends_added [OF loop_acks, of ds s] by (intro map_idI [symmetric]) auto
  also have "\<dots> = map (\<lambda>t. (t, Acked)) (map fst (settlements ?es))"
    by (simp add: comp_def split_beta)
  also have "\<dots> = map (\<lambda>d. (DeliveryTag d, Acked)) ds"
    by (simp add: loop_settles_each_once comp_def)
  finally show ?thesis .
qed

end

subsection \<open>Publishers\<close>

text \<open>The events of publishing a task: nothing but one message that carries it.\<close>

definition carries :: "string \<Rightarrow> string \<Rightarrow> string \<Rightarrow> string \<times> string \<times> publishing \<Rightarrow> bool" where
  "carries task replyTo corrID m =
     (case m of (x, k, p) \<Rightarrow> Body p = task \<and> ReplyTo p = replyTo \<and> CorrelationId p = corrID)"

definition sends :: "string \<Rightarrow> string \<Rightarrow> string \<Rightarrow> bool \<Rightarrow> history \<Rightarrow> bool" where
  "sends task replyTo corrID success es =
     (settlements es = [] \<and> consumed es = [] \<and>
      (case publishes es of
         [] \<Rightarrow> \<not> success
       | [m] \<Rightarrow> carries task replyTo corrID m
       | _ \<Rightarrow> False))"

lemma sends_success: "sends task replyTo corrID True es \<Longrightarrow> \<exists>m. publishes es = [m] \<and> carries task replyTo corrID m"
  by (auto simp: sends_def split: list.splits)

lemma sends_at_most_one: "sends task replyTo corrID b es \<Longrightarrow> length (publishes es) \<le> 1"
  by (auto simp: sends_def split: list.splits)

locale publisher =
  fixes publish :: "string \<Rightarrow> string \<Rightarrow> string \<Rightarrow> ('a io_scheme, 'r) state"
    and ok :: "'r \<Rightarrow> bool"
  assumes sends: "appends (\<lambda>r. sends task replyTo corrID (ok r)) (publish task replyTo corrID)"
begin

lemma success_one_message:
  assumes "ok (fst (run_state (publish task replyTo corrID) s))"
  shows "\<exists>m. publishes (added (publish task replyTo corrID) s) = [m] \<and> carries task replyTo corrID m"
proof -
  have "sends task replyTo corrID True (added (publish task replyTo corrID) s)"
    using appends_added [OF sends, of task replyTo corrID s] assms by simp
  then show ?thesis by (rule sends_success)
qed

lemma at_most_one_message: "length (publishes (added (publish task replyTo corrID) s)) \<le> 1"
  using appends_added [OF sends, of task replyTo corrID s] by (rule sends_at_most_one)

end

text \<open>A publisher that also keeps the counter of published messages.\<close>

locale counting_publisher = publisher +
  assumes counts: "appends (\<lambda>r es. counter MsgsPublished es = (if ok r then 1 else 0))
    (publish task replyTo corrID)"
begin

lemma counted_iff_ok:
  "counter MsgsPublished (added (publish task replyTo corrID) s) =
    (if ok (fst (run_state (publish task replyTo corrID) s)) then 1 else 0)"
  using appends_added [OF counts] by blast

end

end
