(* ===== verification/Direct_Exchange.thy ===== *)
theory Direct_Exchange
  imports Interfaces
begin

text \<open>
  \<^verbatim>\<open>direct_exchange/\<close>: publishing a task to the exchange \<^verbatim>\<open>direct_logs\<close>, and the consumer bound
  to one routing key. Logging is left out, here and in the other packages.
\<close>

definition PublishDirect ::
  "env \<Rightarrow> string \<Rightarrow> string \<Rightarrow> string \<Rightarrow> string \<Rightarrow> ('a io_scheme, string option) state" where
  "PublishDirect env task routingKey replyTo corrID = do {
     err \<leftarrow> amqp env (ExchangeDeclare ''direct_logs'' ''direct'' True False False False []);
     or_return err (do {
       err \<leftarrow> amqp env (Publish ''direct_logs'' routingKey True False
         (publishing0\<lparr>ContentType := ''text/plain'', Body := task, ReplyTo := replyTo,
            CorrelationId := corrID\<rparr>));
       or_return err (State_Monad.return None) }) }"

text \<open>The set-up of the consumer; it returns the queue it consumes.\<close>

definition StartDirectConsumer :: "env \<Rightarrow> string \<Rightarrow> ('a io_scheme, string outcome) state" where
  "StartDirectConsumer env routingKey = do {
     err \<leftarrow> amqp env (ExchangeDeclare ''direct_logs'' ''direct'' True False False False []);
     or_fatal err ''Consumer exchange declare error'' (do {
       (err, q) \<leftarrow> queue_declare env '''' False True True False [];
       or_fatal err ''Queue declare error'' (do {
         err \<leftarrow> amqp env (QueueBind q routingKey ''direct_logs'' False []);
         or_fatal err ''Queue bind error'' (do {
           err \<leftarrow> amqp env (Consume q '''' False False False False []);
           or_fatal err ''Consume error'' (State_Monad.return (Ret q)) }) }) }) }"

text \<open>The body of its loop over deliveries.\<close>

definition direct_handle :: "env \<Rightarrow> delivery \<Rightarrow> ('a io_scheme, unit) state" where
  "direct_handle env d = do {
     startTs \<leftarrow> time_now env;
     send_reply env d [(''status'', SString ''success'')];
     err \<leftarrow> amqp env (Ack (DeliveryTag d) False);
     (case err of
        Some e \<Rightarrow> State_Monad.return ()
      | None \<Rightarrow> do {
          inc MsgsAcked;
          inc_label WorkerThroughput ''direct'';
          observe_latency env startTs }) }"

interpretation direct_pub: publisher "\<lambda>task. PublishDirect env task key" "\<lambda>r. r = None"
  by unfold_locales (rule appendsI, auto simp: PublishDirect_def sends_def carries_def split: option.splits)

interpretation direct: acking_consumer "direct_handle env"
  by unfold_locales
    (rule appendsI, auto simp: direct_handle_def serves_def settles_def wanted_def split: option.splits)+

end
