(* ===== verification/Topic_Exchange.thy ===== *)
theory Topic_Exchange
  imports Interfaces
begin

text \<open>
  \<^verbatim>\<open>topic_exchange/\<close>: publishing a task to the exchange \<^verbatim>\<open>topic_exchange_suyash\<close>, and the consumer
  bound to one pattern.
\<close>

definition PublishTopic ::
  "env \<Rightarrow> string \<Rightarrow> string \<Rightarrow> string \<Rightarrow> string \<Rightarrow> ('a io_scheme, string option) state" where
  "PublishTopic env task routingKey replyTo corrID = do {
     err \<leftarrow> amqp env (ExchangeDeclare ''topic_exchange_suyash'' ''topic'' True False False False []);
     or_return err (do {
       err \<leftarrow> amqp env (Publish ''topic_exchange_suyash'' routingKey True False
         (publishing0\<lparr>ContentType := ''text/plain'', Body := task, ReplyTo := replyTo,
            CorrelationId := corrID\<rparr>));
       or_return err (State_Monad.return None) }) }"

definition StartTopicConsumer :: "env \<Rightarrow> string \<Rightarrow> ('a io_scheme, string outcome) state" where
  "StartTopicConsumer env bindingKey = do {
     err \<leftarrow> amqp env (ExchangeDeclare ''topic_exchange_suyash'' ''topic'' True False False False []);
     or_fatal err ''Topic Exchange declare error'' (do {
       (err, q) \<leftarrow> queue_declare env '''' False True True False [];
       or_fatal err ''Topic Consumer: queue declare error'' (do {
         err \<leftarrow> amqp env (QueueBind q bindingKey ''topic_exchange_suyash'' False []);
         or_fatal err ''Topic Consumer: queue bind error'' (do {
           err \<leftarrow> amqp env (Consume q '''' False False False False []);
           or_fatal err ''Topic Consumer: consume error'' (State_Monad.return (Ret q)) }) }) }) }"

definition topic_handle :: "env \<Rightarrow> string \<Rightarrow> delivery \<Rightarrow> ('a io_scheme, unit) state" where
  "topic_handle env bindingKey d = do {
     startTs \<leftarrow> time_now env;
     send_reply env d [(''status'', SString ''success'')];
     err \<leftarrow> amqp env (Ack (DeliveryTag d) False);
     (case err of
        Some e \<Rightarrow> State_Monad.return ()
      | None \<Rightarrow> do {
          inc MsgsAcked;
          inc_label WorkerThroughput bindingKey;
          observe_latency env startTs }) }"

interpretation topic_pub: publisher "\<lambda>task. PublishTopic env task key" "\<lambda>r. r = None"
  by unfold_locales (rule appendsI, auto simp: PublishTopic_def sends_def carries_def split: option.splits)

interpretation topic: acking_consumer "topic_handle env bindingKey"
  by unfold_locales
    (rule appendsI, auto simp: topic_handle_def serves_def settles_def wanted_def split: option.splits)+

end
