(* ===== verification/Headers_Exchange.thy ===== *)
theory Headers_Exchange
  imports Interfaces "HOL-Library.AList"
begin

text \<open>
  \<^verbatim>\<open>headers_exchange/\<close>: publishing a task with headers given as a JSON text, and the consumer bound
  to the header \<^verbatim>\<open>env = prod\<close>. The publisher can panic: a JSON \<^verbatim>\<open>null\<close> leaves the map nil.
\<close>

subsection \<open>Decoding into \<^verbatim>\<open>map[string]interface{}\<close>\<close>

text \<open>Assigning the members one by one: a repeated key keeps its last value.\<close>

definition assign_all :: "(string \<times> field) list \<Rightarrow> table" where
  "assign_all ms = foldl (\<lambda>m kv. AList.update (fst kv) (snd kv) m) [] ms"

text \<open>The dynamic value of a JSON value; a number whose conversion fails leaves nil.\<close>

primrec interface_of :: "(string \<Rightarrow> uint64 option) \<Rightarrow> json \<Rightarrow> field" where
  "interface_of pf JNull = FNil"
| "interface_of pf (JBool b) = FBool b"
| "interface_of pf (JNumber l) = (case pf l of Some x \<Rightarrow> FFloat64 x | None \<Rightarrow> FNil)"
| "interface_of pf (JString s) = FString s"
| "interface_of pf (JArray vs) = FArray (map (interface_of pf) vs)"
| "interface_of pf (JObject ms) = FMap (assign_all (map (map_prod id (interface_of pf)) ms))"

text \<open>Whether some number is out of the range of float64, which Unmarshal reports.\<close>

primrec bad_number :: "(string \<Rightarrow> uint64 option) \<Rightarrow> json \<Rightarrow> bool" where
  "bad_number pf JNull = False"
| "bad_number pf (JBool b) = False"
| "bad_number pf (JNumber l) = (pf l = None)"
| "bad_number pf (JString s) = False"
| "bad_number pf (JArray vs) = list_ex id (map (bad_number pf) vs)"
| "bad_number pf (JObject ms) = list_ex snd (map (map_prod id (bad_number pf)) ms)"

text \<open>The error, and the map: \<open>None\<close> is the nil map.\<close>

definition unmarshal_map ::
  "env \<Rightarrow> string \<Rightarrow> string option \<times> table option" where
  "unmarshal_map env cs =
     (case json_parse cs of
        None \<Rightarrow> (Some (json_error env cs), None)
      | Some JNull \<Rightarrow> (None, None)
      | Some (JObject ms) \<Rightarrow>
          (if bad_number (parse_float env) (JObject ms) then Some (json_error env cs) else None,
           Some (assign_all (map (map_prod id (interface_of (parse_float env))) ms)))
      | Some _ \<Rightarrow> (Some (json_error env cs), None))"

subsection \<open>The producer\<close>

definition PublishHeaders ::
  "env \<Rightarrow> string \<Rightarrow> string \<Rightarrow> string \<Rightarrow> string \<Rightarrow> ('a io_scheme, string option outcome) state" where
  "PublishHeaders env task headersJSON replyTo corrID =
     (case unmarshal_map env headersJSON of
        (Some err, _) \<Rightarrow> State_Monad.return (Ret (Some err))
      | (None, None) \<Rightarrow> State_Monad.return (Panic ''assignment to entry in nil map'')
      | (None, Some headers) \<Rightarrow>
          let headers = (if map_of headers ''x-match'' = None
                         then AList.update ''x-match'' (FString ''all'') headers else headers)
          in do {
            err \<leftarrow> amqp env (ExchangeDeclare ''headers_logs'' ''headers'' True False False False []);
            (case err of Some e \<Rightarrow> State_Monad.return (Ret (Some e))
             | None \<Rightarrow> do {
                 err \<leftarrow> amqp env (Publish ''headers_logs'' '''' True False
                   (publishing0\<lparr>Headers := headers, ContentType := ''text/plain'', Body := task,
                      ReplyTo := replyTo, CorrelationId := corrID\<rparr>));
                 State_Monad.return (Ret err) }) })"

subsection \<open>The consumer\<close>

definition bindingHeaders :: table where
  "bindingHeaders = [(''x-match'', FString ''any''), (''env'', FString ''prod'')]"

definition StartHeadersConsumer :: "env \<Rightarrow> ('a io_scheme, string outcome) state" where
  "StartHeadersConsumer env = do {
     err \<leftarrow> amqp env (ExchangeDeclare ''headers_logs'' ''headers'' True False False False []);
     or_fatal err ''Headers exchange declare error'' (do {
       (err, q) \<leftarrow> queue_declare env '''' False True True False [];
       or_fatal err ''Headers queue declare error'' (do {
         err \<leftarrow> amqp env (QueueBind q '''' ''headers_logs'' False bindingHeaders);
         or_fatal err ''Headers queue bind error'' (do {
           err \<leftarrow> amqp env (Consume q '''' False False False False []);
           or_fatal err ''Headers consume error'' (State_Monad.return (Ret q)) }) }) }) }"

definition headers_handle :: "env \<Rightarrow> delivery \<Rightarrow> ('a io_scheme, unit) state" where
  "headers_handle env d = do {
     startTs \<leftarrow> time_now env;
     send_reply env d [(''status'', SString ''success'')];
     err \<leftarrow> amqp env (Ack (DeliveryTag d) False);
     (case err of
        Some e \<Rightarrow> State_Monad.return ()
      | None \<Rightarrow> do {
          inc MsgsAcked;
          inc_label WorkerThroughput ''headers'';
          observe_latency env startTs }) }"

interpretation headers_pub: publisher "\<lambda>task. PublishHeaders env task json" "\<lambda>r. r = Ret None"
  by unfold_locales
    (rule appendsI, auto simp: PublishHeaders_def sends_def carries_def Let_def
      split: option.splits prod.splits)

interpretation headers: acking_consumer "headers_handle env"
  by unfold_locales
    (rule appendsI, auto simp: headers_handle_def serves_def settles_def wanted_def split: option.splits)+

lemma unmarshal_map_nil: "unmarshal_map env cs = (None, None) \<longleftrightarrow> json_parse cs = Some JNull"
  by (auto simp: unmarshal_map_def split: option.splits json.splits)

lemma PublishHeaders_panics:
  "(\<exists>msg. fst (run_state (PublishHeaders env task headersJSON replyTo corrID) s) = Panic msg) \<longleftrightarrow>
     json_parse headersJSON = Some JNull"
  by (auto simp: PublishHeaders_def Let_def unmarshal_map_nil [of env, symmetric]
      split: option.splits prod.splits)

subsection \<open>The type of the headers\<close>

text \<open>
  The dynamic types JSON can decode to: no integer types, no key twice in an object.
\<close>

primrec decoded :: "field \<Rightarrow> bool" where
  "decoded FNil = True"
| "decoded (FBool b) = True"
| "decoded (FInt32 i) = False"
| "decoded (FInt64 i) = False"
| "decoded (FFloat64 x) = True"
| "decoded (FString s) = True"
| "decoded (FArray fs) = list_all id (map decoded fs)"
| "decoded (FMap kvs) = (distinct (map fst kvs) \<and> list_all snd (map (map_prod id decoded) kvs))"

definition decoded_table :: "table \<Rightarrow> bool" where
  "decoded_table kvs = (distinct (map fst kvs) \<and> (\<forall>v \<in> snd ` set kvs. decoded v))"

lemma decoded_FMap: "decoded (FMap kvs) = decoded_table kvs"
  by (auto simp: decoded_table_def list_all_iff)

lemma set_update_subset: "set (AList.update k v kvs) \<subseteq> insert (k, v) (set kvs)"
  by (induction kvs) auto

lemma decoded_update: "decoded v \<Longrightarrow> decoded_table kvs \<Longrightarrow> decoded_table (AList.update k v kvs)"
  using set_update_subset [of k v kvs] by (auto simp: decoded_table_def distinct_update)

lemma decoded_assign_all:
  assumes "\<forall>kv \<in> set ms. decoded (snd kv)"
  shows "decoded_table (assign_all ms)"
proof -
  have "decoded_table acc \<Longrightarrow> decoded_table (foldl (\<lambda>m kv. AList.update (fst kv) (snd kv) m) acc ms)" for acc
    using assms by (induction ms arbitrary: acc) (simp_all add: decoded_update)
  from this [of "[]"] show ?thesis by (simp add: assign_all_def) (simp add: decoded_table_def)
qed

lemma decoded_interface_of: "decoded (interface_of pf v)"
proof (induction v)
  case (JArray vs)
  then show ?case by (simp add: list_all_iff)
next
  case (JObject ms)
  have "decoded_table (assign_all (map (map_prod id (interface_of pf)) ms))"
    using JObject by (intro decoded_assign_all) (auto simp: prod_set_defs)
  then show ?case by (simp only: interface_of.simps decoded_FMap)
qed (simp_all split: option.split)

lemma unmarshal_map_decoded:
  "unmarshal_map env cs = (None, Some headers) \<Longrightarrow> decoded_table headers"
  by (auto simp: unmarshal_map_def decoded_interface_of split: option.splits json.splits if_splits
      intro!: decoded_assign_all)

text \<open>
  C32: Every message of the headers producer has well-typed headers: no name occurs twice, each value is of a
  type that JSON decodes to (no integer types, at any depth), and the match mode is always given.
\<close>
theorem published_headers_well_typed:
  "list_all (\<lambda>(x, k, p). decoded_table (Headers p) \<and> map_of (Headers p) ''x-match'' \<noteq> None)
     (publishes (added (PublishHeaders env task headersJSON replyTo corrID) s))"
proof (cases "unmarshal_map env headersJSON")
  case (Pair err headers)
  show ?thesis
  proof (cases "err = None \<and> headers \<noteq> None")
    case True
    with Pair obtain hs where hs: "unmarshal_map env headersJSON = (None, Some hs)" by auto
    from unmarshal_map_decoded [OF this] show ?thesis
      by (auto simp: PublishHeaders_def hs Let_def added_def decoded_update update_conv split: option.split)
  next
    case False
    with Pair show ?thesis by (auto simp: PublishHeaders_def added_def split: option.split)
  qed
qed

end
