(* ===== verification/Pubsub.thy ===== *)
theory Pubsub
  imports Interfaces
begin

text \<open>
  \<^verbatim>\<open>pubsub/\<close>: broadcasting a task through the fanout exchange \<^verbatim>\<open>logs\<close>, and its subscriber. Unlike
  the other publishers, \<^verbatim>\<open>PublishFanout\<close> counts the message itself.
\<close>

definition PublishFanout ::
  "env \<Rightarrow> string \<Rightarrow> string \<Rightarrow> string \<Rightarrow> ('a io_scheme, string option) state" where
  "PublishFanout env task replyTo corrID = do {
     err \<leftarrow> amqp env (ExchangeDeclare ''logs'' ''fanout'' True False False False []);
     or_return err (do {
       err \<leftarrow> amqp env (Publish ''logs'' '''' True False
         (publishing0\<lparr>ContentType := ''text/plain'', Body := task, ReplyTo := replyTo,
            CorrelationId := corrID\<rparr>));
       or_return err (do {
         inc MsgsPublished;
         State_Monad.return None }) }) }"

definition StartFanoutConsumer :: "env \<Rightarrow> ('a io_scheme, string outcome) state" where
  "StartFanoutConsumer env = do {
     err \<leftarrow> amqp env (ExchangeDeclare ''logs'' ''fanout'' True False False False []);
     or_fatal err ''PubSub Consumer: exchange declare error'' (do {
       (err, q) \<leftarrow> queue_declare env '''' False True True False [];
       or_fatal err ''PubSub Consumer: queue declare error'' (do {
         err \<leftarrow> amqp env (QueueBind q '''' ''logs'' False []);
         or_fatal err ''PubSub Consumer: queue bind error'' (do {
           err \<leftarrow> amqp env (Consume q '''' False False False False []);
           or_fatal err ''PubSub Consumer: consume error'' (State_Monad.return (Ret q)) }) }) }) }"

text \<open>The label is \<^verbatim>\<open>direct\<close>, as in the direct consumer.\<close>

definition fanout_handle :: "env \<Rightarrow> delivery \<Rightarrow> ('a io_scheme, unit) state" where
  "fanout_handle env d = do {
     startTs \<leftarrow> time_now env;
     send_reply env d [(''status'', SString ''success'')];
     err \<leftarrow> amqp env (Ack (DeliveryTag d) False);
     (case err of
        Some e \<Rightarrow> State_Monad.return ()
      | None \<Rightarrow> do {
          inc MsgsAcked;
          inc_label WorkerThroughput ''direct'';
          observe_latency env startTs }) }"

interpretation fanout_pub: counting_publisher "PublishFanout env" "\<lambda>r. r = None"
  by unfold_locales
    (rule appendsI, auto simp: PublishFanout_def sends_def carries_def split: option.splits)+

interpretation fanout: acking_consumer "fanout_handle env"
  by unfold_locales
    (rule appendsI, auto simp: fanout_handle_def serves_def settles_def wanted_def split: option.splits)+

end
