(* ===== verification/Work_Queue.thy ===== *)
theory Work_Queue
  imports Interfaces
begin

text \<open>
  \<^verbatim>\<open>work_queue_model/\<close>: the shard workers with their counters, the auto-scaler, and the older
  resilient-queue producer and consumer. The counters are Go's atomic int32 and int64, kept at
  their width. Opening the auto-scaler's log file and writing to it is left out.
\<close>

record worker_vars = io +
  WorkerCount :: int32
  AckCount :: int64

definition shardRing :: "string list" where
  "shardRing = [''task_shard_0'', ''task_shard_1'', ''task_shard_2'', ''task_shard_3'']"

definition quorum_args :: table where
  "quorum_args =
     [(''x-queue-type'', FString ''quorum''),
      (''x-dead-letter-exchange'', FString ''dlx_exchange''),
      (''x-dead-letter-routing-key'', FString ''dead_task'')]"

text \<open>\<^verbatim>\<open>atomic.AddInt32(&WorkerCount, n)\<close>, which returns the new value, and the gauge set from it.\<close>

definition add_worker_count :: "int32 \<Rightarrow> ('a worker_vars_scheme, unit) state" where
  "add_worker_count n = do {
     State_Monad.update (\<lambda>s. s\<lparr>WorkerCount := WorkerCount s + n\<rparr>);
     s \<leftarrow> State_Monad.get;
     set_gauge LiveWorkers (sint (WorkerCount s)) }"

definition add_ack_count :: "('a worker_vars_scheme, unit) state" where
  "add_ack_count = State_Monad.update (\<lambda>s. s\<lparr>AckCount := AckCount s + 1\<rparr>)"

lemma run_counters [run_simps, simp]:
  "run_state (add_worker_count n) s =
     ((), s\<lparr>WorkerCount := WorkerCount s + n,
            trace := trace s @ [Metric (SetGauge LiveWorkers (sint (WorkerCount s + n)))]\<rparr>)"
  "run_state add_ack_count s = ((), s\<lparr>AckCount := AckCount s + 1\<rparr>)"
  by (simp_all add: add_worker_count_def add_ack_count_def State_Monad.update_def)

subsection \<open>The shard worker\<close>

definition StartTaskQueueWorker ::
  "env \<Rightarrow> string \<Rightarrow> string \<Rightarrow> ('a worker_vars_scheme, unit outcome) state" where
  "StartTaskQueueWorker env queueName workerId = do {
     add_worker_count 1;
     (err, _) \<leftarrow> queue_declare env queueName True False False False quorum_args;
     or_fatal err ''TaskQueueWorker: QueueDeclare failed'' (do {
       err \<leftarrow> amqp env (Qos 1 0 False);
       or_fatal err ''TaskQueueWorker: Qos failed'' (do {
         err \<leftarrow> amqp env (Consume queueName '''' False False False False []);
         or_fatal err ''TaskQueueWorker: Consume failed'' (State_Monad.return (Ret ())) }) }) }"

definition task_handle :: "env \<Rightarrow> string \<Rightarrow> delivery \<Rightarrow> ('a worker_vars_scheme, unit) state" where
  "task_handle env workerId d = do {
     startTs \<leftarrow> time_now env;
     sleep (100 * Millisecond);
     only_if (ReplyTo d \<noteq> '''') (do {
       err \<leftarrow> publish_feedback env d [(''status'', SString ''success''), (''worker'', SString workerId)];
       only_if (err = None) (inc MsgsPublished) });
     err \<leftarrow> amqp env (Ack (DeliveryTag d) False);
     (case err of
        Some e \<Rightarrow> State_Monad.return ()
      | None \<Rightarrow> do {
          inc MsgsAcked;
          inc_label WorkerThroughput workerId;
          observe_latency env startTs;
          add_ack_count }) }"

text \<open>The goroutine: the deliveries until the channel closes, then the worker counts itself out.\<close>

definition task_worker :: "env \<Rightarrow> string \<Rightarrow> delivery list \<Rightarrow> ('a worker_vars_scheme, unit) state" where
  "task_worker env workerId ds = do {
     for_each (task_handle env workerId) ds;
     add_worker_count (- 1) }"

subsection \<open>The auto-scaler\<close>

text \<open>\<^verbatim>\<open>for i := 0; i < burst; i++\<close>, each worker with its own time stamp in its name.\<close>

fun spawn_workers :: "env \<Rightarrow> string \<Rightarrow> nat \<Rightarrow> ('a worker_vars_scheme, unit outcome) state" where
  "spawn_workers env queueName 0 = State_Monad.return (Ret ())"
| "spawn_workers env queueName (Suc n) = do {
     t \<leftarrow> time_now env;
     r \<leftarrow> StartTaskQueueWorker env queueName (queueName @ ''-auto-'' @ dec_int t);
     (case r of Ret _ \<Rightarrow> spawn_workers env queueName n | _ \<Rightarrow> State_Monad.return r) }"

definition scale_queue ::
  "env \<Rightarrow> int \<Rightarrow> nat \<Rightarrow> string \<Rightarrow> ('a worker_vars_scheme, unit outcome) state" where
  "scale_queue env threshold burst queueName = do {
     (err, depth) \<leftarrow> queue_inspect env queueName;
     (case err of
        Some e \<Rightarrow> State_Monad.return (Ret ())
      | None \<Rightarrow> if threshold < depth then spawn_workers env queueName burst
                else State_Monad.return (Ret ())) }"

definition scaler_tick ::
  "env \<Rightarrow> int \<Rightarrow> int \<Rightarrow> nat \<Rightarrow> ('a worker_vars_scheme, unit outcome) state" where
  "scaler_tick env interval threshold burst = do {
     sleep interval;
     for_each_ret (scale_queue env threshold burst) shardRing }"

text \<open>The first \<open>n\<close> turns of its endless loop.\<close>

fun autoscaler ::
  "env \<Rightarrow> int \<Rightarrow> int \<Rightarrow> nat \<Rightarrow> nat \<Rightarrow> ('a worker_vars_scheme, unit outcome) state" where
  "autoscaler env interval threshold burst 0 = State_Monad.return (Ret ())"
| "autoscaler env interval threshold burst (Suc n) = do {
     r \<leftarrow> scaler_tick env interval threshold burst;
     (case r of Ret _ \<Rightarrow> autoscaler env interval threshold burst n
      | _ \<Rightarrow> State_Monad.return r) }"

subsection \<open>The resilient queue of the older design\<close>

text \<open>\<^verbatim>\<open>work_queue_model/producer.go\<close>\<close>

definition PublishToResilientQueue :: "env \<Rightarrow> string \<Rightarrow> ('a io_scheme, string option) state" where
  "PublishToResilientQueue env task = do {
     (err, _) \<leftarrow> queue_declare env ''resilient_queue'' True False False False
       [(''x-dead-letter-exchange'', FString ''dlx_exchange''),
        (''x-dead-letter-routing-key'', FString ''dead_task''),
        (''x-queue-type'', FString ''quorum'')];
     or_return err (amqp env (Publish '''' ''resilient_queue'' False False
       (publishing0\<lparr>ContentType := ''text/plain'', Body := task\<rparr>))) }"

text \<open>It acknowledges automatically and only logs what it receives.\<close>

definition StartResilientConsumer :: "env \<Rightarrow> ('a io_scheme, unit outcome) state" where
  "StartResilientConsumer env = do {
     (err, _) \<leftarrow> queue_declare env ''resilient_queue'' True False False False quorum_args;
     or_fatal err ''ResilientConsumer: queue declare failed'' (do {
       err \<leftarrow> amqp env (Consume ''resilient_queue'' '''' True False False False []);
       or_fatal err ''ResilientConsumer: consume failed'' (State_Monad.return (Ret ())) }) }"

subsection \<open>Serving and counting\<close>

interpretation task: acking_consumer "task_handle env workerId"
  by unfold_locales
    (rule appendsI, auto simp: task_handle_def serves_def settles_def wanted_def split: option.splits)+

text \<open>The counter of acknowledgements and the metric go together.\<close>

lemma task_handle_AckCount:
  "\<exists>es. trace (snd (run_state (task_handle env workerId d) s)) = trace s @ es \<and>
     AckCount (snd (run_state (task_handle env workerId d) s)) =
       AckCount s + of_nat (counter MsgsAcked es) \<and>
     counter MsgsAcked es = labelled WorkerThroughput workerId es"
  by (auto simp: task_handle_def split: option.splits)

lemma tasks_AckCount:
  "\<exists>es. trace (snd (run_state (for_each (task_handle env workerId) ds) s)) = trace s @ es \<and>
     AckCount (snd (run_state (for_each (task_handle env workerId) ds) s)) =
       AckCount s + of_nat (counter MsgsAcked es) \<and>
     counter MsgsAcked es = labelled WorkerThroughput workerId es"
proof (induction ds arbitrary: s)
  case Nil
  show ?case by simp
next
  case (Cons d ds)
  obtain es where es: "trace (snd (run_state (task_handle env workerId d) s)) = trace s @ es"
    "AckCount (snd (run_state (task_handle env workerId d) s)) = AckCount s + of_nat (counter MsgsAcked es)"
    "counter MsgsAcked es = labelled WorkerThroughput workerId es"
    using task_handle_AckCount by blast
  with Cons [of "snd (run_state (task_handle env workerId d) s)"] show ?case
    by (auto simp: split_beta)
qed

subsection \<open>Scaling\<close>

text \<open>
  What starting workers does to the state: one unit of the count per queue declaration, the
  gauge set to the final count when there was one, no message touched.
\<close>

definition grows :: "'a worker_vars_scheme \<Rightarrow> history \<Rightarrow> 'a worker_vars_scheme \<Rightarrow> bool" where
  "grows s es s' \<longleftrightarrow>
     trace s' = trace s @ es \<and>
     WorkerCount s' = WorkerCount s + of_nat (length (declared es)) \<and>
     AckCount s' = AckCount s \<and> publishes es = [] \<and> settlements es = [] \<and>
     gauge LiveWorkers es = (if declared es = [] then None else Some (sint (WorkerCount s')))"

text \<open>A computation that starts at most \<open>k\<close> workers, and exactly \<open>k\<close> where \<open>must\<close> holds.\<close>

definition starts :: "nat \<Rightarrow> bool \<Rightarrow> ('a worker_vars_scheme, unit outcome) state \<Rightarrow> bool" where
  "starts k must m \<longleftrightarrow>
     (\<forall>s. \<exists>es. grows s es (snd (run_state m s)) \<and> length (declared es) \<le> k \<and>
        (must \<longrightarrow> fst (run_state m s) = Ret () \<and> length (declared es) = k))"

lemma starts_return: "starts 0 True (State_Monad.return (Ret ()))"
  by (auto simp: starts_def grows_def intro: exI [of _ "[]"])

lemma starts_mono: "starts k must m \<Longrightarrow> k \<le> k' \<Longrightarrow> starts k' False m"
  unfolding starts_def by (meson le_trans)

lemma grows_trans: "grows s es s' \<Longrightarrow> grows s' es' s'' \<Longrightarrow> grows s (es @ es') s''"
  by (auto simp: grows_def)

lemma starts_seq:
  assumes "starts k must m" and "starts k' must m'"
  shows "starts (k + k') must
    (do { r \<leftarrow> m; (case r of Ret _ \<Rightarrow> m' | _ \<Rightarrow> State_Monad.return r) })"
  unfolding starts_def
proof
  fix s
  let ?s = "snd (run_state m s)"
  obtain es where es: "grows s es ?s" "length (declared es) \<le> k"
    "must \<longrightarrow> fst (run_state m s) = Ret () \<and> length (declared es) = k"
    using assms(1) unfolding starts_def by blast
  obtain es' where es': "grows ?s es' (snd (run_state m' ?s))" "length (declared es') \<le> k'"
    "must \<longrightarrow> fst (run_state m' ?s) = Ret () \<and> length (declared es') = k'"
    using assms(2) unfolding starts_def by blast
  from es es' have "grows s (es @ es') (snd (run_state m' ?s))" by (blast intro: grows_trans)
  then show "\<exists>es. grows s es (snd (run_state (do { r \<leftarrow> m;
      (case r of Ret _ \<Rightarrow> m' | _ \<Rightarrow> State_Monad.return r) }) s)) \<and> length (declared es) \<le> k + k' \<and>
      (must \<longrightarrow> fst (run_state (do { r \<leftarrow> m;
         (case r of Ret _ \<Rightarrow> m' | _ \<Rightarrow> State_Monad.return r) }) s) = Ret () \<and>
         length (declared es) = k + k')"
    using es es'
    by (cases "fst (run_state m s)") (force simp: split_beta)+
qed

lemma starts_for_each_ret:
  "(\<And>x. starts k must (f x)) \<Longrightarrow> starts (length xs * k) must (for_each_ret f xs)"
proof (induction xs)
  case Nil
  then show ?case using starts_return by (auto simp: starts_def)
next
  case (Cons x xs)
  then show ?case using starts_seq [of k must "f x"] by simp
qed

text \<open>No call on the channel fails.\<close>

definition amqp_never_fails :: "env \<Rightarrow> bool" where
  "amqp_never_fails env = (\<forall>h c. amqp_err env h c = None)"

lemma starts_worker:
  "starts 1 (amqp_never_fails env) (StartTaskQueueWorker env queueName workerId)"
  by (auto simp: starts_def StartTaskQueueWorker_def grows_def amqp_never_fails_def
      split: option.splits split del: if_split)

lemma starts_time_now:
  "(\<And>t. starts k must (f t)) \<Longrightarrow> starts k must (State_Monad.bind (time_now env) f)"
  by (simp add: starts_def)

lemma starts_spawn_workers: "starts n (amqp_never_fails env) (spawn_workers env queueName n)"
proof (induction n)
  case 0
  show ?case using starts_return by (auto simp: starts_def)
next
  case (Suc n)
  show ?case
    unfolding spawn_workers.simps
    using starts_seq [OF starts_worker Suc] by (intro starts_time_now) simp
qed

text \<open>Every inspected queue is deeper than the threshold.\<close>

definition always_deep :: "env \<Rightarrow> int \<Rightarrow> bool" where
  "always_deep env threshold = (\<forall>h q. threshold < amqp_depth env h q)"

text \<open>An event that is none of a worker's starting, in front.\<close>

lemma starts_event:
  assumes "\<And>s. trace (snd (run_state m s)) = trace s @ [e]" and "\<And>s. WorkerCount (snd (run_state m s)) = WorkerCount s"
    and "\<And>s. AckCount (snd (run_state m s)) = AckCount s"
    and "declared [e] = []" "publishes [e] = []" "settlements [e] = []" "gauge LiveWorkers [e] = None"
    and f: "\<And>s. starts k must (f (fst (run_state m s)))"
  shows "starts k must (State_Monad.bind m f)"
  unfolding starts_def
proof
  fix s
  let ?s = "snd (run_state m s)"
  obtain es where es: "grows ?s es (snd (run_state (f (fst (run_state m s))) ?s))" "length (declared es) \<le> k"
    "must \<longrightarrow> fst (run_state (f (fst (run_state m s))) ?s) = Ret () \<and> length (declared es) = k"
    using f [of s] unfolding starts_def by blast
  have "grows s [e] ?s" using assms by (simp add: grows_def)
  with es(1) have "grows s (e # es) (snd (run_state (f (fst (run_state m s))) ?s))"
    using grows_trans by fastforce
  moreover have "declared (e # es) = declared es"
    using assms(4) by (simp split: option.splits)
  ultimately show "\<exists>es. grows s es (snd (run_state (State_Monad.bind m f) s)) \<and> length (declared es) \<le> k \<and>
      (must \<longrightarrow> fst (run_state (State_Monad.bind m f) s) = Ret () \<and> length (declared es) = k)"
    using es(2,3) by (auto simp: split_beta)
qed

lemma starts_none: "\<not> must \<Longrightarrow> starts k must (State_Monad.return (Ret ()))"
  using starts_mono [OF starts_return, of k] by (simp add: starts_def)

lemma starts_scale_queue:
  "starts burst (amqp_never_fails env \<and> always_deep env threshold)
     (scale_queue env threshold burst queueName)"
  unfolding scale_queue_def
proof (rule starts_event [where e = "Amqp (QueueInspect queueName)"])
  fix s :: "'a worker_vars_scheme"
  have "starts burst (amqp_never_fails env \<and> always_deep env threshold)
     (spawn_workers env queueName burst)"
    using starts_spawn_workers [of burst env queueName] by (auto simp: starts_def)
  then show "starts burst (amqp_never_fails env \<and> always_deep env threshold)
     (case fst (run_state (queue_inspect env queueName) s) of (err, depth) \<Rightarrow>
       (case err of Some e \<Rightarrow> State_Monad.return (Ret ())
        | None \<Rightarrow> if threshold < depth then spawn_workers env queueName burst
                  else State_Monad.return (Ret ())))"
    by (auto simp: amqp_never_fails_def always_deep_def intro: starts_none split: option.split)
qed simp_all

lemma starts_scaler_tick:
  "starts (4 * burst) (amqp_never_fails env \<and> always_deep env threshold)
     (scaler_tick env interval threshold burst)"
  unfolding scaler_tick_def
proof (rule starts_event [where e = "Sleep interval"])
  show "starts (4 * burst) (amqp_never_fails env \<and> always_deep env threshold)
     (for_each_ret (scale_queue env threshold burst) shardRing)"
  proof -
    have "starts (length shardRing * burst) (amqp_never_fails env \<and> always_deep env threshold)
       (for_each_ret (scale_queue env threshold burst) shardRing)"
      by (rule starts_for_each_ret) (rule starts_scale_queue)
    moreover have "length shardRing = 4" by (simp add: shardRing_def)
    ultimately show ?thesis by (simp only:)
  qed
qed simp_all

lemma starts_autoscaler:
  "starts (n * (4 * burst)) (amqp_never_fails env \<and> always_deep env threshold)
     (autoscaler env interval threshold burst n)"
proof (induction n)
  case 0
  show ?case using starts_return by (auto simp: starts_def)
next
  case (Suc n)
  then show ?case using starts_seq [OF starts_scaler_tick Suc] by simp
qed

subsection \<open>Properties\<close>

lemma tasks_acked_bound:
  "appends (\<lambda>_ es. counter MsgsAcked es \<le> length ds) (for_each (task_handle env workerId) ds)"
proof (induction ds)
  case Nil
  show ?case by (rule appendsI) simp
next
  case (Cons d ds)
  have "appends (\<lambda>_ es. counter MsgsAcked es \<le> 1) (task_handle env workerId d)"
    by (rule appendsI) (auto simp: task_handle_def split: option.splits)
  then show ?case unfolding for_each.simps by (rule appends_bind [OF _ Cons]) simp
qed


text \<open>
  C25: As long as every shard stays deeper than the threshold and no call fails, every turn starts the
  full burst for all four shards and nothing ever stops a worker, so the count grows without limit
  (and wraps around at 32 bits).
\<close>
theorem autoscaler_grows_without_limit:
  assumes "amqp_never_fails env" and "always_deep env threshold"
  shows "fst (run_state (autoscaler env interval threshold burst n) s) = Ret () \<and>
    WorkerCount (snd (run_state (autoscaler env interval threshold burst n) s)) =
      WorkerCount s + of_nat (n * (4 * burst))"
  using starts_autoscaler [of n burst env threshold interval] assms unfolding starts_def grows_def by metis

text \<open>An outside where every queue holds six messages; four workers run.\<close>

definition deep_env :: env where
  "deep_env = quiet_env\<lparr>amqp_depth := (\<lambda>h q. 6)\<rparr>"

definition workers_example :: worker_vars where
  "workers_example = \<lparr>trace = [], WorkerCount = 4, AckCount = 0\<rparr>"

theorem autoscaler_grows_without_limit_witness:
  "WorkerCount (snd (run_state (autoscaler deep_env Second 5 2 3) workers_example)) = 28"
  using autoscaler_grows_without_limit [of deep_env 5 Second 2 3 workers_example]
  by (simp add: deep_env_def amqp_never_fails_def always_deep_def workers_example_def)

text \<open>
  Over any sequence of deliveries the atomic count of acknowledgements, the metric of acknowledged
  messages and the throughput of the worker advance together, whichever acknowledgements fail.
\<close>
theorem acknowledgements_in_step:
  "\<exists>es. trace (snd (run_state (for_each (task_handle env workerId) ds) s)) = trace s @ es \<and>
     AckCount (snd (run_state (for_each (task_handle env workerId) ds) s)) =
       AckCount s + of_nat (counter MsgsAcked es) \<and>
     counter MsgsAcked es = labelled WorkerThroughput workerId es \<and>
     counter MsgsAcked es \<le> length ds"
  using tasks_AckCount [of env workerId ds s] appends_added [OF tasks_acked_bound] added_eqI by metis

lemma task_handle_WorkerCount [simp]:
  "WorkerCount (snd (run_state (task_handle env workerId d) s)) = WorkerCount s"
  by (auto simp: task_handle_def split: option.splits)

lemma tasks_WorkerCount [simp]:
  "WorkerCount (snd (run_state (for_each (task_handle env workerId) ds) s)) = WorkerCount s"
  by (induction ds arbitrary: s) (simp_all add: split_beta)

text \<open>
  A worker that starts and serves until its channel closes leaves the worker count as it found it,
  with the gauge on the count, so the count is the number of live workers.
\<close>
theorem worker_counts_itself_in_and_out:
  "WorkerCount (snd (run_state (StartTaskQueueWorker env q workerId) s)) = WorkerCount s + 1 \<and>
   WorkerCount (snd (run_state (task_worker env workerId ds) s')) = WorkerCount s' - 1 \<and>
   gauge LiveWorkers (trace (snd (run_state (task_worker env workerId ds) s'))) =
     Some (sint (WorkerCount s' - 1))"
  by (auto simp: StartTaskQueueWorker_def task_worker_def split_beta split: option.splits)

end
