(* ===== verification/Dead_Letter_Queues.thy ===== *)
theory Dead_Letter_Queues
  imports Work_Queue
begin

text \<open>
  \<^verbatim>\<open>dead_letter_queues/\<close>: the per-shard retry queues and their worker, the resilient worker that
  fails on demand, and the consumer of the dead-letter queue.
\<close>

subsection \<open>delay\_setup.go\<close>

definition retry_queue :: "string \<Rightarrow> string" where
  "retry_queue shard = shard @ ''_retry_5s''"

definition retry_queue_args :: "string \<Rightarrow> table" where
  "retry_queue_args shard =
     [(''x-message-ttl'', FInt32 5000), (''x-dead-letter-exchange'', FString ''''),
      (''x-dead-letter-routing-key'', FString shard)]"

definition setup_retry_queue :: "env \<Rightarrow> string \<Rightarrow> ('a io_scheme, unit outcome) state" where
  "setup_retry_queue env shard = do {
     (err, _) \<leftarrow> queue_declare env (retry_queue shard) True False False False (retry_queue_args shard);
     or_fatal err ''Failed to declare delay queue'' (do {
       err \<leftarrow> amqp env (QueueBind (retry_queue shard) (retry_queue shard) ''retry_exchange'' False []);
       or_fatal err ''Failed to bind delay queue'' (State_Monad.return (Ret ())) }) }"

definition SetupRetryQueues :: "env \<Rightarrow> string list \<Rightarrow> ('a io_scheme, unit outcome) state" where
  "SetupRetryQueues env ring = do {
     err \<leftarrow> amqp env (ExchangeDeclare ''retry_exchange'' ''direct'' True False False False []);
     or_fatal err ''Failed to declare retry_exchange''
       (for_each_ret (setup_retry_queue env) ring) }"

subsection \<open>The producers\<close>

text \<open>\<^verbatim>\<open>delay_retry_producer.go\<close>\<close>

definition SendToRetryQueue ::
  "env \<Rightarrow> string \<Rightarrow> string \<Rightarrow> string \<Rightarrow> string \<Rightarrow> ('a io_scheme, string option) state" where
  "SendToRetryQueue env shard msg replyTo corrID = do {
     err \<leftarrow> amqp env (Publish ''retry_exchange'' (retry_queue shard) False False
       (publishing0\<lparr>Headers := [(''x-retry-count'', FInt32 0)], DeliveryMode := Persistent,
          ContentType := ''text/plain'', Body := msg, ReplyTo := replyTo, CorrelationId := corrID\<rparr>));
     or_return err (do {
       inc RetryMessages;
       State_Monad.return None }) }"

text \<open>\<^verbatim>\<open>dlq_producer.go\<close>\<close>

definition resilient_queue :: "string \<Rightarrow> string" where
  "resilient_queue shard = ''resilient_'' @ shard"

definition PublishToResilientQueue ::
  "env \<Rightarrow> string \<Rightarrow> string \<Rightarrow> string \<Rightarrow> string \<Rightarrow> ('a io_scheme, string option) state" where
  "PublishToResilientQueue env shard body replyTo corrID = do {
     inc FailureMessages;
     amqp env (Publish '''' (resilient_queue shard) False False
       (publishing0\<lparr>DeliveryMode := Persistent, ContentType := ''text/plain'', Body := body,
          ReplyTo := replyTo, CorrelationId := corrID, Headers := [(''x-force-fail'', FBool True)]\<rparr>)) }"

interpretation retry_pub: publisher "\<lambda>task. SendToRetryQueue env shard task" "\<lambda>r. r = None"
  by unfold_locales (rule appendsI, auto simp: SendToRetryQueue_def sends_def carries_def split: option.splits)

interpretation resilient_pub: publisher "\<lambda>task. PublishToResilientQueue env shard task" "\<lambda>r. r = None"
  by unfold_locales (rule appendsI, auto simp: PublishToResilientQueue_def sends_def carries_def)

subsection \<open>delay\_retry\_worker.go\<close>

text \<open>
  The integer part of a float64, read off its IEEE bits; \<open>None\<close> for infinities and NaN. A
  conversion to int32 that does not fit is left open by the language.
\<close>

definition float_trunc :: "uint64 \<Rightarrow> int option" where
  "float_trunc b =
     (let n = uint b; e = n div 2 ^ 52 mod 2 ^ 11; m = n mod 2 ^ 52;
          a = (if e = 0 then 0
               else if 1075 \<le> e then (2 ^ 52 + m) * 2 ^ nat (e - 1075)
               else (2 ^ 52 + m) div 2 ^ nat (1075 - e))
      in if e = 2047 then None else Some (if 2 ^ 63 \<le> n then - a else a))"

definition int32_of_float :: "env \<Rightarrow> uint64 \<Rightarrow> int32" where
  "int32_of_float env b =
     (case float_trunc b of
        Some i \<Rightarrow> if - (2 ^ 31) \<le> i \<and> i < 2 ^ 31 then word_of_int i else float_to_int32 env b
      | None \<Rightarrow> float_to_int32 env b)"

text \<open>The type switch on the header; other types leave the count 0.\<close>

definition retry_count :: "env \<Rightarrow> table \<Rightarrow> int32" where
  "retry_count env headers =
     (case map_of headers ''x-retry-count'' of
        Some (FInt32 v) \<Rightarrow> v
      | Some (FInt64 v) \<Rightarrow> ucast v
      | Some (FFloat64 v) \<Rightarrow> int32_of_float env v
      | _ \<Rightarrow> 0)"

definition retry_feedback :: "string \<Rightarrow> int32 \<Rightarrow> (string \<times> scalar) list" where
  "retry_feedback workerID attempt =
     [(''status'', SString ''retry''), (''attempt'', SInt (sint attempt)), (''worker'', SString workerID)]"

definition dlq_feedback :: "string \<Rightarrow> (string \<times> scalar) list" where
  "dlq_feedback workerID = [(''status'', SString ''dlq''), (''worker'', SString workerID)]"

definition requeue_message :: "delivery \<Rightarrow> int32 \<Rightarrow> publishing" where
  "requeue_message d retryCount =
     publishing0\<lparr>ContentType := ''text/plain'', Headers := [(''x-retry-count'', FInt32 retryCount)],
       DeliveryMode := Persistent, Body := Body d, ReplyTo := ReplyTo d,
       CorrelationId := CorrelationId d\<rparr>"

definition delay_retry_handle ::
  "env \<Rightarrow> string \<Rightarrow> string \<Rightarrow> delivery \<Rightarrow> ('a io_scheme, unit) state" where
  "delay_retry_handle env retryQueue workerID d = do {
     startTs \<leftarrow> time_now env;
     let retryCount = retry_count env (Headers d);
     if retryCount <s 3 then do {
       let retryCount = retryCount + 1;
       send_reply env d (retry_feedback workerID retryCount);
       err \<leftarrow> amqp env (Publish ''retry_exchange'' retryQueue False False (requeue_message d retryCount));
       (case err of
          Some e \<Rightarrow> do { _ \<leftarrow> amqp env (Nack (DeliveryTag d) False False); State_Monad.return () }
        | None \<Rightarrow> do {
            _ \<leftarrow> amqp env (Ack (DeliveryTag d) False);
            inc MsgsAcked;
            inc_label WorkerThroughput workerID;
            observe_latency env startTs })
     } else do {
       send_reply env d (dlq_feedback workerID);
       _ \<leftarrow> amqp env (Ack (DeliveryTag d) False);
       inc MsgsAcked;
       inc_label WorkerThroughput workerID;
       observe_latency env startTs } }"

definition StartDelayRetryWorker :: "env \<Rightarrow> string \<Rightarrow> ('a io_scheme, unit outcome) state" where
  "StartDelayRetryWorker env retryQueue = do {
     err \<leftarrow> amqp env (Consume retryQueue '''' False False False False []);
     or_fatal err ''Failed to consume'' (State_Monad.return (Ret ())) }"

subsection \<open>dlq\_worker.go\<close>

definition StartResilientWorker :: "env \<Rightarrow> string \<Rightarrow> ('a io_scheme, unit outcome) state" where
  "StartResilientWorker env queueName = do {
     (err, _) \<leftarrow> queue_declare env queueName True False False False quorum_args;
     or_fatal err ''Worker: queue declare error'' (do {
       err \<leftarrow> amqp env (Consume queueName '''' False False False False []);
       or_fatal err ''Worker: consume error'' (State_Monad.return (Ret ())) }) }"

definition force_fail :: "table \<Rightarrow> bool" where
  "force_fail headers = (map_of headers ''x-force-fail'' = Some (FBool True))"

definition forced_failure_feedback :: "string \<Rightarrow> (string \<times> scalar) list" where
  "forced_failure_feedback workerID =
     [(''status'', SString ''dlq''), (''worker'', SString workerID),
      (''reason'', SString ''forced failure'')]"

definition resilient_handle :: "env \<Rightarrow> string \<Rightarrow> delivery \<Rightarrow> ('a io_scheme, unit) state" where
  "resilient_handle env workerID d = do {
     startTs \<leftarrow> time_now env;
     r \<leftarrow> ask (rand_float32 env);
     if force_fail (Headers d) \<or> r < 2 ^ 23 then do {
       send_reply env d (forced_failure_feedback workerID);
       _ \<leftarrow> amqp env (Nack (DeliveryTag d) False False);
       State_Monad.return ()
     } else do {
       send_reply env d [(''status'', SString ''success''), (''worker'', SString workerID)];
       inc MsgsAcked;
       inc_label WorkerThroughput workerID;
       observe_latency env startTs;
       _ \<leftarrow> amqp env (Ack (DeliveryTag d) False);
       State_Monad.return () } }"

subsection \<open>dlq\_consumer.go\<close>

definition StartDLQConsumer :: "env \<Rightarrow> ('a io_scheme, unit outcome) state" where
  "StartDLQConsumer env = do {
     err \<leftarrow> amqp env (ExchangeDeclare ''dlx_exchange'' ''direct'' True False False False []);
     or_fatal err ''DLQ Consumer: exchange declare error'' (do {
       (err, _) \<leftarrow> queue_declare env ''dead_letter_queue'' True False False False [];
       or_fatal err ''DLQ Consumer: queue declare error'' (do {
         err \<leftarrow> amqp env (QueueBind ''dead_letter_queue'' ''dead_task'' ''dlx_exchange'' False []);
         or_fatal err ''DLQ Consumer: queue bind error'' (do {
           err \<leftarrow> amqp env (Consume ''dead_letter_queue'' '''' False False False False []);
           or_fatal err ''DLQ Consumer: consume error'' (do {
             inc DLQMessages;
             State_Monad.return (Ret ()) }) }) }) }) }"

definition dlq_handle :: "env \<Rightarrow> delivery \<Rightarrow> ('a io_scheme, unit) state" where
  "dlq_handle env d = do {
     startTs \<leftarrow> time_now env;
     send_reply env d [(''status'', SString ''dlq'')];
     inc MsgsAcked;
     inc_label WorkerThroughput ''dlq'';
     observe_latency env startTs;
     _ \<leftarrow> amqp env (Ack (DeliveryTag d) False);
     State_Monad.return () }"

subsection \<open>Serving\<close>

interpretation delay_retry: consumer "delay_retry_handle env retryQueue workerID"
  by unfold_locales
    (rule appendsI, auto simp: delay_retry_handle_def serves_def settles_def wanted_def Let_def
      split: option.splits)

interpretation resilient: consumer "resilient_handle env workerID"
  by unfold_locales
    (rule appendsI, auto simp: resilient_handle_def serves_def settles_def wanted_def)

interpretation dlq: acking_consumer "dlq_handle env"
  by unfold_locales
    (rule appendsI, auto simp: dlq_handle_def serves_def settles_def wanted_def)+

end
