(* ===== verification/Routing.thy ===== *)
theory Routing
  imports Direct_Exchange Topic_Exchange Headers_Exchange Pubsub Dead_Letter_Queues
begin

unbundle bit_operations_syntax

text \<open>
  The routing of a task in \<^verbatim>\<open>gateway/server.go\<close>: the hash that picks a shard, and the choice of the
  exchange or queue a submitted task goes to.
\<close>

subsection \<open>pickShard\<close>

text \<open>\<^verbatim>\<open>hash/fnv\<close>, \<^verbatim>\<open>New32a\<close>: the 32-bit FNV-1a hash.\<close>

definition fnv32a :: "string \<Rightarrow> uint32" where
  "fnv32a key = foldl (\<lambda>h c. (h XOR of_nat (byte c)) * 16777619) 2166136261 key"

text \<open>
  \<^verbatim>\<open>shardRing[int(h.Sum32())%len(shardRing)]\<close> where \<^verbatim>\<open>int\<close> has 64 bits: the conversion keeps the
  value, so the index is not negative.
\<close>

definition pickShard :: "string \<Rightarrow> string" where
  "pickShard key = shardRing ! (unat (fnv32a key) mod length shardRing)"

text \<open>
  The same where \<^verbatim>\<open>int\<close> has 32 bits: the conversion reads the hash as two's complement, \<^verbatim>\<open>%\<close> keeps
  the sign of its left operand, and a negative index panics.
\<close>

definition pickShard_int32 :: "string \<Rightarrow> string outcome" where
  "pickShard_int32 key =
     (let h = sint (fnv32a key); n = int (length shardRing); i = sgn h * (\<bar>h\<bar> mod n)
      in if i < 0 then Panic ''index out of range'' else Ret (shardRing ! nat i))"

lemma pickShard_in_ring [simp]: "pickShard key \<in> set shardRing"
  unfolding pickShard_def by (rule nth_mem) (simp add: shardRing_def)

subsection \<open>autoDetectAndPublish\<close>

text \<open>\<^verbatim>\<open>err := f(...); if err == nil { monitor.MsgsPublished.Inc() }; return err\<close>\<close>

definition count_published ::
  "('a io_scheme, string option) state \<Rightarrow> ('a io_scheme, string option outcome) state" where
  "count_published m = do {
     err \<leftarrow> m;
     only_if (err = None) (inc MsgsPublished);
     State_Monad.return (Ret err) }"

definition publish_to_shard ::
  "env \<Rightarrow> string \<Rightarrow> string \<Rightarrow> string \<Rightarrow> string \<Rightarrow> ('a io_scheme, string option) state" where
  "publish_to_shard env shard task replyTo corrID =
     amqp env (Publish '''' shard False False
       (publishing0\<lparr>ContentType := ''text/plain'', Body := task, ReplyTo := replyTo,
          CorrelationId := corrID\<rparr>))"

text \<open>The error of \<^verbatim>\<open>SendToRetryQueue\<close> is dropped: that branch always counts and returns nil.\<close>

definition autoDetectAndPublish ::
  "env \<Rightarrow> string \<Rightarrow> string \<Rightarrow> string \<Rightarrow> string \<Rightarrow> string \<Rightarrow> string \<Rightarrow> string \<Rightarrow> bool
     \<Rightarrow> ('a io_scheme, string option outcome) state" where
  "autoDetectAndPublish env task routingKey headersJSON fail retry replyTo corrID useShards =
     (let shard = pickShard task
      in if retry = ''1'' then do {
           _ \<leftarrow> SendToRetryQueue env shard task replyTo corrID;
           inc MsgsPublished;
           State_Monad.return (Ret None)
         }
         else if fail = ''1'' then
           count_published (PublishToResilientQueue env shard task replyTo corrID)
         else if headersJSON \<noteq> '''' then do {
           r \<leftarrow> PublishHeaders env task headersJSON replyTo corrID;
           only_if (r = Ret None) (inc MsgsPublished);
           State_Monad.return r
         }
         else if CHR ''*'' \<in> set routingKey \<or> CHR ''#'' \<in> set routingKey then
           count_published (PublishTopic env task routingKey replyTo corrID)
         else if routingKey \<noteq> '''' then
           count_published (PublishDirect env task routingKey replyTo corrID)
         else if useShards then
           count_published (publish_to_shard env (pickShard task) task replyTo corrID)
         else do {
           err \<leftarrow> PublishFanout env task replyTo corrID;
           State_Monad.return (Ret err) })"

text \<open>Each branch is a publisher with its own counting, so the dispatch is one too.\<close>

definition publishes_once ::
  "string \<Rightarrow> string \<Rightarrow> string \<Rightarrow> bool \<Rightarrow> nat \<Rightarrow> history \<Rightarrow> bool" where
  "publishes_once task replyTo corrID success n es \<longleftrightarrow>
     sends task replyTo corrID success es \<and> counter MsgsPublished es = n"

lemma publishes_once_Inc:
  "publishes_once task replyTo corrID b n es \<Longrightarrow>
     publishes_once task replyTo corrID b (Suc n) (es @ [Metric (Inc MsgsPublished)])"
  by (simp add: publishes_once_def sends_def)

lemma count_published_once:
  assumes "appends (\<lambda>r. publishes_once task replyTo corrID (r = None) 0) m"
  shows "appends (\<lambda>r. publishes_once task replyTo corrID (r = Ret None) (if r = Ret None then 1 else 0))
    (count_published m)"
  unfolding count_published_def
proof (rule appends_bind [OF assms, where
      Q = "\<lambda>err r es. r = Ret err \<and> es = (if err = None then [Metric (Inc MsgsPublished)] else [])"])
  fix err :: "string option"
  show "appends (\<lambda>r es. r = Ret err \<and> es = (if err = None then [Metric (Inc MsgsPublished)] else []))
     (do { only_if (err = None) (inc MsgsPublished); State_Monad.return (Ret err) })"
    by (rule appendsI) simp
qed (use publishes_once_Inc in auto)

lemma publish_once_shard:
  "appends (\<lambda>r. publishes_once task replyTo corrID (r = None) 0) (publish_to_shard env shard task replyTo corrID)"
  by (rule appendsI) (simp add: publish_to_shard_def publishes_once_def sends_def carries_def)

lemma publish_once_direct:
  "appends (\<lambda>r. publishes_once task replyTo corrID (r = None) 0) (PublishDirect env task key replyTo corrID)"
  by (rule appendsI)
    (auto simp: PublishDirect_def publishes_once_def sends_def carries_def split: option.splits)

lemma publish_once_topic:
  "appends (\<lambda>r. publishes_once task replyTo corrID (r = None) 0) (PublishTopic env task key replyTo corrID)"
  by (rule appendsI)
    (auto simp: PublishTopic_def publishes_once_def sends_def carries_def split: option.splits)

lemma publish_once_resilient:
  "appends (\<lambda>r. publishes_once task replyTo corrID (r = None) 0)
     (PublishToResilientQueue env shard task replyTo corrID)"
  by (rule appendsI) (simp add: PublishToResilientQueue_def publishes_once_def sends_def carries_def)

lemma publish_once_headers:
  "appends (\<lambda>r. publishes_once task replyTo corrID (r = Ret None) (if r = Ret None then 1 else 0))
     (do { r \<leftarrow> PublishHeaders env task json replyTo corrID;
           only_if (r = Ret None) (inc MsgsPublished);
           State_Monad.return r })"
  by (rule appendsI)
    (auto simp: PublishHeaders_def publishes_once_def sends_def carries_def Let_def
      split: option.splits prod.splits)

lemma publish_once_retry:
  "appends (\<lambda>r. publishes_once task replyTo corrID (r = Ret None) (if r = Ret None then 1 else 0))
     (do { _ \<leftarrow> SendToRetryQueue env shard task replyTo corrID;
           inc MsgsPublished;
           State_Monad.return (Ret None) })"
  by (rule appendsI)
    (auto simp: SendToRetryQueue_def publishes_once_def sends_def carries_def split: option.splits)

lemma publish_once_fanout:
  "appends (\<lambda>r. publishes_once task replyTo corrID (r = Ret None) (if r = Ret None then 1 else 0))
     (do { err \<leftarrow> PublishFanout env task replyTo corrID; State_Monad.return (Ret err) })"
  by (rule appendsI)
    (auto simp: PublishFanout_def publishes_once_def sends_def carries_def split: option.splits)

lemma autoDetectAndPublish_once:
  "appends (\<lambda>r. publishes_once task replyTo corrID (r = Ret None) (if r = Ret None then 1 else 0))
     (autoDetectAndPublish env task key json fail retry replyTo corrID useShards)"
  unfolding autoDetectAndPublish_def Let_def
  by (simp add: count_published_once publish_once_shard publish_once_direct publish_once_topic
      publish_once_resilient publish_once_headers publish_once_retry publish_once_fanout)

interpretation dispatch: counting_publisher
  "\<lambda>task replyTo corrID. autoDetectAndPublish env task key json fail retry replyTo corrID useShards"
  "\<lambda>r. r = Ret None"
proof
  show "appends (\<lambda>r. sends task replyTo corrID (r = Ret None))
     (autoDetectAndPublish env task key json fail retry replyTo corrID useShards)" for task replyTo corrID
    by (rule appends_mono [OF autoDetectAndPublish_once]) (simp add: publishes_once_def)
  show "appends (\<lambda>r es. counter MsgsPublished es = (if r = Ret None then 1 else 0))
     (autoDetectAndPublish env task key json fail retry replyTo corrID useShards)" for task replyTo corrID
    by (rule appends_mono [OF autoDetectAndPublish_once]) (simp add: publishes_once_def)
qed

text \<open>The dispatch panics only through the headers branch.\<close>

lemma autoDetectAndPublish_panics:
  "(\<exists>msg. fst (run_state (autoDetectAndPublish env task key json fail retry replyTo corrID useShards) s) =
       Panic msg) \<longleftrightarrow>
     retry \<noteq> ''1'' \<and> fail \<noteq> ''1'' \<and> json \<noteq> '''' \<and> json_parse json = Some JNull"
  using PublishHeaders_panics [of env task json replyTo corrID s]
  by (auto simp: autoDetectAndPublish_def count_published_def Let_def split_beta)

subsection \<open>Where a task goes\<close>

text \<open>The routing table the dispatch is meant to implement: exchange and routing key.\<close>

definition route ::
  "string \<Rightarrow> string \<Rightarrow> string \<Rightarrow> string \<Rightarrow> string \<Rightarrow> bool \<Rightarrow> string \<times> string" where
  "route task key json fail retry useShards =
     (if retry = ''1'' then (''retry_exchange'', retry_queue (pickShard task))
      else if fail = ''1'' then ('''', resilient_queue (pickShard task))
      else if json \<noteq> '''' then (''headers_logs'', '''')
      else if CHR ''*'' \<in> set key \<or> CHR ''#'' \<in> set key then (''topic_exchange_suyash'', key)
      else if key \<noteq> '''' then (''direct_logs'', key)
      else if useShards then ('''', pickShard task)
      else (''logs'', ''''))"

text \<open>The message of a successful call goes there, and no message goes anywhere else.\<close>

definition goes_to :: "string \<times> string \<Rightarrow> bool \<Rightarrow> history \<Rightarrow> bool" where
  "goes_to dst success es =
     (case publishes es of
        [] \<Rightarrow> \<not> success
      | (x, k, p) # ps \<Rightarrow> x = fst dst \<and> k = snd dst \<and> ps = [])"

lemma goes_to_Inc: "goes_to dst b es \<Longrightarrow> goes_to dst b (es @ [Metric (Inc m)])"
  by (simp add: goes_to_def)

lemma count_published_goes_to:
  assumes "appends (\<lambda>r. goes_to dst (r = None)) m"
  shows "appends (\<lambda>r. goes_to dst (r = Ret None)) (count_published m)"
  unfolding count_published_def
proof (rule appends_bind [OF assms, where
      Q = "\<lambda>err r es. r = Ret err \<and> es = (if err = None then [Metric (Inc MsgsPublished)] else [])"])
  fix err :: "string option"
  show "appends (\<lambda>r es. r = Ret err \<and> es = (if err = None then [Metric (Inc MsgsPublished)] else []))
     (do { only_if (err = None) (inc MsgsPublished); State_Monad.return (Ret err) })"
    by (rule appendsI) simp
qed (auto simp: goes_to_Inc simp del: split_paired_All)

lemma publishers_go_to:
  "appends (\<lambda>r. goes_to ('''', shard) (r = None)) (publish_to_shard env shard task replyTo corrID)"
  "appends (\<lambda>r. goes_to (''direct_logs'', key) (r = None)) (PublishDirect env task key replyTo corrID)"
  "appends (\<lambda>r. goes_to (''topic_exchange_suyash'', key) (r = None)) (PublishTopic env task key replyTo corrID)"
  "appends (\<lambda>r. goes_to ('''', resilient_queue shard) (r = None))
     (PublishToResilientQueue env shard task replyTo corrID)"
proof -
  show "appends (\<lambda>r. goes_to ('''', shard) (r = None)) (publish_to_shard env shard task replyTo corrID)"
    by (rule appendsI) (simp add: publish_to_shard_def goes_to_def)
  show "appends (\<lambda>r. goes_to (''direct_logs'', key) (r = None)) (PublishDirect env task key replyTo corrID)"
    by (rule appendsI) (auto simp: PublishDirect_def goes_to_def split: option.splits)
  show "appends (\<lambda>r. goes_to (''topic_exchange_suyash'', key) (r = None)) (PublishTopic env task key replyTo corrID)"
    by (rule appendsI) (auto simp: PublishTopic_def goes_to_def split: option.splits)
  show "appends (\<lambda>r. goes_to ('''', resilient_queue shard) (r = None))
     (PublishToResilientQueue env shard task replyTo corrID)"
    by (rule appendsI) (simp add: PublishToResilientQueue_def goes_to_def)
qed

lemma headers_go_to:
  "appends (\<lambda>r. goes_to (''headers_logs'', '''') (r = Ret None))
     (do { r \<leftarrow> PublishHeaders env task json replyTo corrID;
           only_if (r = Ret None) (inc MsgsPublished);
           State_Monad.return r })"
  by (rule appendsI)
    (auto simp: PublishHeaders_def goes_to_def Let_def split: option.splits prod.splits)

lemma retry_goes_to:
  "appends (\<lambda>r. goes_to (''retry_exchange'', retry_queue shard) (r = Ret None))
     (do { _ \<leftarrow> SendToRetryQueue env shard task replyTo corrID;
           inc MsgsPublished;
           State_Monad.return (Ret None) })"
  by (rule appendsI) (auto simp: SendToRetryQueue_def goes_to_def split: option.splits)

lemma fanout_goes_to:
  "appends (\<lambda>r. goes_to (''logs'', '''') (r = Ret None))
     (do { err \<leftarrow> PublishFanout env task replyTo corrID; State_Monad.return (Ret err) })"
  by (rule appendsI) (auto simp: PublishFanout_def goes_to_def split: option.splits)

lemma autoDetectAndPublish_goes_to:
  "appends (\<lambda>r. goes_to (route task key json fail retry useShards) (r = Ret None))
     (autoDetectAndPublish env task key json fail retry replyTo corrID useShards)"
  unfolding autoDetectAndPublish_def route_def Let_def
  by (simp add: count_published_goes_to publishers_go_to headers_go_to retry_goes_to fanout_goes_to)

lemma sint_uint32:
  "sint (w :: uint32) = (if uint w < 2 ^ 31 then uint w else uint w - 2 ^ 32)"
proof -
  have u: "0 \<le> uint w" "uint w < 2 ^ 32" using uint_lt2p [of w] by simp_all
  have "sint w = (uint w + 2 ^ 31) mod 2 ^ 32 - 2 ^ 31"
    by (simp add: sint_uint signed_take_bit_eq_take_bit_shift take_bit_eq_mod)
  also have "\<dots> = (if uint w < 2 ^ 31 then uint w else uint w - 2 ^ 32)"
  proof (cases "uint w < 2 ^ 31")
    case True
    with u show ?thesis by simp
  next
    case False
    have "(uint w + 2 ^ 31) mod 2 ^ 32 = (uint w - 2 ^ 31 + 2 ^ 32) mod 2 ^ 32" by (simp add: add.commute)
    also have "\<dots> = uint w - 2 ^ 31" using False u by (simp only: mod_add_self2) simp
    finally show ?thesis using False by simp
  qed
  finally show ?thesis .
qed

lemma shard_index_positive: "sgn (int n) * (\<bar>int n\<bar> mod 4) = int (n mod 4)"
  by (cases "n = 0") (simp_all add: zmod_int)

lemma shard_index_negative:
  assumes "2 ^ 31 \<le> n" and "n < 2 ^ 32" and "h = int n - 2 ^ 32"
  shows "sgn h * (\<bar>h\<bar> mod 4) = (if n mod 4 = 0 then 0 else int (n mod 4) - 4)"
proof -
  have "(2 ^ 32 - int n) mod 4 = (if int n mod 4 = 0 then 0 else 4 - int n mod 4)" by simp presburger
  moreover have "sgn h * (\<bar>h\<bar> mod 4) = - ((2 ^ 32 - int n) mod 4)" using assms by simp
  moreover have m: "int n mod 4 = int (n mod 4)" by (simp add: zmod_int)
  ultimately show ?thesis unfolding m of_nat_eq_0_iff by (simp only: if_distrib [of uminus] minus_diff_eq minus_zero)
qed

subsection \<open>Properties\<close>

text \<open>
  C5: However the form routes it, a submitted task makes at most one message, which carries the task,
  the reply queue and the correlation id unchanged; a dispatch that reports success has handed
  one to the broker; the counter of published messages moves exactly with the reported success.
\<close>
theorem dispatch_publishes_once:
  "sends task replyTo corrID
     (fst (run_state (autoDetectAndPublish env task key json fail retry replyTo corrID useShards) s) = Ret None)
     (added (autoDetectAndPublish env task key json fail retry replyTo corrID useShards) s) \<and>
   counter MsgsPublished (added (autoDetectAndPublish env task key json fail retry replyTo corrID useShards) s) =
     (if fst (run_state (autoDetectAndPublish env task key json fail retry replyTo corrID useShards) s) = Ret None
      then 1 else 0)"
  using appends_added [OF dispatch.sends] dispatch.counted_iff_ok by blast

text \<open>
  C6: The dispatch implements the routing table: the message of a successful dispatch goes to the
  exchange and routing key the table gives, and a failed one sends nothing anywhere else.
\<close>
theorem dispatch_refines_route:
  "goes_to (route task key json fail retry useShards)
     (fst (run_state (autoDetectAndPublish env task key json fail retry replyTo corrID useShards) s) = Ret None)
     (added (autoDetectAndPublish env task key json fail retry replyTo corrID useShards) s)"
  by (rule appends_added [OF autoDetectAndPublish_goes_to])

text \<open>
  C38: The retry branch drops the error of the publication: whatever the broker answers, the dispatch
  reports success and counts a published message, while the counter of retry messages shows the truth.
\<close>
theorem retry_error_is_dropped:
  "fst (run_state (autoDetectAndPublish env task key json fail ''1'' replyTo corrID useShards) s) = Ret None \<and>
   counter MsgsPublished (added (autoDetectAndPublish env task key json fail ''1'' replyTo corrID useShards) s) = 1 \<and>
   counter RetryMessages (added (autoDetectAndPublish env task key json fail ''1'' replyTo corrID useShards) s) =
     (if fst (run_state (SendToRetryQueue env (pickShard task) task replyTo corrID) s) = None then 1 else 0)"
  by (simp add: autoDetectAndPublish_def added_def SendToRetryQueue_def split: option.split)

text \<open>
  C39: A dispatch panics exactly when the form asks for neither retry nor failure and its headers are the
  JSON text \<^verbatim>\<open>null\<close>, whose decoding leaves the map nil: a client can make the handler panic.
\<close>
theorem dispatch_panics_iff_null_headers:
  "(\<exists>msg. fst (run_state (autoDetectAndPublish env task key json fail retry replyTo corrID useShards) s) =
       Panic msg) \<longleftrightarrow>
     retry \<noteq> ''1'' \<and> fail \<noteq> ''1'' \<and> json \<noteq> '''' \<and> json_parse json = Some JNull"
  by (rule autoDetectAndPublish_panics)

text \<open>
  C40: Where Go's \<^verbatim>\<open>int\<close> has 32 bits the shard choice panics for every key whose hash has its top bit set
  and is not a multiple of four; for all other keys it agrees with the 64-bit choice.
\<close>
theorem pickShard_on_32_bits:
  "pickShard_int32 key =
     (if 2 ^ 31 \<le> unat (fnv32a key) \<and> unat (fnv32a key) mod 4 \<noteq> 0 then Panic ''index out of range''
      else Ret (pickShard key))"
proof -
  let ?n = "unat (fnv32a key)"
  have n: "?n < 2 ^ 32" using unsigned_less [of "fnv32a key", where 'a = nat] by simp
  have h: "sint (fnv32a key) = (if ?n < 2 ^ 31 then int ?n else int ?n - 2 ^ 32)"
  proof -
    have u: "uint (fnv32a key) = int ?n" by simp
    have lt: "int n < 2 ^ 31 \<longleftrightarrow> n < 2 ^ 31" for n :: nat by simp
    show ?thesis unfolding sint_uint32 u lt by (rule refl)
  qed
  have len: "length shardRing = 4" by (simp add: shardRing_def)
  show ?thesis
  proof (cases "?n < 2 ^ 31")
    case True
    have "sgn (int ?n) * (\<bar>int ?n\<bar> mod 4) = int (?n mod 4)" by (rule shard_index_positive)
    with True show ?thesis by (simp add: pickShard_int32_def pickShard_def len h Let_def)
  next
    case False
    have i: "sgn (int ?n - 2 ^ 32) * (\<bar>int ?n - 2 ^ 32\<bar> mod 4) =
        (if ?n mod 4 = 0 then 0 else int (?n mod 4) - 4)"
      using False n by (intro shard_index_negative) auto
    have "int (?n mod 4) - 4 < 0" using pos_mod_bound [of 4 "int ?n"] by (simp add: zmod_int)
    with False i show ?thesis
      by (simp add: pickShard_int32_def pickShard_def len h Let_def del: of_nat_mod)
  qed
qed

end
