(* ===== verification/Http.thy ===== *)
theory Http
  imports Interfaces
begin

text \<open>
  What the handlers use of \<^verbatim>\<open>net/http\<close>: a parsed request, and the response being written. The first
  status written is the one sent; headers set after it are lost; a body written before any
  status sends 200.
\<close>

record request =
  Method :: string
  Path :: string
  RawQuery :: string
  ReqHeader :: "(string \<times> string) list"
  Form :: "(string \<times> string) list"       \<comment> \<open>the parsed form, URL query included\<close>
  ReqBody :: "string + string"            \<comment> \<open>what reading the body gives: an error or the bytes\<close>

text \<open>The first value of a key, or the empty string.\<close>

definition first_value :: "(string \<times> string) list \<Rightarrow> string \<Rightarrow> string" where
  "first_value kvs k = (case map_of kvs k of Some v \<Rightarrow> v | None \<Rightarrow> '''')"

definition FormValue :: "request \<Rightarrow> string \<Rightarrow> string" where
  "FormValue r k = first_value (Form r) k"

definition HeaderGet :: "request \<Rightarrow> string \<Rightarrow> string" where
  "HeaderGet r k = first_value (ReqHeader r) k"

record response =
  w_status :: "nat option"
  w_headers :: "(string \<times> string) list"
  w_body :: string

definition response0 :: response where
  "response0 = \<lparr>w_status = None, w_headers = [], w_body = ''''\<rparr>"

definition write_header :: "nat \<Rightarrow> response \<Rightarrow> response" where
  "write_header code w = (if w_status w = None then w\<lparr>w_status := Some code\<rparr> else w)"

definition write_body :: "string \<Rightarrow> response \<Rightarrow> response" where
  "write_body b w = (let w = write_header 200 w in w\<lparr>w_body := w_body w @ b\<rparr>)"

text \<open>\<^verbatim>\<open>w.Header().Set(k, v)\<close>\<close>

definition set_header :: "string \<Rightarrow> string \<Rightarrow> response \<Rightarrow> response" where
  "set_header k v w =
     (if w_status w = None then w\<lparr>w_headers := filter (\<lambda>h. fst h \<noteq> k) (w_headers w) @ [(k, v)]\<rparr> else w)"

text \<open>\<^verbatim>\<open>w.Header().Add(k, v)\<close>\<close>

definition add_header :: "string \<Rightarrow> string \<Rightarrow> response \<Rightarrow> response" where
  "add_header k v w = (if w_status w = None then w\<lparr>w_headers := w_headers w @ [(k, v)]\<rparr> else w)"

definition http_error :: "string \<Rightarrow> nat \<Rightarrow> response \<Rightarrow> response" where
  "http_error msg code w =
     write_body (msg @ [CHR 0x0A])
       (write_header code
         (set_header ''X-Content-Type-Options'' ''nosniff''
           (set_header ''Content-Type'' ''text/plain; charset=utf-8'' w)))"

lemma status_simps [simp]:
  "w_status response0 = None" "w_body response0 = ''''"
  "w_status (write_header c w) = (if w_status w = None then Some c else w_status w)"
  "w_status (write_body b w) = (if w_status w = None then Some 200 else w_status w)"
  "w_status (set_header k v w) = w_status w" "w_status (add_header k v w) = w_status w"
  "w_status (http_error msg c w) = (if w_status w = None then Some c else w_status w)"
  "w_body (write_header c w) = w_body w" "w_body (write_body b w) = w_body w @ b"
  "w_body (set_header k v w) = w_body w" "w_body (add_header k v w) = w_body w"
  "w_body (http_error msg c w) = w_body w @ msg @ [CHR 0x0A]"
  by (auto simp: response0_def write_header_def write_body_def set_header_def add_header_def http_error_def
      Let_def)

text \<open>The marks the messages of the program carry, as UTF-8 bytes.\<close>

definition mark_warning :: string where
  "mark_warning = [CHR 0xE2, CHR 0x9A, CHR 0xA0, CHR 0xEF, CHR 0xB8, CHR 0x8F]"

definition mark_cross :: string where
  "mark_cross = [CHR 0xE2, CHR 0x9D, CHR 0x8C]"

definition mark_siren :: string where
  "mark_siren = [CHR 0xF0, CHR 0x9F, CHR 0x9A, CHR 0xA8]"

definition mark_check :: string where
  "mark_check = [CHR 0xE2, CHR 0x9C, CHR 0x85]"

end
