(* ===== verification/Limiter.thy ===== *)
theory Limiter
  imports World
begin

text \<open>
  \<^verbatim>\<open>limiter/rate_limit.go\<close>: a counter per caller in Redis, incremented and given a new expiry time
  by every request in one transaction.
\<close>

record rate_limiter =
  MaxRequests :: int
  Window :: int

definition NewRateLimiter :: rate_limiter where
  "NewRateLimiter = \<lparr>MaxRequests = 10, Window = 60 * Second\<rparr>"

definition limit_key :: "string \<Rightarrow> string" where
  "limit_key apiKey = ''rate_limit:'' @ apiKey"

definition limit_tx :: "rate_limiter \<Rightarrow> string \<Rightarrow> redis_cmd list" where
  "limit_tx r apiKey = [Incr (limit_key apiKey), Expire (limit_key apiKey) (Window r)]"

text \<open>Whether the request may pass, and the error of the transaction.\<close>

definition Allow ::
  "env \<Rightarrow> rate_limiter \<Rightarrow> string \<Rightarrow> ('a io_scheme, bool \<times> string option) state" where
  "Allow env r apiKey = do {
     res \<leftarrow> perform (\<lambda>h. redis_reply env h (limit_tx r apiKey)) (Redis (limit_tx r apiKey));
     (case res of
        Inl err \<Rightarrow> State_Monad.return (False, Some err)
      | Inr countVal \<Rightarrow>
          if MaxRequests r < countVal then State_Monad.return (False, None)
          else State_Monad.return (True, None)) }"

lemma run_Allow [run_simps]:
  "run_state (Allow env r apiKey) s =
     ((case redis_reply env (trace s) (limit_tx r apiKey) of
         Inl err \<Rightarrow> (False, Some err) | Inr n \<Rightarrow> (n \<le> MaxRequests r, None)),
      s\<lparr>trace := trace s @ [Redis (limit_tx r apiKey)]\<rparr>)"
  by (simp add: Allow_def split: sum.split)

subsection \<open>The counter Redis keeps\<close>







subsection \<open>Properties\<close>










text \<open>
  A request passes exactly when the transaction succeeded and the count it returned is within
  the limit of ten; an error is handed on, and the transaction is the only thing that happens.
\<close>
theorem Allow_decides:
  "run_state (Allow env NewRateLimiter apiKey) s =
     ((case redis_reply env (trace s) (limit_tx NewRateLimiter apiKey) of
         Inl err \<Rightarrow> (False, Some err) | Inr n \<Rightarrow> (n \<le> 10, None)),
      s\<lparr>trace := trace s @ [Redis (limit_tx NewRateLimiter apiKey)]\<rparr>)"
  by (simp add: run_Allow NewRateLimiter_def split: sum.split)

end
