(* ===== verification/Gateway.thy ===== *)
theory Gateway
  imports Routing Http Limiter
begin

text \<open>
  \<^verbatim>\<open>gateway/server.go\<close>: the submission handler, the metrics handler, the handler of returned
  messages, and the registration with the load balancer.
\<close>

record gateway = worker_vars +
  publishedCount :: int64

definition add_published :: "('a gateway_scheme, unit) state" where
  "add_published = State_Monad.update (\<lambda>s. s\<lparr>publishedCount := publishedCount s + 1\<rparr>)"

lemma run_add_published [run_simps, simp]:
  "run_state add_published s = ((), s\<lparr>publishedCount := publishedCount s + 1\<rparr>)"
  by (simp add: add_published_def State_Monad.update_def)

subsection \<open>Authentication\<close>

definition jwt_secret :: string where
  "jwt_secret = ''super-secret-key-keep-this-safe''"

text \<open>
  The e-mail of the token, or the response that refuses the request. The prefix of the header is
  cut off unread. A claim that is not a string makes the type assertion panic.
\<close>

definition authenticate :: "env \<Rightarrow> history \<Rightarrow> request \<Rightarrow> (response + string) outcome" where
  "authenticate env h r =
     (let authHeader = HeaderGet r ''Authorization''
      in if authHeader = '''' \<or> length authHeader < 8 then
           Ret (Inl (http_error ''Missing Authorization header'' 401 response0))
         else
           (case jwt_parse env h (drop 7 authHeader) jwt_secret of
              Inl err \<Rightarrow> Ret (Inl (http_error ''Invalid or expired JWT'' 401 response0))
            | Inr (valid, claims) \<Rightarrow>
                if \<not> valid then Ret (Inl (http_error ''Invalid or expired JWT'' 401 response0))
                else
                  (case claims of
                     None \<Rightarrow> Ret (Inl (http_error ''Invalid token claims'' 401 response0))
                   | Some m \<Rightarrow>
                       (case m ''email'' of
                          None \<Rightarrow> Ret (Inl (http_error ''Invalid token claims'' 401 response0))
                        | Some JNull \<Rightarrow> Ret (Inl (http_error ''Invalid token claims'' 401 response0))
                        | Some (JString email) \<Rightarrow> Ret (Inr email)
                        | Some _ \<Rightarrow> Panic ''interface conversion''))))"

subsection \<open>Waiting for the feedback\<close>

record feedback =
  Status :: string
  Attempt :: int
  Worker :: string

definition feedback0 :: feedback where
  "feedback0 = \<lparr>Status = '''', Attempt = 0, Worker = ''''\<rparr>"

definition store_feedback :: "string \<Rightarrow> json \<Rightarrow> feedback decoding \<Rightarrow> feedback decoding" where
  "store_feedback key v acc =
     (if is_field ''status'' key then decode_string (\<lambda>s fb. fb\<lparr>Status := s\<rparr>) v acc
      else if is_field ''attempt'' key then decode_int (\<lambda>i fb. fb\<lparr>Attempt := i\<rparr>) v acc
      else if is_field ''worker'' key then decode_string (\<lambda>s fb. fb\<lparr>Worker := s\<rparr>) v acc
      else acc)"

text \<open>The error of \<^verbatim>\<open>json.Unmarshal\<close> is dropped.\<close>

definition decode_feedback :: "string \<Rightarrow> feedback" where
  "decode_feedback b = snd (unmarshal_struct store_feedback b feedback0)"

text \<open>The body of the first message with this correlation id that is not an interim retry.\<close>

fun await_feedback :: "string \<Rightarrow> delivery list \<Rightarrow> string option" where
  "await_feedback corrID [] = None"
| "await_feedback corrID (d # ds) =
     (if CorrelationId d \<noteq> corrID then await_feedback corrID ds
      else if Status (decode_feedback (Body d)) = ''retry'' then await_feedback corrID ds
      else Some (Body d))"

subsection \<open>handleSubmitTask\<close>

text \<open>\<^verbatim>\<open>fmt.Sprintf("%x", n)\<close>\<close>

fun hex_nat :: "nat \<Rightarrow> string" where
  "hex_nat n = (if n < 16 then [hex_digit n] else hex_nat (n div 16) @ [hex_digit (n mod 16)])"

declare hex_nat.simps [simp del]

definition randomID :: "env \<Rightarrow> ('a io_scheme, string) state" where
  "randomID env = do {
     n \<leftarrow> ask (rand_int env);
     State_Monad.return (hex_nat (n mod 2 ^ 63)) }"

definition accepted_body :: "string \<Rightarrow> string" where
  "accepted_body task = ''{\"status\":\"accepted\",\"task\":\"'' @ task @ ''\"}''"

text \<open>
  From the publication on: the answer when a final feedback arrives; when the reply channel closes
  first, the 504 and the code that follows it; otherwise the handler waits for ever.
\<close>

definition finish_submission ::
  "env \<Rightarrow> string \<Rightarrow> string \<Rightarrow> string \<Rightarrow> ('a io_scheme, response outcome) state" where
  "finish_submission env replyQ corrID task = do {
     (msgs, closed) \<leftarrow> ask (\<lambda>h. amqp_msgs env h replyQ);
     (case await_feedback corrID msgs of
        Some b \<Rightarrow> State_Monad.return (Ret (write_body b (write_header 200
            (set_header ''Content-Type'' ''application/json'' response0))))
      | None \<Rightarrow>
          if closed then State_Monad.return (Ret (write_body (accepted_body task) (write_header 202
              (http_error ''Timed out waiting for feedback'' 504 response0))))
          else State_Monad.return Blocked) }"

definition submit_task ::
  "env \<Rightarrow> request \<Rightarrow> string \<Rightarrow> ('a io_scheme, response outcome) state" where
  "submit_task env r replyQ = do {
     corrID \<leftarrow> randomID env;
     let task = FormValue r ''task'';
     if task = '''' then
       State_Monad.return (Ret (http_error ''Missing 'task' form field'' 400 response0))
     else do {
       p \<leftarrow> autoDetectAndPublish env task (FormValue r ''routingKey'') (FormValue r ''headersJSON'')
              (FormValue r ''fail'') (FormValue r ''retry'') replyQ corrID
              (FormValue r ''broadcast'' \<noteq> ''yes'');
       (case p of
          Ret None \<Rightarrow> finish_submission env replyQ corrID task
        | Ret (Some err) \<Rightarrow>
            State_Monad.return (Ret (http_error (''Failed to publish: '' @ err) 500 response0))
        | Panic msg \<Rightarrow> State_Monad.return (Panic msg)
        | Fatal msg \<Rightarrow> State_Monad.return (Fatal msg)
        | Blocked \<Rightarrow> State_Monad.return Blocked) } }"

definition handleSubmitTask ::
  "env \<Rightarrow> rate_limiter \<Rightarrow> request \<Rightarrow> ('a io_scheme, response outcome) state" where
  "handleSubmitTask env limiter r =
     (if Method r \<noteq> ''POST'' then
        State_Monad.return (Ret (http_error ''Only POST is allowed'' 405 response0))
      else do {
        caller \<leftarrow> ask (\<lambda>h. authenticate env h r);
        (case caller of
           Panic msg \<Rightarrow> State_Monad.return (Panic msg)
         | Fatal msg \<Rightarrow> State_Monad.return (Fatal msg)
         | Blocked \<Rightarrow> State_Monad.return Blocked
         | Ret (Inl resp) \<Rightarrow> State_Monad.return (Ret resp)
         | Ret (Inr email) \<Rightarrow> do {
             (allowed, err) \<leftarrow> Allow env limiter email;
             if err \<noteq> None then
               State_Monad.return (Ret (http_error (mark_warning @ '' Internal rate limit error'') 500 response0))
             else if \<not> allowed then
               State_Monad.return (Ret (http_error (mark_warning @ '' 429 Too Many Requests'') 429 response0))
             else do {
               (err, replyQ) \<leftarrow> queue_declare env '''' False True True False [];
               if err \<noteq> None then
                 State_Monad.return (Ret (http_error ''Failed to declare reply queue'' 500 response0))
               else do {
                 err \<leftarrow> amqp env (Consume replyQ '''' True True False False []);
                 if err \<noteq> None then
                   State_Monad.return (Ret (http_error ''Failed to consume reply queue'' 500 response0))
                 else submit_task env r replyQ } } }) })"

subsection \<open>metricsHandler\<close>

text \<open>A line of the report: its indentation in the source's raw string, and a newline.\<close>

definition report_line :: "nat \<Rightarrow> string \<Rightarrow> string" where
  "report_line n l = replicate n (CHR 0x20) @ l @ [CHR 0x0A]"

definition metrics_report :: "int \<Rightarrow> int \<Rightarrow> int \<Rightarrow> int \<Rightarrow> int \<Rightarrow> string" where
  "metrics_report queueDepth dlqDepth liveWorkers published acknowledged =
     report_line 0 ''# HELP rabbitmq_queue_depth Number of messages ready in task_queue'' @
     report_line 8 ''# TYPE rabbitmq_queue_depth gauge'' @
     report_line 12 (''rabbitmq_queue_depth '' @ dec_int queueDepth) @
     report_line 8 ''# HELP rabbitmq_dlq_depth Number of messages in dead letter queue'' @
     report_line 8 ''# TYPE rabbitmq_dlq_depth gauge'' @
     report_line 12 (''rabbitmq_dlq_depth '' @ dec_int dlqDepth) @
     report_line 8 ''# HELP rabbitmq_live_workers Number of live workers'' @
     report_line 8 ''# TYPE rabbitmq_live_workers gauge'' @
     report_line 12 (''rabbitmq_live_workers '' @ dec_int liveWorkers) @
     report_line 8 ''# HELP rabbitmq_messages_published Total messages published'' @
     report_line 8 ''# TYPE rabbitmq_messages_published counter'' @
     report_line 12 (''rabbitmq_messages_published '' @ dec_int published) @
     report_line 8 ''# HELP rabbitmq_messages_acknowledged Total messages acknowledged by workers'' @
     report_line 8 ''# TYPE rabbitmq_messages_acknowledged counter'' @
     report_line 12 (''rabbitmq_messages_acknowledged '' @ dec_int acknowledged)"

definition metricsHandler :: "env \<Rightarrow> ('a gateway_scheme, response outcome) state" where
  "metricsHandler env = do {
     (err, queueDepth) \<leftarrow> queue_inspect env ''task_queue'';
     (case err of
        Some e \<Rightarrow> State_Monad.return (Ret (http_error (''QueueInspect error: '' @ e) 500 response0))
      | None \<Rightarrow> do {
          (err, depth) \<leftarrow> queue_inspect env ''dead_task'';
          let dlqDepth = (if err \<noteq> None then 0 else depth);
          s \<leftarrow> State_Monad.get;
          State_Monad.return (Ret (write_body
            (metrics_report queueDepth dlqDepth (sint (WorkerCount s)) (sint (publishedCount s))
               (sint (AckCount s)))
            (set_header ''Content-Type'' ''text/plain; version=0.0.4'' response0))) }) }"

subsection \<open>Returned messages\<close>

text \<open>The body of the goroutine over \<^verbatim>\<open>NotifyReturn\<close>, for a message the broker could not route.\<close>

definition dlq_notice :: "publishing \<Rightarrow> publishing" where
  "dlq_notice ret =
     publishing0\<lparr>ContentType := ''application/json'',
       Body := marshal_struct [(''status'', SString ''dlq'')], CorrelationId := CorrelationId ret\<rparr>"

definition handle_return :: "env \<Rightarrow> publishing \<Rightarrow> ('a gateway_scheme, unit) state" where
  "handle_return env ret = do {
     startTs \<leftarrow> time_now env;
     inc DLXMessages;
     only_if (ReplyTo ret \<noteq> '''') (do {
       add_published;
       _ \<leftarrow> amqp env (Publish '''' (ReplyTo ret) False False (dlq_notice ret));
       State_Monad.return () });
     add_published;
     inc_label WorkerThroughput ''dlx_handler'';
     observe_latency env startTs;
     _ \<leftarrow> amqp env (Publish ''dlx_exchange'' ''dead_task'' False False
       (publishing0\<lparr>ContentType := ContentType ret, Body := Body ret, ReplyTo := ReplyTo ret,
          CorrelationId := CorrelationId ret\<rparr>));
     State_Monad.return () }"

subsection \<open>Registration with the load balancer\<close>

definition register_url :: string where
  "register_url = ''http://localhost:89/register''"

text \<open>The loop with \<open>n\<close> tries left; the result is whether it registered.\<close>

fun register_tries :: "env \<Rightarrow> string \<Rightarrow> string \<Rightarrow> nat \<Rightarrow> ('a io_scheme, bool) state" where
  "register_tries env self hostname 0 = State_Monad.return False"
| "register_tries env self hostname (Suc n) = do {
     resp \<leftarrow> http env (HttpPostForm register_url [(''address'', self), (''name'', hostname)]);
     if (case resp of Inr r \<Rightarrow> StatusCode r = 200 | Inl _ \<Rightarrow> False) then State_Monad.return True
     else do {
       sleep Second;
       register_tries env self hostname n } }"

definition registerWithLoadBalancer ::
  "env \<Rightarrow> string \<Rightarrow> nat \<Rightarrow> ('a io_scheme, bool) state" where
  "registerWithLoadBalancer env hostname port =
     register_tries env (''http://localhost:'' @ dec_nat port) hostname 5"

subsection \<open>Properties\<close>

lemma authenticate_refusal:
  "case authenticate env h r of
     Ret (Inl w) \<Rightarrow> w_status w = Some 401 | Fatal msg \<Rightarrow> False | Blocked \<Rightarrow> False | _ \<Rightarrow> True"
  by (simp add: authenticate_def Let_def split: sum.split option.split json.split prod.split)

lemma register_tries_events:
  "\<exists>k. trace (snd (run_state (register_tries env self hostname n) s)) = trace s @
      concat (replicate k [Http (HttpPostForm register_url [(''address'', self), (''name'', hostname)]), Sleep Second]) @
      (if fst (run_state (register_tries env self hostname n) s)
       then [Http (HttpPostForm register_url [(''address'', self), (''name'', hostname)])] else []) \<and>
    (if fst (run_state (register_tries env self hostname n) s) then k < n else k = n)"
proof (induction n arbitrary: s)
  case 0
  show ?case by simp
next
  case (Suc n)
  let ?c = "HttpPostForm register_url [(''address'', self), (''name'', hostname)]"
  show ?case
  proof (cases "case http_reply env (trace s) ?c of Inr r \<Rightarrow> StatusCode r = 200 | Inl _ \<Rightarrow> False")
    case True
    then show ?thesis by (intro exI [of _ 0]) simp
  next
    case False
    obtain k where "trace (snd (run_state (register_tries env self hostname n)
          (s\<lparr>trace := trace s @ [Http ?c, Sleep Second]\<rparr>))) = (trace s @ [Http ?c, Sleep Second]) @
        concat (replicate k [Http ?c, Sleep Second]) @
        (if fst (run_state (register_tries env self hostname n) (s\<lparr>trace := trace s @ [Http ?c, Sleep Second]\<rparr>))
         then [Http ?c] else []) \<and>
      (if fst (run_state (register_tries env self hostname n) (s\<lparr>trace := trace s @ [Http ?c, Sleep Second]\<rparr>))
       then k < n else k = n)"
      using Suc [of "s\<lparr>trace := trace s @ [Http ?c, Sleep Second]\<rparr>"] by auto
    with False show ?thesis by (intro exI [of _ "Suc k"]) simp
  qed
qed

lemma registerWithLoadBalancer_accepted:
  assumes "http_reply env (trace s) (HttpPostForm register_url
      [(''address'', ''http://localhost:'' @ dec_nat port), (''name'', hostname)]) = Inr r"
    and "StatusCode r = 200"
  shows "run_state (registerWithLoadBalancer env hostname port) s =
    (True, s\<lparr>trace := trace s @ [Http (HttpPostForm register_url
      [(''address'', ''http://localhost:'' @ dec_nat port), (''name'', hostname)])]\<rparr>)"
proof -
  have step: "StatusCode r = 200 \<Longrightarrow>
      http_reply env (trace s) (HttpPostForm register_url [(''address'', self), (''name'', hostname)]) = Inr r \<Longrightarrow>
      run_state (register_tries env self hostname (Suc n)) s =
        (True, s\<lparr>trace := trace s @ [Http (HttpPostForm register_url [(''address'', self), (''name'', hostname)])]\<rparr>)"
    for self n by simp
  have five: "(5 :: nat) = Suc 4" by simp
  show ?thesis unfolding registerWithLoadBalancer_def five by (rule step [OF assms(2,1)])
qed

text \<open>A request without a form, and one that submits no task with a token.\<close>

definition request0 :: request where
  "request0 = \<lparr>Method = ''POST'', Path = ''/submit-task'', RawQuery = '''', ReqHeader = [], Form = [],
     ReqBody = Inr ''''\<rparr>"

definition token_request :: request where
  "token_request = request0\<lparr>ReqHeader := [(''Authorization'', ''Bearer xyz'')]\<rparr>"

definition auth_env :: env where
  "auth_env = quiet_env\<lparr>jwt_parse := (\<lambda>h t k. Inr (True, Some [''email'' \<mapsto> JString ''a@b.c'']))\<rparr>"

lemma auth_env_amqp: "amqp_err auth_env h c = None" "redis_reply auth_env h rc = Inr 1"
  by (simp_all add: auth_env_def)

lemma token_request_simps [simp]:
  "Method token_request = ''POST''" "FormValue token_request k = ''''"
  "authenticate auth_env h token_request = Ret (Inr ''a@b.c'')"
  by (simp_all add: token_request_def request0_def FormValue_def first_value_def authenticate_def auth_env_def
      HeaderGet_def)

lemma decode_feedback_marshal:
  assumes "list_all field_ascii fs"
  shows "decode_feedback (marshal_struct fs) =
    snd (foldl (\<lambda>acc m. store_feedback (fst m) (snd m) acc) (False, feedback0)
      (map (map_prod id scalar_json) fs))"
  using json_parse_marshal_struct [OF assms]
  by (simp add: decode_feedback_def unmarshal_struct_def decode_object_def)

lemma feedback_fields [simp]:
  "is_field ''status'' ''status''" "is_field ''attempt'' ''attempt''" "is_field ''worker'' ''worker''"
  "\<not> is_field ''status'' ''attempt''" "\<not> is_field ''status'' ''worker''" "\<not> is_field ''attempt'' ''worker''"
  "\<not> is_field ''status'' ''reason''" "\<not> is_field ''attempt'' ''reason''" "\<not> is_field ''worker'' ''reason''"
  by (simp_all add: is_field_def)

lemma parse_attempt: "parse_int64 (dec_int (sint (k :: int32))) = Some (sint k)"
  using sint_int32_bounds [of k] by (intro parse_int64_dec_int) simp_all

text \<open>
  C28: A submission that is not a POST by an authenticated caller has no effect: no call to Redis or the
  broker is made, and the caller is answered 405 or 401, or the handler panics on a malformed claim.
\<close>
theorem unauthenticated_submission_has_no_effect:
  assumes "Method r \<noteq> ''POST'' \<or> (\<nexists>email. authenticate env (trace s) r = Ret (Inr email))"
  shows "snd (run_state (handleSubmitTask env limiter r) s) = s \<and>
    (case fst (run_state (handleSubmitTask env limiter r) s) of
       Ret w \<Rightarrow> w_status w = Some (if Method r \<noteq> ''POST'' then 405 else 401)
     | Panic msg \<Rightarrow> Method r = ''POST'' \<and> authenticate env (trace s) r = Panic msg
     | _ \<Rightarrow> False)"
  using assms authenticate_refusal [of env "trace s" r] by (auto simp: handleSubmitTask_def split: outcome.splits sum.splits)

theorem unauthenticated_submission_has_no_effect_witness:
  "snd (run_state (handleSubmitTask quiet_env NewRateLimiter request0) (\<lparr>trace = []\<rparr> :: io)) = \<lparr>trace = []\<rparr>"
  using unauthenticated_submission_has_no_effect [of request0 quiet_env "\<lparr>trace = []\<rparr> :: io" NewRateLimiter]
  by (simp add: authenticate_def request0_def HeaderGet_def first_value_def)

text \<open>
  Authentication accepts exactly the requests whose header, less its first seven characters, is a
  valid token with a string as its e-mail claim: the scheme in front of the token is never compared.
\<close>
theorem authenticate_accepts_iff:
  "authenticate env h r = Ret (Inr email) \<longleftrightarrow>
     8 \<le> length (HeaderGet r ''Authorization'') \<and>
     (\<exists>claims. jwt_parse env h (drop 7 (HeaderGet r ''Authorization'')) jwt_secret = Inr (True, Some claims) \<and>
        claims ''email'' = Some (JString email))"
  by (auto simp: authenticate_def Let_def split: sum.splits option.splits json.splits prod.splits)


text \<open>
  C31: The JSON the workers send decodes in the gateway to what they meant: the status, the attempt
  and the worker, for every attempt number and every plain worker name.
\<close>
theorem feedback_roundtrip:
  assumes "ascii w"
  shows "decode_feedback (marshal_struct (retry_feedback w k)) =
      \<lparr>Status = ''retry'', Attempt = sint k, Worker = w\<rparr> \<and>
    decode_feedback (marshal_struct (dlq_feedback w)) = \<lparr>Status = ''dlq'', Attempt = 0, Worker = w\<rparr> \<and>
    decode_feedback (marshal_struct (forced_failure_feedback w)) = \<lparr>Status = ''dlq'', Attempt = 0, Worker = w\<rparr>"
  using assms
  by (simp add: decode_feedback_marshal retry_feedback_def dlq_feedback_def forced_failure_feedback_def
      field_ascii_def store_feedback_def decode_string_def decode_int_def feedback0_def parse_attempt
      ascii_def)

theorem feedback_roundtrip_witness:
  "decode_feedback (marshal_struct (retry_feedback ''shard-delay-1'' (- 2))) =
     \<lparr>Status = ''retry'', Attempt = - 2, Worker = ''shard-delay-1''\<rparr>"
  using feedback_roundtrip [of "''shard-delay-1''" "- 2"] by (simp add: ascii_def)

text \<open>
  An authenticated, admitted submission without a task is answered 400 only after a reply queue has
  been declared and an exclusive consumer opened on it; neither is ever given up.
\<close>
theorem missing_task_leaks_consumer:
  assumes "Method r = ''POST''" and "authenticate env (trace s) r = Ret (Inr email)"
    and "redis_reply env (trace s) (limit_tx limiter email) = Inr n" and "n \<le> MaxRequests limiter"
    and "amqp_never_fails env" and "FormValue r ''task'' = ''''"
  shows "\<exists>w es. fst (run_state (handleSubmitTask env limiter r) s) = Ret w \<and> w_status w = Some 400 \<and>
    trace (snd (run_state (handleSubmitTask env limiter r) s)) = trace s @ es \<and>
    declared es = [''''] \<and> publishes es = [] \<and>
    map snd (consumed es) = [(True, True)] \<and> length es = 3"
  using assms
  by (simp add: handleSubmitTask_def run_Allow submit_task_def randomID_def amqp_never_fails_def)

theorem missing_task_leaks_consumer_witness:
  "\<exists>w. fst (run_state (handleSubmitTask auth_env NewRateLimiter token_request) (\<lparr>trace = []\<rparr> :: io)) = Ret w \<and>
     w_status w = Some 400"
  using missing_task_leaks_consumer [of token_request auth_env "\<lparr>trace = []\<rparr> :: io" "''a@b.c''" NewRateLimiter 1]
  by (fastforce simp: amqp_never_fails_def NewRateLimiter_def auth_env_amqp)

text \<open>
  When the reply channel closes before a final feedback, the answer is a 504 whose body goes on to
  say that the task was accepted: the code after the timeout still writes to the same response.
\<close>
theorem timeout_also_says_accepted:
  assumes "amqp_msgs env (trace s) replyQ = (ds, True)" and "await_feedback corrID ds = None"
  shows "\<exists>w. run_state (finish_submission env replyQ corrID task) s = (Ret w, s) \<and>
    w_status w = Some 504 \<and>
    w_body w = ''Timed out waiting for feedback'' @ [CHR 0x0A] @ accepted_body task"
  using assms by (simp add: finish_submission_def)

theorem timeout_also_says_accepted_witness:
  "\<exists>w. run_state (finish_submission quiet_env ''amq.gen'' ''1f'' ''t'') (\<lparr>trace = []\<rparr> :: io) = (Ret w, \<lparr>trace = []\<rparr>) \<and>
     w_status w = Some 504"
  using timeout_also_says_accepted [of quiet_env "\<lparr>trace = []\<rparr> :: io" "''amq.gen''" "[]" "''1f''" "''t''"] by auto

text \<open>
  A returned message is forwarded to the dead-letter exchange with body, reply queue and correlation
  id kept, after a \<^verbatim>\<open>dlq\<close> notice to its sender if it named one; the count of published messages
  moves by two in that case and by one otherwise.
\<close>
theorem returned_message_is_dead_lettered:
  "publishes (added (handle_return env ret) s) =
     (if ReplyTo ret = '''' then [] else [('''', ReplyTo ret, dlq_notice ret)]) @
     [(''dlx_exchange'', ''dead_task'', publishing0\<lparr>ContentType := ContentType ret, Body := Body ret,
        ReplyTo := ReplyTo ret, CorrelationId := CorrelationId ret\<rparr>)] \<and>
   publishedCount (snd (run_state (handle_return env ret) s)) =
     publishedCount s + (if ReplyTo ret = '''' then 1 else 2) \<and>
   counter DLXMessages (added (handle_return env ret) s) = 1 \<and>
   counter MsgsPublished (added (handle_return env ret) s) = 0"
  by (simp add: handle_return_def added_def)

text \<open>
  Registration gives up after five refused attempts, one second apart, and stops at the first
  attempt the balancer accepts.
\<close>
theorem registration_tries:
  "\<exists>k. added (registerWithLoadBalancer env hostname port) s =
      concat (replicate k [Http (HttpPostForm register_url
        [(''address'', ''http://localhost:'' @ dec_nat port), (''name'', hostname)]), Sleep Second]) @
      (if fst (run_state (registerWithLoadBalancer env hostname port) s)
       then [Http (HttpPostForm register_url
         [(''address'', ''http://localhost:'' @ dec_nat port), (''name'', hostname)])] else []) \<and>
    (if fst (run_state (registerWithLoadBalancer env hostname port) s) then k < 5 else k = 5)"
  unfolding registerWithLoadBalancer_def
  using register_tries_events [of env "''http://localhost:'' @ dec_nat port" hostname 5 s] added_eqI by blast

end
