(* ===== verification/Url.thy ===== *)
theory Url
  imports Http "HOL-Library.Multiset" "HOL-Library.List_Lexorder" "HOL-Library.Char_ord"
begin

text \<open>
  What the program uses of \<^verbatim>\<open>net/url\<close> and of the form parsing of \<^verbatim>\<open>net/http\<close>: escaping of query
  components, encoding and parsing of queries, and the form a server reads from a request. What a
  client encodes the server reads back, for all keys and values.
\<close>

subsection \<open>Escaping\<close>

definition unreserved :: "char \<Rightarrow> bool" where
  "unreserved c =
     (let b = byte c
      in 97 \<le> b \<and> b \<le> 122 \<or> 65 \<le> b \<and> b \<le> 90 \<or> 48 \<le> b \<and> b \<le> 57 \<or> c \<in> set ''-_.~'')"

definition upper_hex :: "nat \<Rightarrow> char" where
  "upper_hex d = (if d < 10 then char_of (48 + d) else char_of (55 + d))"

text \<open>\<^verbatim>\<open>url.QueryEscape\<close>, byte by byte.\<close>

definition escape_byte :: "char \<Rightarrow> string" where
  "escape_byte c =
     (if unreserved c then [c] else if c = CHR '' '' then ''+''
      else [CHR ''%'', upper_hex (byte c div 16), upper_hex (byte c mod 16)])"

definition QueryEscape :: "string \<Rightarrow> string" where
  "QueryEscape cs = concat (map escape_byte cs)"

text \<open>\<^verbatim>\<open>url.QueryUnescape\<close>; a percent sign without two hex digits after it is an error.\<close>

fun QueryUnescape :: "string \<Rightarrow> string option" where
  "QueryUnescape [] = Some []"
| "QueryUnescape (c # cs) =
     (if c = CHR ''%'' then
        (case cs of a # b # r \<Rightarrow>
             (case (hex_val a, hex_val b) of
                (Some x, Some y) \<Rightarrow> map_option (Cons (char_of (16 * x + y))) (QueryUnescape r)
              | _ \<Rightarrow> None)
         | _ \<Rightarrow> None)
      else map_option (Cons (if c = CHR ''+'' then CHR '' '' else c)) (QueryUnescape cs))"

lemma hex_val_upper_hex: "d < 16 \<Longrightarrow> hex_val (upper_hex d) = Some d"
  by (auto simp: hex_val_def upper_hex_def)

lemma byte_div_16: "byte c div 16 < 16"
  using nat_of_char_less_256 [of c] by (simp add: less_mult_imp_div_less)

lemma QueryUnescape_hex:
  "QueryUnescape (CHR ''%'' # upper_hex (byte c div 16) # upper_hex (byte c mod 16) # r) =
     map_option (Cons c) (QueryUnescape r)"
proof -
  have "char_of (16 * (byte c div 16) + byte c mod 16) = c"
    by (simp only: mult_div_mod_eq char_of_char)
  moreover have "hex_val (upper_hex (byte c div 16)) = Some (byte c div 16)"
    and "hex_val (upper_hex (byte c mod 16)) = Some (byte c mod 16)"
    by (simp_all add: hex_val_upper_hex byte_div_16)
  ultimately show ?thesis by simp
qed

lemma unreserved_no_escape: "unreserved c \<Longrightarrow> c \<noteq> CHR ''%'' \<and> c \<noteq> CHR ''+''"
  by (auto simp: unreserved_def Let_def)

lemma QueryUnescape_escape_byte:
  "QueryUnescape (escape_byte c @ r) = map_option (Cons c) (QueryUnescape r)"
proof (cases "unreserved c \<or> c = CHR '' ''")
  case True
  then show ?thesis using unreserved_no_escape [of c] by (auto simp: escape_byte_def)
next
  case False
  then show ?thesis by (simp add: escape_byte_def QueryUnescape_hex del: QueryUnescape.simps)
qed

lemma QueryUnescape_escape: "QueryUnescape (QueryEscape cs) = Some cs"
  by (induction cs) (simp_all add: QueryEscape_def QueryUnescape_escape_byte)

text \<open>No byte with a meaning in a query survives escaping.\<close>

lemma unreserved_upper_hex: "d < 16 \<Longrightarrow> unreserved (upper_hex d)"
  by (auto simp: unreserved_def upper_hex_def Let_def)

lemma escape_byte_set: "x \<in> set (escape_byte c) \<Longrightarrow> unreserved x \<or> x = CHR ''+'' \<or> x = CHR ''%''"
proof -
  have "unreserved (upper_hex (byte c div 16))" and "unreserved (upper_hex (byte c mod 16))"
    by (simp_all add: unreserved_upper_hex byte_div_16)
  then show "x \<in> set (escape_byte c) \<Longrightarrow> unreserved x \<or> x = CHR ''+'' \<or> x = CHR ''%''"
    by (auto simp: escape_byte_def split: if_splits)
qed

lemma QueryEscape_set: "x \<in> set (QueryEscape cs) \<Longrightarrow> unreserved x \<or> x = CHR ''+'' \<or> x = CHR ''%''"
  by (auto simp: QueryEscape_def dest: escape_byte_set)

lemma QueryEscape_plain [simp]:
  "CHR ''&'' \<notin> set (QueryEscape cs)" "CHR '';'' \<notin> set (QueryEscape cs)" "CHR ''='' \<notin> set (QueryEscape cs)"
  by (auto simp: unreserved_def Let_def dest: QueryEscape_set)

subsection \<open>url.Values\<close>

text \<open>The map from keys to lists of values, as the list of its entries. \<^verbatim>\<open>Set\<close> replaces all values of a key.\<close>

type_synonym url_values = "(string \<times> string) list"

definition set_value :: "string \<Rightarrow> string \<Rightarrow> url_values \<Rightarrow> url_values" where
  "set_value k v kvs = filter (\<lambda>kv. fst kv \<noteq> k) kvs @ [(k, v)]"

text \<open>\<^verbatim>\<open>Encode\<close>: sorted by key.\<close>

definition encode_pair :: "string \<times> string \<Rightarrow> string" where
  "encode_pair kv = QueryEscape (fst kv) @ CHR ''='' # QueryEscape (snd kv)"

definition Encode :: "url_values \<Rightarrow> string" where
  "Encode kvs = join_with (CHR ''&'') (map encode_pair (sort_key fst kvs))"

text \<open>
  \<^verbatim>\<open>url.ParseQuery\<close>, whose error the program drops: empty pieces, pieces with a semicolon and pieces
  that do not unescape are skipped.
\<close>

definition query_pair :: "string \<Rightarrow> (string \<times> string) option" where
  "query_pair piece =
     (if piece = [] \<or> CHR '';'' \<in> set piece then None
      else let (k, v) = cut (CHR ''='') piece
           in case (QueryUnescape k, QueryUnescape v) of (Some k', Some v') \<Rightarrow> Some (k', v') | _ \<Rightarrow> None)"

definition parse_query :: "string \<Rightarrow> url_values" where
  "parse_query q = List.map_filter query_pair (split_on (CHR ''&'') q)"

lemma query_pair_encode: "query_pair (encode_pair kv) = Some kv"
  by (simp add: query_pair_def encode_pair_def cut_append QueryUnescape_escape)

lemma encode_pair_plain: "CHR ''&'' \<notin> set (encode_pair kv)"
  by (simp add: encode_pair_def)

lemma parse_query_Encode: "parse_query (Encode kvs) = sort_key fst kvs"
proof (cases "kvs = []")
  case True
  then show ?thesis by (simp add: Encode_def parse_query_def query_pair_def map_filter_def)
next
  case False
  then have "split_on (CHR ''&'') (Encode kvs) = map encode_pair (sort_key fst kvs)"
    unfolding Encode_def by (intro split_on_join) (auto simp: encode_pair_plain dest: arg_cong [of _ _ length])
  then show ?thesis
    by (simp add: parse_query_def map_filter_def comp_def query_pair_encode)
qed

lemma first_value_filter: "first_value (filter (\<lambda>kv. fst kv = k) kvs) k = first_value kvs k"
  by (induction kvs) (auto simp: first_value_def)

text \<open>What is encoded is read back, whatever bytes keys and values hold.\<close>

lemma first_value_Encode: "first_value (parse_query (Encode kvs)) k = first_value kvs k"
  using sort_key_stable [of fst k kvs] first_value_filter [of k kvs] first_value_filter [of k "sort_key fst kvs"]
  by (simp add: parse_query_Encode)

lemma first_value_set [simp]: "first_value (set_value k v kvs) k' = (if k' = k then v else first_value kvs k')"
proof (cases "k' = k")
  case True
  have "map_of (filter (\<lambda>kv. fst kv \<noteq> k) kvs) k = None" by (auto simp: map_of_eq_None_iff)
  with True show ?thesis by (simp add: set_value_def first_value_def map_add_def)
next
  case False
  have "map_of (filter (\<lambda>kv. fst kv \<noteq> k) kvs) k' = map_of kvs k'"
    using False by (induction kvs) auto
  with False show ?thesis by (simp add: set_value_def first_value_def map_add_def split: option.split)
qed

text \<open>A bound on the length of what is sent.\<close>

lemma length_QueryEscape: "length (QueryEscape cs) \<le> 3 * length cs"
  by (induction cs) (auto simp: QueryEscape_def escape_byte_def)

lemma length_join_with: "length (join_with x ps) \<le> sum_list (map (\<lambda>p. Suc (length p)) ps)"
  by (induction x ps rule: join_with.induct) auto

lemma sum_list_sort_key: "sum_list (map f (sort_key g xs)) = (sum_list (map f xs) :: nat)"
  by (metis mset_map mset_sort sum_mset_sum_list)

lemma length_Encode:
  "length (Encode kvs) \<le> sum_list (map (\<lambda>kv. 3 * length (fst kv) + 3 * length (snd kv) + 2) kvs)"
proof -
  have "length (Encode kvs) \<le> sum_list (map (\<lambda>kv. Suc (length (encode_pair kv))) (sort_key fst kvs))"
    using length_join_with [of "CHR ''&''" "map encode_pair (sort_key fst kvs)"] by (simp add: Encode_def comp_def)
  also have "\<dots> = sum_list (map (\<lambda>kv. Suc (length (encode_pair kv))) kvs)" by (rule sum_list_sort_key)
  also have "\<dots> \<le> sum_list (map (\<lambda>kv. 3 * length (fst kv) + 3 * length (snd kv) + 2) kvs)"
  proof (rule sum_list_mono)
    fix kv :: "string \<times> string"
    show "Suc (length (encode_pair kv)) \<le> 3 * length (fst kv) + 3 * length (snd kv) + 2"
      using length_QueryEscape [of "fst kv"] length_QueryEscape [of "snd kv"] by (simp add: encode_pair_def)
  qed
  finally show ?thesis .
qed

subsection \<open>The form of a request\<close>

text \<open>
  \<^verbatim>\<open>r.Form\<close>: the values of a url-encoded body of at most 10 MB first, then those of the query.
\<close>

abbreviation form_type :: string where
  "form_type \<equiv> ''application/x-www-form-urlencoded''"

definition maxFormSize :: nat where
  "maxFormSize = 10 * 2 ^ 20"

definition body_form :: "request \<Rightarrow> url_values" where
  "body_form r =
     (if Method r \<in> {''POST'', ''PUT'', ''PATCH''} \<and> HeaderGet r ''Content-Type'' = form_type then
        (case ReqBody r of
           Inl err \<Rightarrow> []
         | Inr b \<Rightarrow> if length b \<le> maxFormSize then parse_query b else [])
      else [])"

definition parse_form :: "request \<Rightarrow> request" where
  "parse_form r = r\<lparr>Form := body_form r @ parse_query (RawQuery r)\<rparr>"

text \<open>\<^verbatim>\<open>r.URL.Query().Get(k)\<close>\<close>

definition query_value :: "request \<Rightarrow> string \<Rightarrow> string" where
  "query_value r k = first_value (parse_query (RawQuery r)) k"

text \<open>The query of a URL: between the question mark and the fragment.\<close>

definition url_query :: "string \<Rightarrow> string" where
  "url_query u = snd (cut (CHR ''?'') (fst (cut (CHR ''#'') u)))"

end
