(* ===== verification/Load_Balancer.thy ===== *)
theory Load_Balancer
  imports Http "HOL-Library.Sublist"
begin

text \<open>
  \<^verbatim>\<open>load_balancer.go\<close>, a process of its own: the registry of gateways, the round-robin choice over
  a 64-bit counter, the periodic removal of dead gateways and the proxy. Each handler is modelled as
  one step here; the locking between them is the subject of theory \<open>Load_Balancer_Locks\<close>.
\<close>

record lb = io +
  backends :: "string list"
  current :: uint64

subsection \<open>getNextBackend and healthCheck\<close>

definition getNextBackend :: "('a lb_scheme, string) state" where
  "getNextBackend = do {
     s \<leftarrow> State_Monad.get;
     if backends s = [] then State_Monad.return ''''
     else do {
       State_Monad.set (s\<lparr>current := current s + 1\<rparr>);
       State_Monad.return (backends s ! (unat (current s + 1) mod length (backends s))) } }"

lemma run_getNextBackend [run_simps]:
  "run_state getNextBackend s =
     (if backends s = [] then ('''', s)
      else (backends s ! (unat (current s + 1) mod length (backends s)), s\<lparr>current := current s + 1\<rparr>))"
  by (simp add: getNextBackend_def)

definition is_ok :: "string + http_response \<Rightarrow> bool" where
  "is_ok resp = (case resp of Inl err \<Rightarrow> False | Inr r \<Rightarrow> StatusCode r = 200)"

definition healthCheck :: "env \<Rightarrow> string \<Rightarrow> ('a io_scheme, bool) state" where
  "healthCheck env target = do {
     resp \<leftarrow> http env (HttpGet (target @ ''/health''));
     State_Monad.return (is_ok resp) }"

lemma run_healthCheck [run_simps, simp]:
  "run_state (healthCheck env target) s =
     (is_ok (http_reply env (trace s) (HttpGet (target @ ''/health''))),
      s\<lparr>trace := trace s @ [Http (HttpGet (target @ ''/health''))]\<rparr>)"
  by (simp add: healthCheck_def)

subsection \<open>startPruneDeadGateways\<close>

text \<open>The loop over the registry: the gateways that answer, in order.\<close>

fun healthy_backends :: "env \<Rightarrow> string list \<Rightarrow> ('a io_scheme, string list) state" where
  "healthy_backends env [] = State_Monad.return []"
| "healthy_backends env (b # bs) = do {
     ok \<leftarrow> healthCheck env b;
     rest \<leftarrow> healthy_backends env bs;
     State_Monad.return (if ok then b # rest else rest) }"

text \<open>One turn of the endless loop.\<close>

definition prune_dead_gateways :: "env \<Rightarrow> int \<Rightarrow> ('a lb_scheme, unit) state" where
  "prune_dead_gateways env interval = do {
     sleep interval;
     s \<leftarrow> State_Monad.get;
     newBackends \<leftarrow> healthy_backends env (backends s);
     State_Monad.update (\<lambda>s. s\<lparr>backends := newBackends\<rparr>) }"

subsection \<open>registerHandler\<close>

definition registerHandler :: "request \<Rightarrow> ('a lb_scheme, response) state" where
  "registerHandler r = do {
     let address = FormValue r ''address'';
     s \<leftarrow> State_Monad.get;
     if address = '''' then State_Monad.return (http_error ''Missing address'' 400 response0)
     else if address \<in> set (backends s) then
       State_Monad.return (write_body (''Already registered'' @ [CHR 0x0A]) response0)
     else do {
       State_Monad.set (s\<lparr>backends := backends s @ [address]\<rparr>);
       State_Monad.return (write_body (''Registered'' @ [CHR 0x0A]) response0) } }"

lemma run_registerHandler [run_simps]:
  "run_state (registerHandler r) s =
     (let address = FormValue r ''address''
      in if address = '''' then (http_error ''Missing address'' 400 response0, s)
         else if address \<in> set (backends s) then (write_body (''Already registered'' @ [CHR 0x0A]) response0, s)
         else (write_body (''Registered'' @ [CHR 0x0A]) response0, s\<lparr>backends := backends s @ [address]\<rparr>))"
  by (simp add: registerHandler_def Let_def)

subsection \<open>proxyHandler\<close>

text \<open>The response of the gateway copied to the client: headers, status, body.\<close>

definition copy_headers :: "(string \<times> string list) list \<Rightarrow> response \<Rightarrow> response" where
  "copy_headers hs w = foldl (\<lambda>w h. foldl (\<lambda>w v. add_header (fst h) v w) w (snd h)) w hs"

definition copy_response :: "http_response \<Rightarrow> response" where
  "copy_response resp =
     write_body (RespBody resp) (write_header (StatusCode resp) (copy_headers (RespHeader resp) response0))"

text \<open>The request sent on: the path of the request, not its query.\<close>

definition proxy_call :: "request \<Rightarrow> string \<Rightarrow> string \<Rightarrow> http_call" where
  "proxy_call r bodyBytes target = HttpDo (Method r) (target @ Path r) (ReqHeader r) bodyBytes"

fun proxy_tries :: "env \<Rightarrow> request \<Rightarrow> string \<Rightarrow> nat \<Rightarrow> ('a lb_scheme, response) state" where
  "proxy_tries env r bodyBytes 0 =
     State_Monad.return (http_error (mark_siren @ '' All backends unhealthy'') 503 response0)"
| "proxy_tries env r bodyBytes (Suc n) = do {
     target \<leftarrow> getNextBackend;
     if target = '''' then proxy_tries env r bodyBytes n
     else do {
       healthy \<leftarrow> healthCheck env target;
       if \<not> healthy then proxy_tries env r bodyBytes n
       else if new_request_err env (Method r) (target @ Path r) \<noteq> None then
         proxy_tries env r bodyBytes n
       else do {
         resp \<leftarrow> http env (proxy_call r bodyBytes target);
         (case resp of
            Inl err \<Rightarrow> proxy_tries env r bodyBytes n
          | Inr resp \<Rightarrow> State_Monad.return (copy_response resp)) } } }"

definition proxyHandler :: "env \<Rightarrow> request \<Rightarrow> ('a lb_scheme, response) state" where
  "proxyHandler env r = do {
     s \<leftarrow> State_Monad.get;
     if backends s = [] then
       State_Monad.return (http_error (mark_siren @ '' No registered gateways'') 503 response0)
     else
       (case ReqBody r of
          Inl err \<Rightarrow> State_Monad.return (http_error (mark_cross @ '' Failed to read body'') 500 response0)
        | Inr bodyBytes \<Rightarrow> proxy_tries env r bodyBytes (length (backends s))) }"

subsection \<open>The metrics endpoint\<close>

definition replace_headers :: "(string \<times> string list) list \<Rightarrow> response \<Rightarrow> response" where
  "replace_headers hs w =
     foldl (\<lambda>w h. foldl (\<lambda>w v. add_header (fst h) v w)
                    (w\<lparr>w_headers := filter (\<lambda>x. fst x \<noteq> fst h) (w_headers w)\<rparr>) (snd h)) w hs"

fun metrics_tries :: "env \<Rightarrow> string list \<Rightarrow> ('a io_scheme, response) state" where
  "metrics_tries env [] =
     State_Monad.return (http_error (mark_cross @ '' No healthy gateway found'') 502 response0)"
| "metrics_tries env (target # bs) = do {
     healthy \<leftarrow> healthCheck env target;
     if \<not> healthy then metrics_tries env bs
     else do {
       resp \<leftarrow> http env (HttpGet (target @ ''/metrics''));
       (case resp of
          Inl err \<Rightarrow> metrics_tries env bs
        | Inr resp \<Rightarrow> State_Monad.return (write_body (RespBody resp)
            (write_header (StatusCode resp) (replace_headers (RespHeader resp) response0)))) } }"

definition lb_metrics :: "env \<Rightarrow> ('a lb_scheme, response) state" where
  "lb_metrics env = do {
     s \<leftarrow> State_Monad.get;
     metrics_tries env (backends s) }"

subsection \<open>The registry\<close>

definition lb_inv :: "'a lb_scheme \<Rightarrow> bool" where
  "lb_inv s = (distinct (backends s) \<and> '''' \<notin> set (backends s))"

lemma healthy_backends_subseq:
  "subseq (fst (run_state (healthy_backends env bs) s)) bs"
  by (induction bs arbitrary: s) (auto simp: split_beta)

lemma healthy_backends_frame:
  "backends (snd (run_state (healthy_backends env bs) s)) = backends s"
  "current (snd (run_state (healthy_backends env bs) s)) = current s"
  by (induction bs arbitrary: s) (auto simp: split_beta)

lemma prune_result:
  "\<exists>bs. backends (snd (run_state (prune_dead_gateways env interval) s)) = bs \<and> subseq bs (backends s) \<and>
     current (snd (run_state (prune_dead_gateways env interval) s)) = current s"
  by (simp add: prune_dead_gateways_def State_Monad.update_def split_beta healthy_backends_subseq
      healthy_backends_frame)

lemma proxy_tries_frame:
  "backends (snd (run_state (proxy_tries env r b n) s)) = backends s"
  by (induction n arbitrary: s)
    (auto simp: run_getNextBackend split_beta Let_def split: sum.split)

lemma proxyHandler_frame: "backends (snd (run_state (proxyHandler env r) s)) = backends s"
  by (auto simp: proxyHandler_def proxy_tries_frame split: sum.split)

lemma metrics_tries_frame: "backends (snd (run_state (metrics_tries env bs) s)) = backends s"
  by (induction bs arbitrary: s) (auto simp: split_beta split: sum.split)

datatype lb_event = Register request | Prune int | Proxy request | Metrics

fun lb_step :: "env \<Rightarrow> lb_event \<Rightarrow> lb \<Rightarrow> lb" where
  "lb_step env (Register r) s = snd (run_state (registerHandler r) s)"
| "lb_step env (Prune interval) s = snd (run_state (prune_dead_gateways env interval) s)"
| "lb_step env (Proxy r) s = snd (run_state (proxyHandler env r) s)"
| "lb_step env Metrics s = snd (run_state (lb_metrics env) s)"

lemma subseq_distinct: "subseq xs ys \<Longrightarrow> set xs \<subseteq> set ys \<and> (distinct ys \<longrightarrow> distinct xs)"
  by (induction rule: list_emb.induct) auto

lemma lb_inv_subseq: "lb_inv s \<Longrightarrow> subseq (backends s') (backends s) \<Longrightarrow> lb_inv s'"
  unfolding lb_inv_def using subseq_distinct by blast

interpretation lb_system: invariant_system "lb_step env" lb_inv
proof
  fix s :: lb and e
  assume inv: "lb_inv s"
  show "lb_inv (lb_step env e s)"
  proof (cases e)
    case (Register r)
    with inv show ?thesis by (auto simp: run_registerHandler lb_inv_def Let_def)
  next
    case (Prune interval)
    with inv prune_result [of env interval s] show ?thesis by (auto intro: lb_inv_subseq)
  next
    case (Proxy r)
    with inv show ?thesis by (simp add: lb_inv_def proxyHandler_frame)
  next
    case Metrics
    with inv show ?thesis by (simp add: lb_inv_def lb_metrics_def metrics_tries_frame)
  qed
qed

subsection \<open>Round robin\<close>

text \<open>\<open>n\<close> choices in a row.\<close>

fun picks :: "nat \<Rightarrow> ('a lb_scheme, string list) state" where
  "picks 0 = State_Monad.return []"
| "picks (Suc n) = do {
     t \<leftarrow> getNextBackend;
     ts \<leftarrow> picks n;
     State_Monad.return (t # ts) }"

definition pick_at :: "string list \<Rightarrow> uint64 \<Rightarrow> nat \<Rightarrow> string" where
  "pick_at bs c i = bs ! (unat (c + 1 + of_nat i) mod length bs)"

lemma pick_at_0: "pick_at bs c 0 = bs ! (unat (c + 1) mod length bs)"
  by (simp add: pick_at_def)

lemma pick_at_Suc: "pick_at bs (c + 1) i = pick_at bs c (Suc i)"
  by (simp add: pick_at_def add_ac)

lemma picks_eq:
  "backends s \<noteq> [] \<Longrightarrow> fst (run_state (picks n) s) = map (pick_at (backends s) (current s)) [0..<n]"
proof (induction n arbitrary: s)
  case 0
  show ?case by simp
next
  case (Suc n)
  let ?s = "s\<lparr>current := current s + 1\<rparr>"
  have "fst (run_state (picks (Suc n)) s) = pick_at (backends s) (current s) 0 # fst (run_state (picks n) ?s)"
    using Suc.prems by (simp add: run_getNextBackend pick_at_0 split_beta)
  also have "fst (run_state (picks n) ?s) = map (\<lambda>i. pick_at (backends s) (current s) (Suc i)) [0..<n]"
    using Suc.IH [of ?s] Suc.prems by (simp add: pick_at_Suc)
  finally show ?case by (simp add: upt_conv_Cons map_Suc_upt [symmetric] comp_def del: upt_Suc)
qed

lemma unat_counter:
  fixes c :: uint64
  assumes "unat c + n < 2 ^ 64" and "i < n"
  shows "unat (c + 1 + of_nat i) = unat c + 1 + i"
proof -
  have "c + 1 + of_nat i = (of_nat (unat c + 1 + i) :: uint64)" by simp
  also have "unat \<dots> = (unat c + 1 + i) mod 2 ^ 64" by (simp only: unat_of_nat) simp
  also have "\<dots> = unat c + 1 + i" using assms by simp
  finally show ?thesis .
qed

lemma pick_at_rotate:
  assumes "unat c + length bs < 2 ^ 64" and "i < length bs"
  shows "pick_at bs c i = rotate (unat c + 1) bs ! i"
  using assms unat_counter [OF assms] nth_rotate [OF assms(2), of "unat c + 1"] by (simp only: pick_at_def)

lemma picks_rotate:
  assumes "backends s \<noteq> []" and "unat (current s) + length (backends s) < 2 ^ 64"
  shows "fst (run_state (picks (length (backends s))) s) = rotate (unat (current s) + 1) (backends s)"
  using assms by (intro nth_equalityI) (auto simp: picks_eq pick_at_rotate)

subsection \<open>Reaching a healthy gateway\<close>




subsection \<open>Properties\<close>


text \<open>A registry of two gateways and a request, for the concrete instances.\<close>

definition lb_example :: lb where
  "lb_example = \<lparr>trace = [], backends = [''http://a:8081'', ''http://b:8082''], current = 0\<rparr>"





text \<open>
  C26: As long as the 64-bit counter does not wrap, as many choices as there are backends take every
  backend exactly once, in registry order, starting after the last one chosen.
\<close>
theorem round_robin_rotation:
  assumes "backends s \<noteq> []" and "unat (current s) + length (backends s) < 2 ^ 64"
  shows "fst (run_state (picks (length (backends s))) s) = rotate (unat (current s) + 1) (backends s)"
  using assms by (rule picks_rotate)

theorem round_robin_rotation_witness:
  "fst (run_state (picks 2) lb_example) = [''http://b:8082'', ''http://a:8081'']"
  using round_robin_rotation [of lb_example]
  by (simp add: lb_example_def flip: numeral_2_eq_2 del: picks.simps)

text \<open>
  At the wrap-around of the counter the rotation breaks: with three backends the first one is
  chosen twice in a row, since 2^64 is not a multiple of three.
\<close>
theorem round_robin_wraps_unfairly:
  "fst (run_state (picks 3) (lb_example\<lparr>backends := [a, b, c], current := 2 ^ 64 - 2\<rparr>)) = [a, a, b]"
  by (simp add: picks_eq pick_at_def upt_rec del: picks.simps)

text \<open>
  C27: Whatever sequence of registrations, prunings, proxied requests and metrics scrapes the balancer
  handles, its registry never holds an address twice nor the empty address.
\<close>
theorem registry_invariant:
  "lb_inv (fold (lb_step env) es \<lparr>trace = [], backends = [], current = 0\<rparr>)"
  by (rule lb_system.run_inv) (simp add: lb_inv_def)

lemma proxy_tries_query:
  "run_state (proxy_tries env (r\<lparr>RawQuery := q\<rparr>) b n) s = run_state (proxy_tries env r b n) s"
  by (induction n arbitrary: s)
    (simp_all add: run_getNextBackend split_beta proxy_call_def split: sum.split)

text \<open>
  The query string of a request never reaches a gateway: requests that differ only in it are
  proxied alike, so what a URL query carries is lost behind the balancer.
\<close>
theorem proxy_drops_query:
  "run_state (proxyHandler env (r\<lparr>RawQuery := q\<rparr>)) s = run_state (proxyHandler env r) s"
  by (simp add: proxyHandler_def proxy_tries_query split: sum.split)

end
