(* ===== verification/Client.thy ===== *)
theory Client
  imports Auth_Server Load_Balancer
begin

text \<open>
  \<^verbatim>\<open>main.go\<close>: the command-line client. It asks the authentication server for a user id, opens the
  login in a browser, waits for the token, reads token and task from the terminal, and posts the task to
  the load balancer.
\<close>

record terminal = io +
  stdin :: string
  stdout :: string

subsection \<open>The terminal\<close>

definition print :: "string \<Rightarrow> ('a terminal_scheme, unit) state" where
  "print cs = State_Monad.update (\<lambda>s. s\<lparr>stdout := stdout s @ cs\<rparr>)"

definition print_line :: "string \<Rightarrow> ('a terminal_scheme, unit) state" where
  "print_line cs = print (cs @ [CHR 0x0A])"

text \<open>\<^verbatim>\<open>reader.ReadString('\n')\<close>, its error dropped: up to and with the newline, or what is left.\<close>

definition line_of :: "string \<Rightarrow> string \<times> string" where
  "line_of cs =
     (let l = takeWhile (\<lambda>c. c \<noteq> CHR 0x0A) cs in (take (Suc (length l)) cs, drop (Suc (length l)) cs))"

definition read_line :: "('a terminal_scheme, string) state" where
  "read_line = do {
     s \<leftarrow> State_Monad.get;
     let (l, rest) = line_of (stdin s);
     State_Monad.set (s\<lparr>stdin := rest\<rparr>);
     State_Monad.return l }"

lemma run_print [run_simps, simp]:
  "run_state (print cs) s = ((), s\<lparr>stdout := stdout s @ cs\<rparr>)"
  "run_state (print_line cs) s = ((), s\<lparr>stdout := stdout s @ cs @ [CHR 0x0A]\<rparr>)"
  by (simp_all add: print_def print_line_def State_Monad.update_def)

lemma run_read_line [run_simps, simp]:
  "run_state read_line s = (fst (line_of (stdin s)), s\<lparr>stdin := snd (line_of (stdin s))\<rparr>)"
  by (simp add: read_line_def split_beta Let_def)

lemma line_of_line: "CHR 0x0A \<notin> set l \<Longrightarrow> line_of (l @ CHR 0x0A # rest) = (l @ [CHR 0x0A], rest)"
proof -
  assume "CHR 0x0A \<notin> set l"
  then have "takeWhile (\<lambda>c. c \<noteq> CHR 0x0A) (l @ CHR 0x0A # rest) = l" by (induction l) auto
  then show ?thesis by (simp add: line_of_def Let_def)
qed

subsection \<open>strings.TrimSpace and strings.ToLower\<close>

text \<open>
  The encodings of the white space runes. A text ends with such a rune exactly when it ends with the
  bytes of its encoding, so trimming at the end is trimming of the reverse.
\<close>

definition white_space :: "string list" where
  "white_space =
     [[CHR 0x09], [CHR 0x0A], [CHR 0x0B], [CHR 0x0C], [CHR 0x0D], [CHR 0x20],
      [CHR 0xC2, CHR 0x85], [CHR 0xC2, CHR 0xA0], [CHR 0xE1, CHR 0x9A, CHR 0x80]] @
     map (\<lambda>n. [CHR 0xE2, CHR 0x80, char_of n]) ([128..<139] @ [168, 169, 175 :: nat]) @
     [[CHR 0xE2, CHR 0x81, CHR 0x9F], [CHR 0xE3, CHR 0x80, CHR 0x80]]"

function trim_front :: "string list \<Rightarrow> string \<Rightarrow> string" where
  "trim_front encs cs =
     (case find (\<lambda>e. e \<noteq> [] \<and> take (length e) cs = e) encs of
        None \<Rightarrow> cs
      | Some e \<Rightarrow> trim_front encs (drop (length e) cs))"
  by pat_completeness auto

termination
proof (relation "measure (\<lambda>(encs, cs). length cs)")
  show "wf (measure (\<lambda>(encs :: string list, cs :: string). length cs))" by simp
next
  fix encs cs e
  assume "find (\<lambda>e. e \<noteq> [] \<and> take (length e) cs = e) encs = Some e"
  then have "e \<noteq> []" and "take (length e) cs = e" by (auto simp: find_Some_iff)
  then have "length e \<noteq> 0" and "length e \<le> length cs" by (auto dest: arg_cong [of _ _ length])
  then have "length cs - length e < length cs" by linarith
  then show "((encs, drop (length e) cs), encs, cs) \<in> measure (\<lambda>(encs, cs). length cs)"
    by simp
qed

declare trim_front.simps [simp del]

definition TrimSpace :: "string \<Rightarrow> string" where
  "TrimSpace cs = rev (trim_front (map rev white_space) (rev (trim_front white_space cs)))"

fun ToLower :: "env \<Rightarrow> string \<Rightarrow> string" where
  "ToLower env [] = []"
| "ToLower env (c # cs) =
     (if byte c < 128 then
        (if 65 \<le> byte c \<and> byte c \<le> 90 then char_of (byte c + 32) else c) # ToLower env cs
      else let (r, n) = decode_rune (c # cs)
           in encode_rune (to_lower_rune env r) @ ToLower env (drop (n - 1) cs))"

subsection \<open>The login\<close>

definition emoji :: "char \<Rightarrow> char \<Rightarrow> string" where
  "emoji a b = [CHR 0xF0, CHR 0x9F, a, b]"

definition store_user_id :: "string \<Rightarrow> json \<Rightarrow> string decoding \<Rightarrow> string decoding" where
  "store_user_id key v acc = (if is_field ''userId'' key then decode_string (\<lambda>s _. s) v acc else acc)"

definition generate_url :: string where
  "generate_url = ''http://localhost:9000/generate-id''"

definition fetch_url :: "string \<Rightarrow> string" where
  "fetch_url userId = ''http://localhost:9000/fetch-token?userId='' @ userId"

definition openBrowser :: "env \<Rightarrow> string \<Rightarrow> ('a terminal_scheme, unit) state" where
  "openBrowser env url =
     (let command =
        (if goos env = ''linux'' then Some [''xdg-open'', url]
         else if goos env = ''windows'' then Some [''rundll32'', ''url.dll,FileProtocolHandler'', url]
         else if goos env = ''darwin'' then Some [''open'', url] else None)
      in case command of
           None \<Rightarrow> print_line (mark_warning @ '' Please open this URL manually: '' @ url)
         | Some c \<Rightarrow> do {
             err \<leftarrow> perform (\<lambda>h. exec_err env h c) (Exec c);
             (case err of
                None \<Rightarrow> State_Monad.return ()
              | Some e \<Rightarrow> print_line (mark_cross @ '' Failed to open browser: '' @ e)) })"

text \<open>The token in an answer of the fetch endpoint.\<close>

definition token_in :: "string + http_response \<Rightarrow> string option" where
  "token_in r =
     (case r of Inl err \<Rightarrow> None
      | Inr r \<Rightarrow> if StatusCode r = 200 \<and> RespBody r \<noteq> '''' then Some (RespBody r) else None)"

text \<open>The polling loop, for at most the given number of polls: None when they were not enough.\<close>

fun poll_token :: "env \<Rightarrow> string \<Rightarrow> nat \<Rightarrow> ('a io_scheme, string option) state" where
  "poll_token env userId 0 = State_Monad.return None"
| "poll_token env userId (Suc n) = do {
     r \<leftarrow> http env (HttpGet (fetch_url userId));
     (case token_in r of
        Some token \<Rightarrow> State_Monad.return (Some token)
      | None \<Rightarrow> do {
          sleep (2 * Second);
          poll_token env userId n }) }"

subsection \<open>The form\<close>

definition ask_line :: "string \<Rightarrow> ('a terminal_scheme, string) state" where
  "ask_line prompt = do { print prompt; read_line }"

definition fill_form :: "env \<Rightarrow> ('a terminal_scheme, url_values) state" where
  "fill_form env = do {
     taskRaw \<leftarrow> ask_line (emoji (CHR 0x93) (CHR 0x9D) @ '' Enter task to submit: '');
     let task = TrimSpace taskRaw;
     routingKeyRaw \<leftarrow> ask_line (emoji (CHR 0x94) (CHR 0x81) @ '' Enter routing key (leave blank if not needed): '');
     let routingKey = TrimSpace routingKeyRaw;
     headersRaw \<leftarrow> ask_line (emoji (CHR 0xA7) (CHR 0xA0) @
       '' Enter headers JSON (e.g. {\"env\":\"prod\"}) or leave blank: '');
     let headersJSON = TrimSpace headersRaw;
     failRaw \<leftarrow> ask_line (emoji (CHR 0x92) (CHR 0xA3) @ '' Simulate failure? (yes/no): '');
     let failInput = ToLower env (TrimSpace failRaw);
     let fail = (if failInput = ''yes'' \<or> failInput = ''y'' then ''1'' else ''0'');
     retryRaw \<leftarrow> ask_line (emoji (CHR 0x94) (CHR 0x81) @ '' Retry this message? (yes/no): '');
     let retry = (if TrimSpace (ToLower env retryRaw) = ''yes'' then ''1'' else ''0'');
     broadcastRaw \<leftarrow> ask_line (emoji (CHR 0x93) (CHR 0xA1) @ '' Broadcast this message to all consumers? (yes/no): '');
     let broadcast = ToLower env (TrimSpace broadcastRaw);
     State_Monad.return
       (set_value ''broadcast'' broadcast (set_value ''retry'' retry (set_value ''fail'' fail
         (set_value ''headersJSON'' headersJSON (set_value ''routingKey'' routingKey (set_value ''task'' task [])))))) }"

definition submit_url :: string where
  "submit_url = ''http://localhost:89/submit-task''"

definition submit_call :: "string \<Rightarrow> url_values \<Rightarrow> http_call" where
  "submit_call token form =
     HttpDo ''POST'' submit_url [(''Content-Type'', form_type), (''Authorization'', ''Bearer '' @ token)] (Encode form)"

definition submit_form :: "env \<Rightarrow> string \<Rightarrow> url_values \<Rightarrow> ('a terminal_scheme, unit outcome) state" where
  "submit_form env token form =
     (case new_request_err env ''POST'' submit_url of
        Some err \<Rightarrow> do {
          print_line (mark_cross @ '' Failed to create request: '' @ err);
          State_Monad.return (Fatal ''exit 1'') }
      | None \<Rightarrow> do {
          resp \<leftarrow> http env (submit_call token form);
          (case resp of
             Inl err \<Rightarrow> do {
               print_line (mark_cross @ '' Could not reach Load Balancer: '' @ err);
               State_Monad.return (Fatal ''exit 1'') }
           | Inr resp \<Rightarrow> do {
               print_line ''AA gya yahan'';
               (if StatusCode resp = 200 then do {
                  print_line (mark_check @ '' Task submitted successfully!'');
                  print_line (emoji (CHR 0x93) (CHR 0xAC) @ '' Feedback from worker: '' @ RespBody resp) }
                else do {
                  print_line (mark_cross @ '' Submission failed. Status: '' @ dec_nat (StatusCode resp) @ '' '' @
                    status_text env (StatusCode resp));
                  print_line ([CHR 0xE2, CHR 0x9D, CHR 0x97] @ '' Server response: '' @ RespBody resp) });
               State_Monad.return (Ret ()) }) })"

subsection \<open>main\<close>

definition verify_call :: "string \<Rightarrow> http_call" where
  "verify_call token =
     HttpDo ''GET'' ''http://localhost:9000/verify-token'' [(''Authorization'', ''Bearer '' @ token)] ''''"

definition after_login :: "env \<Rightarrow> ('a terminal_scheme, unit outcome) state" where
  "after_login env = do {
     tokenRaw \<leftarrow> ask_line (emoji (CHR 0x94) (CHR 0x91) @ '' Paste the JWT token you copied from browser: '');
     let token = TrimSpace tokenRaw;
     verifyResp \<leftarrow> http env (verify_call token);
     (case verifyResp of
        Inl err \<Rightarrow> do {
          print_line (mark_cross @ '' Could not connect to Auth Server: '' @ err);
          State_Monad.return (Fatal ''exit 1'') }
      | Inr resp \<Rightarrow>
          if StatusCode resp \<noteq> 200 then do {
            print_line (mark_cross @ '' Token verification failed: '' @ RespBody resp);
            State_Monad.return (Fatal ''exit 1'') }
          else do {
            print_line (mark_check @ '' Token verified! Proceeding to submit task...'');
            form \<leftarrow> fill_form env;
            submit_form env token form }) }"

text \<open>The client goes on when a token came; when the polls given were not enough it is still waiting.\<close>

definition await_login :: "env \<Rightarrow> string \<Rightarrow> nat \<Rightarrow> ('a terminal_scheme, unit outcome) state" where
  "await_login env userId polls = do {
     token \<leftarrow> poll_token env userId polls;
     (case token of
        None \<Rightarrow> State_Monad.return Blocked
      | Some _ \<Rightarrow> after_login env) }"

definition client_main :: "env \<Rightarrow> nat \<Rightarrow> ('a terminal_scheme, unit outcome) state" where
  "client_main env polls = do {
     resp \<leftarrow> http env (HttpGet generate_url);
     (case resp of
        Inl err \<Rightarrow> do {
          print_line (mark_cross @ '' Error: '' @ err);
          State_Monad.return (Ret ()) }
      | Inr resp \<Rightarrow> do {
          let userId = snd (decode_first store_user_id (RespBody resp) '''');
          print_line (emoji (CHR 0x8C) (CHR 0x90) @ '' Opening login URL for userId='' @ userId);
          openBrowser env (''http://localhost:9000/login?uid='' @ userId);
          print_line (emoji (CHR 0x93) (CHR 0xA2) @ '' Please complete Google login in browser...'');
          await_login env userId polls }) }"

end
