(* ===== verification/Login.thy ===== *)
theory Login
  imports Auth_Server
begin

text \<open>
  What the authentication server guarantees. Its runs are the sequences of requests to it, between
  which the rest of the world may do anything but write its keys in Redis. A token handed out was
  signed for an e-mail Google vouched for; a token of the callback can be fetched and is accepted by
  the gateway; the readiness endpoint never says that a login is done.
\<close>

subsection \<open>Redis and the tokens\<close>

text \<open>
  Documented behaviour of SET with an expiry and of GET: the value of the last SET of the key, while
  its time to live has not passed. The history is read backwards.
\<close>

fun written :: "string \<Rightarrow> event \<Rightarrow> (string \<times> int) option" where
  "written k (Redis [SetKey k' v ttl]) = (if k' = k then Some (v, ttl) else None)"
| "written k _ = None"

fun stored :: "env \<Rightarrow> string \<Rightarrow> int \<Rightarrow> history \<Rightarrow> string option" where
  "stored env k t [] = None"
| "stored env k t (e # past) =
     (case written k e of
        Some (v, ttl) \<Rightarrow> if t - now env (rev past) < ttl then Some v else None
      | None \<Rightarrow> stored env k t past)"

definition redis_stores :: "env \<Rightarrow> bool" where
  "redis_stores env = (\<forall>h k. redis_value env h k = Inr (stored env k (now env h) (rev h)))"

lemma written_Some: "written k e = Some (v, ttl) \<Longrightarrow> e = Redis [SetKey k v ttl]"
  by (cases "(k, e)" rule: written.cases) (auto split: if_splits)

lemma stored_Some:
  "stored env k t (rev h) = Some v \<Longrightarrow> \<exists>h1 ttl h2. h = h1 @ Redis [SetKey k v ttl] # h2"
proof (induction h rule: rev_induct)
  case Nil
  then show ?case by simp
next
  case (snoc e h)
  show ?case
  proof (cases "written k e")
    case None
    with snoc show ?thesis by fastforce
  next
    case (Some p)
    with snoc.prems have "h @ [e] = h @ Redis [SetKey k v (snd p)] # []"
      using written_Some [of k e "fst p" "snd p"] by (simp split: prod.splits if_splits)
    then show ?thesis by blast
  qed
qed


lemma stored_frame:
  "\<forall>e \<in> set es. written k e = None \<Longrightarrow> stored env k t (rev (h @ es)) = stored env k t (rev h)"
  by (induction es rule: rev_induct) simp_all


subsection \<open>What Google vouched for\<close>

text \<open>The two calls of a callback, from history \<open>h\<close> on, end with this e-mail.\<close>

definition vouched :: "env \<Rightarrow> history \<Rightarrow> string \<Rightarrow> string \<Rightarrow> string \<Rightarrow> bool" where
  "vouched env h code access email =
     (oauth_token env h code = Inr access \<and>
      (\<exists>resp. http_reply env (h @ [Http (OAuthExchange code)]) (OAuthGet access userinfo_url) = Inr resp \<and>
         decode_first store_user (RespBody resp) '''' = (False, email)))"

abbreviation google_calls :: "string \<Rightarrow> string \<Rightarrow> history" where
  "google_calls code access \<equiv> [Http (OAuthExchange code), Http (OAuthGet access userinfo_url)]"

lemma google_token_Inr:
  assumes "run_state (google_token env lifetime m1 m2 m3 m4 code) s = (Inr tok, s')"
  shows "\<exists>access email. vouched env (trace s) code access email \<and>
    s' = s\<lparr>trace := trace s @ google_calls code access\<rparr> \<and>
    jwt_sign env jwt_secret email (unix_now env (trace s') + lifetime) = Inr tok"
  using assms
  by (auto simp: google_token_def vouched_def split: sum.splits prod.splits bool.splits)

lemma google_token_calls:
  "snd (run_state (google_token env lifetime m1 m2 m3 m4 code) s) =
     s\<lparr>trace := trace s @ Http (OAuthExchange code) #
       (case oauth_token env (trace s) code of
          Inl err \<Rightarrow> [] | Inr access \<Rightarrow> [Http (OAuthGet access userinfo_url)])\<rparr>"
  by (simp add: google_token_def split: sum.split prod.split bool.split)

text \<open>A token signed for an e-mail Google vouched for, by the end of history \<open>h\<close>.\<close>

definition granted :: "env \<Rightarrow> history \<Rightarrow> string \<Rightarrow> bool" where
  "granted env h tok =
     (\<exists>h1 h2 code access email. h = h1 @ google_calls code access @ h2 \<and> vouched env h1 code access email \<and>
        jwt_sign env jwt_secret email (unix_now env (h1 @ google_calls code access) + 3600) = Inr tok)"

lemma granted_here:
  "vouched env h code access email \<Longrightarrow>
    jwt_sign env jwt_secret email (unix_now env (h @ google_calls code access) + 3600) = Inr tok \<Longrightarrow>
    granted env (h @ google_calls code access) tok"
  unfolding granted_def by (metis append_Nil2)

lemma granted_append: "granted env h tok \<Longrightarrow> granted env (h @ es) tok"
  unfolding granted_def by (metis append.assoc)

lemma run_callback:
  "run_state (handleGoogleCallback env r) s =
    (let code = query_value r ''code''; state = query_value r ''state'';
         res = run_state (google_token env 3600 ''Token exchange failed'' ''User info fetch failed''
                 ''JSON decode error'' ''JWT sign failed'' code) s
     in if code = '''' then (http_error ''Missing code'' 400 response0, s)
        else case fst res of
          Inl msg \<Rightarrow> (http_error msg 500 response0, snd res)
        | Inr tok \<Rightarrow>
            if length state \<le> 6 \<or> take 6 state \<noteq> ''state-'' then
              (http_error ''Invalid state'' 400 response0, snd res)
            else (write_body (token_page tok) (set_header ''Content-Type'' ''text/html; charset=utf-8'' response0),
              (snd res)\<lparr>trace := trace (snd res) @ [Redis [SetKey (token_key (drop 6 state)) tok (10 * Minute)]]\<rparr>))"
  by (auto simp: handleGoogleCallback_def Let_def split_beta split: sum.split)

subsection \<open>Runs of the server\<close>

text \<open>Whether an event writes a key of the server.\<close>

definition writes_login :: "event \<Rightarrow> bool" where
  "writes_login e = (\<exists>uid. written (status_key uid) e \<noteq> None \<or> written (token_key uid) e \<noteq> None)"

inductive auth_run :: "env \<Rightarrow> io \<Rightarrow> bool" for env where
  start: "auth_run env \<lparr>trace = []\<rparr>"
| request: "auth_run env s \<Longrightarrow> auth_run env (snd (run_state (auth_mux env r) s))"
| elsewhere: "auth_run env s \<Longrightarrow> \<not> writes_login e \<Longrightarrow> auth_run env (s\<lparr>trace := trace s @ [e]\<rparr>)"

text \<open>What is written under the keys: never the status done, and only tokens that were granted before.\<close>

definition proper_write :: "env \<Rightarrow> history \<Rightarrow> event \<Rightarrow> bool" where
  "proper_write env h e =
     (\<forall>k v ttl. e = Redis [SetKey k v ttl] \<longrightarrow>
        (\<forall>uid. k = status_key uid \<longrightarrow> v \<noteq> ''done'') \<and> (\<forall>uid. k = token_key uid \<longrightarrow> granted env h v))"

fun proper :: "env \<Rightarrow> history \<Rightarrow> history \<Rightarrow> bool" where
  "proper env h [] = True"
| "proper env h (e # es) = (proper_write env h e \<and> proper env (h @ [e]) es)"

lemma proper_append: "proper env h (xs @ ys) \<longleftrightarrow> proper env h xs \<and> proper env (h @ xs) ys"
  by (induction xs arbitrary: h) simp_all

lemma keys_differ [simp]: "status_key uid \<noteq> token_key uid'" "token_key uid' \<noteq> status_key uid"
  by (simp_all add: status_key_def token_key_def)

lemma proper_write_simps [simp]:
  "proper_write env h (Redis [SetKey (status_key uid) v ttl]) \<longleftrightarrow> v \<noteq> ''done''"
  "proper_write env h (Redis [SetKey (token_key uid) v ttl]) \<longleftrightarrow> granted env h v"
  "proper_write env h (Redis [GetKey k])" "proper_write env h (Redis [Incr k])"
  "proper_write env h (Http c)"
  by (auto simp: proper_write_def status_key_def token_key_def)

lemma proper_write_elsewhere: "\<not> writes_login e \<Longrightarrow> proper_write env h e"
  unfolding proper_write_def writes_login_def by (metis option.discI written.simps(1))

text \<open>The handlers write properly, whatever the history.\<close>

lemma callback_proper:
  "\<exists>es. trace (snd (run_state (handleGoogleCallback env r) s)) = trace s @ es \<and> proper env (trace s) es"
proof -
  obtain res s' where res: "run_state (google_token env 3600 ''Token exchange failed'' ''User info fetch failed''
      ''JSON decode error'' ''JWT sign failed'' (query_value r ''code'')) s = (res, s')"
    by (cases "run_state (google_token env 3600 ''Token exchange failed'' ''User info fetch failed''
      ''JSON decode error'' ''JWT sign failed'' (query_value r ''code'')) s")
  have calls: "\<exists>es. trace s' = trace s @ es \<and> proper env (trace s) es"
    using google_token_calls [of env 3600 "''Token exchange failed''" "''User info fetch failed''"
        "''JSON decode error''" "''JWT sign failed''" "query_value r ''code''" s] res
    by (auto split: sum.split)
  show ?thesis
  proof (cases res)
    case (Inl msg)
    with calls res show ?thesis by (auto simp: run_callback Let_def)
  next
    case (Inr tok)
    then have "granted env (trace s') tok"
      using google_token_Inr [OF res [unfolded Inr]] by (auto intro: granted_here)
    with calls show ?thesis using res Inr by (auto simp: run_callback Let_def proper_append)
  qed
qed

lemma mux_proper:
  "\<exists>es. trace (snd (run_state (auth_mux env r) s)) = trace s @ es \<and> proper env (trace s) es"
proof -
  have callback: "\<exists>es. trace (snd (run_state (answered (handleGoogleCallback env r)) s)) = trace s @ es \<and>
      proper env (trace s) es"
    using callback_proper [of env r s] by (simp add: answered_def split_beta)
  have others: "\<exists>es. trace (snd (run_state m s)) = trace s @ es \<and> proper env (trace s) es"
    if "m \<in> {answered (handleGenerateID env r), answered (handleGoogleLogin env r),
      answered (handleIsReady env r), handleVerifyToken env r, answered (handleFetchToken env r)}" for m
    using that
    by (auto simp: answered_def handleGenerateID_def handleGoogleLogin_def handleIsReady_def handleVerifyToken_def
        handleFetchToken_def Let_def split_beta split: sum.splits)
  show ?thesis using callback others by (simp add: auth_mux_def)
qed

lemma run_proper: "auth_run env s \<Longrightarrow> proper env [] (trace s)"
proof (induction rule: auth_run.induct)
  case start
  show ?case by simp
next
  case (request s r)
  then show ?case using mux_proper [of env r s] by (auto simp: proper_append)
next
  case (elsewhere s e)
  then show ?case by (simp add: proper_append proper_write_elsewhere)
qed

subsection \<open>Properties\<close>

lemma run_fetch:
  assumes "redis_stores env"
  shows "run_state (handleFetchToken env r) s =
    (let uid = query_value r ''userId''
     in if uid = '''' then (http_error ''Missing userId'' 400 response0, s)
        else ((case stored env (token_key uid) (now env (trace s)) (rev (trace s)) of
                 None \<Rightarrow> http_error ''Token not ready'' 404 response0
               | Some token \<Rightarrow> write_body token (write_header 200 response0)),
              s\<lparr>trace := trace s @ [Redis [GetKey (token_key uid)]]\<rparr>))"
  using assms by (simp add: handleFetchToken_def redis_stores_def Let_def split: option.split)

text \<open>
  C3: Authenticity. Whatever requests the server gets and whatever else happens, a token handed out by
  the fetch endpoint was signed by a callback for the very e-mail Google returned for an authorisation code.
\<close>
theorem fetched_token_was_granted:
  assumes "auth_run env s" and "redis_stores env"
    and "w_status (fst (run_state (handleFetchToken env r) s)) = Some 200"
  shows "granted env (trace s) (w_body (fst (run_state (handleFetchToken env r) s)))"
proof -
  let ?k = "token_key (query_value r ''userId'')"
  obtain tok where tok: "stored env ?k (now env (trace s)) (rev (trace s)) = Some tok"
    and w: "w_body (fst (run_state (handleFetchToken env r) s)) = tok"
    using assms(3) by (auto simp: run_fetch [OF assms(2)] Let_def split: if_splits option.splits)
  obtain h1 ttl h2 where h: "trace s = h1 @ Redis [SetKey ?k tok ttl] # h2"
    using stored_Some [OF tok] by blast
  have "granted env h1 tok" using run_proper [OF assms(1)] unfolding h by (simp add: proper_append)
  then show ?thesis unfolding w h by (rule granted_append)
qed

text \<open>
  C36: The readiness endpoint never reports a finished login: whatever requests the server has served, it
  answers 400 or 404, because no handler stores the status it waits for.
\<close>
theorem is_ready_never_done:
  assumes "auth_run env s" and "redis_stores env"
  shows "w_status (fst (run_state (handleIsReady env r) s)) =
    Some (if query_value r ''uid'' = '''' then 400 else 404)"
proof -
  let ?k = "status_key (query_value r ''uid'')"
  have "stored env ?k (now env (trace s)) (rev (trace s)) \<noteq> Some ''done''"
  proof
    assume "stored env ?k (now env (trace s)) (rev (trace s)) = Some ''done''"
    then obtain h1 ttl h2 where h: "trace s = h1 @ Redis [SetKey ?k ''done'' ttl] # h2"
      using stored_Some by blast
    show False using run_proper [OF assms(1)] unfolding h by (simp add: proper_append)
  qed
  then show ?thesis
    using assms(2) by (simp add: handleIsReady_def redis_stores_def Let_def split: option.split)
qed



text \<open>
  The worker's tokens are for no one: it stores them under the bare user id, so what the fetch
  endpoint finds under any id stays as it was, unless the user id of the message itself spells one of its keys.
\<close>
theorem worker_tokens_are_not_fetched:
  assumes "\<forall>uid. snd (unmarshal_struct store_payload (Body d) '''') \<noteq> token_key uid"
  shows "stored env (token_key uid) t (rev (trace (snd (run_state (auth_handle env d) s)))) =
    stored env (token_key uid) t (rev (trace s))"
  using assms
  by (auto simp: auth_handle_def issueToken_def split: prod.splits bool.splits sum.splits)

text \<open>A world with one user, in which all calls succeed and Redis keeps what it is told.\<close>

definition login_env :: env where
  "login_env = quiet_env\<lparr>
     oauth_token := (\<lambda>h c. Inr ''ya29''),
     http_reply := (\<lambda>h c. Inr \<lparr>StatusCode = 200, RespHeader = [],
       RespBody = marshal_struct [(''email'', SString ''a@b.c'')]\<rparr>),
     jwt_sign := (\<lambda>k e t. Inr (CHR ''x'' # e)),
     jwt_parse := (\<lambda>h tok k. Inr (True, Some [''email'' \<mapsto> JString (tl tok)])),
     redis_value := (\<lambda>h k. Inr (stored quiet_env k 0 (rev h)))\<rparr>"

definition callback_request :: request where
  "callback_request = request0\<lparr>Method := ''GET'', Path := ''/oauth2/callback'', RawQuery := ''code=c0&state=state-7''\<rparr>"

definition fetch_request :: request where
  "fetch_request = request0\<lparr>Method := ''GET'', Path := ''/fetch-token'', RawQuery := ''userId=7''\<rparr>"

lemma request_values [simp]:
  "query_value callback_request ''code'' = ''c0''" "query_value callback_request ''state'' = ''state-7''"
  "query_value fetch_request ''userId'' = ''7''" "Path callback_request = ''/oauth2/callback''"
  by (simp_all add: callback_request_def fetch_request_def query_value_def parse_query_def query_pair_def cut_def
      first_value_def map_filter_def request0_def)

lemma decode_email:
  "decode_first store_user (marshal_struct [(''email'', SString ''a@b.c'')]) '''' = (False, ''a@b.c'')"
  using parse_marshal_struct [of "[(''email'', SString ''a@b.c'')]" _ "[]"]
  by (simp add: decode_first_def field_ascii_def decode_object_def store_user_def is_field_def decode_string_def)

lemma login_env_simps [simp]:
  "oauth_token login_env h c = Inr ''ya29''"
  "http_reply login_env h hc = Inr \<lparr>StatusCode = 200, RespHeader = [],
     RespBody = marshal_struct [(''email'', SString ''a@b.c'')]\<rparr>"
  "jwt_sign login_env k e t = Inr (CHR ''x'' # e)" "now login_env h = 0"
  "jwt_parse login_env h tok k = Inr (True, Some [''email'' \<mapsto> JString (tl tok)])" "unix_now login_env h = 0"
  by (simp_all add: login_env_def quiet_env_def)

lemma stored_clock: "(\<And>h. now env h = now env' h) \<Longrightarrow> stored env k t h = stored env' k t h"
  by (induction h) (simp_all split: option.split)

lemma login_env_stores: "redis_stores login_env"
  using stored_clock [of login_env quiet_env]
  by (simp add: redis_stores_def) (simp add: login_env_def)


abbreviation logged_in :: io where
  "logged_in \<equiv> snd (run_state (handleGoogleCallback login_env callback_request) \<lparr>trace = []\<rparr>)"

lemma callback_example:
  "w_status (fst (run_state (handleGoogleCallback login_env callback_request) \<lparr>trace = []\<rparr>)) = Some 200"
  "trace logged_in = google_calls ''c0'' ''ya29'' @ [Redis [SetKey (token_key ''7'') ''xa@b.c'' (10 * Minute)]]"
  by (simp_all add: run_callback Let_def google_token_def decode_email)

lemma logged_in_run: "auth_run login_env logged_in"
  using auth_run.request [OF auth_run.start, of login_env callback_request]
  by (simp add: auth_mux_def answered_def split_beta)

lemma fetch_example:
  "fst (run_state (handleFetchToken login_env fetch_request) logged_in) =
     write_body ''xa@b.c'' (write_header 200 response0)"
  by (simp add: run_fetch [OF login_env_stores] callback_example Let_def)

theorem fetched_token_was_granted_witness:
  "granted login_env (trace logged_in) ''xa@b.c''"
  using fetched_token_was_granted [OF logged_in_run login_env_stores, of fetch_request]
  by (simp add: fetch_example)

theorem is_ready_never_done_witness:
  "w_status (fst (run_state (handleIsReady login_env (fetch_request\<lparr>RawQuery := ''uid=7''\<rparr>)) logged_in)) = Some 404"
  using is_ready_never_done [OF logged_in_run login_env_stores, of "fetch_request\<lparr>RawQuery := ''uid=7''\<rparr>"]
  by (simp add: query_value_def parse_query_def query_pair_def cut_def first_value_def map_filter_def)


theorem worker_tokens_are_not_fetched_witness:
  "stored login_env (token_key ''7'') 0 (rev (trace (snd (run_state (auth_handle login_env
     (publishing.extend publishing0 \<lparr>DeliveryTag = 1\<rparr>)) logged_in)))) = Some ''xa@b.c''"
proof -
  have "unmarshal_struct store_payload '''' '''' = (True, '''')"
    by (simp add: unmarshal_struct_def json_parse_def skip_ws_def parse_value.simps(2) eval_nat_numeral)
  then have "\<forall>uid. snd (unmarshal_struct store_payload
      (Body (publishing.extend publishing0 \<lparr>DeliveryTag = 1\<rparr>)) '''') \<noteq> token_key uid"
    by (simp add: publishing.defs publishing0_def token_key_def)
  then show ?thesis
    using worker_tokens_are_not_fetched [where s = logged_in and env = login_env and uid = "''7''" and t = 0]
    by (simp add: callback_example)
qed

end
