(* ===== verification/Journey.thy ===== *)
theory Journey
  imports Client Login
begin

text \<open>
  The client, the servers it talks to, and what becomes of a task on the way. A request is what the
  server makes of the call; the answers of the authentication server are those of its own handlers. What the
  user types reaches the gateway's handler through the encoding, the proxy and the parsing of the form, and
  the wait for the token ends once it is stored, but never does when the user id could not be generated.
\<close>

subsection \<open>From a call to a request\<close>

text \<open>The path of an absolute URL (without percent escapes).\<close>

definition url_path :: "string \<Rightarrow> string" where
  "url_path u =
     (let v = fst (cut (CHR ''?'') (fst (cut (CHR ''#'') u)))
      in dropWhile (\<lambda>c. c \<noteq> CHR ''/'') (drop 2 (dropWhile (\<lambda>c. c \<noteq> CHR ''/'') v)))"

definition received_as :: "string \<Rightarrow> string \<Rightarrow> (string \<times> string) list \<Rightarrow> string \<Rightarrow> request" where
  "received_as m u hs b =
     parse_form \<lparr>Method = m, Path = url_path u, RawQuery = url_query u, ReqHeader = hs, Form = [], ReqBody = Inr b\<rparr>"

fun received :: "http_call \<Rightarrow> request" where
  "received (HttpGet u) = received_as ''GET'' u [] ''''"
| "received (HttpPostForm u kvs) = received_as ''POST'' u [(''Content-Type'', form_type)] (Encode kvs)"
| "received (HttpDo m u hs b) = received_as m u hs b"
| "received _ = request0"

text \<open>What the client gets: the response, or an error when the handler panicked.\<close>

definition http_answer :: "response outcome \<Rightarrow> string + http_response" where
  "http_answer res =
     (case res of
        Ret w \<Rightarrow> Inr \<lparr>StatusCode = (case w_status w of None \<Rightarrow> 200 | Some c \<Rightarrow> c),
                      RespHeader = map (\<lambda>(k, v). (k, [v])) (w_headers w), RespBody = w_body w\<rparr>
      | _ \<Rightarrow> Inl ''EOF'')"

text \<open>The authentication server answers the two requests of the client before its login.\<close>

definition auth_answer :: "env \<Rightarrow> history \<Rightarrow> string \<Rightarrow> string + http_response" where
  "auth_answer env h u = http_answer (fst (run_state (auth_mux env (received (HttpGet u))) \<lparr>trace = h\<rparr>))"

definition auth_served :: "env \<Rightarrow> bool" where
  "auth_served env =
     (\<forall>h. http_reply env h (HttpGet generate_url) = auth_answer env h generate_url \<and>
        (\<forall>uid. http_reply env h (HttpGet (fetch_url uid)) = auth_answer env h (fetch_url uid)))"

lemma received_generate: "Path (received (HttpGet generate_url)) = ''/generate-id''"
  by (simp add: received_as_def parse_form_def url_path_def cut_def generate_url_def)

lemma received_fetch:
  "Path (received (HttpGet (fetch_url uid))) = ''/fetch-token''"
  "RawQuery (received (HttpGet (fetch_url uid))) = ''userId='' @ fst (cut (CHR ''#'') uid)"
  by (simp_all add: received_as_def parse_form_def url_path_def url_query_def cut_def fetch_url_def)

subsection \<open>The user id\<close>

lemma QueryUnescape_digits: "list_all is_digit ds \<Longrightarrow> QueryUnescape ds = Some ds"
  by (induction ds) (auto simp: is_digit_def)

lemma digits_plain: "list_all is_digit ds \<Longrightarrow> \<not> is_digit c \<Longrightarrow> c \<notin> set ds"
  by (auto simp: list_all_iff)

lemma query_user_id:
  assumes "list_all is_digit ds"
  shows "query_value (received (HttpGet (fetch_url ds))) ''userId'' = ds"
proof -
  have ds: "CHR ''#'' \<notin> set ds" "CHR ''&'' \<notin> set ds" "CHR '';'' \<notin> set ds"
    by (rule digits_plain [OF assms], simp add: is_digit_def)+
  have "split_on (CHR ''&'') (''userId='' @ ds) = [''userId='' @ ds]"
    using ds by (intro split_on_none) simp
  moreover have "query_pair (''userId='' @ ds) = Some (''userId'', ds)"
    using ds QueryUnescape_digits [OF assms] by (simp add: query_pair_def cut_def)
  ultimately show ?thesis
    using ds by (simp add: query_value_def received_fetch cut_none parse_query_def first_value_def map_filter_def
        del: received.simps)
qed

lemma user_id_of_answer:
  "decode_first store_user_id (marshal_struct [(''userId'', SString ds)] @ rest) '''' = (False, ds)" if "ascii ds"
proof -
  have "list_all field_ascii [(''userId'', SString ds)]" using that by (simp add: field_ascii_def)
  then show ?thesis
    using parse_marshal_struct [of "[(''userId'', SString ds)]"
        "length (marshal_struct [(''userId'', SString ds)] @ rest)" rest]
    by (simp add: decode_first_def decode_object_def store_user_id_def is_field_def decode_string_def)
qed

subsection \<open>Waiting for the token\<close>

lemma token_in_fetch:
  "token_in (auth_answer env h (fetch_url uid)) =
     (let q = query_value (received (HttpGet (fetch_url uid))) ''userId''
      in if q = '''' then None
         else case redis_value env h (token_key q) of
           Inr (Some tok) \<Rightarrow> if tok = '''' then None else Some tok | _ \<Rightarrow> None)"
  by (simp add: auth_answer_def auth_mux_def received_fetch answered_def handleFetchToken_def http_answer_def
      token_in_def Let_def split: sum.split option.split del: received.simps)

definition polls :: "string \<Rightarrow> history \<Rightarrow> nat" where
  "polls uid h = length (filter (\<lambda>e. e = Http (HttpGet (fetch_url uid))) h)"

lemma poll_ends:
  assumes "\<And>h. k \<le> polls uid h \<Longrightarrow> token_in (http_reply env h (HttpGet (fetch_url uid))) \<noteq> None"
    and "k - polls uid (trace s) < n"
  shows "fst (run_state (poll_token env uid n) s) \<noteq> None"
  using assms(2)
proof (induction n arbitrary: s)
  case 0
  then show ?case by simp
next
  case (Suc n)
  let ?s = "s\<lparr>trace := trace s @ [Http (HttpGet (fetch_url uid)), Sleep (2 * Second)]\<rparr>"
  show ?case
  proof (cases "token_in (http_reply env (trace s) (HttpGet (fetch_url uid)))")
    case None
    then have "polls uid (trace s) < k" using assms(1) [of "trace s"] by (meson not_le)
    then have "k - polls uid (trace ?s) < n" using Suc.prems by (simp add: polls_def)
    from Suc.IH [OF this] None show ?thesis by simp
  next
    case (Some tok)
    then show ?thesis by simp
  qed
qed

lemma poll_never_ends:
  assumes "\<And>h. token_in (http_reply env h (HttpGet (fetch_url uid))) = None"
  shows "fst (run_state (poll_token env uid n) s) = None"
  by (induction n arbitrary: s) (simp_all add: assms)

lemma after_login_returns: "results (\<lambda>res. res \<noteq> Blocked) (after_login env)"
  unfolding after_login_def submit_form_def Let_def by (intro results_intros) simp_all

text \<open>Whatever the browser does, the result of the client is decided by the polls and what follows.\<close>

lemma client_main_blocked:
  fixes s :: "'a terminal_scheme"
  assumes "http_reply env (trace s) (HttpGet generate_url) = Inr resp"
    and "userId = snd (decode_first store_user_id (RespBody resp) '''')"
  obtains s' :: "'a terminal_scheme" where "fst (run_state (client_main env n) s) = Blocked \<longleftrightarrow> fst (run_state (poll_token env userId n) s') = None"
proof -
  note goal = that
  obtain s1 where "run_state (client_main env n) s = run_state (await_login env userId n) s1"
    using assms by (simp add: client_main_def split_beta Let_def)
  then have "fst (run_state (client_main env n) s) = Blocked \<longleftrightarrow> fst (run_state (poll_token env userId n) s1) = None"
    using after_login_returns [of env]
    by (auto simp: await_login_def results_def split_beta split: option.split)
  then show ?thesis by (rule goal)
qed

lemma generate_answer:
  "\<exists>resp. auth_answer env h generate_url = Inr resp \<and>
     RespBody resp = (case redis_reply env h [Incr ''user_id_counter''] of
       Inl err \<Rightarrow> ''Redis error'' @ [CHR 0x0A]
     | Inr n \<Rightarrow> marshal_struct [(''userId'', SString (dec_int n))] @ [CHR 0x0A])"
  by (simp add: auth_answer_def auth_mux_def received_generate answered_def handleGenerateID_def http_answer_def
      Let_def split: sum.split del: received.simps)

lemma served_generate:
  "auth_served env \<Longrightarrow> http_reply env h (HttpGet generate_url) = auth_answer env h generate_url"
  by (simp add: auth_served_def)

lemma served_fetch:
  "auth_served env \<Longrightarrow> http_reply env h (HttpGet (fetch_url uid)) = auth_answer env h (fetch_url uid)"
  by (simp add: auth_served_def)

subsection \<open>Through the proxy\<close>

text \<open>The calls of the proxy: health checks, and the request sent on to a registered gateway.\<close>

definition proxy_event :: "request \<Rightarrow> string list \<Rightarrow> event \<Rightarrow> bool" where
  "proxy_event r bs e =
     (\<exists>t \<in> set bs. e = Http (HttpGet (t @ ''/health'')) \<or> (\<exists>b. ReqBody r = Inr b \<and> e = Http (proxy_call r b t)))"

lemma proxy_tries_events:
  assumes "ReqBody r = Inr b" and "backends s \<noteq> []"
  shows "\<exists>es. trace (snd (run_state (proxy_tries env r b n) s)) = trace s @ es \<and>
    (\<forall>e \<in> set es. proxy_event r (backends s) e)"
  using assms(2)
proof (induction n arbitrary: s)
  case 0
  show ?case by simp
next
  case (Suc n)
  define t where "t = backends s ! (unat (current s + 1) mod length (backends s))"
  have t: "t \<in> set (backends s)" using Suc.prems by (simp add: t_def)
  have health: "proxy_event r (backends s) (Http (HttpGet (t @ ''/health'')))"
    and call: "proxy_event r (backends s) (Http (proxy_call r b t))"
    using t assms(1) by (auto simp: proxy_event_def)
  have step: "\<exists>es. trace (snd (run_state (proxy_tries env r b n)
        (s\<lparr>current := current s + 1, trace := trace s @ xs\<rparr>))) = trace s @ es \<and>
      (\<forall>e \<in> set es. proxy_event r (backends s) e)" if xs: "\<forall>e \<in> set xs. proxy_event r (backends s) e" for xs
  proof -
    obtain es where "trace (snd (run_state (proxy_tries env r b n)
        (s\<lparr>current := current s + 1, trace := trace s @ xs\<rparr>))) = (trace s @ xs) @ es"
      and "\<forall>e \<in> set es. proxy_event r (backends s) e"
      using Suc.IH [of "s\<lparr>current := current s + 1, trace := trace s @ xs\<rparr>"] Suc.prems by auto
    then show ?thesis using xs by (intro exI [of _ "xs @ es"]) auto
  qed
  note steps = step [of "[]"] step [of "[Http (HttpGet (t @ ''/health''))]"]
    step [of "[Http (HttpGet (t @ ''/health'')), Http (proxy_call r b t)]"]
  show ?case
    using steps health call Suc.prems
    by (simp add: run_getNextBackend t_def [symmetric] split_beta split: sum.split)
qed

lemma proxy_events:
  "\<exists>es. trace (snd (run_state (proxyHandler env r) s)) = trace s @ es \<and> (\<forall>e \<in> set es. proxy_event r (backends s) e)"
  using proxy_tries_events [of r _ s env "length (backends s)"]
  by (simp add: proxyHandler_def split: sum.split)

lemma proxy_request:
  assumes "Http (HttpDo m u hs b) \<in> set (added (proxyHandler env r) s)"
  shows "\<exists>t \<in> set (backends s). m = Method r \<and> u = t @ Path r \<and> hs = ReqHeader r \<and> ReqBody r = Inr b"
proof -
  obtain es where "trace (snd (run_state (proxyHandler env r) s)) = trace s @ es"
    and es: "\<forall>e \<in> set es. proxy_event r (backends s) e"
    using proxy_events by blast
  then have "proxy_event r (backends s) (Http (HttpDo m u hs b))"
    using assms by (simp add: added_eqI)
  then show ?thesis by (auto simp: proxy_event_def proxy_call_def)
qed

text \<open>The address of a gateway as it registers itself: scheme and host.\<close>

definition plain_address :: "string \<Rightarrow> bool" where
  "plain_address t = (\<exists>host. t = ''http://'' @ host \<and> set host \<inter> set ''/?#'' = {})"

lemma takeWhile_plain: "x \<notin> set host \<Longrightarrow> takeWhile (\<lambda>c. c \<noteq> x) (host @ rest) = host @ takeWhile (\<lambda>c. c \<noteq> x) rest"
  by (induction host) auto

lemma takeWhile_none: "x \<notin> set p \<Longrightarrow> takeWhile (\<lambda>c. c \<noteq> x) p = p"
  by (induction p) auto

lemma dropWhile_plain: "x \<notin> set host \<Longrightarrow> dropWhile (\<lambda>c. c \<noteq> x) (host @ rest) = dropWhile (\<lambda>c. c \<noteq> x) rest"
  by (induction host) auto

lemma submit_path: "plain_address t \<Longrightarrow> url_path (t @ ''/submit-task'') = ''/submit-task''"
  by (auto simp: plain_address_def url_path_def cut_def takeWhile_plain dropWhile_plain)

lemma submit_query: "plain_address t \<Longrightarrow> url_query (t @ ''/submit-task'') = ''''"
  by (auto simp: plain_address_def url_query_def cut_def takeWhile_plain dropWhile_plain)

lemma submit_url_plain: "submit_url = ''http://localhost:89'' @ ''/submit-task''" "plain_address ''http://localhost:89''"
  by (simp_all add: submit_url_def plain_address_def)

lemma submit_url_parts: "url_path submit_url = ''/submit-task''" "url_query submit_url = ''''"
  unfolding submit_url_plain(1)
  by (simp_all only: submit_path [OF submit_url_plain(2)] submit_query [OF submit_url_plain(2)])

lemma received_submit:
  assumes "plain_address t"
  shows "received (HttpDo m (t @ ''/submit-task'') hs b) =
    parse_form \<lparr>Method = m, Path = ''/submit-task'', RawQuery = '''', ReqHeader = hs, Form = [], ReqBody = Inr b\<rparr>"
  using assms by (simp add: received_as_def submit_path submit_query)

lemma received_submit_call:
  "received (submit_call token form) =
    parse_form \<lparr>Method = ''POST'', Path = ''/submit-task'', RawQuery = '''',
      ReqHeader = [(''Content-Type'', form_type), (''Authorization'', ''Bearer '' @ token)], Form = [],
      ReqBody = Inr (Encode form)\<rparr>"
  unfolding submit_call_def submit_url_plain(1) by (rule received_submit [OF submit_url_plain(2)])

text \<open>What the gateway reads from a submission of the client, whichever gateway the proxy picks.\<close>

lemma proxied_submission:
  assumes "Http (HttpDo m u hs b) \<in> set (added (proxyHandler env (received (submit_call token form))) s)"
    and "\<forall>t \<in> set (backends s). plain_address t"
    and "length (Encode form) \<le> maxFormSize"
  defines "q \<equiv> received (HttpDo m u hs b)"
  shows "Method q = ''POST''" and "Path q = ''/submit-task''" and "HeaderGet q ''Authorization'' = ''Bearer '' @ token"
    and "FormValue q k = first_value form k"
proof -
  let ?hs = "[(''Content-Type'', form_type), (''Authorization'', ''Bearer '' @ token)]"
  obtain t where t: "t \<in> set (backends s)" and "m = ''POST''" and "u = t @ ''/submit-task''"
    and "hs = ?hs" and "b = Encode form"
    using proxy_request [OF assms(1)] by (auto simp: received_submit_call parse_form_def)
  then have q: "q = parse_form \<lparr>Method = ''POST'', Path = ''/submit-task'', RawQuery = '''', ReqHeader = ?hs,
      Form = [], ReqBody = Inr (Encode form)\<rparr>"
    unfolding q_def using assms(2) by (simp add: received_submit del: received.simps)
  show "Method q = ''POST''" "Path q = ''/submit-task''" "HeaderGet q ''Authorization'' = ''Bearer '' @ token"
    by (simp_all add: q parse_form_def HeaderGet_def first_value_def)
  have "body_form (q\<lparr>Form := []\<rparr>) = parse_query (Encode form)"
    using assms(3) by (simp add: q parse_form_def body_form_def HeaderGet_def first_value_def)
  then have "Form q = parse_query (Encode form)"
    by (simp add: q parse_form_def body_form_def HeaderGet_def parse_query_def query_pair_def map_filter_def)
  then show "FormValue q k = first_value form k" by (simp add: FormValue_def first_value_Encode)
qed

text \<open>The form from the six lines the user types.\<close>

definition typed :: "string list \<Rightarrow> string" where
  "typed ls = concat (map (\<lambda>l. l @ [CHR 0x0A]) ls)"

lemma fill_form_result:
  assumes "stdin s = typed [task, key, headers, fail, retry, broadcast]"
    and "\<forall>l \<in> set [task, key, headers, fail, retry, broadcast]. CHR 0x0A \<notin> set l"
  shows "fst (run_state (fill_form env) s) =
    set_value ''broadcast'' (ToLower env (TrimSpace (broadcast @ [CHR 0x0A])))
     (set_value ''retry'' (if TrimSpace (ToLower env (retry @ [CHR 0x0A])) = ''yes'' then ''1'' else ''0'')
      (set_value ''fail'' (if ToLower env (TrimSpace (fail @ [CHR 0x0A])) \<in> {''yes'', ''y''} then ''1'' else ''0'')
       (set_value ''headersJSON'' (TrimSpace (headers @ [CHR 0x0A]))
        (set_value ''routingKey'' (TrimSpace (key @ [CHR 0x0A]))
         (set_value ''task'' (TrimSpace (task @ [CHR 0x0A])) [])))))"
proof -
  have "line_of (stdin s) = (task @ [CHR 0x0A], typed [key, headers, fail, retry, broadcast])"
    "line_of (typed [key, headers, fail, retry, broadcast]) = (key @ [CHR 0x0A], typed [headers, fail, retry, broadcast])"
    "line_of (typed [headers, fail, retry, broadcast]) = (headers @ [CHR 0x0A], typed [fail, retry, broadcast])"
    "line_of (typed [fail, retry, broadcast]) = (fail @ [CHR 0x0A], typed [retry, broadcast])"
    "line_of (typed [retry, broadcast]) = (retry @ [CHR 0x0A], typed [broadcast])"
    "line_of (typed [broadcast]) = (broadcast @ [CHR 0x0A], [])"
    using assms by (simp_all add: typed_def line_of_line)
  then show ?thesis by (simp add: fill_form_def ask_line_def Let_def)
qed

lemma no_user_id: "decode_first store_user_id (CHR ''R'' # cs) [] = (True, [])"
  by (simp add: decode_first_def skip_ws_Cons is_space_def parse_value.simps(2) parse_number_def parse_int_part_def
      is_digit_def)

subsection \<open>Properties\<close>

text \<open>
  C21: The client gets past the login: when Redis counts and from some poll on holds a token under the id
  that was generated, one poll more than that is enough, whatever the browser does.
\<close>
theorem client_login_ends:
  fixes s :: "'a terminal_scheme"
  assumes "auth_served env" and "redis_reply env (trace s) [Incr ''user_id_counter''] = Inr (int n)"
    and "\<And>h. k \<le> polls (dec_nat n) h \<Longrightarrow> \<exists>tok. redis_value env h (token_key (dec_nat n)) = Inr (Some tok) \<and> tok \<noteq> ''''"
  shows "fst (run_state (client_main env (Suc k)) s) \<noteq> Blocked"
proof -
  let ?uid = "dec_nat n"
  obtain resp where resp: "http_reply env (trace s) (HttpGet generate_url) = Inr resp"
    and body: "RespBody resp = marshal_struct [(''userId'', SString ?uid)] @ [CHR 0x0A]"
    using generate_answer [of env "trace s"] assms(2) unfolding served_generate [OF assms(1)]
    by (auto simp: dec_int_def)
  have "?uid = snd (decode_first store_user_id (RespBody resp) '''')"
    unfolding body by (simp add: user_id_of_answer)
  then obtain s' :: "'a terminal_scheme" where
    s': "fst (run_state (client_main env (Suc k)) s) = Blocked \<longleftrightarrow> fst (run_state (poll_token env ?uid (Suc k)) s') = None"
    by (rule client_main_blocked [OF resp, where n = "Suc k"])
  have q: "query_value (received (HttpGet (fetch_url ?uid))) ''userId'' = ?uid"
    by (rule query_user_id [OF dec_nat_digits])
  have "token_in (http_reply env h (HttpGet (fetch_url ?uid))) \<noteq> None" if late: "k \<le> polls ?uid h" for h
  proof -
    obtain tok where "redis_value env h (token_key ?uid) = Inr (Some tok)" and "tok \<noteq> ''''"
      using assms(3) [OF late] by blast
    then show ?thesis
      unfolding served_fetch [OF assms(1)] token_in_fetch q by (simp add: Let_def dec_nat_nonempty)
  qed
  from poll_ends [of k ?uid env s' "Suc k", OF this] s' show ?thesis by simp
qed

text \<open>
  C22: When the id cannot be generated the client waits for ever: it ignores the status of the answer,
  takes the empty user id, and polls an address that the authentication server always answers 400.
\<close>
theorem client_without_id_waits_for_ever:
  fixes s :: "'a terminal_scheme"
  assumes "auth_served env" and "redis_reply env (trace s) [Incr ''user_id_counter''] = Inl err"
  shows "fst (run_state (client_main env n) s) = Blocked"
proof -
  obtain resp where resp: "http_reply env (trace s) (HttpGet generate_url) = Inr resp"
    and body: "RespBody resp = ''Redis error'' @ [CHR 0x0A]"
    using generate_answer [of env "trace s"] assms(2) unfolding served_generate [OF assms(1)]
    by auto
  have "'''' = snd (decode_first store_user_id (RespBody resp) '''')" unfolding body by (simp add: no_user_id)
  then obtain s' :: "'a terminal_scheme" where
    s': "fst (run_state (client_main env n) s) = Blocked \<longleftrightarrow> fst (run_state (poll_token env '''' n) s') = None"
    by (rule client_main_blocked [OF resp, where n = n])
  have "query_value (received (HttpGet (fetch_url ''''))) ''userId'' = ''''"
    by (rule query_user_id) simp
  then have "token_in (http_reply env h (HttpGet (fetch_url ''''))) = None" for h
    by (simp add: served_fetch [OF assms(1)] token_in_fetch del: received.simps)
  from poll_never_ends [of env "''''", OF this] s' show ?thesis by simp
qed

text \<open>
  C2: What the user types reaches the gateway's handler: through trimming, the encoding of the form, the
  balancer's proxy and the gateway's parsing, every field arrives as meant, whatever bytes it holds and
  whichever gateway is picked, with the token that was pasted.
\<close>
theorem typed_task_reaches_gateway:
  assumes "stdin s = typed [task, key, headers, fail, retry, broadcast]"
    and "\<forall>l \<in> set [task, key, headers, fail, retry, broadcast]. CHR 0x0A \<notin> set l"
    and "form = fst (run_state (fill_form env) s)" and "length (Encode form) \<le> maxFormSize"
    and "\<forall>t \<in> set (backends balancer). plain_address t"
    and "Http (HttpDo m u hs b) \<in> set (added (proxyHandler env' (received (submit_call token form))) balancer)"
    and "q = received (HttpDo m u hs b)"
  shows "Method q = ''POST'' \<and> Path q = ''/submit-task'' \<and> HeaderGet q ''Authorization'' = ''Bearer '' @ token \<and>
    FormValue q ''task'' = TrimSpace (task @ [CHR 0x0A]) \<and>
    FormValue q ''routingKey'' = TrimSpace (key @ [CHR 0x0A]) \<and>
    FormValue q ''headersJSON'' = TrimSpace (headers @ [CHR 0x0A]) \<and>
    FormValue q ''fail'' =
      (if ToLower env (TrimSpace (fail @ [CHR 0x0A])) \<in> {''yes'', ''y''} then ''1'' else ''0'') \<and>
    FormValue q ''retry'' = (if TrimSpace (ToLower env (retry @ [CHR 0x0A])) = ''yes'' then ''1'' else ''0'') \<and>
    FormValue q ''broadcast'' = ToLower env (TrimSpace (broadcast @ [CHR 0x0A]))"
  using proxied_submission [OF assms(6,5,4), folded assms(7)] fill_form_result [OF assms(1,2), of env]
  by (simp add: assms(3))

lemma trim_example:
  "TrimSpace (''hi'' @ [CHR 0x0A]) = ''hi''" "TrimSpace [CHR 0x0A] = ''''" "TrimSpace (''no'' @ [CHR 0x0A]) = ''no''"
  by code_simp+

text \<open>A terminal at which a task is typed, and the pool of the balancer's example.\<close>

definition terminal_example :: terminal where
  "terminal_example =
     \<lparr>trace = [], stdin = typed [''hi'', '''', '''', ''no'', ''no'', ''no''], stdout = ''''\<rparr>"

definition form_example :: url_values where
  "form_example = fst (run_state (fill_form quiet_env) terminal_example)"

lemma form_example_length: "length (Encode form_example) \<le> maxFormSize"
proof -
  have e: "form_example = [(''task'', ''hi''), (''routingKey'', ''''), (''headersJSON'', ''''), (''fail'', ''0''),
      (''retry'', ''0''), (''broadcast'', ''no'')]"
    using fill_form_result [of terminal_example "''hi''" "''''" "''''" "''no''" "''no''" "''no''" quiet_env]
      trim_example
    by (simp add: form_example_def terminal_example_def set_value_def)
  show ?thesis using length_Encode [of form_example] unfolding e by (simp add: maxFormSize_def)
qed

lemma lb_example_plain: "\<forall>t \<in> set (backends lb_example). plain_address t"
  by (simp add: lb_example_def plain_address_def)

lemma proxied_example:
  "\<exists>m u hs b. Http (HttpDo m u hs b) \<in>
     set (added (proxyHandler quiet_env (received (submit_call ''xyz'' form_example))) lb_example)"
  unfolding received_submit_call
  by (simp add: parse_form_def proxyHandler_def lb_example_def numeral_2_eq_2 run_getNextBackend is_ok_def
      proxy_call_def added_def)

theorem typed_task_reaches_gateway_witness:
  "\<exists>m u hs b. FormValue (received (HttpDo m u hs b)) ''task'' = ''hi'' \<and>
     HeaderGet (received (HttpDo m u hs b)) ''Authorization'' = ''Bearer xyz''"
proof -
  obtain m u hs b where call: "Http (HttpDo m u hs b) \<in>
     set (added (proxyHandler quiet_env (received (submit_call ''xyz'' form_example))) lb_example)"
    using proxied_example by blast
  have typed: "stdin terminal_example = typed [''hi'', '''', '''', ''no'', ''no'', ''no'']"
    by (simp add: terminal_example_def)
  have lines: "\<forall>l \<in> set [''hi'', '''', '''', ''no'', ''no'', ''no'']. CHR 0x0A \<notin> set l" by simp
  from typed_task_reaches_gateway [OF typed lines form_example_def form_example_length lb_example_plain call refl]
  have "FormValue (received (HttpDo m u hs b)) ''task'' = ''hi''"
    and "HeaderGet (received (HttpDo m u hs b)) ''Authorization'' = ''Bearer '' @ ''xyz''"
    by (simp_all only: trim_example)
  then show ?thesis by auto
qed

text \<open>A world in which only the authentication server answers, with and without Redis.\<close>

definition auth_world :: "env \<Rightarrow> env" where
  "auth_world base = base\<lparr>http_reply := (\<lambda>h c. case c of HttpGet u \<Rightarrow> auth_answer base h u | _ \<Rightarrow> Inl '''')\<rparr>"

lemma auth_world_fields:
  "redis_reply (auth_world base) = redis_reply base" "redis_value (auth_world base) = redis_value base"
    "http_reply (auth_world base) h (HttpGet u) = auth_answer base h u"
  by (simp_all add: auth_world_def)

lemma auth_world_handlers:
  "handleGenerateID (auth_world base) r = handleGenerateID base r"
  "handleFetchToken (auth_world base) r = handleFetchToken base r"
  by (simp_all only: handleGenerateID_def handleFetchToken_def redis_get_def redis_set_def auth_world_fields)

lemma auth_world_served: "auth_served (auth_world base)"
proof -
  have "auth_answer (auth_world base) h generate_url = auth_answer base h generate_url"
    and "auth_answer (auth_world base) h (fetch_url uid) = auth_answer base h (fetch_url uid)" for h uid
    by (simp_all add: auth_answer_def auth_mux_def received_generate received_fetch auth_world_handlers
        del: received.simps)
  then show ?thesis by (simp add: auth_served_def auth_world_fields)
qed

theorem client_login_ends_witness:
  "fst (run_state (client_main (auth_world (quiet_env\<lparr>redis_value := (\<lambda>h k. Inr (Some ''tok''))\<rparr>)) 1)
     terminal_example) \<noteq> Blocked"
  using client_login_ends [OF auth_world_served, of "quiet_env\<lparr>redis_value := (\<lambda>h k. Inr (Some ''tok''))\<rparr>"
      terminal_example 1 0]
  by (simp add: auth_world_def)

theorem client_without_id_waits_for_ever_witness:
  "fst (run_state (client_main (auth_world (quiet_env\<lparr>redis_reply := (\<lambda>h c. Inl ''down'')\<rparr>)) 1000)
     terminal_example) = Blocked"
  by (rule client_without_id_waits_for_ever [OF auth_world_served]) (simp add: auth_world_def)

end
