(* ===== verification/Serving.thy ===== *)
theory Serving
  imports Startup Journey
begin

text \<open>
  The two servers as their \<^verbatim>\<open>main\<close> functions wire them: the paths of the gateway and of the load
  balancer, and the gateway's way from its set-up to a listening, registered server. The
  Prometheus page is a parameter. Paths are in clean form; the mux redirects others.
\<close>

definition not_found :: response where
  "not_found = http_error ''404 page not found'' 404 response0"

definition gateway_mux ::
  "env \<Rightarrow> rate_limiter \<Rightarrow> response \<Rightarrow> request \<Rightarrow> ('a gateway_scheme, response outcome) state" where
  "gateway_mux env limiter prometheus_page r =
     (if Path r = ''/submit-task'' then handleSubmitTask env limiter r
      else if Path r = ''/health'' then State_Monad.return (Ret (write_header 200 response0))
      else if Path r = ''/metrics_manual'' then metricsHandler env
      else if Path r = ''/metrics'' then State_Monad.return (Ret prometheus_page)
      else State_Monad.return (Ret not_found))"

text \<open>From the end of the set-up on: the port the gateway serves on, once it tried to register.\<close>

definition gateway_main :: "env \<Rightarrow> ('a worker_vars_scheme, nat outcome) state" where
  "gateway_main env = do {
     r \<leftarrow> gateway_setup env;
     (case r of
        Panic msg \<Rightarrow> State_Monad.return (Panic msg)
      | Fatal msg \<Rightarrow> State_Monad.return (Fatal msg)
      | Blocked \<Rightarrow> State_Monad.return Blocked
      | Ret _ \<Rightarrow> do {
          ln \<leftarrow> ask (listen_port env);
          (case ln of
             Inl err \<Rightarrow> State_Monad.return (Fatal ''Failed to bind to port'')
           | Inr assignedPort \<Rightarrow> do {
               _ \<leftarrow> registerWithLoadBalancer env (os_hostname env) assignedPort;
               State_Monad.return (Ret assignedPort) }) }) }"

definition balancer_mux :: "env \<Rightarrow> request \<Rightarrow> ('a lb_scheme, response) state" where
  "balancer_mux env r =
     (if Path r = ''/register'' then registerHandler r
      else if Path r = ''/metrics'' then lb_metrics env
      else proxyHandler env r)"

subsection \<open>Properties\<close>

lemma plain_path:
  assumes "plain_address t" and "set p \<inter> set ''?#'' = {}"
  shows "url_path (t @ CHR ''/'' # p) = CHR ''/'' # p"
  using assms
  by (auto simp: plain_address_def url_path_def cut_def takeWhile_plain takeWhile_none dropWhile_plain)




text \<open>
  The login of \<^verbatim>\<open>auth.go\<close> cannot be completed through the balancer it redirects to: the callback is
  proxied, and every gateway answers it 404.
\<close>
theorem balancer_has_no_callback:
  assumes "Path r = ''/oauth2/callback''" and "\<forall>t \<in> set (backends s). plain_address t"
    and "Http (HttpDo m u hs b) \<in> set (added (balancer_mux env r) s)"
  shows "run_state (gateway_mux env' limiter page (received (HttpDo m u hs b))) s' = (Ret not_found, s')"
proof -
  have "Http (HttpDo m u hs b) \<in> set (added (proxyHandler env r) s)"
    using assms(1,3) by (simp add: balancer_mux_def added_def)
  then obtain t where "t \<in> set (backends s)" and "u = t @ ''/oauth2/callback''"
    using proxy_request assms(1) by metis
  then have "Path (received (HttpDo m u hs b)) = ''/oauth2/callback''"
    using plain_path [of t "''oauth2/callback''"] assms(2) by (simp add: received_as_def parse_form_def)
  then show ?thesis by (simp add: gateway_mux_def del: received.simps)
qed

definition callback_at_balancer :: request where
  "callback_at_balancer = request0\<lparr>Method := ''GET'', Path := ''/oauth2/callback'', RawQuery := ''code=c0''\<rparr>"

theorem balancer_has_no_callback_witness:
  "\<exists>m u hs b. run_state (gateway_mux quiet_env NewRateLimiter response0 (received (HttpDo m u hs b))) gateway0 =
     (Ret not_found, gateway0)"
proof -
  have path: "Path callback_at_balancer = ''/oauth2/callback''" by (simp add: callback_at_balancer_def)
  have "\<exists>m u hs b. Http (HttpDo m u hs b) \<in> set (added (balancer_mux quiet_env callback_at_balancer) lb_example)"
    by (simp add: balancer_mux_def callback_at_balancer_def request0_def proxyHandler_def lb_example_def
        numeral_2_eq_2 run_getNextBackend is_ok_def proxy_call_def added_def)
  then obtain m u hs b where
    call: "Http (HttpDo m u hs b) \<in> set (added (balancer_mux quiet_env callback_at_balancer) lb_example)" by blast
  show ?thesis
    using balancer_has_no_callback [OF path lb_example_plain call, of quiet_env NewRateLimiter response0 gateway0]
    by blast
qed

end
