(* ===== verification/Retry_Life.thy ===== *)
theory Retry_Life
  imports Dead_Letter_Queues
begin

text \<open>
  The life of one message in a retry queue, when the broker delivers again what the worker puts
  back: how often it is handled, what its sender is told, and that it ends. The scenario is
  driven by \<open>delay_retry_handle\<close>; the only assumption is on the broker's redelivery, built into
  \<open>retry_life\<close>.
\<close>

text \<open>The message put back into the queue during a handling, if any.\<close>

definition put_back :: "string \<Rightarrow> history \<Rightarrow> publishing option" where
  "put_back q es =
     (case [p. (x, k, p) \<leftarrow> publishes es, x = ''retry_exchange'' \<and> k = q] of
        [] \<Rightarrow> None | p # ps \<Rightarrow> Some p)"

definition deliver :: "uint64 \<Rightarrow> publishing \<Rightarrow> delivery" where
  "deliver t p =
     \<lparr>Headers = Headers p, ContentType = ContentType p, DeliveryMode = DeliveryMode p,
      Body = Body p, ReplyTo = ReplyTo p, CorrelationId = CorrelationId p, DeliveryTag = t\<rparr>"

lemma deliver_simps [simp]:
  "Headers (deliver t p) = Headers p" "Body (deliver t p) = Body p" "ReplyTo (deliver t p) = ReplyTo p"
  "CorrelationId (deliver t p) = CorrelationId p" "DeliveryTag (deliver t p) = t"
  by (simp_all add: deliver_def)

text \<open>
  Handle, and again as long as the message comes back; at most \<open>fuel\<close> times. The result is how
  often it was handled, \<open>None\<close> when the fuel ran out.
\<close>

fun retry_life ::
  "env \<Rightarrow> string \<Rightarrow> string \<Rightarrow> nat \<Rightarrow> delivery \<Rightarrow> ('a io_scheme, nat option) state" where
  "retry_life env q w 0 d = State_Monad.return None"
| "retry_life env q w (Suc fuel) d = do {
     s0 \<leftarrow> State_Monad.get;
     delay_retry_handle env q w d;
     s1 \<leftarrow> State_Monad.get;
     (case put_back q (drop (length (trace s0)) (trace s1)) of
        None \<Rightarrow> State_Monad.return (Some 1)
      | Some p \<Rightarrow> do {
          r \<leftarrow> retry_life env q w fuel (deliver (DeliveryTag d + 1) p);
          State_Monad.return (map_option Suc r) }) }"

text \<open>The messages that reach a queue by its name.\<close>

definition inbox :: "string \<Rightarrow> history \<Rightarrow> publishing list" where
  "inbox q es = [p. (x, k, p) \<leftarrow> publishes es, x = '''' \<and> k = q]"

lemma inbox_simps [trace_simps, simp]:
  "inbox q [] = []"
  "inbox q (xs @ ys) = inbox q xs @ inbox q ys"
  "inbox q (e # es) =
     (case publish_of e of Some (x, k, p) \<Rightarrow> if x = '''' \<and> k = q then p # inbox q es else inbox q es
      | None \<Rightarrow> inbox q es)"
  by (simp_all add: inbox_def split: option.split)

definition forwarded :: "string \<Rightarrow> history \<Rightarrow> publishing list" where
  "forwarded exchange es = [p. (x, k, p) \<leftarrow> publishes es, x = exchange]"

lemma forwarded_simps [trace_simps, simp]:
  "forwarded x [] = []"
  "forwarded x (xs @ ys) = forwarded x xs @ forwarded x ys"
  "forwarded x (e # es) =
     (case publish_of e of Some (x', k, p) \<Rightarrow> if x' = x then p # forwarded x es else forwarded x es
      | None \<Rightarrow> forwarded x es)"
  by (simp_all add: forwarded_def split: option.split)

subsection \<open>The count\<close>

lemma sint_Suc_int32: "sint (k :: int32) < 2 ^ 31 - 1 \<Longrightarrow> sint (k + 1) = sint k + 1"
  using sint_int32_bounds [of k]
  by (simp add: sint_word_ariths signed_take_bit_int_eq_self)

lemma sless_3: "(k :: int32) <s 3 \<longleftrightarrow> sint k < 3"
  by (simp add: word_sless_alt)

text \<open>How many more times a message with count \<open>k\<close> is put back.\<close>

definition remaining :: "int32 \<Rightarrow> nat" where
  "remaining k = nat (3 - sint k)"

lemma remaining_Suc: "k <s 3 \<Longrightarrow> remaining k = Suc (remaining (k + 1))"
  using sint_Suc_int32 [of k] by (simp add: remaining_def sless_3 nat_diff_split Suc_nat_eq_nat_zadd1)

lemma remaining_0: "\<not> k <s 3 \<Longrightarrow> remaining k = 0"
  by (simp add: remaining_def sless_3)

subsection \<open>One handling\<close>

lemma handle_again:
  assumes "amqp_never_fails env" and "retry_count env (Headers d) <s 3" and "ReplyTo d \<noteq> ''''"
  defines "k \<equiv> retry_count env (Headers d) + 1"
  shows "\<exists>es. trace (snd (run_state (delay_retry_handle env q w d) s)) = trace s @ es \<and>
     put_back q es = Some (requeue_message d k) \<and>
     inbox (ReplyTo d) es = [feedback_message d (retry_feedback w k)] \<and>
     forwarded ''retry_exchange'' es = [requeue_message d k] \<and> forwarded ''dlx_exchange'' es = [] \<and>
     settlements es = [(DeliveryTag d, Acked)]"
  using assms by (simp add: delay_retry_handle_def amqp_never_fails_def put_back_def Let_def)

lemma handle_last:
  assumes "\<not> retry_count env (Headers d) <s 3" and "ReplyTo d \<noteq> ''''"
  shows "\<exists>es. trace (snd (run_state (delay_retry_handle env q w d) s)) = trace s @ es \<and>
     put_back q es = None \<and> inbox (ReplyTo d) es = [feedback_message d (dlq_feedback w)] \<and>
     forwarded ''retry_exchange'' es = [] \<and> forwarded ''dlx_exchange'' es = [] \<and>
     settlements es = [(DeliveryTag d, Acked)]"
  using assms by (simp add: delay_retry_handle_def put_back_def Let_def)

lemma retry_count_requeue [simp]: "retry_count env (Headers (requeue_message d k)) = k"
  by (simp add: requeue_message_def retry_count_def)

lemma requeue_message_simps [simp]:
  "Body (requeue_message d k) = Body d" "ReplyTo (requeue_message d k) = ReplyTo d"
  "CorrelationId (requeue_message d k) = CorrelationId d"
  by (simp_all add: requeue_message_def)

subsection \<open>The whole life\<close>

text \<open>What the sender is told: the attempts from \<open>k + 1\<close> to 3, then \<^verbatim>\<open>dlq\<close>.\<close>

fun feedbacks :: "string \<Rightarrow> int32 \<Rightarrow> nat \<Rightarrow> (string \<times> scalar) list list" where
  "feedbacks w k 0 = [dlq_feedback w]"
| "feedbacks w k (Suc n) = retry_feedback w (k + 1) # feedbacks w (k + 1) n"

lemma feedback_message_requeue [simp]:
  "feedback_message (deliver t (requeue_message d k)) = feedback_message d"
  by (simp add: fun_eq_iff feedback_message_def)

lemma retry_life_run:
  assumes "amqp_never_fails env" and "ReplyTo d \<noteq> ''''"
    and "remaining (retry_count env (Headers d)) = n" and "n < fuel"
  shows "fst (run_state (retry_life env q w fuel d) s) = Some (Suc n) \<and>
    (\<exists>es. trace (snd (run_state (retry_life env q w fuel d) s)) = trace s @ es \<and>
       inbox (ReplyTo d) es = map (feedback_message d) (feedbacks w (retry_count env (Headers d)) n) \<and>
       length (forwarded ''retry_exchange'' es) = n \<and>
       (\<forall>p \<in> set (forwarded ''retry_exchange'' es). Body p = Body d) \<and>
       forwarded ''dlx_exchange'' es = [] \<and>
       set (map snd (settlements es)) = {Acked})"
  using assms(2-4)
proof (induction n arbitrary: d fuel s)
  case 0
  obtain fuel' where fuel: "fuel = Suc fuel'" using 0 by (cases fuel) auto
  have "\<not> retry_count env (Headers d) <s 3" using 0 remaining_Suc by fastforce
  from handle_last [OF this 0(1), of q w s] show ?case
    by (auto simp: fuel split_beta)
next
  case (Suc n)
  obtain fuel' where fuel: "fuel = Suc fuel'" "n < fuel'" using Suc.prems(3) by (cases fuel) auto
  let ?k = "retry_count env (Headers d)"
  have lt: "?k <s 3" using Suc.prems(2) remaining_0 by fastforce
  let ?s = "snd (run_state (delay_retry_handle env q w d) s)"
  let ?d = "deliver (DeliveryTag d + 1) (requeue_message d (?k + 1))"
  obtain es where es: "trace ?s = trace s @ es" "put_back q es = Some (requeue_message d (?k + 1))"
     "inbox (ReplyTo d) es = [feedback_message d (retry_feedback w (?k + 1))]"
     "forwarded ''retry_exchange'' es = [requeue_message d (?k + 1)]" "forwarded ''dlx_exchange'' es = []"
     "settlements es = [(DeliveryTag d, Acked)]"
    using handle_again [OF assms(1) lt Suc.prems(1), of q w s] by blast
  have "remaining (?k + 1) = n" using remaining_Suc [OF lt] Suc.prems(2) by simp
  with Suc.IH [of ?d fuel' ?s] Suc.prems(1) fuel(2) es(1)
  obtain es' where es': "fst (run_state (retry_life env q w fuel' ?d) ?s) = Some (Suc n)"
     "trace (snd (run_state (retry_life env q w fuel' ?d) ?s)) = trace s @ es @ es'"
     "inbox (ReplyTo d) es' = map (feedback_message d) (feedbacks w (?k + 1) n)" "length (forwarded ''retry_exchange'' es') = n"
     "\<forall>p \<in> set (forwarded ''retry_exchange'' es'). Body p = Body d"
     "forwarded ''dlx_exchange'' es' = []" "set (map snd (settlements es')) = {Acked}"
    by auto
  have run: "run_state (retry_life env q w fuel d) s =
      map_prod (map_option Suc) (\<lambda>x. x) (run_state (retry_life env q w fuel' ?d) ?s)"
    using es(1,2) by (simp add: fuel(1) split_beta map_prod_def)
  have "snd ` set (settlements es') = {Acked}" using es'(7) by simp
  with es es' show ?case
    by (intro conjI exI [of _ "es @ es'"]) (auto simp: run)
qed

subsection \<open>Properties\<close>

text \<open>
  C17: When no call fails and the queue hands back what the worker puts back, a message in a retry
  queue is handled a bounded number of times, whatever count it arrives with: once for every
  count below three, and once more. Each earlier handling puts the same body back and tells the
  sender its attempt, the last tells it \<^verbatim>\<open>dlq\<close>. Yet nothing is sent to the dead-letter exchange and
  every handling acknowledges, so the message the sender is told is dead-lettered is in no queue.
\<close>
theorem retry_life_ends:
  assumes "amqp_never_fails env" and "ReplyTo d \<noteq> ''''"
    and "remaining (retry_count env (Headers d)) = n" and "n < fuel"
  shows "fst (run_state (retry_life env q w fuel d) s) = Some (Suc n) \<and>
    (\<exists>es. trace (snd (run_state (retry_life env q w fuel d) s)) = trace s @ es \<and>
       inbox (ReplyTo d) es = map (feedback_message d) (feedbacks w (retry_count env (Headers d)) n) \<and>
       length (forwarded ''retry_exchange'' es) = n \<and>
       list_all (\<lambda>p. Body p = Body d) (forwarded ''retry_exchange'' es) \<and>
       forwarded ''dlx_exchange'' es = [] \<and>
       set (map snd (settlements es)) = {Acked})"
  using retry_life_run [OF assms] by (simp only: list_all_iff)

text \<open>A message as \<open>SendToRetryQueue\<close> publishes it.\<close>

definition retried_example :: delivery where
  "retried_example = deliver 7 (publishing0\<lparr>Headers := [(''x-retry-count'', FInt32 0)], Body := ''task'',
     ReplyTo := ''amq.gen'', CorrelationId := ''1f''\<rparr>)"

theorem retry_life_ends_witness:
  "fst (run_state (retry_life quiet_env ''task_shard_0_retry_5s'' ''w'' 4 retried_example) \<lparr>trace = []\<rparr>) = Some 4"
  using retry_life_ends [of quiet_env retried_example 3 4 "''task_shard_0_retry_5s''" "''w''" "\<lparr>trace = []\<rparr>"]
  by (simp add: amqp_never_fails_def retried_example_def retry_count_def remaining_def)

text \<open>
  The resilient worker rejects a delivery, without requeueing it, exactly when its header forces
  the failure or the random draw is below one half, and acknowledges it otherwise; the sender's
  feedback says \<^verbatim>\<open>dlq\<close> in the first case and \<^verbatim>\<open>success\<close> in the second.
\<close>
theorem resilient_worker_decides:
  "settlements (added (resilient_handle env workerID d) s) =
     [(DeliveryTag d, if force_fail (Headers d) \<or> rand_float32 env (trace s) < 2 ^ 23 then Dropped else Acked)] \<and>
   inbox (ReplyTo d) (added (resilient_handle env workerID d) s) =
     (if ReplyTo d = '''' then []
      else [feedback_message d
        (if force_fail (Headers d) \<or> rand_float32 env (trace s) < 2 ^ 23 then forced_failure_feedback workerID
         else [(''status'', SString ''success''), (''worker'', SString workerID)])])"
  by (simp add: resilient_handle_def added_def)

text \<open>
  A task submitted with \<^verbatim>\<open>fail=1\<close> never succeeds: the message the producer publishes for it carries
  the header that makes every resilient worker reject it, whatever the random draw.
\<close>
theorem forced_failure_is_rejected:
  "map (\<lambda>(x, k, p). (x, k, settlements (added (resilient_handle env' workerID (deliver t p)) s')))
     (publishes (added (Dead_Letter_Queues.PublishToResilientQueue env shard task replyTo corrID) s)) =
   [('''', resilient_queue shard, [(t, Dropped)])]"
  by (simp add: Dead_Letter_Queues.PublishToResilientQueue_def added_def resilient_handle_def force_fail_def)

text \<open>
  The counter of dead-lettered messages counts consumers, not messages: it is incremented once when
  the consumer of the dead-letter queue has started, however many deliveries it then serves.
\<close>
theorem dead_letters_counted_once:
  "counter DLQMessages (added (StartDLQConsumer env) s) =
     (if fst (run_state (StartDLQConsumer env) s) = Ret () then 1 else 0) \<and>
   counter DLQMessages (added (for_each (dlq_handle env) ds) s') = 0"
proof
  show "counter DLQMessages (added (StartDLQConsumer env) s) =
     (if fst (run_state (StartDLQConsumer env) s) = Ret () then 1 else 0)"
    by (auto simp: StartDLQConsumer_def added_def split: option.splits)
  have "appends (\<lambda>r es. counter DLQMessages es = 0) (for_each (dlq_handle env) ds)"
  proof (induction ds)
    case Nil
    show ?case by (rule appendsI) simp
  next
    case (Cons d ds)
    have "appends (\<lambda>r es. counter DLQMessages es = 0) (dlq_handle env d)"
      by (rule appendsI) (simp add: dlq_handle_def)
    then show ?case unfolding for_each.simps by (rule appends_bind [OF _ Cons]) simp
  qed
  then show "counter DLQMessages (added (for_each (dlq_handle env) ds) s') = 0" by (rule appends_added)
qed

end
