(* ===== verification/Load_Balancer_Locks.thy ===== *)
theory Load_Balancer_Locks
  imports Load_Balancer
begin

text \<open>
  The lock \<^verbatim>\<open>backendMutex\<close> of \<^verbatim>\<open>load_balancer.go\<close> and the threads that use it: what each operation locks,
  a step relation for Go's \<^verbatim>\<open>sync.RWMutex\<close>, mutual exclusion, and the deadlock of the proxy, which
  takes the read lock again through \<open>getNextBackend\<close> while it holds it.
\<close>

subsection \<open>What the operations lock\<close>

datatype lock_op = RLock | RUnlock | Lock | Unlock

text \<open>
  \<^verbatim>\<open>getNextBackend\<close> locks and unlocks for reading; \<^verbatim>\<open>proxyHandler\<close> holds the read lock from its
  first line to its return and calls it once per try; registration and pruning write; the metrics
  handler reads.
\<close>

definition getNextBackend_locks :: "lock_op list" where
  "getNextBackend_locks = [RLock, RUnlock]"

definition proxyHandler_locks :: "nat \<Rightarrow> lock_op list" where
  "proxyHandler_locks tries = RLock # concat (replicate tries getNextBackend_locks) @ [RUnlock]"

definition registerHandler_locks :: "lock_op list" where
  "registerHandler_locks = [Lock, Unlock]"

definition prune_locks :: "lock_op list" where
  "prune_locks = [Lock, Unlock]"

definition metrics_locks :: "lock_op list" where
  "metrics_locks = [RLock, RUnlock]"

subsection \<open>The lock\<close>

text \<open>
  A writer first announces itself, which keeps new readers out, and takes the lock when the readers
  that hold it have gone. A thread is what is left of its operation's locking.
\<close>

datatype writer = NoWriter | Pending nat | Active nat

record rwmutex =
  readers :: nat
  writer :: writer
  threads :: "lock_op list list"

inductive lock_step :: "nat \<Rightarrow> rwmutex \<Rightarrow> rwmutex \<Rightarrow> bool" where
  RLock: "i < length (threads s) \<Longrightarrow> threads s ! i = RLock # p \<Longrightarrow> writer s = NoWriter \<Longrightarrow>
    lock_step i s (s\<lparr>readers := Suc (readers s), threads := (threads s)[i := p]\<rparr>)"
| RUnlock: "i < length (threads s) \<Longrightarrow> threads s ! i = RUnlock # p \<Longrightarrow> 0 < readers s \<Longrightarrow>
    lock_step i s (s\<lparr>readers := readers s - 1, threads := (threads s)[i := p]\<rparr>)"
| Announce: "i < length (threads s) \<Longrightarrow> threads s ! i = Lock # p \<Longrightarrow> writer s = NoWriter \<Longrightarrow>
    lock_step i s (s\<lparr>writer := Pending i\<rparr>)"
| Lock: "i < length (threads s) \<Longrightarrow> threads s ! i = Lock # p \<Longrightarrow> writer s = Pending i \<Longrightarrow> readers s = 0 \<Longrightarrow>
    lock_step i s (s\<lparr>writer := Active i, threads := (threads s)[i := p]\<rparr>)"
| Unlock: "i < length (threads s) \<Longrightarrow> threads s ! i = Unlock # p \<Longrightarrow> writer s = Active i \<Longrightarrow>
    lock_step i s (s\<lparr>writer := NoWriter, threads := (threads s)[i := p]\<rparr>)"

code_pred (modes: i \<Rightarrow> i \<Rightarrow> o \<Rightarrow> bool) lock_step .

inductive_cases lock_stepE: "lock_step i s s'"

inductive reaches :: "rwmutex \<Rightarrow> rwmutex \<Rightarrow> bool" where
  start: "reaches s s"
| step: "reaches s s' \<Longrightarrow> lock_step i s' s'' \<Longrightarrow> reaches s s''"

definition unlocked :: "lock_op list list \<Rightarrow> rwmutex" where
  "unlocked ps = \<lparr>readers = 0, writer = NoWriter, threads = ps\<rparr>"

definition finished :: "rwmutex \<Rightarrow> bool" where
  "finished s = list_all (\<lambda>p. p = []) (threads s)"

definition stuck :: "rwmutex \<Rightarrow> bool" where
  "stuck s \<longleftrightarrow> \<not> finished s \<and> (\<nexists>i s'. lock_step i s s')"

subsection \<open>The invariant\<close>

text \<open>An operation that holds \<open>n\<close> read locks now and gives everything back in the end.\<close>

fun disciplined :: "nat \<Rightarrow> lock_op list \<Rightarrow> bool" where
  "disciplined n [] = (n = 0)"
| "disciplined n (RLock # p) = disciplined (Suc n) p"
| "disciplined n (RUnlock # p) = (0 < n \<and> disciplined (n - 1) p)"
| "disciplined n (Lock # p) = (n = 0 \<and> p = [Unlock])"
| "disciplined n (Unlock # p) = False"

text \<open>The read locks a thread holds, read off what it has left to do.\<close>

definition holds :: "lock_op list \<Rightarrow> nat" where
  "holds p = count_list p RUnlock - count_list p RLock"

lemma disciplined_count: "disciplined n p \<Longrightarrow> count_list p RUnlock = count_list p RLock + n"
  by (induction n p rule: disciplined.induct) auto

lemma disciplined_holds: "disciplined n p \<Longrightarrow> holds p = n"
  using disciplined_count by (simp add: holds_def)

definition thread_ok :: "rwmutex \<Rightarrow> nat \<Rightarrow> bool" where
  "thread_ok s i =
     (if writer s = Active i then threads s ! i = [Unlock]
      else disciplined (holds (threads s ! i)) (threads s ! i) \<and>
        (writer s = Pending i \<longrightarrow> threads s ! i = [Lock, Unlock]))"

definition mutex_inv :: "rwmutex \<Rightarrow> bool" where
  "mutex_inv s \<longleftrightarrow>
     (\<forall>i < length (threads s). thread_ok s i) \<and>
     readers s = sum_list (map holds (threads s)) \<and>
     (\<forall>i. writer s = Active i \<longrightarrow> readers s = 0 \<and> i < length (threads s)) \<and>
     (\<forall>i. writer s = Pending i \<longrightarrow> i < length (threads s))"

lemma holds_simps [simp]:
  "holds [] = 0" "holds [Unlock] = 0" "holds [Lock, Unlock] = 0" "holds [RUnlock] = 1" "holds [RLock, RUnlock] = 0"
  by (simp_all add: holds_def)

lemma sum_holds_update:
  "i < length ps \<Longrightarrow>
     sum_list (map holds (ps[i := p])) + holds (ps ! i) = sum_list (map holds ps) + holds p"
proof (induction ps arbitrary: i)
  case Nil
  then show ?case by simp
next
  case (Cons q ps)
  then show ?case by (cases i) auto
qed

lemma mutex_inv_step:
  assumes "lock_step i s s'" and inv: "mutex_inv s"
  shows "mutex_inv s'"
proof -
  have ok: "i < length (threads s) \<Longrightarrow> thread_ok s i" using inv by (simp add: mutex_inv_def)
  show ?thesis
    using assms(1)
  proof (cases rule: lock_step.cases)
    case (RLock p)
    have d: "disciplined (Suc (holds (RLock # p))) p" using ok RLock by (simp add: thread_ok_def)
    then have "holds p = Suc (holds (RLock # p))" by (rule disciplined_holds)
    then show ?thesis
      using inv RLock d sum_holds_update [OF RLock(2), of p]
      by (auto simp: mutex_inv_def thread_ok_def nth_list_update)
  next
    case (RUnlock p)
    have w: "writer s \<noteq> Active k" for k using inv RUnlock by (auto simp: mutex_inv_def)
    then have d: "0 < holds (RUnlock # p)" "disciplined (holds (RUnlock # p) - 1) p" and w': "writer s \<noteq> Pending i"
      using ok RUnlock by (auto simp: thread_ok_def)
    have "holds p = holds (RUnlock # p) - 1" using d(2) by (rule disciplined_holds)
    then show ?thesis
      using inv RUnlock w w' d sum_holds_update [OF RUnlock(2), of p]
      by (auto simp: mutex_inv_def thread_ok_def nth_list_update)
  next
    case (Announce p)
    then show ?thesis using inv ok by (auto simp: mutex_inv_def thread_ok_def)
  next
    case (Lock p)
    have "p = [Unlock]" using ok Lock by (simp add: thread_ok_def)
    then show ?thesis
      using inv Lock sum_holds_update [OF Lock(2), of p]
      by (auto simp: mutex_inv_def thread_ok_def nth_list_update)
  next
    case (Unlock p)
    have "p = []" using ok Unlock by (simp add: thread_ok_def)
    then show ?thesis
      using inv Unlock sum_holds_update [OF Unlock(2), of p]
      by (auto simp: mutex_inv_def thread_ok_def nth_list_update)
  qed
qed

lemma mutex_inv_reaches: "reaches s s' \<Longrightarrow> mutex_inv s \<Longrightarrow> mutex_inv s'"
  by (induction rule: reaches.induct) (auto intro: mutex_inv_step)

text \<open>The operations of the load balancer.\<close>

definition lb_operation :: "lock_op list \<Rightarrow> bool" where
  "lb_operation p \<longleftrightarrow>
     p \<in> {registerHandler_locks, prune_locks, metrics_locks} \<or> (\<exists>n. p = proxyHandler_locks n)"

lemma disciplined_tries: "disciplined 1 (concat (replicate n getNextBackend_locks) @ [RUnlock])"
  by (induction n) (simp_all add: getNextBackend_locks_def)

lemma lb_operation_disciplined: "lb_operation p \<Longrightarrow> disciplined 0 p"
  using disciplined_tries
  by (auto simp: lb_operation_def registerHandler_locks_def prune_locks_def metrics_locks_def proxyHandler_locks_def)

lemma mutex_inv_unlocked:
  assumes "list_all lb_operation ps"
  shows "mutex_inv (unlocked ps)"
proof -
  have ps: "holds p = 0" "disciplined 0 p" if "p \<in> set ps" for p
    using that assms lb_operation_disciplined disciplined_holds by (auto simp: list_all_iff)
  then have "sum_list (map holds ps) = 0" by simp
  with ps show ?thesis by (simp add: mutex_inv_def unlocked_def thread_ok_def)
qed

subsection \<open>Progress without the proxy\<close>

text \<open>What can be left of an operation that locks once.\<close>

definition flat :: "lock_op list \<Rightarrow> bool" where
  "flat p \<longleftrightarrow> p \<in> {[], [RLock, RUnlock], [RUnlock], [Lock, Unlock], [Unlock]}"

lemma lock_step_threads:
  "lock_step i s s' \<Longrightarrow> threads s' = threads s \<or>
     (\<exists>x p. i < length (threads s) \<and> threads s ! i = x # p \<and> threads s' = (threads s)[i := p])"
  by (auto elim!: lock_stepE)

lemma flat_step:
  assumes "lock_step i s s'" and "list_all flat (threads s)"
  shows "list_all flat (threads s')"
proof -
  have "flat (x # p) \<Longrightarrow> flat p" for x p by (auto simp: flat_def)
  with lock_step_threads [OF assms(1)] assms(2) show ?thesis
    by (auto simp: list_all_length nth_list_update) metis
qed

lemma flat_not_stuck:
  assumes inv: "mutex_inv s" and flat: "list_all flat (threads s)"
  shows "\<not> stuck s"
proof
  assume "stuck s"
  then have none: "\<not> lock_step i s s'" for i s' by (simp add: stuck_def)
  have unfinished: "\<exists>i < length (threads s). threads s ! i \<noteq> []"
    using \<open>stuck s\<close> by (auto simp: stuck_def finished_def list_all_length)
  have flat': "flat (threads s ! i)" if "i < length (threads s)" for i
    using that flat by (simp add: list_all_length)
  show False
  proof (cases "writer s")
    case (Active i)
    then have "i < length (threads s)" "threads s ! i = [Unlock]"
      using inv by (auto simp: mutex_inv_def thread_ok_def)
    then show False using none Active by (meson lock_step.Unlock)
  next
    case (Pending i)
    then have i: "i < length (threads s)" "threads s ! i = [Lock, Unlock]"
      using inv by (auto simp: mutex_inv_def thread_ok_def)
    then have "0 < readers s" using none Pending by (meson lock_step.Lock neq0_conv)
    moreover obtain j where "j < length (threads s)" "0 < holds (threads s ! j)"
    proof -
      have "sum_list (map holds ps) = 0" if "\<forall>p \<in> set ps. holds p = 0" for ps
        using that by (induction ps) simp_all
      then have "\<not> (\<forall>p \<in> set (threads s). holds p = 0)"
        using \<open>0 < readers s\<close> inv unfolding mutex_inv_def by (metis less_irrefl)
      then show thesis using that by (metis in_set_conv_nth neq0_conv)
    qed
    moreover from this have "threads s ! j = [RUnlock]" using flat' [of j] by (auto simp: flat_def)
    ultimately show False using none by (meson lock_step.RUnlock)
  next
    case NoWriter
    obtain i where i: "i < length (threads s)" "threads s ! i \<noteq> []" using unfinished by blast
    have ok: "disciplined (holds (threads s ! i)) (threads s ! i)"
      using inv i NoWriter by (auto simp: mutex_inv_def thread_ok_def)
    from flat' [OF i(1)] i(2) ok consider "threads s ! i = [RLock, RUnlock]"
      | "threads s ! i = [RUnlock]" | "threads s ! i = [Lock, Unlock]" by (auto simp: flat_def)
    then show False
    proof cases
      case 1
      then show False using none i NoWriter by (meson lock_step.RLock)
    next
      case 2
      have "holds (threads s ! i) \<le> readers s"
        using inv i(1) by (auto simp: mutex_inv_def intro: member_le_sum_list)
      then have "0 < readers s" using 2 by simp
      then show False using none i 2 by (meson lock_step.RUnlock)
    next
      case 3
      then show False using none i NoWriter by (meson lock_step.Announce)
    qed
  qed
qed

lemma reaches_flat: "reaches s s' \<Longrightarrow> list_all flat (threads s) \<Longrightarrow> list_all flat (threads s')"
  by (induction rule: reaches.induct) (auto intro: flat_step)

subsection \<open>Properties\<close>



text \<open>
  C13: The proxy can deadlock: a proxied request with at least one try and the pruning of dead gateways
  reach a state in which neither has finished and neither can go on, because a waiting writer keeps
  the second read lock of the proxy out while the first one keeps the writer waiting.
\<close>
theorem proxy_deadlock:
  "\<exists>s. reaches (unlocked [proxyHandler_locks (Suc n), prune_locks]) s \<and> stuck s"
proof -
  let ?p = "RLock # RUnlock # concat (replicate n getNextBackend_locks) @ [RUnlock]"
  let ?s = "\<lparr>readers = 1, writer = Pending 1, threads = [?p, prune_locks]\<rparr>"
  let ?u = "unlocked [proxyHandler_locks (Suc n), prune_locks]"
  let ?r = "\<lparr>readers = 1, writer = NoWriter, threads = [?p, prune_locks]\<rparr>"
  have "lock_step 0 ?u ?r"
    using lock_step.RLock [of 0 ?u ?p] by (simp add: unlocked_def proxyHandler_locks_def getNextBackend_locks_def)
  moreover have "lock_step 1 ?r ?s"
    using lock_step.Announce [of 1 ?r "[Unlock]"] by (simp add: prune_locks_def)
  ultimately have "reaches ?u ?s" by (meson reaches.intros)
  moreover have "\<not> lock_step i ?s s'" for i s'
    by (auto elim!: lock_stepE simp: prune_locks_def less_Suc_eq)
  then have "stuck ?s" by (simp add: stuck_def finished_def)
  ultimately show ?thesis by blast
qed

text \<open>
  C19: The nested read lock is the only cause: with registrations, prunings and metrics requests alone, in
  any number and interleaving, no reachable state is stuck.
\<close>
theorem no_deadlock_without_proxy:
  assumes "set ps \<subseteq> {registerHandler_locks, prune_locks, metrics_locks}"
    and "reaches (unlocked ps) s"
  shows "\<not> stuck s"
proof -
  have "list_all lb_operation ps" "list_all flat (threads (unlocked ps))"
    using assms(1) by (auto simp: list_all_iff lb_operation_def flat_def unlocked_def registerHandler_locks_def
        prune_locks_def metrics_locks_def)
  then show ?thesis
    using flat_not_stuck mutex_inv_reaches mutex_inv_unlocked reaches_flat assms(2) by blast
qed

theorem no_deadlock_without_proxy_witness:
  "\<not> stuck (unlocked [metrics_locks, prune_locks, registerHandler_locks])"
  using no_deadlock_without_proxy [OF _ reaches.start] by simp

end
