(* ===== verification/Quorum_Recovery.thy ===== *)
theory Quorum_Recovery
  imports Interfaces
begin

text \<open>
  \<^verbatim>\<open>quorum_recovery/handler.go\<close>: the monitor of the RabbitMQ cluster. Every ten seconds it lists the
  running containers, asks the management API for nodes and quorum queues, and replaces every node
  it takes for dead. Docker and the API are outside; the wait for a new node is bounded by
  a deadline, so it is modelled with fuel, and \<open>wait_ready_ends\<close> shows how much is enough.
\<close>

record quorum = io +
  forgotten :: "string set"
  expectedNodes :: "string list"
  previousExpectedNodes :: "string list"

subsection \<open>Calls\<close>

definition docker :: "env \<Rightarrow> docker_call \<Rightarrow> ('a io_scheme, string option) state" where
  "docker env c = perform (\<lambda>h. docker_err env h c) (Docker c)"

text \<open>A call that also returns the id of what it made.\<close>

definition docker_new :: "env \<Rightarrow> docker_call \<Rightarrow> ('a io_scheme, string option \<times> string) state" where
  "docker_new env c = perform (\<lambda>h. (docker_err env h c, docker_id env h)) (Docker c)"

lemma run_docker [run_simps, simp]:
  "run_state (docker env c) s = (docker_err env (trace s) c, s\<lparr>trace := trace s @ [Docker c]\<rparr>)"
  "run_state (docker_new env c) s =
     ((docker_err env (trace s) c, docker_id env (trace s)), s\<lparr>trace := trace s @ [Docker c]\<rparr>)"
  by (simp_all add: docker_def docker_new_def)

text \<open>The error and the output.\<close>

definition execInContainer ::
  "env \<Rightarrow> string \<Rightarrow> string list \<Rightarrow> ('a io_scheme, string option \<times> string) state" where
  "execInContainer env c cmd = do {
     (err, execId) \<leftarrow> docker_new env (ExecCreate c cmd);
     if err \<noteq> None then State_Monad.return (err, '''')
     else do {
       err \<leftarrow> docker env (ExecAttach execId);
       if err \<noteq> None then State_Monad.return (err, '''')
       else do {
         out \<leftarrow> ask (exec_output env);
         (err, code) \<leftarrow> perform (\<lambda>h. (docker_err env h (ExecInspect execId), exec_code env h))
           (Docker (ExecInspect execId));
         if err \<noteq> None then State_Monad.return (err, out)
         else if code \<noteq> 0 then State_Monad.return (Some (''exit code '' @ dec_int code), out)
         else State_Monad.return (None, out) } } }"

definition rabbitmqctl ::
  "env \<Rightarrow> string \<Rightarrow> string list \<Rightarrow> ('a io_scheme, string option \<times> string) state" where
  "rabbitmqctl env c args = execInContainer env c (''rabbitmqctl'' # args)"

text \<open>\<^verbatim>\<open>rand.Intn(n)\<close>\<close>

definition intn :: "env \<Rightarrow> nat \<Rightarrow> ('a io_scheme, nat) state" where
  "intn env n = do { k \<leftarrow> ask (rand_int env); State_Monad.return (k mod n) }"

lemma run_intn [run_simps, simp]: "run_state (intn env n) s = (rand_int env (trace s) mod n, s)"
  by (simp add: intn_def)

subsection \<open>updateExpectedNodes\<close>

definition node_of :: "string \<Rightarrow> string" where
  "node_of container = ''rabbit@'' @ container"

definition has_prefix :: "string \<Rightarrow> string \<Rightarrow> bool" where
  "has_prefix p cs = (take (length p) cs = p)"

text \<open>The names of the running containers; \<^verbatim>\<open>c.Names[0]\<close> panics when there is none.\<close>

fun rabbit_nodes :: "string list list \<Rightarrow> string list outcome" where
  "rabbit_nodes [] = Ret []"
| "rabbit_nodes ([] # cs) = Panic ''index out of range''"
| "rabbit_nodes ((n # ns) # cs) =
     (case rabbit_nodes cs of
        Ret nodes \<Rightarrow> Ret (if has_prefix ''/rabbit'' n then node_of (drop 1 n) # nodes else nodes)
      | r \<Rightarrow> r)"

definition updateExpectedNodes :: "env \<Rightarrow> ('a quorum_scheme, unit outcome) state" where
  "updateExpectedNodes env = do {
     State_Monad.update (\<lambda>s. s\<lparr>previousExpectedNodes := expectedNodes s, expectedNodes := []\<rparr>);
     (err, containers) \<leftarrow> perform (\<lambda>h. (docker_err env h (ContainerList False), docker_names env h))
       (Docker (ContainerList False));
     if err \<noteq> None then State_Monad.return (Ret ())
     else
       (case rabbit_nodes containers of
          Ret nodes \<Rightarrow> do {
            State_Monad.update (\<lambda>s. s\<lparr>expectedNodes := nodes\<rparr>);
            State_Monad.return (Ret ()) }
        | Panic msg \<Rightarrow> State_Monad.return (Panic msg)
        | Fatal msg \<Rightarrow> State_Monad.return (Fatal msg)
        | Blocked \<Rightarrow> State_Monad.return Blocked) }"

subsection \<open>addTestNode\<close>

text \<open>The loop until the new node answers: ready, too late, or out of fuel.\<close>

fun wait_ready :: "env \<Rightarrow> string \<Rightarrow> int \<Rightarrow> nat \<Rightarrow> ('a io_scheme, bool option) state" where
  "wait_ready env c deadline 0 = State_Monad.return None"
| "wait_ready env c deadline (Suc fuel) = do {
     t \<leftarrow> time_now env;
     if deadline < t then State_Monad.return (Some False)
     else do {
       (err, out) \<leftarrow> rabbitmqctl env c [''status''];
       if err = None \<and> out \<noteq> '''' then State_Monad.return (Some True)
       else do {
         sleep (3 * Second);
         wait_ready env c deadline fuel } } }"

text \<open>The steps after the node is ready: leave, join the cluster, start.\<close>

definition join_cluster :: "env \<Rightarrow> string \<Rightarrow> string \<Rightarrow> ('a io_scheme, string option) state" where
  "join_cluster env c node = do {
     (err, _) \<leftarrow> rabbitmqctl env c [''-n'', node, ''stop_app''];
     or_return err (do {
       (err, _) \<leftarrow> rabbitmqctl env c [''join_cluster'', ''rabbit@rabbit1''];
       or_return err (do {
         (err, _) \<leftarrow> rabbitmqctl env c [''start_app''];
         State_Monad.return err }) }) }"

definition create_call :: "env \<Rightarrow> string \<Rightarrow> string \<Rightarrow> string \<Rightarrow> string \<Rightarrow> string \<Rightarrow> docker_call" where
  "create_call env c node cookie user pass =
     ContainerCreate ''rabbitmq:3.12-management'' c
       [''RABBITMQ_NODENAME='' @ node, ''RABBITMQ_DEFAULT_USER='' @ user,
        ''RABBITMQ_DEFAULT_PASS='' @ pass, ''RABBITMQ_ERLANG_COOKIE='' @ cookie]
       ''rabbitmq_rabbitmq_cluster''
       [c @ ''-data:/var/lib/rabbitmq'',
        abs_path env ''./config/rabbitmq.conf'' @ '':/etc/rabbitmq/rabbitmq.conf:ro'',
        abs_path env ''./config/enabled_plugins'' @ '':/etc/rabbitmq/enabled_plugins:ro'']
       c"

text \<open>The error, or \<open>Blocked\<close> when the fuel ran out.\<close>

definition addTestNode ::
  "env \<Rightarrow> nat \<Rightarrow> string \<Rightarrow> string \<Rightarrow> string \<Rightarrow> string \<Rightarrow> string
     \<Rightarrow> ('a io_scheme, string option outcome) state" where
  "addTestNode env fuel c node cookie user pass = do {
     (err, containerId) \<leftarrow> docker_new env (create_call env c node cookie user pass);
     if err \<noteq> None then State_Monad.return (Ret err)
     else do {
       err \<leftarrow> docker env (ContainerStart containerId);
       if err \<noteq> None then State_Monad.return (Ret err)
       else do {
         sleep (10 * Second);
         t \<leftarrow> time_now env;
         ready \<leftarrow> wait_ready env c (t + 90 * Second) fuel;
         (case ready of
            None \<Rightarrow> State_Monad.return Blocked
          | Some False \<Rightarrow> State_Monad.return (Ret (Some ''rabbitmq not ready''))
          | Some True \<Rightarrow> do {
              err \<leftarrow> join_cluster env c node;
              State_Monad.return (Ret err) }) } } }"

subsection \<open>triggerRecovery\<close>

definition extractContainer :: "string \<Rightarrow> string" where
  "extractContainer node =
     (let parts = split_on (CHR ''@'') node in if length parts = 2 then parts ! 1 else '''')"

definition forget_node :: "env \<Rightarrow> string \<Rightarrow> ('a io_scheme, string option \<times> string) state" where
  "forget_node env deadNode =
     rabbitmqctl env ''rabbit1'' [''--node'', ''rabbit@rabbit1'', ''forget_cluster_node'', deadNode]"

text \<open>A replacement under a random name; its error is only logged.\<close>

definition spawn_replacement :: "env \<Rightarrow> nat \<Rightarrow> nat \<Rightarrow> ('a io_scheme, unit outcome) state" where
  "spawn_replacement env fuel n = do {
     newID \<leftarrow> intn env n;
     let newContainer = ''rabbit-recover-'' @ dec_nat newID;
     r \<leftarrow> addTestNode env fuel newContainer (node_of newContainer) ''secretcookie'' ''guest'' ''guest'';
     State_Monad.return (map_outcome (\<lambda>_. ()) r) }"

text \<open>The loop with \<open>n\<close> tries left: whether the node was forgotten.\<close>

fun forget_tries :: "env \<Rightarrow> string \<Rightarrow> int \<Rightarrow> nat \<Rightarrow> ('a io_scheme, bool) state" where
  "forget_tries env deadNode backoff 0 = State_Monad.return False"
| "forget_tries env deadNode backoff (Suc n) = do {
     (err, _) \<leftarrow> forget_node env deadNode;
     if err = None then State_Monad.return True
     else if n = 0 then State_Monad.return False
     else do {
       k \<leftarrow> intn env 500;
       sleep (backoff + int k * Millisecond);
       forget_tries env deadNode (backoff * 2) n } }"

definition recover_unmapped :: "env \<Rightarrow> nat \<Rightarrow> string \<Rightarrow> ('a io_scheme, unit outcome) state" where
  "recover_unmapped env fuel deadNode = do {
     (err, _) \<leftarrow> forget_node env deadNode;
     only_if (err \<noteq> None) (inc QuorumRecoveriesFailed);
     spawn_replacement env fuel 10000 }"

definition recover_container :: "env \<Rightarrow> nat \<Rightarrow> string \<Rightarrow> string \<Rightarrow> ('a io_scheme, unit outcome) state" where
  "recover_container env fuel deadNode c = do {
     _ \<leftarrow> docker env (ContainerStop c (10 * Second));
     ok \<leftarrow> forget_tries env deadNode Second 5;
     if \<not> ok then do {
       inc QuorumRecoveriesFailed;
       spawn_replacement env fuel 10000
     } else do {
       _ \<leftarrow> docker env (ContainerRemove c True True);
       _ \<leftarrow> docker env (VolumeRemove (c @ ''-data'') True);
       spawn_replacement env fuel 1000 } }"

definition recover_node :: "env \<Rightarrow> nat \<Rightarrow> string \<Rightarrow> ('a io_scheme, unit outcome) state" where
  "recover_node env fuel deadNode =
     (let c = extractContainer deadNode
      in if c = '''' then recover_unmapped env fuel deadNode
         else recover_container env fuel deadNode c)"

text \<open>
  The deferred function observes the duration on every return (in nanoseconds here); nothing in the
  body panics, so its \<^verbatim>\<open>recover\<close> branch is not modelled.
\<close>

definition triggerRecovery ::
  "env \<Rightarrow> nat \<Rightarrow> string \<Rightarrow> ('a quorum_scheme, unit outcome) state" where
  "triggerRecovery env fuel deadNode = do {
     start \<leftarrow> time_now env;
     inc QuorumRecoveriesTotal;
     s \<leftarrow> State_Monad.get;
     r \<leftarrow> (if deadNode = '''' \<or> deadNode \<in> forgotten s then State_Monad.return (Ret ())
           else do {
             State_Monad.update (\<lambda>s. s\<lparr>forgotten := insert deadNode (forgotten s)\<rparr>);
             recover_node env fuel deadNode });
     t \<leftarrow> time_now env;
     only_if (r = Ret ()) (observe QuorumRecoveryDuration (t - start));
     State_Monad.return r }"

subsection \<open>checkQuorumStatus\<close>

text \<open>\<^verbatim>\<open>json.Unmarshal\<close> into a slice: whether it reports an error, and the elements.\<close>

definition unmarshal_slice ::
  "(string \<Rightarrow> json \<Rightarrow> 'r decoding \<Rightarrow> 'r decoding) \<Rightarrow> 'r \<Rightarrow> string \<Rightarrow> bool \<times> 'r list" where
  "unmarshal_slice store zero cs =
     (case json_parse cs of
        Some (JArray vs) \<Rightarrow>
          (let ds = map (\<lambda>v. decode_object store v zero) vs in (list_ex fst ds, map snd ds))
      | Some JNull \<Rightarrow> (False, [])
      | _ \<Rightarrow> (True, []))"

record node_status =
  node_name :: string
  node_running :: bool

definition node0 :: node_status where
  "node0 = \<lparr>node_name = '''', node_running = False\<rparr>"

definition store_node :: "string \<Rightarrow> json \<Rightarrow> node_status decoding \<Rightarrow> node_status decoding" where
  "store_node key v acc =
     (if is_field ''name'' key then decode_string (\<lambda>x n. n\<lparr>node_name := x\<rparr>) v acc
      else if is_field ''running'' key then decode_bool (\<lambda>x n. n\<lparr>node_running := x\<rparr>) v acc
      else acc)"

record queue_status =
  queue_name :: string
  queue_type :: string
  queue_leader :: string
  queue_members :: "string list"

definition queue0 :: queue_status where
  "queue0 = \<lparr>queue_name = '''', queue_type = '''', queue_leader = '''', queue_members = []\<rparr>"

text \<open>A slice of strings: null is the empty slice, a null element the empty string.\<close>

definition decode_strings :: "(string list \<Rightarrow> 'r \<Rightarrow> 'r) \<Rightarrow> json \<Rightarrow> 'r decoding \<Rightarrow> 'r decoding" where
  "decode_strings upd v acc =
     (case v of
        JArray vs \<Rightarrow>
          (fst acc \<or> list_ex (\<lambda>v. case v of JString x \<Rightarrow> False | JNull \<Rightarrow> False | _ \<Rightarrow> True) vs,
           upd (map (\<lambda>v. case v of JString x \<Rightarrow> x | _ \<Rightarrow> '''') vs) (snd acc))
      | JNull \<Rightarrow> (fst acc, upd [] (snd acc))
      | _ \<Rightarrow> (True, snd acc))"

definition store_queue :: "string \<Rightarrow> json \<Rightarrow> queue_status decoding \<Rightarrow> queue_status decoding" where
  "store_queue key v acc =
     (if is_field ''name'' key then decode_string (\<lambda>x q. q\<lparr>queue_name := x\<rparr>) v acc
      else if is_field ''type'' key then decode_string (\<lambda>x q. q\<lparr>queue_type := x\<rparr>) v acc
      else if is_field ''leader'' key then decode_string (\<lambda>x q. q\<lparr>queue_leader := x\<rparr>) v acc
      else if is_field ''members'' key then decode_strings (\<lambda>x q. q\<lparr>queue_members := x\<rparr>) v acc
      else acc)"

text \<open>
  The request with its credentials, which the API call carries beside the URL; the answer is the
  error or the body.
\<close>

definition httpRequest :: "env \<Rightarrow> string \<Rightarrow> string \<Rightarrow> string \<Rightarrow> ('a io_scheme, string + string) state" where
  "httpRequest env url user pass = do {
     resp \<leftarrow> http env (HttpDo ''GET'' url [(''BasicAuth'', user @ '':'' @ pass)] '''');
     State_Monad.return (map_sum (\<lambda>e. e) RespBody resp) }"

lemma run_httpRequest [run_simps, simp]:
  "run_state (httpRequest env url user pass) s =
     (map_sum (\<lambda>e. e) RespBody (http_reply env (trace s) (HttpDo ''GET'' url [(''BasicAuth'', user @ '':'' @ pass)] '''')),
      s\<lparr>trace := trace s @ [Http (HttpDo ''GET'' url [(''BasicAuth'', user @ '':'' @ pass)] '''')]\<rparr>)"
  by (simp add: httpRequest_def)

type_synonym liveness = "string \<rightharpoonup> bool"

definition is_live :: "liveness \<Rightarrow> string \<Rightarrow> bool" where
  "is_live live n = (live n = Some True)"

definition live_nodes :: "node_status list \<Rightarrow> liveness" where
  "live_nodes ns = foldl (\<lambda>m n. m(node_name n \<mapsto> node_running n)) Map.empty ns"

text \<open>The recoveries a sequence of names asks for, in order.\<close>

definition recover_all :: "env \<Rightarrow> nat \<Rightarrow> string list \<Rightarrow> ('a quorum_scheme, unit outcome) state" where
  "recover_all env fuel = for_each_ret (triggerRecovery env fuel)"

definition not_running :: "node_status list \<Rightarrow> string list" where
  "not_running ns = map node_name (filter (\<lambda>n. \<not> node_running n) ns)"

definition missing :: "liveness \<Rightarrow> string list \<Rightarrow> string list" where
  "missing live = filter (\<lambda>n. \<not> is_live live n)"

definition vanished :: "string list \<Rightarrow> string list \<Rightarrow> string list" where
  "vanished expected = filter (\<lambda>n. n \<notin> set expected \<and> has_prefix ''rabbit@rabbit-recover'' n)"

definition dead_members :: "liveness \<Rightarrow> queue_status \<Rightarrow> string list" where
  "dead_members live q =
     (if queue_type q \<noteq> ''quorum'' then []
      else (if queue_members q = [] \<and> \<not> is_live live (queue_leader q) then [queue_leader q] else []) @
           filter (\<lambda>m. \<not> is_live live m) (queue_members q))"

text \<open>The second half of \<^verbatim>\<open>checkQuorumStatus\<close>: the members of the quorum queues.\<close>

definition check_queues ::
  "env \<Rightarrow> nat \<Rightarrow> string \<Rightarrow> string \<Rightarrow> string \<Rightarrow> liveness \<Rightarrow> ('a quorum_scheme, unit outcome) state" where
  "check_queues env fuel url user pass live = do {
     resp \<leftarrow> httpRequest env (url @ ''/api/queues'') user pass;
     (case resp of
        Inl err \<Rightarrow> State_Monad.return (Ret ())
      | Inr b \<Rightarrow>
          (case unmarshal_slice store_queue queue0 b of
             (True, _) \<Rightarrow> State_Monad.return (Ret ())
           | (False, queues) \<Rightarrow> recover_all env fuel (concat (map (dead_members live) queues)))) }"

definition checkQuorumStatus ::
  "env \<Rightarrow> nat \<Rightarrow> string \<Rightarrow> string \<Rightarrow> string \<Rightarrow> ('a quorum_scheme, unit outcome) state" where
  "checkQuorumStatus env fuel url user pass = do {
     resp \<leftarrow> httpRequest env (url @ ''/api/nodes'') user pass;
     (case resp of
        Inl err \<Rightarrow> State_Monad.return (Ret ())
      | Inr b \<Rightarrow>
          (case unmarshal_slice store_node node0 b of
             (True, _) \<Rightarrow> State_Monad.return (Ret ())
           | (False, raw) \<Rightarrow> do {
               let live = live_nodes raw;
               s \<leftarrow> State_Monad.get;
               r \<leftarrow> recover_all env fuel
                 (not_running raw @ missing live (expectedNodes s) @
                  vanished (expectedNodes s) (previousExpectedNodes s));
               (case r of
                  Ret _ \<Rightarrow> check_queues env fuel url user pass live
                | _ \<Rightarrow> State_Monad.return r) })) }"

subsection \<open>The monitor\<close>

definition quorum_tick ::
  "env \<Rightarrow> nat \<Rightarrow> string \<Rightarrow> string \<Rightarrow> string \<Rightarrow> ('a quorum_scheme, unit outcome) state" where
  "quorum_tick env fuel url user pass = do {
     r \<leftarrow> updateExpectedNodes env;
     (case r of
        Ret _ \<Rightarrow> do {
          r \<leftarrow> checkQuorumStatus env fuel url user pass;
          (case r of
             Ret _ \<Rightarrow> do { sleep (10 * Second); State_Monad.return (Ret ()) }
           | _ \<Rightarrow> State_Monad.return r) }
      | _ \<Rightarrow> State_Monad.return r) }"

text \<open>The first \<open>n\<close> turns of the endless loop.\<close>

fun quorum_turns ::
  "env \<Rightarrow> nat \<Rightarrow> string \<Rightarrow> string \<Rightarrow> string \<Rightarrow> nat \<Rightarrow> ('a quorum_scheme, unit outcome) state" where
  "quorum_turns env fuel url user pass 0 = State_Monad.return (Ret ())"
| "quorum_turns env fuel url user pass (Suc n) = do {
     r \<leftarrow> quorum_tick env fuel url user pass;
     (case r of Ret _ \<Rightarrow> quorum_turns env fuel url user pass n | _ \<Rightarrow> State_Monad.return r) }"

definition StartQuorumMonitor ::
  "env \<Rightarrow> nat \<Rightarrow> string \<Rightarrow> string \<Rightarrow> string \<Rightarrow> nat \<Rightarrow> ('a quorum_scheme, unit outcome) state" where
  "StartQuorumMonitor env fuel url user pass n = do {
     err \<leftarrow> docker env NewClient;
     or_fatal err ''cannot connect to docker daemon'' (quorum_turns env fuel url user pass n) }"

subsection \<open>Frames\<close>

text \<open>Every call to Docker, to nodes and to the API only adds events.\<close>

context event_evolution
begin

lemma keeps_docker: "keeps R (docker env c)" "keeps R (docker_new env c)"
  by (simp_all add: keeps_def event)

lemma keeps_intn: "keeps R (intn env n)"
  by (simp add: keeps_def refl)

lemma keeps_execInContainer: "keeps R (execInContainer env c cmd)"
  unfolding execInContainer_def by (intro keeps_intros keeps_splits keeps_docker )

lemma keeps_rabbitmqctl: "keeps R (rabbitmqctl env c args)"
  unfolding rabbitmqctl_def by (rule keeps_execInContainer)

lemma keeps_wait_ready: "keeps R (wait_ready env c deadline fuel)"
proof (induction fuel)
  case 0
  show ?case by (simp add: keeps_return)
next
  case (Suc fuel)
  show ?case
    unfolding wait_ready.simps
    by (intro keeps_intros keeps_splits keeps_rabbitmqctl Suc )
qed

lemma keeps_join_cluster: "keeps R (join_cluster env c node)"
  unfolding join_cluster_def
  by (intro keeps_intros keeps_splits keeps_rabbitmqctl)

lemma keeps_addTestNode: "keeps R (addTestNode env fuel c node cookie user pass)"
  unfolding addTestNode_def
  by (intro keeps_intros keeps_splits keeps_docker keeps_wait_ready keeps_join_cluster )

lemma keeps_spawn_replacement: "keeps R (spawn_replacement env fuel n)"
  unfolding spawn_replacement_def Let_def by (intro keeps_intros keeps_splits keeps_intn keeps_addTestNode)

lemma keeps_forget_tries: "keeps R (forget_tries env deadNode backoff n)"
proof (induction n arbitrary: backoff)
  case 0
  show ?case by (simp add: keeps_return)
next
  case (Suc n)
  show ?case
    unfolding forget_tries.simps forget_node_def
    by (intro keeps_intros keeps_splits keeps_rabbitmqctl keeps_intn Suc )
qed

lemma keeps_only_if: "keeps R m \<Longrightarrow> keeps R (only_if b m)"
  by (cases b) (simp_all add: only_if_def keeps_return)

lemma keeps_recover_unmapped: "keeps R (recover_unmapped env fuel deadNode)"
  unfolding recover_unmapped_def forget_node_def
  by (intro keeps_intros keeps_splits keeps_rabbitmqctl keeps_only_if keeps_spawn_replacement)

lemma keeps_recover_container: "keeps R (recover_container env fuel deadNode c)"
  unfolding recover_container_def
  by (intro keeps_intros keeps_splits keeps_docker keeps_forget_tries keeps_spawn_replacement)

end

subsection \<open>Replacements\<close>

text \<open>The containers created.\<close>

fun is_create :: "event \<Rightarrow> bool" where
  "is_create (Docker (ContainerCreate img host envs net binds c)) = True"
| "is_create e = False"

definition creates :: "history \<Rightarrow> nat" where
  "creates es = length (filter is_create es)"

lemma creates_simps [trace_simps, simp]:
  "creates [] = 0"
  "creates (e # es) = (if is_create e then 1 else 0) + creates es"
  "creates (xs @ ys) = creates xs + creates ys"
  by (simp_all add: creates_def)

definition makes :: "nat \<Rightarrow> ('a io_scheme, 'b) state \<Rightarrow> bool" where
  "makes n m = appends (\<lambda>_ es. creates es = n) m"

lemma makesI: "(\<And>s. \<exists>es. trace (snd (run_state m s)) = trace s @ es \<and> creates es = n) \<Longrightarrow> makes n m"
  unfolding makes_def by (rule appendsI)

lemma makes_bind: "makes k m \<Longrightarrow> (\<And>r. makes n (f r)) \<Longrightarrow> makes (k + n) (State_Monad.bind m f)"
  unfolding makes_def by (erule appends_bind) auto

lemma makes_bind0: "makes 0 m \<Longrightarrow> (\<And>r. makes n (f r)) \<Longrightarrow> makes n (State_Monad.bind m f)"
  using makes_bind [of 0 m n f] by simp

lemma makes_bind1: "makes 1 m \<Longrightarrow> (\<And>r. makes 0 (f r)) \<Longrightarrow> makes 1 (State_Monad.bind m f)"
  using makes_bind [of 1 m 0 f] by simp

lemma makes_return: "makes 0 (State_Monad.return x)"
  by (rule makesI) simp

lemma makes_calls:
  "makes 0 (ask ans)" "makes 0 (time_now env)" "makes 0 (sleep ns)" "makes 0 (inc m)" "makes 0 (intn env n)"
  "makes 0 (observe m v)"
  by (rule makesI, simp)+

lemma makes_docker: "\<not> is_create (Docker c) \<Longrightarrow> makes 0 (docker env c)"
  by (rule makesI) simp

lemma makes_rabbitmqctl: "makes 0 (rabbitmqctl env c args)"
  by (rule makesI) (auto simp: rabbitmqctl_def execInContainer_def)

lemma makes_splits:
  "makes n m \<Longrightarrow> makes n m' \<Longrightarrow> makes n (if b then m else m')"
  "(\<And>x y. makes n (f x y)) \<Longrightarrow> makes n (case p of (x, y) \<Rightarrow> f x y)"
  "makes n m \<Longrightarrow> (\<And>x. makes n (g x)) \<Longrightarrow> makes n (case a of None \<Rightarrow> m | Some x \<Rightarrow> g x)"
  "makes n m \<Longrightarrow> makes n m' \<Longrightarrow> makes n (case c of True \<Rightarrow> m | False \<Rightarrow> m')"
  by (simp_all split: prod.split option.split bool.split)

lemma makes_or_return: "makes 0 m \<Longrightarrow> makes 0 (or_return err m)"
  by (cases err) (simp_all add: makes_return)

lemmas makes_intros = makes_bind0 makes_return makes_calls makes_rabbitmqctl makes_splits makes_or_return

lemma makes_wait_ready: "makes 0 (wait_ready env c deadline fuel)"
proof (induction fuel)
  case 0
  show ?case by (simp add: makes_return)
next
  case (Suc fuel)
  show ?case
    unfolding wait_ready.simps
    by (intro makes_intros Suc)
qed

lemma makes_forget_tries: "makes 0 (forget_tries env deadNode backoff n)"
proof (induction n arbitrary: backoff)
  case 0
  show ?case by (simp add: makes_return)
next
  case (Suc n)
  show ?case
    unfolding forget_tries.simps forget_node_def
    by (intro makes_intros Suc)
qed

lemma makes_join_cluster: "makes 0 (join_cluster env c node)"
  unfolding join_cluster_def by (intro makes_intros)

lemma makes_create: "makes 1 (docker_new env (create_call env c node cookie user pass))"
  by (rule makesI) (simp add: create_call_def)

lemma makes_addTestNode: "makes 1 (addTestNode env fuel c node cookie user pass)"
  unfolding addTestNode_def
  by (rule makes_bind1 [OF makes_create])
    (intro makes_intros makes_docker makes_wait_ready makes_join_cluster; simp)

lemma makes_spawn_replacement: "makes 1 (spawn_replacement env fuel n)"
  unfolding spawn_replacement_def Let_def
  by (intro makes_bind0 makes_calls makes_bind1 [OF makes_addTestNode makes_return])

lemma makes_recover_unmapped: "makes 1 (recover_unmapped env fuel deadNode)"
  unfolding recover_unmapped_def forget_node_def only_if_def
  by (intro makes_bind0 makes_splits makes_return makes_calls makes_rabbitmqctl makes_spawn_replacement)

lemma makes_recover_container: "makes 1 (recover_container env fuel deadNode c)"
  unfolding recover_container_def
  by (intro makes_bind0 makes_docker makes_forget_tries makes_splits makes_calls makes_spawn_replacement) simp_all

subsection \<open>One recovery\<close>

text \<open>The state in which a recovery that is not skipped goes to work.\<close>

definition marked :: "string \<Rightarrow> 'a quorum_scheme \<Rightarrow> 'a quorum_scheme" where
  "marked deadNode s =
     s\<lparr>trace := trace s @ [Metric (Inc QuorumRecoveriesTotal)], forgotten := insert deadNode (forgotten s)\<rparr>"

lemma marked_simps [simp]:
  "trace (marked n s) = trace s @ [Metric (Inc QuorumRecoveriesTotal)]"
  "forgotten (marked n s) = insert n (forgotten s)"
  "expectedNodes (marked n s) = expectedNodes s"
  "previousExpectedNodes (marked n s) = previousExpectedNodes s"
  by (simp_all add: marked_def)

lemma run_trigger_skipped:
  "deadNode = '''' \<or> deadNode \<in> forgotten s \<Longrightarrow>
     run_state (triggerRecovery env fuel deadNode) s =
       (Ret (), s\<lparr>trace := trace s @ [Metric (Inc QuorumRecoveriesTotal),
          Metric (Observe QuorumRecoveryDuration
            (now env (trace s @ [Metric (Inc QuorumRecoveriesTotal)]) - now env (trace s)))]\<rparr>)"
  by (auto simp: triggerRecovery_def)

lemma run_trigger:
  assumes "deadNode \<noteq> ''''" and "deadNode \<notin> forgotten s"
  shows "\<exists>tail. run_state (triggerRecovery env fuel deadNode) s =
       (fst (run_state (recover_node env fuel deadNode) (marked deadNode s)),
        (snd (run_state (recover_node env fuel deadNode) (marked deadNode s)))
          \<lparr>trace := trace (snd (run_state (recover_node env fuel deadNode) (marked deadNode s))) @ tail\<rparr>) \<and>
       creates tail = 0"
proof (cases "fst (run_state (recover_node env fuel deadNode) (marked deadNode s)) = Ret ()")
  case True
  with assms show ?thesis
    by (intro exI [of _ "[Metric (Observe QuorumRecoveryDuration
          (now env (trace (snd (run_state (recover_node env fuel deadNode) (marked deadNode s)))) -
           now env (trace s)))]"])
      (simp add: triggerRecovery_def marked_def State_Monad.update_def split_beta)
next
  case False
  with assms show ?thesis
    by (intro exI [of _ "[]"]) (simp add: triggerRecovery_def marked_def State_Monad.update_def split_beta)
qed

lemma makes_recover_node: "makes 1 (recover_node env fuel deadNode)"
  unfolding recover_node_def Let_def by (intro makes_splits makes_recover_unmapped makes_recover_container)

context event_evolution
begin

lemma keeps_recover_node: "keeps R (recover_node env fuel deadNode)"
  by (simp add: recover_node_def Let_def keeps_recover_unmapped keeps_recover_container)

end

lemma recover_node_run:
  "\<exists>es. snd (run_state (recover_node env fuel deadNode) s) = s\<lparr>trace := trace s @ es\<rparr> \<and> creates es = 1"
proof -
  have "only_traces s (snd (run_state (recover_node env fuel deadNode) s))"
    using frame.keeps_recover_node unfolding keeps_def by blast
  then obtain es where es: "snd (run_state (recover_node env fuel deadNode) s) = s\<lparr>trace := trace s @ es\<rparr>"
    by (auto simp: only_traces_def)
  obtain es' where "trace (snd (run_state (recover_node env fuel deadNode) s)) = trace s @ es'" "creates es' = 1"
    using makes_recover_node unfolding makes_def by (rule appendsE)
  with es show ?thesis by auto
qed

text \<open>Between two states: as many containers created as nodes newly marked, none forgotten again.\<close>

definition replaces :: "'a quorum_scheme \<Rightarrow> 'a quorum_scheme \<Rightarrow> bool" where
  "replaces s s' \<longleftrightarrow>
     (\<exists>es. trace s' = trace s @ es \<and> forgotten s \<subseteq> forgotten s' \<and>
        finite (forgotten s' - forgotten s) \<and> card (forgotten s' - forgotten s) = creates es)"

lemma card_between:
  assumes "A \<subseteq> B" and "B \<subseteq> C" and "finite (B - A)" and "finite (C - B)"
  shows "finite (C - A)" and "card (C - A) = card (B - A) + card (C - B)"
proof -
  have eq: "C - A = (B - A) \<union> (C - B)" using assms(1,2) by blast
  show "finite (C - A)" using assms(3,4) by (simp add: eq)
  show "card (C - A) = card (B - A) + card (C - B)"
    unfolding eq by (rule card_Un_disjoint) (use assms(3,4) in auto)
qed

interpretation replacing: evolution replaces
proof
  show "replaces s s" for s :: "'a quorum_scheme" by (simp add: replaces_def)
  show "replaces s s''" if 1: "replaces s s'" and 2: "replaces s' s''" for s s' s'' :: "'a quorum_scheme"
  proof -
    obtain es where es: "trace s' = trace s @ es" "forgotten s \<subseteq> forgotten s'"
      "finite (forgotten s' - forgotten s)" "card (forgotten s' - forgotten s) = creates es"
      using 1 by (auto simp: replaces_def)
    obtain es' where es': "trace s'' = trace s' @ es'" "forgotten s' \<subseteq> forgotten s''"
      "finite (forgotten s'' - forgotten s')" "card (forgotten s'' - forgotten s') = creates es'"
      using 2 by (auto simp: replaces_def)
    show ?thesis
      unfolding replaces_def
      using es es' card_between [OF es(2) es'(2) es(3) es'(3)] by (intro exI [of _ "es @ es'"]) auto
  qed
qed

lemma trigger_replaces: "keeps replaces (triggerRecovery env fuel deadNode)"
  unfolding keeps_def
proof
  fix s :: "'a quorum_scheme"
  show "replaces s (snd (run_state (triggerRecovery env fuel deadNode) s))"
  proof (cases "deadNode = '''' \<or> deadNode \<in> forgotten s")
    case True
    then show ?thesis by (simp add: run_trigger_skipped replaces_def)
  next
    case False
    obtain es where es: "snd (run_state (recover_node env fuel deadNode) (marked deadNode s)) =
        (marked deadNode s)\<lparr>trace := trace (marked deadNode s) @ es\<rparr>" "creates es = 1"
      using recover_node_run by blast
    obtain tail where "snd (run_state (triggerRecovery env fuel deadNode) s) =
        (marked deadNode s)\<lparr>trace := trace (marked deadNode s) @ es @ tail\<rparr>" "creates tail = 0"
      using run_trigger [of deadNode s env fuel] False es by auto
    moreover have "insert deadNode (forgotten s) - forgotten s = {deadNode}" using False by auto
    ultimately show ?thesis using es by (auto simp: replaces_def)
  qed
qed

lemma httpRequest_replaces: "keeps replaces (httpRequest env url user pass)"
  by (simp add: keeps_def replaces_def)

lemma update_replaces: "keeps replaces (updateExpectedNodes env)"
  by (auto simp: keeps_def replaces_def updateExpectedNodes_def State_Monad.update_def split: outcome.splits)

lemma check_queues_replaces: "keeps replaces (check_queues env fuel url user pass live)"
  unfolding check_queues_def recover_all_def
  by (intro replacing.keeps_bind keeps_splits replacing.keeps_return replacing.keeps_for_each_ret
      httpRequest_replaces trigger_replaces)

lemma check_replaces: "keeps replaces (checkQuorumStatus env fuel url user pass)"
  unfolding checkQuorumStatus_def recover_all_def Let_def
  by (intro check_queues_replaces replacing.keeps_bind keeps_splits replacing.keeps_return replacing.keeps_get replacing.keeps_for_each_ret
      httpRequest_replaces trigger_replaces )

lemma tick_replaces: "keeps replaces (quorum_tick env fuel url user pass)"
  unfolding quorum_tick_def
  by (intro replacing.keeps_bind keeps_splits replacing.keeps_return update_replaces check_replaces ) (simp add: keeps_def replaces_def)

lemma turns_replaces: "keeps replaces (quorum_turns env fuel url user pass n)"
proof (induction n)
  case 0
  show ?case by (simp add: replacing.keeps_return)
next
  case (Suc n)
  show ?case
    unfolding quorum_turns.simps
    by (intro replacing.keeps_bind keeps_splits replacing.keeps_return tick_replaces Suc
        )
qed

subsection \<open>The wait ends\<close>

lemma wait_ready_ends:
  assumes "clock_advances env"
  shows "deadline < now env (trace s) + 3 * Second * int fuel \<Longrightarrow>
    fst (run_state (wait_ready env c deadline (Suc fuel)) s) \<noteq> None"
proof (induction fuel arbitrary: s)
  case 0
  then show ?case by simp
next
  case (Suc fuel)
  let ?s = "snd (run_state (rabbitmqctl env c [''status'']) s)"
  let ?t = "?s\<lparr>trace := trace ?s @ [Sleep (3 * Second)]\<rparr>"
  have "now env (trace s) \<le> now env (trace ?s)"
    by (rule clock.keeps_rabbitmqctl [unfolded keeps_def later_def, rule_format, OF assms])
  moreover have "now env (trace ?s) + 3 * Second \<le> now env (trace ?t)"
    using now_sleep [OF assms, of "3 * Second" "trace ?s"] by simp
  ultimately have "fst (run_state (wait_ready env c deadline (Suc fuel)) ?t) \<noteq> None"
    using Suc.prems by (intro Suc.IH) (simp add: algebra_simps)
  then show ?case
    by (subst wait_ready.simps) (auto simp: split_beta simp del: wait_ready.simps)
qed

text \<open>Thirty-two tries, three seconds apart, outlast the deadline of ninety seconds.\<close>

lemma wait_outlasts_deadline:
  assumes "clock_advances env" and "32 \<le> fuel"
  shows "\<exists>b. fst (run_state (wait_ready env c (now env (trace s) + 90 * Second) fuel) s) = Some b"
proof -
  obtain k where "fuel = Suc (31 + k)" using assms(2) by (auto dest: le_Suc_ex)
  then show ?thesis
    using wait_ready_ends [OF assms(1), of "now env (trace s) + 90 * Second" s "31 + k" c] by auto
qed

lemma addTestNode_ends:
  assumes "clock_advances env" and "32 \<le> fuel"
  shows "\<exists>err. fst (run_state (addTestNode env fuel c node cookie user pass) s) = Ret err"
proof -
  let ?c = "create_call env c node cookie user pass"
  let ?t = "s\<lparr>trace := trace s @ [Docker ?c, Docker (ContainerStart (docker_id env (trace s))), Sleep (10 * Second)]\<rparr>"
  obtain b where "fst (run_state (wait_ready env c (now env (trace ?t) + 90 * Second) fuel) ?t) = Some b"
    using wait_outlasts_deadline [OF assms] by blast
  then show ?thesis by (cases b) (simp_all add: addTestNode_def split_beta)
qed

lemma spawn_replacement_ends:
  assumes "clock_advances env" and "32 \<le> fuel"
  shows "fst (run_state (spawn_replacement env fuel n) s) = Ret ()"
proof -
  let ?c = "''rabbit-recover-'' @ dec_nat (rand_int env (trace s) mod n)"
  obtain err where "fst (run_state (addTestNode env fuel ?c (node_of ?c) ''secretcookie'' ''guest'' ''guest'') s) = Ret err"
    using addTestNode_ends [OF assms] by blast
  then show ?thesis by (simp add: spawn_replacement_def split_beta Let_def)
qed

lemma recover_node_ends:
  assumes "clock_advances env" and "32 \<le> fuel"
  shows "fst (run_state (recover_node env fuel deadNode) s) = Ret ()"
  by (simp add: recover_node_def recover_unmapped_def recover_container_def split_beta Let_def
      spawn_replacement_ends [OF assms])

lemma trigger_ends:
  assumes "clock_advances env" and "32 \<le> fuel"
  shows "fst (run_state (triggerRecovery env fuel deadNode) s) = Ret ()"
proof (cases "deadNode = '''' \<or> deadNode \<in> forgotten s")
  case True
  then show ?thesis by (simp add: run_trigger_skipped)
next
  case False
  then show ?thesis
    using run_trigger [of deadNode s env fuel] recover_node_ends [OF assms, of deadNode "marked deadNode s"] by auto
qed

lemma recover_all_ends:
  assumes "clock_advances env" and "32 \<le> fuel"
  shows "fst (run_state (recover_all env fuel ns) s) = Ret ()"
  unfolding recover_all_def by (induction ns arbitrary: s) (simp_all add: trigger_ends [OF assms] split_beta)

lemma check_ends:
  assumes "clock_advances env" and "32 \<le> fuel"
  shows "fst (run_state (checkQuorumStatus env fuel url user pass) s) = Ret ()"
  unfolding checkQuorumStatus_def check_queues_def
  by (simp add: recover_all_ends [OF assms] split_beta Let_def split: sum.split prod.split bool.split)

subsection \<open>The nodes taken for dead\<close>

lemma trigger_marks:
  "deadNode \<noteq> '''' \<Longrightarrow> deadNode \<in> forgotten (snd (run_state (triggerRecovery env fuel deadNode) s))"
proof (cases "deadNode \<in> forgotten s")
  case True
  then show ?thesis by (simp add: run_trigger_skipped)
next
  case False
  assume "deadNode \<noteq> ''''"
  then show ?thesis
    using run_trigger [of deadNode s env fuel] False recover_node_run [of env fuel deadNode "marked deadNode s"] by auto
qed

lemma replaces_marks: "keeps replaces m \<Longrightarrow> n \<in> forgotten s \<Longrightarrow> n \<in> forgotten (snd (run_state m s))"
  unfolding keeps_def replaces_def by blast

lemma recover_all_marks:
  assumes "clock_advances env" and "32 \<le> fuel" and "n \<in> set ns" and "n \<noteq> ''''"
  shows "n \<in> forgotten (snd (run_state (recover_all env fuel ns) s))"
  using assms(3)
proof (induction ns arbitrary: s)
  case Nil
  then show ?case by simp
next
  case (Cons m ns)
  let ?s = "snd (run_state (triggerRecovery env fuel m) s)"
  have "keeps replaces (recover_all env fuel ns)"
    unfolding recover_all_def by (rule replacing.keeps_for_each_ret) (rule trigger_replaces)
  then have rest: "n \<in> forgotten ?s \<Longrightarrow> n \<in> forgotten (snd (run_state (recover_all env fuel ns) ?s))"
    by (rule replaces_marks)
  have run: "snd (run_state (recover_all env fuel (m # ns)) s) = snd (run_state (recover_all env fuel ns) ?s)"
    using trigger_ends [OF assms(1,2), of m s] by (simp add: recover_all_def split_beta)
  show ?case
    using Cons trigger_marks [OF assms(4), of env fuel s] rest by (auto simp: run)
qed

lemma check_marks:
  assumes "clock_advances env" and "32 \<le> fuel" and "n \<noteq> ''''"
    and "http_reply env (trace s) (HttpDo ''GET'' (url @ ''/api/nodes'') [(''BasicAuth'', user @ '':'' @ pass)] '''') =
      Inr resp"
    and "unmarshal_slice store_node node0 (RespBody resp) = (False, raw)"
    and "n \<in> set (not_running raw @ missing (live_nodes raw) (expectedNodes s) @
      vanished (expectedNodes s) (previousExpectedNodes s))"
  shows "n \<in> forgotten (snd (run_state (checkQuorumStatus env fuel url user pass) s))"
proof -
  let ?call = "HttpDo ''GET'' (url @ ''/api/nodes'') [(''BasicAuth'', user @ '':'' @ pass)] ''''"
  let ?ns = "not_running raw @ missing (live_nodes raw) (expectedNodes s) @
      vanished (expectedNodes s) (previousExpectedNodes s)"
  let ?s = "s\<lparr>trace := trace s @ [Http ?call]\<rparr>"
  let ?t = "snd (run_state (recover_all env fuel ?ns) ?s)"
  have "n \<in> forgotten ?t" using assms(6) by (intro recover_all_marks assms(1-3))
  then have "n \<in> forgotten (snd (run_state (check_queues env fuel url user pass (live_nodes raw)) ?t))"
    by (rule replaces_marks [OF check_queues_replaces])
  moreover have "run_state (checkQuorumStatus env fuel url user pass) s =
      run_state (check_queues env fuel url user pass (live_nodes raw)) ?t"
    using recover_all_ends [OF assms(1,2), of ?ns ?s] assms(4,5)
    unfolding checkQuorumStatus_def Let_def by (simp add: split_beta)
  ultimately show ?thesis by simp
qed









subsection \<open>Pauses between the tries\<close>

fun sleep_of :: "event \<Rightarrow> int option" where
  "sleep_of (Sleep ns) = Some ns"
| "sleep_of _ = None"

definition sleeps :: "history \<Rightarrow> int list" where
  "sleeps es = List.map_filter sleep_of es"

lemma sleeps_simps [trace_simps, simp]:
  "sleeps [] = []"
  "sleeps (e # es) = (case sleep_of e of Some ns \<Rightarrow> ns # sleeps es | None \<Rightarrow> sleeps es)"
  "sleeps (xs @ ys) = sleeps xs @ sleeps ys"
  by (simp_all add: sleeps_def map_filter_def split: option.split)

fun is_attempt :: "event \<Rightarrow> bool" where
  "is_attempt (Docker (ExecCreate c cmd)) = True"
| "is_attempt e = False"

definition attempts :: "history \<Rightarrow> nat" where
  "attempts es = length (filter is_attempt es)"

lemma attempts_simps [trace_simps, simp]:
  "attempts [] = 0"
  "attempts (e # es) = (if is_attempt e then 1 else 0) + attempts es"
  "attempts (xs @ ys) = attempts xs + attempts ys"
  by (simp_all add: attempts_def)

lemma rabbitmqctl_attempt:
  "\<exists>es. snd (run_state (rabbitmqctl env c args) s) = s\<lparr>trace := trace s @ es\<rparr> \<and> sleeps es = [] \<and> attempts es = 1"
  by (auto simp: rabbitmqctl_def execInContainer_def)

definition jittered :: "int \<Rightarrow> int \<Rightarrow> bool" where
  "jittered b ns \<longleftrightarrow> b \<le> ns \<and> ns < b + 500 * Millisecond"

definition backoffs :: "int \<Rightarrow> nat \<Rightarrow> int list" where
  "backoffs b k = map (\<lambda>i. b * 2 ^ i) [0..<k]"

lemma backoffs_Suc: "backoffs b (Suc k) = b # backoffs (b * 2) k"
  by (simp add: backoffs_def map_Suc_upt [symmetric] upt_conv_Cons comp_def algebra_simps del: upt_Suc)

lemma forget_tries_pauses:
  "\<exists>es k. trace (snd (run_state (forget_tries env deadNode b (Suc n)) s)) = trace s @ es \<and>
     list_all2 jittered (backoffs b k) (sleeps es) \<and> attempts es = Suc k \<and>
     (if fst (run_state (forget_tries env deadNode b (Suc n)) s) then k \<le> n else k = n)"
proof (induction n arbitrary: b s)
  case 0
  let ?r = "run_state (forget_node env deadNode) s"
  obtain es where "snd ?r = s\<lparr>trace := trace s @ es\<rparr>" "sleeps es = []" "attempts es = 1"
    unfolding forget_node_def using rabbitmqctl_attempt by blast
  then show ?case by (intro exI [of _ es] exI [of _ 0]) (simp add: split_beta backoffs_def)
next
  case (Suc n)
  let ?r = "run_state (forget_node env deadNode) s"
  obtain es where es: "snd ?r = s\<lparr>trace := trace s @ es\<rparr>" "sleeps es = []" "attempts es = 1"
    unfolding forget_node_def using rabbitmqctl_attempt by blast
  show ?case
  proof (cases "fst (fst ?r) = None")
    case True
    then show ?thesis using es
      by (intro exI [of _ es] exI [of _ 0]) (simp add: forget_tries.simps(2) [of _ _ _ "Suc n"] split_beta backoffs_def del: forget_tries.simps)
  next
    case False
    let ?ns = "b + int (rand_int env (trace s @ es) mod 500) * Millisecond"
    let ?s = "s\<lparr>trace := trace s @ es @ [Sleep ?ns]\<rparr>"
    obtain es' k where ih: "trace (snd (run_state (forget_tries env deadNode (b * 2) (Suc n)) ?s)) = trace ?s @ es'"
      "list_all2 jittered (backoffs (b * 2) k) (sleeps es')" "attempts es' = Suc k"
      "if fst (run_state (forget_tries env deadNode (b * 2) (Suc n)) ?s) then k \<le> n else k = n"
      using Suc by blast
    have run: "run_state (forget_tries env deadNode b (Suc (Suc n))) s =
        run_state (forget_tries env deadNode (b * 2) (Suc n)) ?s"
      using False es(1) by (auto simp: forget_tries.simps(2) [of _ _ _ "Suc n"] split_beta simp del: forget_tries.simps)
    have "jittered b ?ns" by (simp add: jittered_def)
    then show ?thesis
      unfolding run using ih es(2,3)
      by (intro exI [of _ "es @ Sleep ?ns # es'"] exI [of _ "Suc k"]) (auto simp: backoffs_Suc split: if_splits)
  qed
qed

subsection \<open>Containers and nodes\<close>

lemma extractContainer_node_of: "CHR ''@'' \<notin> set c \<Longrightarrow> extractContainer (node_of c) = c"
  by (simp add: extractContainer_def node_of_def split_on_none)

lemma extractContainer_drop: "CHR ''@'' \<notin> set c \<Longrightarrow> extractContainer (node_of (drop n c)) = drop n c"
  by (auto intro: extractContainer_node_of dest: in_set_dropD)

lemma rabbit_nodes_Ret:
  "list_all (\<lambda>ns. ns \<noteq> []) cs \<Longrightarrow>
     rabbit_nodes cs = Ret (map (\<lambda>ns. node_of (drop 1 (hd ns))) (filter (\<lambda>ns. has_prefix ''/rabbit'' (hd ns)) cs))"
  by (induction cs rule: rabbit_nodes.induct) simp_all

subsection \<open>Concrete runs\<close>

text \<open>A clock that only sleeping moves, and an API that reports one running node.\<close>

fun slept :: "history \<Rightarrow> int" where
  "slept [] = 0"
| "slept (Sleep ns # h) = max 0 ns + slept h"
| "slept (e # h) = slept h"

lemma slept_append: "slept (h @ h') = slept h + slept h'"
  by (induction h rule: slept.induct) simp_all

definition nodes_body :: string where
  "nodes_body = ''[{\"name\":\"rabbit@rabbit-recover-7\",\"running\":true}]''"

definition cluster_env :: env where
  "cluster_env = quiet_env\<lparr>now := slept,
     docker_err := (\<lambda>h c. if c = ContainerList False then Some ''cannot connect'' else None),
     http_reply := (\<lambda>h c. Inr \<lparr>StatusCode = 200, RespHeader = [], RespBody = nodes_body\<rparr>)\<rparr>"

lemma cluster_env_clock: "clock_advances cluster_env"
  by (auto simp: clock_advances_def cluster_env_def slept_append split: event.split)

lemma cluster_env_simps [simp]:
  "http_reply cluster_env h c = Inr \<lparr>StatusCode = 200, RespHeader = [], RespBody = nodes_body\<rparr>"
  "docker_err cluster_env h (ContainerList False) = Some ''cannot connect''"
  by (simp_all add: cluster_env_def)

lemma nodes_body_decodes:
  "unmarshal_slice store_node node0 nodes_body = (False, [\<lparr>node_name = ''rabbit@rabbit-recover-7'', node_running = True\<rparr>])"
  by code_simp

definition quorum_example :: quorum where
  "quorum_example = \<lparr>trace = [], forgotten = {''rabbit@rabbit2''},
     expectedNodes = [''rabbit@rabbit-recover-7''], previousExpectedNodes = []\<rparr>"

subsection \<open>Properties\<close>

text \<open>
  C9: However many turns the monitor makes and whatever the API and Docker answer, it creates exactly as
  many replacement containers as nodes it marks for the first time: a node is replaced
  at most once, by exactly one container, and marked nodes stay marked for ever.
\<close>
theorem one_replacement_per_node:
  "\<exists>es. trace (snd (run_state (quorum_turns env fuel url user pass n) s)) = trace s @ es \<and>
     forgotten s \<subseteq> forgotten (snd (run_state (quorum_turns env fuel url user pass n) s)) \<and>
     creates es = card (forgotten (snd (run_state (quorum_turns env fuel url user pass n) s)) - forgotten s)"
  using turns_replaces [of env fuel url user pass n] unfolding keeps_def replaces_def by fastforce

text \<open>
  A second recovery of the same node does nothing but change metrics, even when the first one failed: it
  is counted as a recovery attempt and its duration enters the histogram of successful ones.
\<close>
theorem repeated_recovery_only_counts:
  assumes "deadNode \<in> forgotten s"
  shows "fst (run_state (triggerRecovery env fuel deadNode) s) = Ret () \<and>
    (\<exists>d. snd (run_state (triggerRecovery env fuel deadNode) s) =
       s\<lparr>trace := trace s @ [Metric (Inc QuorumRecoveriesTotal), Metric (Observe QuorumRecoveryDuration d)]\<rparr>)"
  using assms by (simp add: run_trigger_skipped) (rule exI, rule refl)

theorem repeated_recovery_only_counts_witness:
  "fst (run_state (triggerRecovery quiet_env 32 ''rabbit@rabbit2'') quorum_example) = Ret ()"
  using repeated_recovery_only_counts [of "''rabbit@rabbit2''" quorum_example quiet_env 32]
  by (simp add: quorum_example_def)

text \<open>
  C18: When time advances, thirty-two turns of the waiting loop outlast its deadline, so the check of the
  cluster with all its recoveries returns, whatever Docker, the nodes and the API answer.
\<close>
theorem quorum_check_returns:
  assumes "clock_advances env" and "32 \<le> fuel"
  shows "fst (run_state (checkQuorumStatus env fuel url user pass) s) = Ret ()"
  using assms by (rule check_ends)

theorem quorum_check_returns_witness:
  "fst (run_state (checkQuorumStatus cluster_env 32 ''http://localhost:15672'' ''guest'' ''guest'') quorum_example) = Ret ()"
  by (rule quorum_check_returns [OF cluster_env_clock]) simp

text \<open>
  C14: A check that gets the node list marks for recovery every node reported as not running, every
  expected node missing from the report, and every recovery node that left the expected ones.
\<close>
theorem dead_nodes_are_recovered:
  assumes "clock_advances env" and "32 \<le> fuel" and "n \<noteq> ''''"
    and "http_reply env (trace s) (HttpDo ''GET'' (url @ ''/api/nodes'') [(''BasicAuth'', user @ '':'' @ pass)] '''') =
      Inr resp"
    and "unmarshal_slice store_node node0 (RespBody resp) = (False, raw)"
    and "n \<in> set (not_running raw) \<or>
      (n \<in> set (expectedNodes s) \<and> \<not> is_live (live_nodes raw) n) \<or>
      (n \<in> set (previousExpectedNodes s) \<and> n \<notin> set (expectedNodes s) \<and> has_prefix ''rabbit@rabbit-recover'' n)"
  shows "n \<in> forgotten (snd (run_state (checkQuorumStatus env fuel url user pass) s))"
  using assms(6) by (intro check_marks [OF assms(1-5)]) (auto simp: missing_def vanished_def)

theorem dead_nodes_are_recovered_witness:
  "''rabbit@rabbit1'' \<in> forgotten (snd (run_state
     (checkQuorumStatus cluster_env 32 ''http://localhost:15672'' ''guest'' ''guest'')
     (quorum_example\<lparr>expectedNodes := [''rabbit@rabbit1'']\<rparr>)))"
  using dead_nodes_are_recovered [OF cluster_env_clock, of 32 "''rabbit@rabbit1''"
      "quorum_example\<lparr>expectedNodes := [''rabbit@rabbit1'']\<rparr>" "''http://localhost:15672''" "''guest''" "''guest''"
      "\<lparr>StatusCode = 200, RespHeader = [], RespBody = nodes_body\<rparr>"
      "[\<lparr>node_name = ''rabbit@rabbit-recover-7'', node_running = True\<rparr>]"]
  by (simp add: nodes_body_decodes live_nodes_def is_live_def)



text \<open>
  C34: Forgetting a node is tried at most five times. The pauses double from one second on, each with less
  than half a second of jitter, and it gives up exactly after the fifth failed try.
\<close>
theorem forget_backs_off:
  "\<exists>es k. trace (snd (run_state (forget_tries env deadNode Second 5) s)) = trace s @ es \<and>
     list_all2 jittered (backoffs Second k) (sleeps es) \<and> attempts es = Suc k \<and>
     (if fst (run_state (forget_tries env deadNode Second 5) s) then k \<le> 4 else k = 4)"
proof -
  have five: "(5 :: nat) = Suc 4" by simp
  show ?thesis unfolding five by (rule forget_tries_pauses)
qed

text \<open>
  C35: After a successful listing the expected nodes stand for exactly the running containers whose name
  starts with \<^verbatim>\<open>rabbit\<close>, and the container a recovery acts on is the one the node was named after.
\<close>
theorem expected_nodes_are_the_containers:
  assumes "docker_err env (trace s) (ContainerList False) = None"
    and "docker_names env (trace s) = cs"
    and "list_all (\<lambda>ns. ns \<noteq> [] \<and> CHR ''@'' \<notin> set (hd ns)) cs"
  shows "map extractContainer (expectedNodes (snd (run_state (updateExpectedNodes env) s))) =
    map (\<lambda>ns. drop 1 (hd ns)) (filter (\<lambda>ns. has_prefix ''/rabbit'' (hd ns)) cs)"
proof -
  have "list_all (\<lambda>ns. ns \<noteq> []) cs" using assms(3) by (auto simp: list_all_iff)
  from rabbit_nodes_Ret [OF this] assms show ?thesis
    by (auto simp: updateExpectedNodes_def State_Monad.update_def list_all_iff extractContainer_drop)
qed

theorem expected_nodes_are_the_containers_witness:
  "map extractContainer (expectedNodes (snd (run_state (updateExpectedNodes
     (quiet_env\<lparr>docker_names := (\<lambda>h. [[''/rabbit1''], [''/redis''], [''/rabbit-recover-7'']])\<rparr>)) quorum_example))) =
   [''rabbit1'', ''rabbit-recover-7'']"
  using expected_nodes_are_the_containers [of "quiet_env\<lparr>docker_names :=
      (\<lambda>h. [[''/rabbit1''], [''/redis''], [''/rabbit-recover-7'']])\<rparr>" quorum_example
      "[[''/rabbit1''], [''/redis''], [''/rabbit-recover-7'']]"]
  by (simp add: has_prefix_def quiet_env_def)

end
