(* ===== verification/Old_Monitor.thy ===== *)
theory Old_Monitor
  imports Quorum_Recovery
begin

text \<open>
  \<^verbatim>\<open>tester.go\<close>, the older quorum monitor: it knows three nodes by name and restarts their containers
  instead of replacing them. What it shares with \<^verbatim>\<open>quorum_recovery/handler.go\<close> (the call into a
  container, the request to the API, the decoding of nodes and queues) is taken from theory
  \<open>Quorum_Recovery\<close>.
\<close>

record old_monitor = io +
  given_up :: "string set"        \<comment> \<open>the map \<^verbatim>\<open>forgotten\<close>\<close>

definition old_expectedNodes :: "string list" where
  "old_expectedNodes = [''rabbit@rabbit1'', ''rabbit@rabbit2'', ''rabbit@rabbit3'']"

definition old_extractContainer :: "string \<Rightarrow> string" where
  "old_extractContainer node =
     (if node = ''rabbit@rabbit1'' then ''rabbit1''
      else if node = ''rabbit@rabbit2'' then ''rabbit2''
      else if node = ''rabbit@rabbit3'' then ''rabbit3''
      else '''')"

subsection \<open>triggerRecovery\<close>

text \<open>The loop with \<open>n\<close> tries left; whether the node was forgotten.\<close>

fun old_forget_tries :: "env \<Rightarrow> string \<Rightarrow> int \<Rightarrow> nat \<Rightarrow> ('a io_scheme, bool) state" where
  "old_forget_tries env deadNode backoff 0 = State_Monad.return False"
| "old_forget_tries env deadNode backoff (Suc n) = do {
     (err, out) \<leftarrow> rabbitmqctl env ''rabbit1'' [''forget_cluster_node'', deadNode, ''--offline''];
     if err = None then State_Monad.return True
     else if n = 0 then State_Monad.return False
     else do {
       k \<leftarrow> intn env 500;
       sleep (backoff + int k * Millisecond);
       old_forget_tries env deadNode (2 * backoff) n } }"

definition reset_and_start :: "env \<Rightarrow> string \<Rightarrow> ('a io_scheme, unit) state" where
  "reset_and_start env c = do {
     _ \<leftarrow> rabbitmqctl env c [''reset''];
     _ \<leftarrow> rabbitmqctl env c [''start_app''];
     State_Monad.return () }"

definition restart_container :: "env \<Rightarrow> string \<Rightarrow> ('a io_scheme, unit) state" where
  "restart_container env c = do {
     (err, running) \<leftarrow> perform (\<lambda>h. (docker_err env h (ContainerInspect c), docker_running env h c))
       (Docker (ContainerInspect c));
     if err \<noteq> None then State_Monad.return ()
     else if running then reset_and_start env c
     else do {
       err \<leftarrow> docker env (ContainerStart c);
       if err \<noteq> None then State_Monad.return ()
       else do {
         sleep (5 * Second);
         reset_and_start env c } } }"

definition old_recover :: "env \<Rightarrow> string \<Rightarrow> string \<Rightarrow> ('a io_scheme, unit) state" where
  "old_recover env deadNode c = do {
     _ \<leftarrow> docker env (ContainerStop c (10 * Second));
     gone \<leftarrow> old_forget_tries env deadNode Second 5;
     if gone then restart_container env c else State_Monad.return () }"

definition old_triggerRecovery :: "env \<Rightarrow> string \<Rightarrow> ('a old_monitor_scheme, unit) state" where
  "old_triggerRecovery env deadNode = do {
     s \<leftarrow> State_Monad.get;
     if deadNode = '''' \<or> deadNode \<in> given_up s then State_Monad.return ()
     else do {
       State_Monad.update (\<lambda>s. s\<lparr>given_up := insert deadNode (given_up s)\<rparr>);
       let c = old_extractContainer deadNode;
       if c = '''' then State_Monad.return () else old_recover env deadNode c } }"

subsection \<open>checkQuorumStatus and the monitor\<close>

definition old_check_queues ::
  "env \<Rightarrow> string \<Rightarrow> string \<Rightarrow> string \<Rightarrow> liveness \<Rightarrow> ('a old_monitor_scheme, unit) state" where
  "old_check_queues env url user pass live = do {
     resp \<leftarrow> httpRequest env (url @ ''/api/queues'') user pass;
     (case resp of
        Inl err \<Rightarrow> State_Monad.return ()
      | Inr b \<Rightarrow>
          (case unmarshal_slice store_queue queue0 b of
             (True, _) \<Rightarrow> State_Monad.return ()
           | (False, queues) \<Rightarrow> for_each (old_triggerRecovery env) (concat (map (dead_members live) queues)))) }"

definition old_checkQuorumStatus ::
  "env \<Rightarrow> string \<Rightarrow> string \<Rightarrow> string \<Rightarrow> ('a old_monitor_scheme, unit) state" where
  "old_checkQuorumStatus env url user pass = do {
     resp \<leftarrow> httpRequest env (url @ ''/api/nodes'') user pass;
     (case resp of
        Inl err \<Rightarrow> State_Monad.return ()
      | Inr b \<Rightarrow>
          (case unmarshal_slice store_node node0 b of
             (True, _) \<Rightarrow> State_Monad.return ()
           | (False, raw) \<Rightarrow> do {
               let live = live_nodes raw;
               for_each (old_triggerRecovery env) (not_running raw @ missing live old_expectedNodes);
               old_check_queues env url user pass live })) }"

text \<open>The first \<open>n\<close> turns of the endless loop.\<close>

fun old_turns :: "env \<Rightarrow> string \<Rightarrow> string \<Rightarrow> string \<Rightarrow> nat \<Rightarrow> ('a old_monitor_scheme, unit) state" where
  "old_turns env url user pass 0 = State_Monad.return ()"
| "old_turns env url user pass (Suc n) = do {
     old_checkQuorumStatus env url user pass;
     sleep (10 * Second);
     old_turns env url user pass n }"

definition old_StartQuorumMonitor ::
  "env \<Rightarrow> string \<Rightarrow> string \<Rightarrow> string \<Rightarrow> nat \<Rightarrow> ('a old_monitor_scheme, unit outcome) state" where
  "old_StartQuorumMonitor env url user pass n = do {
     err \<leftarrow> docker env NewClient;
     or_fatal err ''cannot connect to docker daemon'' (do {
       old_turns env url user pass n;
       State_Monad.return (Ret ()) }) }"

subsection \<open>Containers stopped\<close>

fun is_stop :: "event \<Rightarrow> bool" where
  "is_stop (Docker (ContainerStop c t)) = True"
| "is_stop e = False"

definition container_stops :: "history \<Rightarrow> nat" where
  "container_stops es = length (filter is_stop es)"

lemma container_stops_simps [simp]:
  "container_stops [] = 0"
  "container_stops (e # es) = (if is_stop e then 1 else 0) + container_stops es"
  "container_stops (xs @ ys) = container_stops xs + container_stops ys"
  by (simp_all add: container_stops_def)

text \<open>Nothing is stopped, and only the trace changes.\<close>

definition calm :: "'a io_scheme \<Rightarrow> 'a io_scheme \<Rightarrow> bool" where
  "calm s s' = (\<exists>es. s' = s\<lparr>trace := trace s @ es\<rparr> \<and> container_stops es = 0)"

interpretation calm: evolution calm
proof
  show "calm s s" for s :: "'a io_scheme" unfolding calm_def by (rule exI [of _ "[]"]) simp
  show "calm s s''" if 1: "calm s s'" and 2: "calm s' s''" for s s' s'' :: "'a io_scheme"
  proof -
    obtain es where es: "s' = s\<lparr>trace := trace s @ es\<rparr>" "container_stops es = 0"
      using 1 by (auto simp: calm_def)
    moreover obtain es' where "s'' = s'\<lparr>trace := trace s' @ es'\<rparr>" "container_stops es' = 0"
      using 2 by (auto simp: calm_def)
    ultimately have "s'' = s\<lparr>trace := trace s @ es @ es'\<rparr> \<and> container_stops (es @ es') = 0" by simp
    then show ?thesis unfolding calm_def by blast
  qed
qed

lemma calm_event: "\<not> is_stop e \<Longrightarrow> calm s (s\<lparr>trace := trace s @ [e]\<rparr>)"
  unfolding calm_def by (rule exI [of _ "[e]"]) simp

lemma calm_calls:
  "\<not> is_stop e \<Longrightarrow> keeps calm (perform ans e)" "keeps calm (ask f)" "keeps calm (sleep ns)" "keeps calm (intn env n)"
  "\<not> is_stop (Docker c) \<Longrightarrow> keeps calm (docker env c)" "\<not> is_stop (Docker c) \<Longrightarrow> keeps calm (docker_new env c)"
  by (simp_all add: keeps_def calm_event calm.refl)

lemmas calm_intros = calm.keeps_return calm.keeps_bind calm_calls keeps_splits

lemma calm_rabbitmqctl: "keeps calm (rabbitmqctl env c args)"
  unfolding rabbitmqctl_def execInContainer_def by (intro calm_intros) simp_all

lemma calm_forget: "keeps calm (old_forget_tries env deadNode backoff n)"
proof (induction n arbitrary: backoff)
  case 0
  show ?case by (simp add: calm.keeps_return)
next
  case (Suc n)
  show ?case unfolding old_forget_tries.simps by (intro calm_intros calm_rabbitmqctl Suc)
qed

lemma calm_restart: "keeps calm (restart_container env c)"
  unfolding restart_container_def reset_and_start_def by (intro calm_intros calm_rabbitmqctl) simp_all

text \<open>The containers stopped and the known nodes not given up add up to the same number for ever.\<close>

definition balance :: "'a old_monitor_scheme \<Rightarrow> nat" where
  "balance s = container_stops (trace s) + card (set old_expectedNodes - given_up s)"

lemma balance_calm: "calm s s' \<Longrightarrow> balance s' = balance s"
  by (auto simp: calm_def balance_def)

lemma balance_recover: "balance (snd (run_state (old_recover env deadNode c) s)) = Suc (balance s)"
proof -
  have calm: "balance (snd (run_state m s')) = balance s'" if "keeps calm m" for m and s' :: "'a old_monitor_scheme"
    using that balance_calm unfolding keeps_def by blast
  show ?thesis
    using calm [OF calm_forget] calm [OF calm_restart]
    by (simp add: old_recover_def split_beta) (simp add: balance_def)
qed

lemma known_node: "old_extractContainer n \<noteq> '''' \<longleftrightarrow> n \<in> set old_expectedNodes"
  by (simp add: old_extractContainer_def old_expectedNodes_def)

lemma balance_trigger: "balance (snd (run_state (old_triggerRecovery env n) s)) = balance s"
proof -
  let ?s = "s\<lparr>given_up := insert n (given_up s)\<rparr>"
  have "Suc (balance ?s) = balance s" if "n \<notin> given_up s" and "n \<in> set old_expectedNodes"
  proof -
    have "set old_expectedNodes - insert n (given_up s) = (set old_expectedNodes - given_up s) - {n}" by auto
    moreover have "card (set old_expectedNodes - given_up s) > 0"
      using that by (auto simp: card_gt_0_iff)
    ultimately show ?thesis using that by (simp add: balance_def)
  qed
  moreover have "balance ?s = balance s" if "n \<notin> set old_expectedNodes"
  proof -
    have "set old_expectedNodes - insert n (given_up s) = set old_expectedNodes - given_up s" using that by auto
    then show ?thesis by (simp add: balance_def)
  qed
  ultimately show ?thesis
    using known_node [of n] balance_recover [of env n "old_extractContainer n" ?s]
    by (auto simp: old_triggerRecovery_def Let_def State_Monad.update_def)
qed

definition balanced :: "'a old_monitor_scheme \<Rightarrow> 'a old_monitor_scheme \<Rightarrow> bool" where
  "balanced s s' = (balance s' = balance s)"

interpretation balanced: evolution balanced
  by unfold_locales (simp_all add: balanced_def)

lemma balanced_calls:
  "keeps balanced (httpRequest env url user pass)" "keeps balanced (sleep ns)" "keeps balanced (docker env NewClient)"
  "keeps balanced (old_triggerRecovery env n)"
  by (simp_all add: keeps_def balanced_def balance_trigger) (simp_all add: balance_def)

lemmas balanced_intros =
  balanced.keeps_return balanced.keeps_bind balanced.keeps_for_each balanced_calls keeps_splits

lemma balanced_check: "keeps balanced (old_checkQuorumStatus env url user pass)"
  unfolding old_checkQuorumStatus_def old_check_queues_def Let_def by (intro balanced_intros)

lemma balanced_turns: "keeps balanced (old_turns env url user pass n)"
proof (induction n)
  case 0
  show ?case by (simp add: balanced.keeps_return)
next
  case (Suc n)
  then show ?case unfolding old_turns.simps by (intro balanced_intros balanced_check)
qed

lemma balanced_monitor: "keeps balanced (old_StartQuorumMonitor env url user pass n)"
  unfolding old_StartQuorumMonitor_def or_fatal_def by (intro balanced_intros balanced_turns)

subsection \<open>Properties\<close>

text \<open>
  C37: The older monitor stops containers exactly as often as it gives up one of the three nodes it knows, so
  never more than three times, however long it runs and whatever the API reports: a node it once gave up is
  never recovered again.
\<close>
theorem old_monitor_stops_at_most_three:
  fixes env url user pass n
  defines "s' \<equiv> snd (run_state (old_StartQuorumMonitor env url user pass n) \<lparr>trace = [], given_up = {}\<rparr>)"
  shows "container_stops (trace s') = card (given_up s' \<inter> set old_expectedNodes) \<and> container_stops (trace s') \<le> 3"
proof -
  have three: "card (set old_expectedNodes) = 3" by (simp add: old_expectedNodes_def)
  have "balance s' = balance (\<lparr>trace = [], given_up = {}\<rparr> :: old_monitor)"
    using balanced_monitor [of env url user pass n] unfolding keeps_def balanced_def s'_def by blast
  then have "balance s' = 3" by (simp add: balance_def three)
  moreover have "card (set old_expectedNodes) =
      card (set old_expectedNodes \<inter> given_up s') + card (set old_expectedNodes - given_up s')"
    by (rule card_Int_Diff) simp
  ultimately show ?thesis by (simp add: balance_def three Int_commute)
qed

end
