(* ===== verification/Api_Keys.thy ===== *)
theory Api_Keys
  imports World
begin

text \<open>
  \<^verbatim>\<open>database_connect/mongo_api_store.go\<close>: the store of API keys. The database filters by key and
  status; the code checks the expiry.
\<close>

definition InitMongoStore :: "env \<Rightarrow> ('a io_scheme, unit outcome) state" where
  "InitMongoStore env =
     (let uri = getenv env ''MONGO_URI''
      in if uri = '''' then State_Monad.return (Fatal ''MONGO_URI not found in environment or .env file'')
         else do {
           err \<leftarrow> perform (\<lambda>h. mongo_err env h (Connect uri)) (Mongo (Connect uri));
           or_fatal err ''MongoDB connection failed'' (State_Monad.return (Ret ())) })"

definition find_active :: "string \<Rightarrow> mongo_call" where
  "find_active key = FindOne [(''key'', key), (''status'', ''active'')]"

definition ErrNoDocuments :: string where
  "ErrNoDocuments = ''mongo: no documents in result''"

text \<open>The document of the key, or the error.\<close>

definition ValidateAPIKey :: "env \<Rightarrow> string \<Rightarrow> ('a io_scheme, string + api_key) state" where
  "ValidateAPIKey env key = do {
     res \<leftarrow> perform (\<lambda>h. case mongo_err env h (find_active key) of
         Some err \<Rightarrow> Inl err | None \<Rightarrow> Inr (mongo_doc env h (find_active key)))
       (Mongo (find_active key));
     (case res of
        Inl err \<Rightarrow> State_Monad.return (Inl err)
      | Inr result \<Rightarrow> do {
          now \<leftarrow> ask (wall_time env);
          State_Monad.return
            (if ExpiresAt result \<noteq> 0 \<and> ExpiresAt result < now then Inl ErrNoDocuments else Inr result) }) }"

text \<open>\<^verbatim>\<open>main\<close>: what is printed.\<close>

definition api_main :: "env \<Rightarrow> ('a io_scheme, string outcome) state" where
  "api_main env = do {
     r \<leftarrow> InitMongoStore env;
     (case r of
        Ret _ \<Rightarrow> do {
          let key = ''sk_test_51HxTtLCU9owPkwGc9KejqR5LTT7l7b9vQuqI2'';
          record \<leftarrow> ValidateAPIKey env key;
          State_Monad.return (Ret
            (case record of
               Inl err \<Rightarrow> [CHR 0xE2, CHR 0x9D, CHR 0x8C] @ '' Invalid or expired API key'' @ [CHR 0x0A]
             | Inr k \<Rightarrow> [CHR 0xE2, CHR 0x9C, CHR 0x85] @ '' Authenticated '' @ key @ '' owned by '' @ Owner k @ [CHR 0x0A])) }
      | Panic msg \<Rightarrow> State_Monad.return (Panic msg)
      | Fatal msg \<Rightarrow> State_Monad.return (Fatal msg)
      | Blocked \<Rightarrow> State_Monad.return Blocked) }"

subsection \<open>Properties\<close>

text \<open>
  Documented behaviour of a collection: FindOne answers with the first document whose fields equal
  the filter's, and fails without one.
\<close>

definition finds_in :: "env \<Rightarrow> api_key list \<Rightarrow> bool" where
  "finds_in env ks =
     (\<forall>h key. case find (\<lambda>k. Key k = key \<and> KeyStatus k = ''active'') ks of
        None \<Rightarrow> mongo_err env h (find_active key) \<noteq> None
      | Some k \<Rightarrow> mongo_err env h (find_active key) = None \<and> mongo_doc env h (find_active key) = k)"

text \<open>
  A key is accepted exactly when the first active document with that key has not expired; a document
  without an expiry never does, and an expired key is refused like an unknown one.
\<close>
theorem ValidateAPIKey_accepts_iff:
  assumes "finds_in env ks"
  shows "fst (run_state (ValidateAPIKey env key) s) = Inr k \<longleftrightarrow>
    find (\<lambda>k. Key k = key \<and> KeyStatus k = ''active'') ks = Some k \<and>
    (ExpiresAt k = 0 \<or> wall_time env (trace s @ [Mongo (find_active key)]) \<le> ExpiresAt k)"
proof -
  have "case find (\<lambda>k. Key k = key \<and> KeyStatus k = ''active'') ks of
        None \<Rightarrow> mongo_err env (trace s) (find_active key) \<noteq> None
      | Some k \<Rightarrow> mongo_err env (trace s) (find_active key) = None \<and> mongo_doc env (trace s) (find_active key) = k"
    using assms unfolding finds_in_def by blast
  then show ?thesis by (auto simp: ValidateAPIKey_def split: option.splits if_splits)
qed

theorem ValidateAPIKey_accepts_iff_witness:
  "fst (run_state (ValidateAPIKey (quiet_env\<lparr>mongo_err := (\<lambda>h c. Some ErrNoDocuments)\<rparr>) ''sk'') \<lparr>trace = []\<rparr>) \<noteq>
     Inr \<lparr>Key = ''sk'', Owner = ''bob'', KeyStatus = ''active'', RateLimit = 1, CreatedAt = 1, ExpiresAt = 0\<rparr>"
  using ValidateAPIKey_accepts_iff [of "quiet_env\<lparr>mongo_err := (\<lambda>h c. Some ErrNoDocuments)\<rparr>" "[]"]
  by (simp add: finds_in_def)

end
