(* ===== verification/Spec2Isabelle.thy ===== *)
theory Spec2Isabelle
  imports Serving Retry_Life Load_Balancer_Locks Old_Monitor Demos Api_Keys
begin

text \<open>
  \<^bold>\<open>A distributed messaging system over RabbitMQ, in Go.\<close> Clients submit tasks over HTTP; a load
  balancer passes them to one of several gateways; a gateway authenticates the caller, limits its rate,
  publishes the task to one of several exchanges or sharded queues and waits for the feedback of the
  consumer on a private reply queue. Beside them stand an authentication server, a monitor of the
  RabbitMQ cluster, and small tools.

  \<^bold>\<open>How the code is modelled.\<close> Every operation is a function in the state monad. The state is the trace
  of the calls made so far (record \<open>io\<close> of theory \<open>World\<close>), extended by the variables of the component:
  \<open>worker_vars\<close> and \<open>gateway\<close> (\<^verbatim>\<open>WorkerCount\<close>, \<^verbatim>\<open>AckCount\<close>, \<^verbatim>\<open>publishedCount\<close>), \<open>lb\<close> (\<^verbatim>\<open>backends\<close>,
  \<^verbatim>\<open>current\<close>), \<open>quorum\<close>, \<open>old_monitor\<close>, \<open>terminal\<close>. What is outside the repository answers through a
  record \<open>env\<close> of functions of the history: the AMQP library and the broker, Redis, HTTP peers, Docker,
  MongoDB, OAuth, the JWT library, clocks, random numbers. A theorem for every \<open>env\<close> holds whatever these
  do; where one relies on documented behaviour, that is a named hypothesis (\<open>redis_counts\<close>,
  \<open>redis_stores\<close>, \<open>jwt_honest\<close>, \<open>missing_queue_closes\<close>, \<open>amqp_never_fails\<close>, \<open>clock_advances\<close>,
  \<open>sleep_clock\<close>, \<open>finds_in\<close>), shown satisfiable by a concrete \<open>env\<close> in a witness. Errors are values; a panic,
  a \<^verbatim>\<open>log.Fatal\<close> and an endless wait are outcomes (\<open>outcome\<close>). Machine integers are words where their width
  matters; Go's \<^verbatim>\<open>int\<close> is taken to have 64 bits, and \<open>pickShard_int32\<close> says what changes with 32. Strings are
  lists of bytes. Goroutines started during a set-up run in the order they are started.

  \<^bold>\<open>The theories.\<close>
  \<^item> \<open>Prelude\<close>: outcomes, loops, decimal printing, splitting; relations a computation \<open>keeps\<close> (locale
    \<open>evolution\<close>); systems with an invariant (locale \<open>invariant_system\<close>).
  \<^item> \<open>Json\<close>: \<^verbatim>\<open>encoding/json\<close> as used, from bytes to structs and back. \<open>Url\<close>: query escaping and the forms of
    \<^verbatim>\<open>net/url\<close> and \<^verbatim>\<open>net/http\<close>. \<open>Http\<close>: requests and responses.
  \<^item> \<open>Monitor\<close>: \<^verbatim>\<open>monitor/metrics.go\<close>. \<open>World\<close>: the calls, the environment, reading of traces, and
    evolutions that allow every event (locale \<open>event_evolution\<close>).
  \<^item> \<open>Interfaces\<close>: the contracts of a consumer (it replies where asked and settles each delivery once; locales
    \<open>consumer\<close>, \<open>acking_consumer\<close>) and of a publisher (it sends at most one message, unchanged;
    locales \<open>publisher\<close>, \<open>counting_publisher\<close>), interpreted in each of the next theories.
  \<^item> \<open>Direct_Exchange\<close>, \<open>Topic_Exchange\<close>, \<open>Headers_Exchange\<close>, \<open>Pubsub\<close>, \<open>Work_Queue\<close>,
    \<open>Dead_Letter_Queues\<close>: the packages of the same names, with producers, consumers, shard workers,
    auto-scaler, retry and dead-letter queues. \<open>Retry_Life\<close>: one message through the retry queue, with the
    broker's redelivery.
  \<^item> \<open>Limiter\<close>: \<^verbatim>\<open>limiter/rate_limit.go\<close>. \<open>Routing\<close>: \<^verbatim>\<open>pickShard\<close> and \<^verbatim>\<open>autoDetectAndPublish\<close> of
    \<^verbatim>\<open>gateway/server.go\<close>, with the routing table they refine. \<open>Gateway\<close>: its handlers. \<open>Startup\<close>: its
    \<^verbatim>\<open>main\<close> up to the listener. \<open>Serving\<close>: the listener and the paths of the gateway and of the balancer.
  \<^item> \<open>Load_Balancer\<close>: \<^verbatim>\<open>load_balancer.go\<close>, each handler as one step. \<open>Load_Balancer_Locks\<close>: the read-write lock
    with its writer preference as a step relation, and the lock operations of each handler.
  \<^item> \<open>Quorum_Recovery\<close>: \<^verbatim>\<open>quorum_recovery/handler.go\<close>. \<open>Old_Monitor\<close>: \<^verbatim>\<open>tester.go\<close>.
  \<^item> \<open>Auth_Server\<close>: \<^verbatim>\<open>google_authentication/\<close>; \<open>Login\<close>: what its runs guarantee.
  \<^item> \<open>Client\<close>: \<^verbatim>\<open>main.go\<close>; \<open>Journey\<close>: the client with the authentication server, and a task from the keyboard
    to the gateway's handler.
  \<^item> \<open>Demos\<close>: \<^verbatim>\<open>flood.go\<close>, \<^verbatim>\<open>testing_shards.go\<close>, \<^verbatim>\<open>resilient.go\<close>, \<^verbatim>\<open>gateway/gateway_consumer.go\<close>,
    \<^verbatim>\<open>gateway/rabbitmq_conn.go\<close>. \<open>Api_Keys\<close>: \<^verbatim>\<open>database_connect/mongo_api_store.go\<close>.
  \<^item> This theory: the properties of all consumers together, a retried task from the gateway and back, and a
    gateway joining the registry of the balancer.

  \<^bold>\<open>What is shown.\<close> Of the messages: a dispatch sends one message to the place the routing table
  says, every consumer settles each delivery once and replies to its sender alone, a retried task is handled four
  times and its sender told the end. Of the login: a token handed out was signed for the e-mail
  Google returned, and the gateway accepts it. Of the client: what is typed arrives. Of the balancer: its
  registry stays well-formed, the rotation is fair, a live gateway is found, the registry is never written
  while it is read. Of the cluster monitor: it creates one replacement for each node it gives up, and its check
  ends. And of the defects the model showed: the deadlock of the proxy's nested read lock, the metrics page that
  closes the shared channel, the listing error that destroys healthy nodes, the limiter that locks a steady
  caller out, the client that waits for ever, the readiness endpoint that never is ready.

  \<^bold>\<open>Bounds and fuel.\<close> The JSON reader has fuel of twice the length of the text, which more never improves
  (\<open>json_parse_fuel\<close>). The wait for a new node has fuel, and thirty-two turns outlast its deadline when time
  advances (shown in \<open>Quorum_Recovery\<close>). The client's polling takes a number of polls, and one more than the
  first that succeeds is enough (shown in \<open>Journey\<close>). Endless loops of servers are modelled by any number
  of their turns.

  \<^bold>\<open>Not modelled.\<close> Logging. The clean-up redirects of the HTTP mux, percent escapes in paths, and content
  types of forms other than the one the clients send. The scheduling of goroutines, but for the locks of
  the balancer. \<^verbatim>\<open>gateway/publish.go\<close>, whose wrappers do not compile against the packages they call. The
  log file of the auto-scaler. Matching of routing keys and headers, which is the broker's.
\<close>

subsection \<open>All consumers\<close>

text \<open>
  C7: Every consumer of the system settles each of its deliveries exactly once, in the order of
  arrival, whatever the broker answers: the shard worker, the direct, topic, headers and fanout
  consumers, the retry worker, the resilient worker and the dead-letter consumer.
\<close>
theorem consumers_settle_each_delivery_once:
  "map fst (settlements (added (for_each (task_handle env worker) ds) s)) = map DeliveryTag ds \<and>
   map fst (settlements (added (for_each (direct_handle env) ds) s')) = map DeliveryTag ds \<and>
   map fst (settlements (added (for_each (topic_handle env key) ds) s')) = map DeliveryTag ds \<and>
   map fst (settlements (added (for_each (headers_handle env) ds) s')) = map DeliveryTag ds \<and>
   map fst (settlements (added (for_each (fanout_handle env) ds) s')) = map DeliveryTag ds \<and>
   map fst (settlements (added (for_each (delay_retry_handle env q worker) ds) s')) = map DeliveryTag ds \<and>
   map fst (settlements (added (for_each (resilient_handle env worker) ds) s')) = map DeliveryTag ds \<and>
   map fst (settlements (added (for_each (dlq_handle env) ds) s')) = map DeliveryTag ds"
  by (intro conjI task.loop_settles_each_once direct.loop_settles_each_once topic.loop_settles_each_once
      headers.loop_settles_each_once fanout.loop_settles_each_once delay_retry.loop_settles_each_once
      resilient.loop_settles_each_once dlq.loop_settles_each_once)

text \<open>
  C8: Every consumer answers each delivery that names a reply queue with one message to that queue under
  the delivery's correlation id, and addresses no other queue: the gateway waiting there gets exactly
  the replies of its own task.
\<close>
theorem consumers_reply_once_where_asked:
  "addressed (added (for_each (task_handle env worker) ds) s) = concat (map wanted ds) \<and>
   addressed (added (for_each (direct_handle env) ds) s') = concat (map wanted ds) \<and>
   addressed (added (for_each (topic_handle env key) ds) s') = concat (map wanted ds) \<and>
   addressed (added (for_each (headers_handle env) ds) s') = concat (map wanted ds) \<and>
   addressed (added (for_each (fanout_handle env) ds) s') = concat (map wanted ds) \<and>
   addressed (added (for_each (delay_retry_handle env q worker) ds) s') = concat (map wanted ds) \<and>
   addressed (added (for_each (resilient_handle env worker) ds) s') = concat (map wanted ds) \<and>
   addressed (added (for_each (dlq_handle env) ds) s') = concat (map wanted ds)"
  by (intro conjI task.loop_replies direct.loop_replies topic.loop_replies headers.loop_replies
      fanout.loop_replies delay_retry.loop_replies resilient.loop_replies dlq.loop_replies)

text \<open>
  Six of the eight consumers only ever acknowledge: the resilient worker and a failed
  retry are the only sources of dead letters.
\<close>
theorem most_consumers_only_acknowledge:
  "settlements (added (for_each (task_handle env worker) ds) s) = map (\<lambda>d. (DeliveryTag d, Acked)) ds \<and>
   settlements (added (for_each (direct_handle env) ds) s') = map (\<lambda>d. (DeliveryTag d, Acked)) ds \<and>
   settlements (added (for_each (topic_handle env key) ds) s') = map (\<lambda>d. (DeliveryTag d, Acked)) ds \<and>
   settlements (added (for_each (headers_handle env) ds) s') = map (\<lambda>d. (DeliveryTag d, Acked)) ds \<and>
   settlements (added (for_each (fanout_handle env) ds) s') = map (\<lambda>d. (DeliveryTag d, Acked)) ds \<and>
   settlements (added (for_each (dlq_handle env) ds) s') = map (\<lambda>d. (DeliveryTag d, Acked)) ds"
  by (intro conjI task.loop_settlements direct.loop_settlements topic.loop_settlements
      headers.loop_settlements fanout.loop_settlements dlq.loop_settlements)

subsection \<open>A retried task, from the gateway and back\<close>

text \<open>What the gateway finds on its reply queue: the messages sent there, as deliveries.\<close>

definition replies :: "string \<Rightarrow> history \<Rightarrow> delivery list" where
  "replies q es = map (deliver 0) (inbox q es)"

lemma await_retried:
  assumes "ascii w"
  shows "await_feedback (CorrelationId d) (map (deliver 0) (map (feedback_message d) (feedbacks w k n))) =
    Some (marshal_struct (dlq_feedback w))"
proof (induction n arbitrary: k)
  case 0
  have "Status (decode_feedback (marshal_struct (dlq_feedback w))) = ''dlq''"
    using assms by (simp add: decode_feedback_marshal dlq_feedback_def field_ascii_def store_feedback_def
        decode_string_def feedback0_def ascii_def)
  then show ?case by simp
next
  case (Suc n)
  have "Status (decode_feedback (marshal_struct (retry_feedback w (k + 1)))) = ''retry''"
    using assms by (simp add: decode_feedback_marshal retry_feedback_def field_ascii_def store_feedback_def
        decode_string_def decode_int_def feedback0_def parse_attempt ascii_def)
  with Suc show ?case by simp
qed

lemma SendToRetryQueue_message:
  "publishes (added (SendToRetryQueue env shard task replyTo corrID) s) =
     [(''retry_exchange'', retry_queue shard,
       publishing0\<lparr>Headers := [(''x-retry-count'', FInt32 0)], DeliveryMode := Persistent,
          ContentType := ''text/plain'', Body := task, ReplyTo := replyTo, CorrelationId := corrID\<rparr>)]"
  by (auto simp: SendToRetryQueue_def added_def split: option.splits)

text \<open>
  C1: A task submitted with \<^verbatim>\<open>retry=1\<close>, end to end: the producer publishes one message to the retry queue of
  the task's shard; when the broker delivers it and hands back what the worker puts back, the worker
  handles it exactly four times, and the gateway waiting on the reply queue skips the three retry
  notices and answers the client with the worker's \<^verbatim>\<open>dlq\<close> feedback.
\<close>
theorem retried_submission_answers_dlq:
  assumes "amqp_never_fails env" and "replyTo \<noteq> ''''" and "ascii w"
  shows "\<exists>p es.
    publishes (added (SendToRetryQueue env (pickShard task) task replyTo corrID) s) =
      [(''retry_exchange'', retry_queue (pickShard task), p)] \<and> Body p = task \<and>
    fst (run_state (retry_life env (retry_queue (pickShard task)) w 4 (deliver t p)) s') = Some 4 \<and>
    trace (snd (run_state (retry_life env (retry_queue (pickShard task)) w 4 (deliver t p)) s')) = trace s' @ es \<and>
    await_feedback corrID (replies replyTo es) = Some (marshal_struct (dlq_feedback w))"
proof -
  let ?p = "publishing0\<lparr>Headers := [(''x-retry-count'', FInt32 0)], DeliveryMode := Persistent,
     ContentType := ''text/plain'', Body := task, ReplyTo := replyTo, CorrelationId := corrID\<rparr>"
  let ?d = "deliver t ?p"
  have count: "retry_count env [(''x-retry-count'', FInt32 0)] = 0" by (simp add: retry_count_def)
  have "remaining (retry_count env (Headers ?d)) = 3" by (simp add: count remaining_def)
  then obtain es where es:
    "fst (run_state (retry_life env (retry_queue (pickShard task)) w 4 ?d) s') = Some 4"
    "trace (snd (run_state (retry_life env (retry_queue (pickShard task)) w 4 ?d) s')) = trace s' @ es"
    "inbox replyTo es = map (feedback_message ?d) (feedbacks w 0 3)"
    using retry_life_run [OF assms(1), of ?d 3 4 "retry_queue (pickShard task)" w s'] assms(2)
    by (auto simp: count)
  have "await_feedback corrID (replies replyTo es) = Some (marshal_struct (dlq_feedback w))"
    using await_retried [OF assms(3), of ?d 0 3] by (simp add: replies_def es(3))
  with es(1,2) show ?thesis by (intro exI [of _ ?p]) (simp add: SendToRetryQueue_message)
qed

theorem retried_submission_answers_dlq_witness:
  "\<exists>p es.
    publishes (added (SendToRetryQueue quiet_env (pickShard ''t'') ''t'' ''amq.gen'' ''1f'') (\<lparr>trace = []\<rparr> :: io)) =
      [(''retry_exchange'', retry_queue (pickShard ''t''), p)] \<and>
    fst (run_state (retry_life quiet_env (retry_queue (pickShard ''t'')) ''shard-delay-0'' 4 (deliver 1 p))
      (\<lparr>trace = []\<rparr> :: io)) = Some 4 \<and>
    trace (snd (run_state (retry_life quiet_env (retry_queue (pickShard ''t'')) ''shard-delay-0'' 4 (deliver 1 p))
      (\<lparr>trace = []\<rparr> :: io))) = es \<and>
    await_feedback ''1f'' (replies ''amq.gen'' es) = Some (marshal_struct (dlq_feedback ''shard-delay-0''))"
  using retried_submission_answers_dlq [of quiet_env "''amq.gen''" "''shard-delay-0''" "''t''" "''1f''"
      "\<lparr>trace = []\<rparr> :: io" 1 "\<lparr>trace = []\<rparr> :: io"]
  by (auto simp: amqp_never_fails_def ascii_def)

subsection \<open>A gateway joins the load balancer\<close>

text \<open>
  A gateway and a balancer that are connected find each other in one attempt: when the
  balancer's handler answers the gateway's form, the gateway stops registering and its own address,
  with the port it was given, is in the registry.
\<close>
theorem gateway_joins_registry:
  assumes "Form r = [(''address'', ''http://localhost:'' @ dec_nat port), (''name'', hostname)]"
    and "http_reply env (trace s) (HttpPostForm register_url (Form r)) =
      Inr \<lparr>StatusCode = the (w_status (fst (run_state (registerHandler r) lb))), RespHeader = [],
        RespBody = w_body (fst (run_state (registerHandler r) lb))\<rparr>"
  shows "run_state (registerWithLoadBalancer env hostname port) s =
      (True, s\<lparr>trace := trace s @ [Http (HttpPostForm register_url (Form r))]\<rparr>) \<and>
    ''http://localhost:'' @ dec_nat port \<in> set (backends (snd (run_state (registerHandler r) lb)))"
proof -
  have "w_status (fst (run_state (registerHandler r) lb)) = Some 200"
    using assms(1) by (simp add: run_registerHandler FormValue_def first_value_def Let_def)
  then have "run_state (registerWithLoadBalancer env hostname port) s =
      (True, s\<lparr>trace := trace s @ [Http (HttpPostForm register_url (Form r))]\<rparr>)"
    using registerWithLoadBalancer_accepted [of env s port hostname] assms by (simp only: option.sel) auto
  moreover have "''http://localhost:'' @ dec_nat port \<in> set (backends (snd (run_state (registerHandler r) lb)))"
    using assms(1) by (simp add: run_registerHandler FormValue_def first_value_def Let_def)
  ultimately show ?thesis by blast
qed

definition join_request :: request where
  "join_request = request0\<lparr>Form := [(''address'', ''http://localhost:'' @ dec_nat 8081), (''name'', ''gw'')]\<rparr>"

definition joined_env :: env where
  "joined_env = quiet_env\<lparr>http_reply := (\<lambda>h c. Inr \<lparr>StatusCode = 200, RespHeader = [],
     RespBody = ''Registered'' @ [CHR 0x0A]\<rparr>)\<rparr>"

theorem gateway_joins_registry_witness:
  "fst (run_state (registerWithLoadBalancer joined_env ''gw'' 8081) (\<lparr>trace = []\<rparr> :: io)) = True"
  using gateway_joins_registry [of join_request 8081 "''gw''" joined_env "\<lparr>trace = []\<rparr> :: io" lb_example]
  by (simp add: join_request_def joined_env_def run_registerHandler FormValue_def first_value_def lb_example_def Let_def)

end
